(* ===== verification/Prelude.thy ===== *)
theory Prelude
  imports Complex_Main "HOL-Library.Word" "HOL-Library.State_Monad" "HOL-Library.Signed_Division"
    "HOL-Library.Sublist" "HOL-Library.Multiset"
begin

text \<open>
  What every theory of the development shares: the identifier, time and integer types of the
  Go program, the state monad in which the operations that touch a database or a cache are
  written, and the collections of facts the component proofs draw on.

  A Go \<open>int\<close> is a 64-bit signed integer. It is an \<open>int\<close> here, and \<open>wrap64\<close> is applied
  where an operation of the source can leave the range.
\<close>

named_theorems keeps_intros \<open>introduction rules for operations that keep an invariant\<close>
named_theorems world_simps \<open>unfolding rules for the database and cache operations\<close>

section \<open>Identifiers, time, machine integers\<close>

text \<open>
  A UUID is sixteen bytes; \<open>uuid.Nil\<close> has all of them zero. The package google/uuid is not part
  of the repository: its printer and its parser are the two fields of a \<open>uuid_api\<close>, which every
  definition that prints or parses an identifier takes as an argument.
\<close>

type_synonym uuid = "128 word"

abbreviation uuid_nil :: uuid where
  "uuid_nil \<equiv> 0"

record uuid_api =
  uuid_str :: "uuid \<Rightarrow> string"
  uuid_parse :: "string \<Rightarrow> uuid option"

text \<open>
  What the code relies on: parsing what was printed gives the identifier back, a printed
  identifier is not empty, and it consists of hexadecimal digits and hyphens.
\<close>

definition uuid_chars :: string where
  "uuid_chars = ''0123456789abcdef-''"

definition uuid_api_ok :: "uuid_api \<Rightarrow> bool" where
  "uuid_api_ok U \<longleftrightarrow>
     (\<forall>u. uuid_parse U (uuid_str U u) = Some u \<and> uuid_str U u \<noteq> [] \<and>
          set (uuid_str U u) \<subseteq> set uuid_chars)"

lemma uuid_parse_str [simp]: "uuid_api_ok U \<Longrightarrow> uuid_parse U (uuid_str U u) = Some u"
  by (simp add: uuid_api_ok_def)

lemma uuid_str_nonempty [simp]: "uuid_api_ok U \<Longrightarrow> uuid_str U u \<noteq> []"
  by (simp add: uuid_api_ok_def)

lemma uuid_str_inject [simp]:
  "uuid_api_ok U \<Longrightarrow> uuid_str U u = uuid_str U v \<longleftrightarrow> u = v"
  by (metis option.inject uuid_parse_str)

lemma uuid_str_chars: "uuid_api_ok U \<Longrightarrow> c \<notin> set uuid_chars \<Longrightarrow> c \<notin> set (uuid_str U u)"
  unfolding uuid_api_ok_def by blast

lemma uuid_str_no_colon [simp]: "uuid_api_ok U \<Longrightarrow> CHR '':'' \<notin> set (uuid_str U u)"
  by (rule uuid_str_chars) (simp_all add: uuid_chars_def)

lemma uuid_str_no_slash [simp]: "uuid_api_ok U \<Longrightarrow> CHR ''/'' \<notin> set (uuid_str U u)"
  by (rule uuid_str_chars) (simp_all add: uuid_chars_def)

text \<open>A concrete printer and parser that meet the contract, used by the witnesses.\<close>

definition demo_uuid :: uuid_api where
  "demo_uuid =
     \<lparr>uuid_str = (\<lambda>u. CHR ''a'' # replicate (unat u) (CHR ''b'')),
      uuid_parse = (\<lambda>s. case s of [] \<Rightarrow> None | _ # t \<Rightarrow> Some (of_nat (length t)))\<rparr>"

lemma demo_uuid_ok: "uuid_api_ok demo_uuid"
  by (auto simp: uuid_api_ok_def demo_uuid_def uuid_chars_def)

text \<open>
  Instants and durations are nanoseconds, as \<open>time.Time\<close> and \<open>time.Duration\<close> count them; the
  instant 0 is the zero value of \<open>time.Time\<close>.
\<close>

type_synonym time = int

definition second :: time where "second = 1000000000"
definition minute :: time where "minute = 60 * second"
definition hour :: time where "hour = 60 * minute"

definition int64_min :: int where "int64_min = - (2 ^ 63)"
definition int64_max :: int where "int64_max = 2 ^ 63 - 1"

definition wrap64 :: "int \<Rightarrow> int" where
  "wrap64 x = (x + 2 ^ 63) mod 2 ^ 64 - 2 ^ 63"

lemma wrap64_id: "int64_min \<le> x \<Longrightarrow> x \<le> int64_max \<Longrightarrow> wrap64 x = x"
  by (simp add: wrap64_def int64_min_def int64_max_def)

lemma wrap64_range: "int64_min \<le> wrap64 x \<and> wrap64 x \<le> int64_max"
proof -
  have "0 \<le> (x + 2 ^ 63) mod 2 ^ 64" "(x + 2 ^ 63) mod 2 ^ 64 < 2 ^ 64" by simp_all
  then show ?thesis by (simp add: wrap64_def int64_min_def int64_max_def)
qed

section \<open>The state monad\<close>

text \<open>
  Code that reads or writes the database or the cache is a \<open>('w, 'a) state\<close>: it takes the state
  and returns a value with the state after it. A Go function that returns \<open>(T, error)\<close> has a
  value of type \<open>error + T\<close>. \<open>keeps I m\<close> says that running \<open>m\<close> keeps the invariant \<open>I\<close>.
\<close>

definition gets :: "('w \<Rightarrow> 'a) \<Rightarrow> ('w, 'a) state" where
  "gets f = State (\<lambda>w. (f w, w))"

definition modify :: "('w \<Rightarrow> 'w) \<Rightarrow> ('w, unit) state" where
  "modify f = State (\<lambda>w. ((), f w))"

lemma run_gets [simp]: "run_state (gets f) w = (f w, w)"
  by (simp add: gets_def)

lemma run_modify [simp]: "run_state (modify f) w = ((), f w)"
  by (simp add: modify_def)

definition keeps :: "('w \<Rightarrow> bool) \<Rightarrow> ('w, 'a) state \<Rightarrow> bool" where
  "keeps I m \<longleftrightarrow> (\<forall>w. I w \<longrightarrow> I (snd (run_state m w)))"

lemma keepsD: "keeps I m \<Longrightarrow> I w \<Longrightarrow> I (snd (run_state m w))"
  by (simp add: keeps_def)

lemma keepsD2: "keeps I m \<Longrightarrow> I w \<Longrightarrow> run_state m w = (r, w') \<Longrightarrow> I w'"
  by (metis keepsD snd_conv)

lemma keeps_return [keeps_intros]: "keeps I (State_Monad.return x)"
  by (simp add: keeps_def)

lemma keeps_gets [keeps_intros]: "keeps I (gets f)"
  by (simp add: keeps_def)

lemma keeps_modify: "(\<And>w. I w \<Longrightarrow> I (f w)) \<Longrightarrow> keeps I (modify f)"
  by (simp add: keeps_def)

lemma keeps_bind [keeps_intros]:
  assumes m: "keeps I m" and f: "\<And>x. keeps I (f x)"
  shows "keeps I (State_Monad.bind m f)"
  unfolding keeps_def
proof (intro allI impI)
  fix w
  assume "I w"
  then have "I (snd (run_state m w))" by (rule keepsD [OF m])
  then show "I (snd (run_state (State_Monad.bind m f) w))"
    unfolding State_Monad.run_state_bind case_prod_beta by (rule keepsD [OF f])
qed

lemma keeps_if [keeps_intros]:
  "(b \<Longrightarrow> keeps I m) \<Longrightarrow> (\<not> b \<Longrightarrow> keeps I n) \<Longrightarrow> keeps I (if b then m else n)"
  by simp

lemma keeps_sum [keeps_intros]:
  "(\<And>e. keeps I (f e)) \<Longrightarrow> (\<And>x. keeps I (g x)) \<Longrightarrow> keeps I (case r of Inl e \<Rightarrow> f e | Inr x \<Rightarrow> g x)"
  by (cases r) simp_all

lemma keeps_option [keeps_intros]:
  "keeps I m \<Longrightarrow> (\<And>x. keeps I (g x)) \<Longrightarrow> keeps I (case r of None \<Rightarrow> m | Some x \<Rightarrow> g x)"
  by (cases r) simp_all

lemma keeps_prod [keeps_intros]:
  "(\<And>a b. keeps I (f a b)) \<Longrightarrow> keeps I (case p of (a, b) \<Rightarrow> f a b)"
  by (cases p) simp

section \<open>Lists\<close>

lemma sep_inject:
  "x @ c # y = x' @ c # y' \<Longrightarrow> c \<notin> set x \<Longrightarrow> c \<notin> set x' \<Longrightarrow> x = x' \<and> y = y'"
proof (induction x arbitrary: x')
  case Nil
  then show ?case by (cases x') auto
next
  case (Cons a x)
  then show ?case by (cases x') auto
qed

lemma find_Some_in: "find P xs = Some x \<Longrightarrow> x \<in> set xs \<and> P x"
  by (metis find_Some_iff nth_mem)

lemma find_unique:
  assumes x: "x \<in> set xs" "P x" and unique: "\<And>y. y \<in> set xs \<Longrightarrow> P y \<Longrightarrow> y = x"
  shows "find P xs = Some x"
proof (cases "find P xs")
  case None
  with x show ?thesis by (simp add: find_None_iff)
next
  case (Some y)
  then have "y = x" using find_Some_in [OF Some] by (intro unique) simp_all
  with Some show ?thesis by simp
qed

section \<open>Loops that may fail\<close>

text \<open>A loop over a list whose body may panic: \<open>None\<close> ends it.\<close>

fun fold_opt :: "('a \<Rightarrow> 's \<Rightarrow> 's option) \<Rightarrow> 'a list \<Rightarrow> 's \<Rightarrow> 's option" where
  "fold_opt f [] s = Some s"
| "fold_opt f (x # xs) s = Option.bind (f x s) (fold_opt f xs)"

lemma fold_opt_append: "fold_opt f (xs @ ys) s = Option.bind (fold_opt f xs s) (fold_opt f ys)"
  by (induction xs arbitrary: s) (auto simp: Option.bind_eq_Some_conv split: Option.bind_splits)

lemma fold_opt_inv:
  assumes "\<And>x s. x \<in> set xs \<Longrightarrow> I s \<Longrightarrow> \<exists>s'. f x s = Some s' \<and> I s'" and "I s"
  shows "\<exists>s'. fold_opt f xs s = Some s' \<and> I s'"
  using assms
proof (induction xs arbitrary: s)
  case (Cons x xs)
  then obtain s1 where "f x s = Some s1" "I s1" by (meson list.set_intros(1))
  then show ?case using Cons.IH [of s1] Cons.prems(1) by auto
qed simp

end
