(* ===== verification/Errors.thy ===== *)
theory Errors
  imports Go_Strings
begin

text \<open>
  The error values of the program (\<open>internal/shared/errors/errors.go\<close>) and the JSON responses made
  of them (\<open>internal/shared/response/json.go\<close>).
\<close>

section \<open>JSON values\<close>

text \<open>
  What \<open>encoding/json\<close> decodes into an \<open>interface{}\<close>, and the payloads the handlers encode. A
  number is an integer or, where it is not one, its literal.
\<close>

datatype json =
    JNull
  | JBool bool
  | JInt int
  | JLit string
  | JStr string
  | JArr "json list"
  | JObj "(string \<times> json) list"

section \<open>Errors\<close>

datatype error_kind =
    ErrNotFound
  | ErrAlreadyExists
  | ErrUnauthorized
  | ErrForbidden
  | ErrValidation
  | ErrInternal
  | ErrBadRequest
  | ErrConflict
  | ErrRateLimited
  | ErrNotImplemented

text \<open>
  An \<open>error\<close> of the program: a sentinel, a \<open>*DomainError\<close>, an error of a library or of
  \<open>fmt.Errorf\<close> without \<open>%w\<close>, or an error wrapped by \<open>fmt.Errorf("...: %w", err)\<close>.
\<close>

datatype goerr =
    Sentinel error_kind
  | DomainError error_kind string "goerr option"
  | Plain string
  | Wrapped string goerr

fun kind_text :: "error_kind \<Rightarrow> string" where
  "kind_text ErrNotFound = ''resource not found''"
| "kind_text ErrAlreadyExists = ''resource already exists''"
| "kind_text ErrUnauthorized = ''unauthorized''"
| "kind_text ErrForbidden = ''forbidden''"
| "kind_text ErrValidation = ''validation error''"
| "kind_text ErrInternal = ''internal error''"
| "kind_text ErrBadRequest = ''bad request''"
| "kind_text ErrConflict = ''conflict''"
| "kind_text ErrRateLimited = ''rate limited''"
| "kind_text ErrNotImplemented = ''not implemented''"

fun Error_string :: "goerr \<Rightarrow> string" where
  "Error_string (Sentinel k) = kind_text k"
| "Error_string (DomainError k m None) = kind_text k @ '': '' @ m"
| "Error_string (DomainError k m (Some e)) = kind_text k @ '': '' @ m @ '': '' @ Error_string e"
| "Error_string (Plain m) = m"
| "Error_string (Wrapped m e) = m @ '': '' @ Error_string e"

text \<open>
  \<open>errors.Is\<close> follows \<open>Unwrap\<close>, and a \<open>DomainError\<close> unwraps to its kind: the wrapped cause does
  not count.
\<close>

fun errors_Is :: "goerr \<Rightarrow> error_kind \<Rightarrow> bool" where
  "errors_Is (Sentinel k) t \<longleftrightarrow> k = t"
| "errors_Is (DomainError k m e) t \<longleftrightarrow> k = t"
| "errors_Is (Plain m) t \<longleftrightarrow> False"
| "errors_Is (Wrapped m e) t \<longleftrightarrow> errors_Is e t"

definition New_error :: "error_kind \<Rightarrow> string \<Rightarrow> goerr option \<Rightarrow> goerr" where
  "New_error k m e = DomainError k m e"

definition HTTPStatusCode :: "goerr \<Rightarrow> int" where
  "HTTPStatusCode e =
     (if errors_Is e ErrNotFound then 404
      else if errors_Is e ErrAlreadyExists then 409
      else if errors_Is e ErrUnauthorized then 401
      else if errors_Is e ErrForbidden then 403
      else if errors_Is e ErrValidation then 422
      else if errors_Is e ErrBadRequest then 400
      else if errors_Is e ErrConflict then 409
      else if errors_Is e ErrRateLimited then 429
      else if errors_Is e ErrNotImplemented then 501
      else 500)"

lemma HTTPStatusCode_DomainError [simp]:
  "HTTPStatusCode (DomainError k m e) = HTTPStatusCode (Sentinel k)"
  by (simp add: HTTPStatusCode_def)

lemma HTTPStatusCode_New [simp]:
  "HTTPStatusCode (New_error k m e) = HTTPStatusCode (Sentinel k)"
  by (simp add: New_error_def)

lemma HTTPStatusCode_Sentinel [simp]:
  "HTTPStatusCode (Sentinel ErrNotFound) = 404" "HTTPStatusCode (Sentinel ErrAlreadyExists) = 409"
  "HTTPStatusCode (Sentinel ErrUnauthorized) = 401" "HTTPStatusCode (Sentinel ErrForbidden) = 403"
  "HTTPStatusCode (Sentinel ErrValidation) = 422" "HTTPStatusCode (Sentinel ErrInternal) = 500"
  "HTTPStatusCode (Sentinel ErrBadRequest) = 400" "HTTPStatusCode (Sentinel ErrConflict) = 409"
  "HTTPStatusCode (Sentinel ErrRateLimited) = 429" "HTTPStatusCode (Sentinel ErrNotImplemented) = 501"
  by (simp_all add: HTTPStatusCode_def)

lemma HTTPStatusCode_Wrapped [simp]: "HTTPStatusCode (Wrapped m e) = HTTPStatusCode e"
  by (simp add: HTTPStatusCode_def)

section \<open>Responses\<close>

text \<open>What a handler sends: the status and the payload given to \<open>json.Marshal\<close>, if any.\<close>

record response =
  rs_status :: int
  rs_payload :: "json option"

definition response_JSON :: "int \<Rightarrow> json \<Rightarrow> response" where
  "response_JSON status payload = \<lparr>rs_status = status, rs_payload = Some payload\<rparr>"

definition Created :: "json \<Rightarrow> response" where
  "Created payload = response_JSON 201 payload"

definition NoContent :: response where
  "NoContent = \<lparr>rs_status = 204, rs_payload = None\<rparr>"

text \<open>The body \<open>map[string]string{"error": m}\<close>.\<close>

definition error_body :: "string \<Rightarrow> json" where
  "error_body m = JObj [(''error'', JStr m)]"

text \<open>\<open>http.StatusText\<close> at the codes \<open>Error\<close> sends.\<close>

definition StatusText :: "int \<Rightarrow> string" where
  "StatusText c =
     (if c = 400 then ''Bad Request'' else if c = 401 then ''Unauthorized''
      else if c = 403 then ''Forbidden'' else if c = 404 then ''Not Found''
      else if c = 409 then ''Conflict'' else if c = 422 then ''Unprocessable Entity''
      else if c = 429 then ''Too Many Requests'' else if c = 500 then ''Internal Server Error''
      else if c = 501 then ''Not Implemented'' else '''')"

record ErrorResponse =
  er_error :: string
  er_message :: string
  er_code :: int

definition ErrorResponse_json :: "ErrorResponse \<Rightarrow> json" where
  "ErrorResponse_json r =
     JObj [(''error'', JStr (er_error r)), (''message'', JStr (er_message r)),
           (''code'', JInt (er_code r))]"

definition response_Error :: "goerr \<Rightarrow> response" where
  "response_Error e =
     (let code = HTTPStatusCode e;
          msg = (if code \<ge> 500 then ''an internal error occurred'' else Error_string e)
      in response_JSON code
           (ErrorResponse_json \<lparr>er_error = StatusText code, er_message = msg, er_code = code\<rparr>))"

lemma HTTPStatusCode_5xx:
  "HTTPStatusCode e \<ge> 500 \<Longrightarrow>
   HTTPStatusCode e = (if errors_Is e ErrNotImplemented then 501 else 500)"
  unfolding HTTPStatusCode_def by (simp split: if_splits)

text \<open>
  C36. The body of a server error says nothing about its cause: any two errors that are answered
  with the same status of 500 or above give the same response, whatever they wrap, and such a
  status is 501 exactly for \<open>ErrNotImplemented\<close> and 500 otherwise.
\<close>

theorem response_Error_hides_cause:
  assumes "HTTPStatusCode e \<ge> 500"
  shows "response_Error e =
           response_Error (if errors_Is e ErrNotImplemented then Sentinel ErrNotImplemented
                           else Sentinel ErrInternal)"
  by (simp add: response_Error_def Let_def HTTPStatusCode_5xx [OF assms])

theorem response_Error_hides_cause_witness:
  "response_Error (Wrapped ''proxy'' (DomainError ErrInternal ''db'' (Some (Plain ''pw=1''))))
     = response_Error (Sentinel ErrInternal)"
  using response_Error_hides_cause
    [of "Wrapped ''proxy'' (DomainError ErrInternal ''db'' (Some (Plain ''pw=1'')))"]
  by (simp add: HTTPStatusCode_def)

end
