(* ===== verification/Domain.thy ===== *)
theory Domain
  imports Errors
begin

text \<open>
  The entities (\<open>internal/domain/*/model\<close>) and the domain events (\<open>internal/domain/*/event\<close>). A
  status is a Go string type, so any string can occur in a row; a pointer field is an \<open>option\<close>,
  and a \<open>[]byte\<close> column that may be NULL is one as well.
\<close>

section \<open>IAM\<close>

abbreviation UserStatusActive :: string where "UserStatusActive \<equiv> ''active''"
abbreviation UserStatusInactive :: string where "UserStatusInactive \<equiv> ''inactive''"
abbreviation UserStatusSuspended :: string where "UserStatusSuspended \<equiv> ''suspended''"

record User =
  u_ID :: uuid
  u_Email :: string
  u_PasswordHash :: string
  u_FirstName :: string
  u_LastName :: string
  u_Status :: string
  u_CreatedAt :: time
  u_UpdatedAt :: time

definition FullName :: "User \<Rightarrow> string" where
  "FullName u =
     (if u_FirstName u = [] \<and> u_LastName u = [] then u_Email u
      else u_FirstName u @ '' '' @ u_LastName u)"

definition User_IsActive :: "User \<Rightarrow> bool" where
  "User_IsActive u \<longleftrightarrow> u_Status u = UserStatusActive"

record Role =
  r_ID :: uuid
  r_ScopeType :: string
  r_ScopeID :: uuid
  r_Name :: string
  r_Description :: string
  r_CreatedAt :: time
  r_UpdatedAt :: time

record Permission =
  p_RoleID :: uuid
  p_Permission :: string

record UserRole =
  ur_ID :: uuid
  ur_UserID :: uuid
  ur_RoleID :: uuid
  ur_OrganizationID :: uuid
  ur_AppID :: "uuid option"
  ur_CreatedAt :: time

record OrganizationUser =
  ou_OrganizationID :: uuid
  ou_UserID :: uuid
  ou_Status :: string
  ou_InvitedBy :: "uuid option"
  ou_CreatedAt :: time
  ou_UpdatedAt :: time

record RefreshToken =
  t_ID :: uuid
  t_UserID :: uuid
  t_TokenHash :: string
  t_FamilyID :: uuid
  t_ExpiresAt :: time
  t_RevokedAt :: "time option"
  t_CreatedAt :: time
  t_IPAddress :: string
  t_UserAgent :: string

definition IsRevoked :: "RefreshToken \<Rightarrow> bool" where
  "IsRevoked t \<longleftrightarrow> t_RevokedAt t \<noteq> None"

text \<open>\<open>time.Now().After(t.ExpiresAt)\<close>, at the instant \<open>now\<close>.\<close>

definition IsExpired :: "time \<Rightarrow> RefreshToken \<Rightarrow> bool" where
  "IsExpired now t \<longleftrightarrow> t_ExpiresAt t < now"

section \<open>Tenants\<close>

record Organization =
  o_ID :: uuid
  o_Name :: string
  o_Slug :: string
  o_Status :: string
  o_SSOConfig :: "string option"
  o_DataRetentionPolicy :: "string option"
  o_CreatedAt :: time
  o_UpdatedAt :: time

abbreviation OrgStatusActive :: string where "OrgStatusActive \<equiv> ''active''"
abbreviation OrgStatusSuspended :: string where "OrgStatusSuspended \<equiv> ''suspended''"
abbreviation OrgStatusArchived :: string where "OrgStatusArchived \<equiv> ''archived''"

definition Org_IsActive :: "Organization \<Rightarrow> bool" where
  "Org_IsActive x \<longleftrightarrow> o_Status x = OrgStatusActive"

record App =
  a_ID :: uuid
  a_OrganizationID :: uuid
  a_Name :: string
  a_Slug :: string
  a_Status :: string
  a_SLATier :: string
  a_RateLimitPolicy :: "string option"
  a_CreatedAt :: time
  a_UpdatedAt :: time

abbreviation AppStatusActive :: string where "AppStatusActive \<equiv> ''active''"

definition App_IsActive :: "App \<Rightarrow> bool" where
  "App_IsActive x \<longleftrightarrow> a_Status x = AppStatusActive"

record AppAPIKey =
  k_ID :: uuid
  k_AppID :: uuid
  k_KeyHash :: string
  k_Name :: string
  k_Scopes :: "string option"
  k_ExpiresAt :: "time option"
  k_IsActive :: bool
  k_CreatedAt :: time

record Workspace =
  w_ID :: uuid
  w_OrganizationID :: uuid
  w_Name :: string
  w_Slug :: string
  w_Description :: string
  w_Status :: string
  w_CreatedAt :: time
  w_UpdatedAt :: time

abbreviation WorkspaceStatusActive :: string where "WorkspaceStatusActive \<equiv> ''active''"
abbreviation WorkspaceStatusSuspended :: string where "WorkspaceStatusSuspended \<equiv> ''suspended''"
abbreviation WorkspaceStatusArchived :: string where "WorkspaceStatusArchived \<equiv> ''archived''"

definition Workspace_IsActive :: "Workspace \<Rightarrow> bool" where
  "Workspace_IsActive x \<longleftrightarrow> w_Status x = WorkspaceStatusActive"

section \<open>API management\<close>

record Endpoint =
  e_ID :: uuid
  e_AppID :: uuid
  e_Method :: string
  e_Path :: string
  e_Version :: string
  e_BackendService :: string
  e_BackendAction :: string
  e_Schema :: "string option"
  e_AuditLevel :: string
  e_PIIMasking :: bool
  e_EventAfter :: string
  e_Status :: string
  e_CreatedAt :: time
  e_UpdatedAt :: time

abbreviation EndpointStatusActive :: string where "EndpointStatusActive \<equiv> ''active''"
abbreviation EndpointStatusInactive :: string where "EndpointStatusInactive \<equiv> ''inactive''"
abbreviation EndpointStatusDeprecated :: string where "EndpointStatusDeprecated \<equiv> ''deprecated''"
abbreviation EndpointStatusRetired :: string where "EndpointStatusRetired \<equiv> ''retired''"

definition Endpoint_IsActive :: "Endpoint \<Rightarrow> bool" where
  "Endpoint_IsActive e \<longleftrightarrow> e_Status e = EndpointStatusActive"

record EndpointPolicy =
  ep_ID :: uuid
  ep_EndpointID :: uuid
  ep_RequiredPermission :: string
  ep_RateLimit :: int
  ep_AuthPolicy :: string
  ep_ValidationPolicy :: "string option"
  ep_ExtraPolicies :: "string option"
  ep_CreatedAt :: time
  ep_UpdatedAt :: time

section \<open>Audit and statistics\<close>

record AuditLog =
  l_ID :: uuid
  l_OrganizationID :: uuid
  l_AppID :: "uuid option"
  l_EndpointID :: "uuid option"
  l_UserID :: "uuid option"
  l_RequestID :: string
  l_Action :: string
  l_ResourceType :: string
  l_ResourceID :: string
  l_Metadata :: "string option"
  l_IPAddress :: string
  l_UserAgent :: string
  l_CreatedAt :: time

text \<open>The rate is a \<open>float64\<close> of the source, read as the rational number it denotes.\<close>

record UsageStat =
  s_ID :: uuid
  s_UserID :: uuid
  s_ModelID :: string
  s_TokenCount :: int
  s_FirstTokenTimeMs :: "int option"
  s_InferenceTimeMs :: int
  s_TokensPerSecond :: "rat option"
  s_CreatedAt :: time

section \<open>Domain events\<close>

datatype event =
    UserRegistered uuid string time
  | UserInvited uuid uuid uuid time
  | RoleAssigned uuid uuid uuid time
  | RoleRevoked uuid uuid uuid time
  | OrganizationCreated uuid string uuid time
  | AppCreated uuid uuid string time
  | AppUpdated uuid uuid time
  | WorkspaceCreated uuid uuid string uuid time
  | EndpointCreated uuid uuid string string time
  | EndpointUpdated uuid uuid time
  | EndpointRetired uuid uuid time
  | EndpointActivated uuid uuid time

abbreviation TopicIAM :: string where "TopicIAM \<equiv> ''masterfabric.iam''"
abbreviation TopicTenant :: string where "TopicTenant \<equiv> ''masterfabric.tenant''"
abbreviation TopicAPIManagement :: string where
  "TopicAPIManagement \<equiv> ''masterfabric.api-management''"
abbreviation TopicAudit :: string where "TopicAudit \<equiv> ''masterfabric.audit''"

end
