(* ===== verification/World.thy ===== *)
theory World
  imports Domain
begin

text \<open>
  The state outside the process that the program works on: the PostgreSQL tables of the
  migrations, the Redis store, the clock, and the event bus's channel; and the primitive
  effects on it. PostgreSQL and Redis are not code of the repository: a statement is what its
  SQL text says, and it may fail. Whether the n-th effect fails and with which text, which
  identifier \<open>uuid.New\<close> draws, which bytes \<open>rand.Read\<close> gives and how much time passes are
  read from an \<open>environment\<close> that the theorems leave arbitrary. The tables are lists of rows, in
  an order the queries without ORDER BY expose; the lengths of VARCHAR columns, the
  normalisation of JSONB and the microsecond resolution of timestamps are left out.
\<close>

text \<open>
  A statement is refused without effect, or it takes effect and its reply is lost: the caller
  sees an error in both cases. \<open>Cut n\<close> is a connection that breaks after \<open>n\<close> rows: a loop over
  \<open>rows.Next()\<close> just ends there, and only \<open>rows.Err()\<close> would tell.
\<close>

datatype fault = NoFault | Refused | LostReply | Cut nat

record environment =
  env_fault :: "nat \<Rightarrow> fault"
  env_cause :: "nat \<Rightarrow> string"
  env_uuid :: "nat \<Rightarrow> uuid"
  env_bytes :: "nat \<Rightarrow> string option"
  env_delay :: "nat \<Rightarrow> nat"

definition calm :: environment where
  "calm = \<lparr>env_fault = (\<lambda>_. NoFault), env_cause = (\<lambda>_. ''fault''), env_uuid = (\<lambda>n. of_nat (n + 1)),
           env_bytes = (\<lambda>n. Some (replicate (n + 1) (CHR ''r''))), env_delay = (\<lambda>_. 1)\<rparr>"

datatype redis_value = PermsValue "string list" | IntValue int | OtherValue string

type_synonym redis = "string \<rightharpoonup> redis_value \<times> time option"

record world =
  environ :: environment
  tick :: nat
  clock :: time
  users :: "User list"
  roles :: "Role list"
  role_permissions :: "Permission list"
  user_roles :: "UserRole list"
  organization_users :: "OrganizationUser list"
  refresh_tokens :: "RefreshToken list"
  organizations :: "Organization list"
  apps :: "App list"
  app_api_keys :: "AppAPIKey list"
  workspaces :: "Workspace list"
  app_endpoints :: "Endpoint list"
  app_endpoint_policies :: "EndpointPolicy list"
  audit_logs :: "AuditLog list"
  model_usage_stats :: "UsageStat list"
  redis :: redis
  bus_ch :: "(string \<times> event) list"
  bus_cap :: nat

definition empty_world :: "environment \<Rightarrow> world" where
  "empty_world o' =
     \<lparr>environ = o', tick = 0, clock = 0, users = [], roles = [], role_permissions = [],
      user_roles = [], organization_users = [], refresh_tokens = [], organizations = [],
      apps = [], app_api_keys = [], workspaces = [], app_endpoints = [],
      app_endpoint_policies = [], audit_logs = [], model_usage_stats = [], redis = Map.empty, bus_ch = [], bus_cap = 256\<rparr>"

type_synonym 'a eff = "(world, 'a) state"

abbreviation ret :: "'a \<Rightarrow> 'a eff" where "ret \<equiv> State_Monad.return"
abbreviation ok :: "'a \<Rightarrow> (goerr + 'a) eff" where "ok x \<equiv> State_Monad.return (Inr x)"
abbreviation fail :: "goerr \<Rightarrow> (goerr + 'a) eff" where "fail e \<equiv> State_Monad.return (Inl e)"

text \<open>
  The two forms in which the source passes an error on: \<open>if err != nil { return err }\<close>, and
  \<open>if err != nil { return \<dots>(err) }\<close> with another error made of it.
\<close>

definition try_do :: "('e + 'a) eff \<Rightarrow> ('a \<Rightarrow> ('e + 'b) eff) \<Rightarrow> ('e + 'b) eff" where
  "try_do m f = State_Monad.bind m (\<lambda>r. case r of Inl e \<Rightarrow> State_Monad.return (Inl e) | Inr x \<Rightarrow> f x)"

definition try_or :: "('d \<Rightarrow> 'e) \<Rightarrow> ('d + 'a) eff \<Rightarrow> ('a \<Rightarrow> ('e + 'b) eff) \<Rightarrow> ('e + 'b) eff" where
  "try_or h m f =
     State_Monad.bind m (\<lambda>r. case r of Inl e \<Rightarrow> State_Monad.return (Inl (h e)) | Inr x \<Rightarrow> f x)"

lemma run_try_do [simp]:
  "run_state (try_do m f) w =
     (case run_state m w of (Inl e, w') \<Rightarrow> (Inl e, w') | (Inr x, w') \<Rightarrow> run_state (f x) w')"
  by (auto simp: try_do_def run_state_bind split: sum.splits prod.splits)

lemma run_try_or [simp]:
  "run_state (try_or h m f) w =
     (case run_state m w of (Inl e, w') \<Rightarrow> (Inl (h e), w') | (Inr x, w') \<Rightarrow> run_state (f x) w')"
  by (auto simp: try_or_def run_state_bind split: sum.splits prod.splits)

lemma keeps_try_do [keeps_intros]:
  "keeps I m \<Longrightarrow> (\<And>x. keeps I (f x)) \<Longrightarrow> keeps I (try_do m f)"
  unfolding try_do_def by (intro keeps_intros)

lemma keeps_try_or [keeps_intros]:
  "keeps I m \<Longrightarrow> (\<And>x. keeps I (f x)) \<Longrightarrow> keeps I (try_or h m f)"
  unfolding try_or_def by (intro keeps_intros)

section \<open>The clock, random bytes, identifiers\<close>

definition tick_world :: "world \<Rightarrow> world" where
  "tick_world w = w\<lparr>tick := tick w + 1, clock := clock w + int (env_delay (environ w) (tick w))\<rparr>"

definition time_Now :: "time eff" where
  "time_Now = State (\<lambda>w. (clock w, tick_world w))"

definition uuid_New :: "uuid eff" where
  "uuid_New = State (\<lambda>w. (env_uuid (environ w) (tick w), tick_world w))"

text \<open>\<open>rand.Read\<close> of a buffer of \<open>n\<close> bytes: \<open>None\<close> is its error.\<close>

definition random_bytes :: "world \<Rightarrow> nat \<Rightarrow> string option" where
  "random_bytes w n =
     map_option (\<lambda>b. take n (b @ replicate n (CHR 0x00))) (env_bytes (environ w) (tick w))"

definition rand_Read :: "nat \<Rightarrow> string option eff" where
  "rand_Read n = State (\<lambda>w. (random_bytes w n, tick_world w))"

section \<open>SQL statements\<close>

datatype pg_error = NoRows | PgError string

definition next_fault :: "world \<Rightarrow> fault" where
  "next_fault w = env_fault (environ w) (tick w)"

definition next_error :: "world \<Rightarrow> pg_error" where
  "next_error w = PgError (env_cause (environ w) (tick w))"

text \<open>\<open>Query\<close> and the loop over its rows, without a check of \<open>rows.Err()\<close>.\<close>

definition sql_query :: "(world \<Rightarrow> 'a list) \<Rightarrow> (pg_error + 'a list) eff" where
  "sql_query f =
     State (\<lambda>w. (case next_fault w of
                    NoFault \<Rightarrow> Inr (f w)
                  | Cut n \<Rightarrow> Inr (take n (f w))
                  | _ \<Rightarrow> Inl (next_error w), tick_world w))"

text \<open>\<open>Query\<close> with \<open>rows.Err()\<close> returned at the end.\<close>

definition sql_query_err :: "(world \<Rightarrow> 'a list) \<Rightarrow> (pg_error + 'a list) eff" where
  "sql_query_err f =
     State (\<lambda>w. (if next_fault w = NoFault then Inr (f w) else Inl (next_error w), tick_world w))"

text \<open>\<open>QueryRow(...).Scan(...)\<close>.\<close>

definition sql_query_row :: "(world \<Rightarrow> 'a option) \<Rightarrow> (pg_error + 'a) eff" where
  "sql_query_row f =
     State (\<lambda>w. (if next_fault w = NoFault
                  then (case f w of None \<Rightarrow> Inl NoRows | Some x \<Rightarrow> Inr x) else Inl (next_error w),
                 tick_world w))"

text \<open>A statement that changes tables, under the constraints \<open>c\<close> of the schema.\<close>

definition sql_exec :: "(world \<Rightarrow> bool) \<Rightarrow> (world \<Rightarrow> world) \<Rightarrow> (pg_error + unit) eff" where
  "sql_exec c f =
     State (\<lambda>w. (if next_fault w = NoFault \<and> c w then Inr () else Inl (next_error w),
                 if next_fault w \<noteq> Refused \<and> c w then tick_world (f w) else tick_world w))"

text \<open>
  \<open>ORDER BY created_at DESC\<close>, and \<open>LIMIT\<close> with \<open>OFFSET\<close>. Rows of equal keys keep the table's
  order.
\<close>

definition newest_first :: "('a \<Rightarrow> time) \<Rightarrow> 'a list \<Rightarrow> 'a list" where
  "newest_first created xs = sort_key (\<lambda>x. - created x) xs"

lemma newest_first_sorted: "sorted (rev (map f (newest_first f xs)))"
proof -
  have "sorted (map (\<lambda>x. - f x) (newest_first f xs))" by (simp add: newest_first_def)
  then have "sorted_wrt (\<lambda>a b. f b \<le> f a) (newest_first f xs)" unfolding sorted_map by simp
  then show ?thesis by (simp add: sorted_wrt_rev sorted_wrt_map)
qed

lemma newest_first_mset [simp]:
  "mset (newest_first f xs) = mset xs" "set (newest_first f xs) = set xs" "newest_first f [] = []"
  by (simp_all add: newest_first_def)

lemma run_time_Now [simp]: "run_state time_Now w = (clock w, tick_world w)"
  by (simp add: time_Now_def)

lemma run_uuid_New [simp]: "run_state uuid_New w = (env_uuid (environ w) (tick w), tick_world w)"
  by (simp add: uuid_New_def)

lemma run_rand_Read [simp]: "run_state (rand_Read n) w = (random_bytes w n, tick_world w)"
  by (simp add: rand_Read_def)

lemma run_sql_query [simp]:
  "run_state (sql_query f) w =
     (case next_fault w of NoFault \<Rightarrow> Inr (f w) | Cut n \<Rightarrow> Inr (take n (f w))
                         | _ \<Rightarrow> Inl (next_error w), tick_world w)"
  by (simp add: sql_query_def)

lemma run_sql_query_err [simp]:
  "run_state (sql_query_err f) w =
     (if next_fault w = NoFault then Inr (f w) else Inl (next_error w), tick_world w)"
  by (simp add: sql_query_err_def)

lemma run_sql_query_row [simp]:
  "run_state (sql_query_row f) w =
     (if next_fault w = NoFault then (case f w of None \<Rightarrow> Inl NoRows | Some x \<Rightarrow> Inr x)
      else Inl (next_error w), tick_world w)"
  by (simp add: sql_query_row_def)

lemma run_sql_exec [simp]:
  "run_state (sql_exec c f) w =
     (if next_fault w = NoFault \<and> c w then Inr () else Inl (next_error w),
      if next_fault w \<noteq> Refused \<and> c w then tick_world (f w) else tick_world w)"
  by (simp add: sql_exec_def)

text \<open>Effects other than statements change the clock and the tick only.\<close>

lemma tick_world_tables [simp]:
  "environ (tick_world w) = environ w" "users (tick_world w) = users w" "roles (tick_world w) = roles w"
  "role_permissions (tick_world w) = role_permissions w"
  "user_roles (tick_world w) = user_roles w"
  "organization_users (tick_world w) = organization_users w"
  "refresh_tokens (tick_world w) = refresh_tokens w"
  "organizations (tick_world w) = organizations w" "apps (tick_world w) = apps w"
  "app_api_keys (tick_world w) = app_api_keys w" "workspaces (tick_world w) = workspaces w"
  "app_endpoints (tick_world w) = app_endpoints w"
  "app_endpoint_policies (tick_world w) = app_endpoint_policies w"
  "audit_logs (tick_world w) = audit_logs w"
  "model_usage_stats (tick_world w) = model_usage_stats w"
  "redis (tick_world w) = redis w" "bus_ch (tick_world w) = bus_ch w"
  "bus_cap (tick_world w) = bus_cap w"
  by (simp_all add: tick_world_def)

lemma tick_world_clock [simp]:
  "clock (tick_world w) = clock w + int (env_delay (environ w) (tick w))"
  "tick (tick_world w) = tick w + 1"
  by (simp_all add: tick_world_def)

text \<open>An invariant that looks at neither the clock nor the tick.\<close>

definition tick_stable :: "(world \<Rightarrow> bool) \<Rightarrow> bool" where
  "tick_stable I \<longleftrightarrow> (\<forall>w. I (tick_world w) = I w)"

lemma keeps_effects:
  assumes "tick_stable I"
  shows "keeps I time_Now" "keeps I uuid_New" "keeps I (rand_Read n)" "keeps I (sql_query f)"
    "keeps I (sql_query_err f)" "keeps I (sql_query_row g)"
  using assms by (simp_all add: keeps_def tick_stable_def)

lemma keeps_sql_exec:
  "tick_stable I \<Longrightarrow> (\<And>w. I w \<Longrightarrow> c w \<Longrightarrow> I (f w)) \<Longrightarrow> keeps I (sql_exec c f)"
  by (simp add: keeps_def tick_stable_def)

text \<open>The error a repository makes of a failed statement, with the driver's error as the cause.\<close>

fun pg_goerr :: "pg_error \<Rightarrow> goerr" where
  "pg_goerr NoRows = Plain ''no rows in result set''"
| "pg_goerr (PgError m) = Plain m"

definition internal :: "string \<Rightarrow> pg_error \<Rightarrow> goerr" where
  "internal msg e = New_error ErrInternal msg (Some (pg_goerr e))"

definition not_found_or :: "string \<Rightarrow> string \<Rightarrow> pg_error \<Rightarrow> goerr" where
  "not_found_or nf msg e =
     (if e = NoRows then New_error ErrNotFound nf None else internal msg e)"

section \<open>Redis\<close>

text \<open>\<open>GET\<close>: the value, unless the key is absent or has expired.\<close>

definition redis_live :: "world \<Rightarrow> string \<Rightarrow> redis_value option" where
  "redis_live w k =
     (case redis w k of
        None \<Rightarrow> None
      | Some (v, None) \<Rightarrow> Some v
      | Some (v, Some expiry) \<Rightarrow> if clock w < expiry then Some v else None)"

definition redis_get :: "string \<Rightarrow> redis_value option eff" where
  "redis_get k =
     State (\<lambda>w. (if next_fault w = NoFault then redis_live w k else None, tick_world w))"

definition redis_set :: "string \<Rightarrow> redis_value \<Rightarrow> time \<Rightarrow> unit eff" where
  "redis_set k v ttl =
     State (\<lambda>w. ((), tick_world
        (if next_fault w \<noteq> Refused then w\<lparr>redis := (redis w)(k \<mapsto> (v, Some (clock w + ttl)))\<rparr> else w)))"

definition redis_del :: "string \<Rightarrow> (goerr + unit) eff" where
  "redis_del k =
     State (\<lambda>w. (if next_fault w = NoFault then Inr () else Inl (Plain (env_cause (environ w) (tick w))),
        tick_world (if next_fault w \<noteq> Refused then w\<lparr>redis := (redis w)(k := None)\<rparr> else w)))"

lemma run_redis_get [simp]:
  "run_state (redis_get k) w =
     (if next_fault w = NoFault then redis_live w k else None, tick_world w)"
  by (simp add: redis_get_def)

lemma run_redis_set [simp]:
  "run_state (redis_set k v ttl) w =
     ((), tick_world (if next_fault w \<noteq> Refused
        then w\<lparr>redis := (redis w)(k \<mapsto> (v, Some (clock w + ttl)))\<rparr> else w))"
  by (simp add: redis_set_def)

lemma run_redis_del [simp]:
  "run_state (redis_del k) w =
     (if next_fault w = NoFault then Inr () else Inl (Plain (env_cause (environ w) (tick w))),
      tick_world (if next_fault w \<noteq> Refused then w\<lparr>redis := (redis w)(k := None)\<rparr> else w))"
  by (simp add: redis_del_def)

section \<open>The event bus as the use cases see it\<close>

text \<open>
  \<open>InProcessBus.Publish\<close>: the event is put in the channel unless its buffer is full, and is
  dropped otherwise; the error is always \<open>nil\<close>.
\<close>

definition Publish :: "string \<Rightarrow> event \<Rightarrow> unit eff" where
  "Publish topic ev =
     State (\<lambda>w. ((), if length (bus_ch w) < bus_cap w then w\<lparr>bus_ch := bus_ch w @ [(topic, ev)]\<rparr> else w))"

lemma run_Publish [simp]:
  "run_state (Publish topic ev) w =
     ((), if length (bus_ch w) < bus_cap w then w\<lparr>bus_ch := bus_ch w @ [(topic, ev)]\<rparr> else w)"
  by (simp add: Publish_def)

end
