(* ===== verification/Pagination.thy ===== *)
theory Pagination
  imports Go_Strings
begin

text \<open>
  Pagination of list endpoints, \<open>internal/shared/pagination/pagination.go\<close>. A request is given by
  its query: the value of each parameter, empty where it is absent.
\<close>

definition DefaultPage :: int where "DefaultPage = 1"
definition DefaultPerPage :: int where "DefaultPerPage = 20"
definition MaxPerPage :: int where "MaxPerPage = 100"
definition MaxPage :: int where "MaxPage = 1000000"

lemmas pagination_consts = DefaultPage_def DefaultPerPage_def MaxPerPage_def MaxPage_def

record Params =
  Page :: int
  PerPage :: int

definition Offset :: "Params \<Rightarrow> int" where
  "Offset p = wrap64 (wrap64 (Page p - 1) * PerPage p)"

definition Limit :: "Params \<Rightarrow> int" where
  "Limit p = PerPage p"

record 'a Result =
  Data :: "'a list"
  res_Page :: int
  res_PerPage :: int
  TotalCount :: int
  TotalPages :: int

text \<open>\<open>None\<close> is the panic of a division by zero; Go's quotient and remainder truncate.\<close>

definition NewResult :: "'a list \<Rightarrow> Params \<Rightarrow> int \<Rightarrow> 'a Result option" where
  "NewResult d p totalCount =
     (if PerPage p = 0 then None
      else let q = wrap64 (totalCount sdiv PerPage p);
               pages = (if totalCount smod PerPage p \<noteq> 0 then wrap64 (q + 1) else q)
           in Some \<lparr>Data = d, res_Page = Page p, res_PerPage = PerPage p, TotalCount = totalCount,
                    TotalPages = pages\<rparr>)"

definition queryInt :: "(string \<Rightarrow> string) \<Rightarrow> string \<Rightarrow> int \<Rightarrow> int" where
  "queryInt q key defaultVal =
     (let val = q key
      in if val = [] then defaultVal
         else case Atoi val of (n, ok) \<Rightarrow> if ok then n else defaultVal)"

definition FromRequest :: "(string \<Rightarrow> string) \<Rightarrow> Params" where
  "FromRequest q =
     (let page = queryInt q ''page'' DefaultPage;
          perPage = queryInt q ''per_page'' DefaultPerPage;
          page = (if page < 1 then DefaultPage else page);
          page = (if page > MaxPage then MaxPage else page);
          perPage = (if perPage < 1 then DefaultPerPage else perPage);
          perPage = (if perPage > MaxPerPage then MaxPerPage else perPage)
      in \<lparr>Page = page, PerPage = perPage\<rparr>)"

lemma FromRequest_Page: "1 \<le> Page (FromRequest q) \<and> Page (FromRequest q) \<le> MaxPage"
  by (simp add: FromRequest_def Let_def pagination_consts)

lemma FromRequest_PerPage: "1 \<le> PerPage (FromRequest q) \<and> PerPage (FromRequest q) \<le> MaxPerPage"
  by (simp add: FromRequest_def Let_def pagination_consts)

lemma Offset_no_wrap:
  assumes "1 \<le> Page p" "Page p \<le> MaxPage" "1 \<le> PerPage p" "PerPage p \<le> MaxPerPage"
  shows "Offset p = (Page p - 1) * PerPage p" and "0 \<le> (Page p - 1) * PerPage p"
    and "(Page p - 1) * PerPage p \<le> (MaxPage - 1) * MaxPerPage"
proof -
  have le: "(Page p - 1) * PerPage p \<le> (MaxPage - 1) * MaxPerPage"
    using assms by (intro mult_mono) (simp_all add: pagination_consts)
  have ge: "0 \<le> (Page p - 1) * PerPage p"
    using assms by simp
  have "wrap64 (Page p - 1) = Page p - 1"
    using assms by (intro wrap64_id) (simp_all add: int64_min_def int64_max_def pagination_consts)
  moreover have "wrap64 ((Page p - 1) * PerPage p) = (Page p - 1) * PerPage p"
    using le ge by (intro wrap64_id) (simp_all add: int64_min_def int64_max_def pagination_consts)
  ultimately show "Offset p = (Page p - 1) * PerPage p" by (simp add: Offset_def)
  show "0 \<le> (Page p - 1) * PerPage p" by (rule ge)
  show "(Page p - 1) * PerPage p \<le> (MaxPage - 1) * MaxPerPage" by (rule le)
qed

text \<open>
  Whatever the query says, the page and the page size are within their limits, and the SQL
  offset is the product computed without overflow, neither negative nor above 99999900.
\<close>

theorem FromRequest_bounds:
  "1 \<le> Page (FromRequest q) \<and> Page (FromRequest q) \<le> 1000000 \<and>
   1 \<le> Limit (FromRequest q) \<and> Limit (FromRequest q) \<le> 100 \<and>
   Offset (FromRequest q) = (Page (FromRequest q) - 1) * PerPage (FromRequest q) \<and>
   0 \<le> Offset (FromRequest q) \<and> Offset (FromRequest q) \<le> 99999900"
  using FromRequest_Page [of q] FromRequest_PerPage [of q]
    Offset_no_wrap [of "FromRequest q"]
  by (simp add: Limit_def pagination_consts)

text \<open>The rows \<open>LIMIT l OFFSET k\<close> selects of a result.\<close>

definition sql_window :: "int \<Rightarrow> int \<Rightarrow> 'a list \<Rightarrow> 'a list" where
  "sql_window l k xs = take (nat l) (drop (nat k) xs)"

lemma concat_windows:
  "concat (map (\<lambda>k. take n (drop (k * n) xs)) [0..<m]) = take (m * n) xs"
proof (induction m)
  case 0
  then show ?case by simp
next
  case (Suc m)
  have "take (m * n + n) xs = take (m * n) xs @ take n (drop (m * n) xs)"
    by (rule take_add)
  with Suc show ?case by (simp add: add.commute)
qed

text \<open>The number of pages of \<open>n\<close> rows, \<open>b\<close> on each.\<close>

definition page_count :: "nat \<Rightarrow> nat \<Rightarrow> nat" where
  "page_count n b = n div b + (if n mod b = 0 then 0 else 1)"

lemma page_count_covers:
  assumes "0 < b"
  shows "n \<le> page_count n b * b"
proof -
  have "n mod b < b" using assms by simp
  moreover have "n div b * b + n mod b = n" by (rule div_mult_mod_eq)
  ultimately have "n \<le> n div b * b + (if n mod b = 0 then 0 else b)"
    by (split if_split) linarith
  then show ?thesis by (simp add: page_count_def add_mult_distrib split: if_splits)
qed

lemma page_count_last:
  assumes "0 < b" "k < page_count n b"
  shows "k * b < n"
proof (cases "n mod b = 0")
  case True
  with assms(2) have "k * b < n div b * b"
    using assms(1) by (simp add: page_count_def)
  also have "\<dots> \<le> n" by (rule div_times_less_eq_dividend)
  finally show ?thesis .
next
  case False
  with assms(2) have "k * b \<le> n div b * b" by (simp add: page_count_def)
  then show ?thesis using False div_mult_mod_eq [of n b] by linarith
qed

lemma page_count_le: "page_count n b \<le> n"
proof (cases "b = 0 \<or> n = 0")
  case True
  then show ?thesis by (auto simp: page_count_def)
next
  case False
  then show ?thesis
  proof (cases "n mod b = 0")
    case True
    then show ?thesis by (simp add: page_count_def)
  next
    case nz: False
    with False have "b \<noteq> 1" by auto
    with False have "n div b < n" by (intro div_less_dividend) auto
    then show ?thesis by (simp add: page_count_def)
  qed
qed

lemma NewResult_TotalPages:
  assumes "int n \<le> int64_max" "0 < b" "PerPage p = int b"
  shows "NewResult d p (int n) =
           Some \<lparr>Data = d, res_Page = Page p, res_PerPage = int b, TotalCount = int n,
                 TotalPages = int (page_count n b)\<rparr>"
proof -
  have sd: "int n sdiv int b = int (n div b)" "int n smod int b = int (n mod b)"
    using assms(2)
    by (cases "n = 0"; simp add: signed_divide_int_def signed_modulo_int_def
          zdiv_int zmod_int minus_div_mult_eq_mod)+
  have w: "m \<le> n \<Longrightarrow> wrap64 (int m) = int m" for m
    using assms(1) by (intro wrap64_id) (simp_all add: int64_min_def)
  have "n div b \<le> n" by simp
  moreover have "n mod b \<noteq> 0 \<Longrightarrow> wrap64 (int (n div b) + 1) = int (n div b) + 1"
    using w [of "n div b + 1"] page_count_le [of n b]
    by (simp add: page_count_def add.commute split: if_splits)
  ultimately show ?thesis
    using assms(2,3) by (simp add: NewResult_def Let_def sd w page_count_def)
qed

text \<open>
  C35. The pages of a listing are exactly the listing: for rows \<open>xs\<close> and an accepted page size,
  the page total that \<open>NewResult\<close> reports splits \<open>xs\<close> into that many windows, in order, with
  no row lost or repeated, and no window is empty.
\<close>

theorem pages_partition_rows:
  assumes "int (length xs) \<le> int64_max" and "1 \<le> b" "b \<le> 100"
    and pages: "page_count (length xs) b \<le> 1000000"
  defines "page k \<equiv> \<lparr>Page = int k, PerPage = int b\<rparr>"
  defines "rows k \<equiv> sql_window (Limit (page k)) (Offset (page k)) xs"
  shows "\<exists>m. (\<forall>d k. \<exists>r. NewResult d (page k) (int (length xs)) = Some r \<and> TotalPages r = int m) \<and>
             concat (map rows [1..<Suc m]) = xs \<and> (\<forall>k. 1 \<le> k \<and> k \<le> m \<longrightarrow> rows k \<noteq> [])"
proof -
  let ?m = "page_count (length xs) b"
  have res: "\<exists>r. NewResult d (page k) (int (length xs)) = Some r \<and> TotalPages r = int ?m" for d k
    using NewResult_TotalPages [of "length xs" b "page k" d] assms(1,2) by (simp add: page_def)
  have window: "rows (Suc k) = take b (drop (k * b) xs)" if "k < ?m" for k
  proof -
    have "Offset (page (Suc k)) = int k * int b"
      using Offset_no_wrap(1) [of "page (Suc k)"] that assms(2,3) pages
      by (simp add: page_def MaxPage_def MaxPerPage_def)
    then show ?thesis by (simp add: rows_def sql_window_def Limit_def page_def nat_mult_distrib)
  qed
  have "map rows [1..<Suc ?m] = map (\<lambda>k. take b (drop (k * b) xs)) [0..<?m]"
    using window by (simp add: map_Suc_upt [symmetric] del: upt_Suc)
  then have "concat (map rows [1..<Suc ?m]) = xs"
    using page_count_covers [of b "length xs"] assms(2) by (simp add: concat_windows del: upt_Suc)
  moreover have "rows k \<noteq> []" if "1 \<le> k" "k \<le> ?m" for k
  proof -
    from that obtain j where j: "k = Suc j" "j < ?m" by (cases k) auto
    then show ?thesis
      using page_count_last [of b j "length xs"] assms(2) by (simp add: window)
  qed
  ultimately show ?thesis using res by blast
qed

theorem pages_partition_rows_witness:
  "int (length [10, 20, 30 :: nat]) \<le> int64_max \<and>
   (\<exists>m. (\<forall>d k. \<exists>r. NewResult d \<lparr>Page = int k, PerPage = int 2\<rparr> (int (length [10, 20, 30 :: nat]))
           = Some (r :: nat Result) \<and> TotalPages r = int m) \<and>
        concat (map (\<lambda>k. sql_window (Limit \<lparr>Page = int k, PerPage = int 2\<rparr>)
          (Offset \<lparr>Page = int k, PerPage = int 2\<rparr>) [10, 20, 30 :: nat]) [1..<Suc m]) = [10, 20, 30])"
proof -
  have h: "int (length [10, 20, 30 :: nat]) \<le> int64_max" by (simp add: int64_max_def)
  have b: "(1::nat) \<le> 2" "(2::nat) \<le> 100" by simp_all
  have c: "page_count (length [10, 20, 30 :: nat]) 2 \<le> 1000000" by (simp add: page_count_def)
  show ?thesis using h pages_partition_rows [OF h b c] by blast
qed

end
