(* ===== verification/Iam_Repo.thy ===== *)
theory Iam_Repo
  imports World Pagination
begin

text \<open>
  The repositories of the IAM tables, \<open>internal/infrastructure/postgres/iam\<close>: users, roles and
  their permissions, the roles of users, the members of organizations, and refresh tokens. A
  repository method changes the entity its caller passes by pointer; here it returns the entity
  as it is after the call.
\<close>

text \<open>A listing with its total: a COUNT query, then the page of the rows.\<close>

definition page_query ::
  "string \<Rightarrow> string \<Rightarrow> (world \<Rightarrow> 'a list) \<Rightarrow> ('a \<Rightarrow> time) \<Rightarrow> int \<Rightarrow> int \<Rightarrow> (goerr + 'a list \<times> int) eff"
where
  "page_query count_msg list_msg f created offset lmt =
     try_or (internal count_msg) (sql_query_row (\<lambda>w. Some (int (length (f w))))) (\<lambda>totalRows.
     if lmt < 0 \<or> offset < 0 then fail (internal list_msg (PgError ''negative LIMIT or OFFSET''))
     else try_or (internal list_msg)
       (sql_query (\<lambda>w. sql_window lmt offset (newest_first created (f w)))) (\<lambda>rows.
     ok (rows, totalRows)))"

section \<open>Users\<close>

definition UserRepo_Create :: "User \<Rightarrow> (goerr + User) eff" where
  "UserRepo_Create user = do {
     uid \<leftarrow> (if u_ID user = uuid_nil then uuid_New else ret (u_ID user));
     now \<leftarrow> time_Now;
     let user = user\<lparr>u_ID := uid, u_CreatedAt := now, u_UpdatedAt := now\<rparr>;
     try_or (internal ''failed to create user'')
       (sql_exec (\<lambda>w. \<forall>u \<in> set (users w). u_ID u \<noteq> uid \<and> u_Email u \<noteq> u_Email user)
                 (\<lambda>w. w\<lparr>users := users w @ [user]\<rparr>)) (\<lambda>_. ok user)
   }"

definition UserRepo_GetByID :: "uuid \<Rightarrow> (goerr + User) eff" where
  "UserRepo_GetByID uid =
     try_or (not_found_or ''user not found'' ''failed to get user'')
       (sql_query_row (\<lambda>w. find (\<lambda>u. u_ID u = uid) (users w))) ok"

definition UserRepo_GetByEmail :: "string \<Rightarrow> (goerr + User) eff" where
  "UserRepo_GetByEmail email =
     try_or (not_found_or ''user not found'' ''failed to get user by email'')
       (sql_query_row (\<lambda>w. find (\<lambda>u. u_Email u = email) (users w))) ok"

definition UserRepo_Update :: "User \<Rightarrow> (goerr + User) eff" where
  "UserRepo_Update user = do {
     now \<leftarrow> time_Now;
     let user = user\<lparr>u_UpdatedAt := now\<rparr>;
     try_or (internal ''failed to update user'')
       (sql_exec
         (\<lambda>w. (\<exists>u \<in> set (users w). u_ID u = u_ID user) \<longrightarrow>
              (\<forall>u \<in> set (users w). u_ID u \<noteq> u_ID user \<longrightarrow> u_Email u \<noteq> u_Email user))
         (\<lambda>w. w\<lparr>users := map (\<lambda>u. if u_ID u = u_ID user
            then u\<lparr>u_Email := u_Email user, u_FirstName := u_FirstName user,
                   u_LastName := u_LastName user, u_Status := u_Status user,
                   u_UpdatedAt := u_UpdatedAt user\<rparr> else u) (users w)\<rparr>)) (\<lambda>_. ok user)
   }"

text \<open>
  Deleting a user deletes the rows that refer to it ON DELETE CASCADE; it fails if a membership
  of another user names it as the inviter.
\<close>

definition UserRepo_Delete :: "uuid \<Rightarrow> (goerr + unit) eff" where
  "UserRepo_Delete uid =
     try_or (internal ''failed to delete user'')
       (sql_exec
         (\<lambda>w. (\<exists>u \<in> set (users w). u_ID u = uid) \<longrightarrow>
              (\<forall>m \<in> set (organization_users w). ou_InvitedBy m = Some uid \<longrightarrow> ou_UserID m = uid))
         (\<lambda>w. if \<exists>u \<in> set (users w). u_ID u = uid
              then w\<lparr>users := filter (\<lambda>u. u_ID u \<noteq> uid) (users w),
                     organization_users := filter (\<lambda>m. ou_UserID m \<noteq> uid) (organization_users w),
                     user_roles := filter (\<lambda>r. ur_UserID r \<noteq> uid) (user_roles w),
                     refresh_tokens := filter (\<lambda>t. t_UserID t \<noteq> uid) (refresh_tokens w),
                     model_usage_stats := filter (\<lambda>s. s_UserID s \<noteq> uid) (model_usage_stats w)\<rparr>
              else w)) ok"

definition UserRepo_List :: "int \<Rightarrow> int \<Rightarrow> (goerr + User list \<times> int) eff" where
  "UserRepo_List offset lmt =
     page_query ''failed to count users'' ''failed to list users'' users u_CreatedAt offset lmt"

section \<open>Roles, their permissions, the roles of users\<close>

definition RoleRepo_Create :: "Role \<Rightarrow> (goerr + Role) eff" where
  "RoleRepo_Create role = do {
     rid \<leftarrow> (if r_ID role = uuid_nil then uuid_New else ret (r_ID role));
     now \<leftarrow> time_Now;
     let role = role\<lparr>r_ID := rid, r_CreatedAt := now, r_UpdatedAt := now\<rparr>;
     try_or (internal ''failed to create role'')
       (sql_exec
         (\<lambda>w. r_ScopeType role \<in> {''organization'', ''app''} \<and>
              (\<forall>r \<in> set (roles w). r_ID r \<noteq> rid \<and>
                (r_ScopeType r, r_ScopeID r, r_Name r) \<noteq>
                (r_ScopeType role, r_ScopeID role, r_Name role)))
         (\<lambda>w. w\<lparr>roles := roles w @ [role]\<rparr>)) (\<lambda>_. ok role)
   }"

definition RoleRepo_GetByID :: "uuid \<Rightarrow> (goerr + Role) eff" where
  "RoleRepo_GetByID rid =
     try_or (not_found_or ''role not found'' ''failed to get role'')
       (sql_query_row (\<lambda>w. find (\<lambda>r. r_ID r = rid) (roles w))) ok"

text \<open>\<open>ORDER BY name\<close>, with bytes compared by the collation \<open>le\<close>.\<close>

fun insort_by :: "('a \<Rightarrow> 'a \<Rightarrow> bool) \<Rightarrow> 'a \<Rightarrow> 'a list \<Rightarrow> 'a list" where
  "insort_by le x [] = [x]"
| "insort_by le x (y # ys) = (if le x y then x # y # ys else y # insort_by le x ys)"

definition sort_by :: "('a \<Rightarrow> 'a \<Rightarrow> bool) \<Rightarrow> 'a list \<Rightarrow> 'a list" where
  "sort_by le xs = foldr (insort_by le) xs []"

definition RoleRepo_ListByScope ::
  "(string \<Rightarrow> string \<Rightarrow> bool) \<Rightarrow> string \<Rightarrow> uuid \<Rightarrow> (goerr + Role list) eff" where
  "RoleRepo_ListByScope collate scopeType scopeID =
     try_or (internal ''failed to list roles'')
       (sql_query (\<lambda>w. sort_by (\<lambda>a b. collate (r_Name a) (r_Name b))
          (filter (\<lambda>r. r_ScopeType r = scopeType \<and> r_ScopeID r = scopeID) (roles w)))) ok"

definition RoleRepo_Update :: "Role \<Rightarrow> (goerr + Role) eff" where
  "RoleRepo_Update role = do {
     now \<leftarrow> time_Now;
     let role = role\<lparr>r_UpdatedAt := now\<rparr>;
     try_or (internal ''failed to update role'')
       (sql_exec
         (\<lambda>w. \<forall>a \<in> set (roles w). r_ID a = r_ID role \<longrightarrow>
              (\<forall>b \<in> set (roles w). r_ID b \<noteq> r_ID role \<longrightarrow>
                (r_ScopeType b, r_ScopeID b, r_Name b) \<noteq> (r_ScopeType a, r_ScopeID a, r_Name role)))
         (\<lambda>w. w\<lparr>roles := map (\<lambda>r. if r_ID r = r_ID role
            then r\<lparr>r_Name := r_Name role, r_Description := r_Description role,
                   r_UpdatedAt := r_UpdatedAt role\<rparr> else r) (roles w)\<rparr>)) (\<lambda>_. ok role)
   }"

definition RoleRepo_Delete :: "uuid \<Rightarrow> (goerr + unit) eff" where
  "RoleRepo_Delete rid =
     try_or (internal ''failed to delete role'')
       (sql_exec (\<lambda>_. True)
         (\<lambda>w. if \<exists>r \<in> set (roles w). r_ID r = rid
              then w\<lparr>roles := filter (\<lambda>r. r_ID r \<noteq> rid) (roles w),
                     role_permissions := filter (\<lambda>p. p_RoleID p \<noteq> rid) (role_permissions w),
                     user_roles := filter (\<lambda>r. ur_RoleID r \<noteq> rid) (user_roles w)\<rparr>
              else w)) ok"

definition RoleRepo_AddPermission :: "uuid \<Rightarrow> string \<Rightarrow> (goerr + unit) eff" where
  "RoleRepo_AddPermission rid perm =
     try_or (internal ''failed to add permission'')
       (sql_exec (\<lambda>w. \<exists>r \<in> set (roles w). r_ID r = rid)
         (\<lambda>w. let row = \<lparr>p_RoleID = rid, p_Permission = perm\<rparr>
              in if row \<in> set (role_permissions w) then w
                 else w\<lparr>role_permissions := role_permissions w @ [row]\<rparr>)) ok"

definition RoleRepo_RemovePermission :: "uuid \<Rightarrow> string \<Rightarrow> (goerr + unit) eff" where
  "RoleRepo_RemovePermission rid perm =
     try_or (internal ''failed to remove permission'')
       (sql_exec (\<lambda>_. True)
         (\<lambda>w. w\<lparr>role_permissions :=
            filter (\<lambda>p. \<not> (p_RoleID p = rid \<and> p_Permission p = perm)) (role_permissions w)\<rparr>)) ok"

definition RoleRepo_GetPermissions :: "uuid \<Rightarrow> (goerr + string list) eff" where
  "RoleRepo_GetPermissions rid =
     try_or (internal ''failed to get permissions'')
       (sql_query (\<lambda>w. map p_Permission (filter (\<lambda>p. p_RoleID p = rid) (role_permissions w)))) ok"

text \<open>
  The unique constraint on (user, role, organization, app) does not see a NULL app, so a row
  without an app never conflicts.
\<close>

definition user_role_conflict :: "UserRole \<Rightarrow> UserRole \<Rightarrow> bool" where
  "user_role_conflict a b \<longleftrightarrow>
     ur_UserID a = ur_UserID b \<and> ur_RoleID a = ur_RoleID b \<and>
     ur_OrganizationID a = ur_OrganizationID b \<and> ur_AppID a = ur_AppID b \<and> ur_AppID a \<noteq> None"

text \<open>ON CONFLICT names that constraint only: a repeated primary key is an error.\<close>

definition RoleRepo_AssignRoleToUser :: "UserRole \<Rightarrow> (goerr + UserRole) eff" where
  "RoleRepo_AssignRoleToUser userRole = do {
     urid \<leftarrow> (if ur_ID userRole = uuid_nil then uuid_New else ret (ur_ID userRole));
     now \<leftarrow> time_Now;
     let userRole = userRole\<lparr>ur_ID := urid, ur_CreatedAt := now\<rparr>;
     try_or (internal ''failed to assign role'')
       (sql_exec
         (\<lambda>w. (\<exists>r \<in> set (user_roles w). user_role_conflict r userRole) \<or>
              ((\<forall>r \<in> set (user_roles w). ur_ID r \<noteq> urid) \<and>
               (\<exists>u \<in> set (users w). u_ID u = ur_UserID userRole) \<and>
               (\<exists>r \<in> set (roles w). r_ID r = ur_RoleID userRole) \<and>
               (\<exists>g \<in> set (organizations w). o_ID g = ur_OrganizationID userRole)))
         (\<lambda>w. if \<exists>r \<in> set (user_roles w). user_role_conflict r userRole then w
              else w\<lparr>user_roles := user_roles w @ [userRole]\<rparr>)) (\<lambda>_. ok userRole)
   }"

definition RoleRepo_RemoveRoleFromUser :: "uuid \<Rightarrow> uuid \<Rightarrow> (goerr + unit) eff" where
  "RoleRepo_RemoveRoleFromUser uid rid =
     try_or (internal ''failed to remove role from user'')
       (sql_exec (\<lambda>_. True)
         (\<lambda>w. w\<lparr>user_roles := filter (\<lambda>r. \<not> (ur_UserID r = uid \<and> ur_RoleID r = rid)) (user_roles w)\<rparr>)) ok"

definition RoleRepo_GetUserRoles :: "uuid \<Rightarrow> uuid \<Rightarrow> (goerr + UserRole list) eff" where
  "RoleRepo_GetUserRoles uid gid =
     try_or (internal ''failed to get user roles'')
       (sql_query (\<lambda>w. filter (\<lambda>r. ur_UserID r = uid \<and> ur_OrganizationID r = gid) (user_roles w))) ok"

text \<open>The permissions the tables give a user in an organization, without duplicates.\<close>

definition granted :: "world \<Rightarrow> uuid \<Rightarrow> uuid \<Rightarrow> string list" where
  "granted w uid gid =
     remdups (concat (map (\<lambda>r. map p_Permission
         (filter (\<lambda>p. p_RoleID p = ur_RoleID r) (role_permissions w)))
       (filter (\<lambda>r. ur_UserID r = uid \<and> ur_OrganizationID r = gid) (user_roles w))))"

definition RoleRepo_GetUserPermissions :: "uuid \<Rightarrow> uuid \<Rightarrow> (goerr + string list) eff" where
  "RoleRepo_GetUserPermissions uid gid =
     try_or (internal ''failed to get user permissions'') (sql_query (\<lambda>w. granted w uid gid)) ok"

section \<open>Members of organizations\<close>

definition OrgUserRepo_Add :: "OrganizationUser \<Rightarrow> (goerr + OrganizationUser) eff" where
  "OrgUserRepo_Add m = do {
     now \<leftarrow> time_Now;
     let m = m\<lparr>ou_CreatedAt := now, ou_UpdatedAt := now\<rparr>;
     let same = (\<lambda>x. ou_OrganizationID x = ou_OrganizationID m \<and> ou_UserID x = ou_UserID m);
     try_or (internal ''failed to add org user'')
       (sql_exec
         (\<lambda>w. (\<exists>x \<in> set (organization_users w). same x) \<or>
              ((\<exists>g \<in> set (organizations w). o_ID g = ou_OrganizationID m) \<and>
               (\<exists>u \<in> set (users w). u_ID u = ou_UserID m) \<and>
               (case ou_InvitedBy m of None \<Rightarrow> True | Some b \<Rightarrow> \<exists>u \<in> set (users w). u_ID u = b)))
         (\<lambda>w. if \<exists>x \<in> set (organization_users w). same x
              then w\<lparr>organization_users := map (\<lambda>x. if same x
                  then x\<lparr>ou_Status := ou_Status m, ou_UpdatedAt := ou_UpdatedAt m\<rparr> else x)
                (organization_users w)\<rparr>
              else w\<lparr>organization_users := organization_users w @ [m]\<rparr>)) (\<lambda>_. ok m)
   }"

definition OrgUserRepo_Remove :: "uuid \<Rightarrow> uuid \<Rightarrow> (goerr + unit) eff" where
  "OrgUserRepo_Remove gid uid =
     try_or (internal ''failed to remove org user'')
       (sql_exec (\<lambda>_. True)
         (\<lambda>w. w\<lparr>organization_users :=
            filter (\<lambda>m. \<not> (ou_OrganizationID m = gid \<and> ou_UserID m = uid)) (organization_users w)\<rparr>)) ok"

definition OrgUserRepo_GetByOrgAndUser :: "uuid \<Rightarrow> uuid \<Rightarrow> (goerr + OrganizationUser) eff" where
  "OrgUserRepo_GetByOrgAndUser gid uid =
     try_or (not_found_or ''organization user not found'' ''failed to get org user'')
       (sql_query_row
         (\<lambda>w. find (\<lambda>m. ou_OrganizationID m = gid \<and> ou_UserID m = uid) (organization_users w))) ok"

definition OrgUserRepo_ListByOrg ::
  "uuid \<Rightarrow> int \<Rightarrow> int \<Rightarrow> (goerr + OrganizationUser list \<times> int) eff" where
  "OrgUserRepo_ListByOrg gid offset lmt =
     page_query ''failed to count org users'' ''failed to list org users''
       (\<lambda>w. filter (\<lambda>m. ou_OrganizationID m = gid) (organization_users w)) ou_CreatedAt offset lmt"

definition OrgUserRepo_ListByUser :: "uuid \<Rightarrow> (goerr + OrganizationUser list) eff" where
  "OrgUserRepo_ListByUser uid =
     try_or (internal ''failed to list user orgs'')
       (sql_query (\<lambda>w. newest_first ou_CreatedAt
          (filter (\<lambda>m. ou_UserID m = uid) (organization_users w)))) ok"

section \<open>Refresh tokens\<close>

definition RefreshTokenRepo_Create :: "RefreshToken \<Rightarrow> (goerr + RefreshToken) eff" where
  "RefreshTokenRepo_Create t = do {
     tid \<leftarrow> (if t_ID t = uuid_nil then uuid_New else ret (t_ID t));
     created \<leftarrow> (if t_CreatedAt t = 0 then time_Now else ret (t_CreatedAt t));
     let t = t\<lparr>t_ID := tid, t_CreatedAt := created\<rparr>;
     try_or (internal ''failed to create refresh token'')
       (sql_exec
         (\<lambda>w. (\<forall>x \<in> set (refresh_tokens w). t_ID x \<noteq> tid \<and> t_TokenHash x \<noteq> t_TokenHash t) \<and>
              (\<exists>u \<in> set (users w). u_ID u = t_UserID t))
         (\<lambda>w. w\<lparr>refresh_tokens := refresh_tokens w @ [t\<lparr>t_RevokedAt := None\<rparr>]\<rparr>)) (\<lambda>_. ok t)
   }"

definition RefreshTokenRepo_GetByTokenHash :: "string \<Rightarrow> (goerr + RefreshToken) eff" where
  "RefreshTokenRepo_GetByTokenHash h =
     try_or (not_found_or ''refresh token not found'' ''failed to get refresh token'')
       (sql_query_row (\<lambda>w. find (\<lambda>t. t_TokenHash t = h) (refresh_tokens w))) ok"

text \<open>\<open>UPDATE \<dots> SET revoked_at = now WHERE P AND revoked_at IS NULL\<close>.\<close>

definition revoke_where :: "(RefreshToken \<Rightarrow> bool) \<Rightarrow> time \<Rightarrow> RefreshToken list \<Rightarrow> RefreshToken list" where
  "revoke_where P now ts =
     map (\<lambda>t. if P t \<and> t_RevokedAt t = None then t\<lparr>t_RevokedAt := Some now\<rparr> else t) ts"

definition RefreshTokenRepo_Revoke :: "uuid \<Rightarrow> (goerr + unit) eff" where
  "RefreshTokenRepo_Revoke tid = do {
     now \<leftarrow> time_Now;
     try_or (internal ''failed to revoke refresh token'')
       (sql_exec (\<lambda>_. True)
         (\<lambda>w. w\<lparr>refresh_tokens := revoke_where (\<lambda>t. t_ID t = tid) now (refresh_tokens w)\<rparr>)) ok
   }"

definition RefreshTokenRepo_RevokeAllByUserID :: "uuid \<Rightarrow> (goerr + unit) eff" where
  "RefreshTokenRepo_RevokeAllByUserID uid = do {
     now \<leftarrow> time_Now;
     try_or (internal ''failed to revoke all refresh tokens'')
       (sql_exec (\<lambda>_. True)
         (\<lambda>w. w\<lparr>refresh_tokens := revoke_where (\<lambda>t. t_UserID t = uid) now (refresh_tokens w)\<rparr>)) ok
   }"

definition RefreshTokenRepo_RevokeFamily :: "uuid \<Rightarrow> (goerr + unit) eff" where
  "RefreshTokenRepo_RevokeFamily fid = do {
     now \<leftarrow> time_Now;
     try_or (internal ''failed to revoke token family'')
       (sql_exec (\<lambda>_. True)
         (\<lambda>w. w\<lparr>refresh_tokens := revoke_where (\<lambda>t. t_FamilyID t = fid) now (refresh_tokens w)\<rparr>)) ok
   }"

definition RefreshTokenRepo_ListActiveByUserID :: "uuid \<Rightarrow> (goerr + RefreshToken list) eff" where
  "RefreshTokenRepo_ListActiveByUserID uid =
     try_or (internal ''failed to list refresh tokens'')
       (sql_query (\<lambda>w. newest_first t_CreatedAt
          (filter (\<lambda>t. t_UserID t = uid \<and> t_RevokedAt t = None \<and> t_ExpiresAt t > clock w)
                  (refresh_tokens w)))) ok"

definition stale_token :: "time \<Rightarrow> RefreshToken \<Rightarrow> bool" where
  "stale_token now t \<longleftrightarrow> t_ExpiresAt t < now \<or>
     (case t_RevokedAt t of None \<Rightarrow> False | Some r \<Rightarrow> r < now - 7 * 24 * hour)"

definition RefreshTokenRepo_DeleteExpired :: "(goerr + int) eff" where
  "RefreshTokenRepo_DeleteExpired = do {
     n \<leftarrow> gets (\<lambda>w. int (length (filter (stale_token (clock w)) (refresh_tokens w))));
     try_or (internal ''failed to delete expired refresh tokens'')
       (sql_exec (\<lambda>_. True)
         (\<lambda>w. w\<lparr>refresh_tokens := filter (\<lambda>t. \<not> stale_token (clock w) t) (refresh_tokens w)\<rparr>))
       (\<lambda>_. ok n)
   }"

end
