(* ===== verification/Crypto.thy ===== *)
theory Crypto
  imports Prelude
begin

text \<open>
  The encodings of Go's standard library that the program applies to secrets:
  \<open>base64.RawURLEncoding\<close>, lower-case hexadecimal and \<open>crypto/sha256\<close> (FIPS 180-4). A string is a
  sequence of bytes.
\<close>

unbundle bit_operations_syntax

section \<open>Base 64 and base 16\<close>

definition base64_alphabet :: string where
  "base64_alphabet = ''ABCDEFGHIJKLMNOPQRSTUVWXYZabcdefghijklmnopqrstuvwxyz0123456789-_''"

definition base64_digit :: "int \<Rightarrow> char" where
  "base64_digit n = base64_alphabet ! nat (n mod 64)"

text \<open>\<open>base64.RawURLEncoding.EncodeToString\<close>: no padding.\<close>

fun RawURLEncoding :: "string \<Rightarrow> string" where
  "RawURLEncoding [] = []"
| "RawURLEncoding [a] =
     (let n = of_char a * 65536 in [base64_digit (n div 262144), base64_digit (n div 4096)])"
| "RawURLEncoding [a, b] =
     (let n = of_char a * 65536 + of_char b * 256
      in [base64_digit (n div 262144), base64_digit (n div 4096), base64_digit (n div 64)])"
| "RawURLEncoding (a # b # c # s) =
     (let n = of_char a * 65536 + of_char b * 256 + of_char c
      in base64_digit (n div 262144) # base64_digit (n div 4096) # base64_digit (n div 64) #
         base64_digit n # RawURLEncoding s)"

definition hex_digit :: "int \<Rightarrow> char" where
  "hex_digit n = ''0123456789abcdef'' ! nat (n mod 16)"

definition hex_bytes :: "int list \<Rightarrow> string" where
  "hex_bytes bs = concat (map (\<lambda>b. [hex_digit (b div 16), hex_digit b]) bs)"

section \<open>SHA-256\<close>

text \<open>The round constants and the initial state, in decimal.\<close>

definition sha256_K :: "32 word list" where
  "sha256_K =
   [1116352408, 1899447441, 3049323471, 3921009573, 961987163, 1508970993, 2453635748, 2870763221,
    3624381080, 310598401, 607225278, 1426881987, 1925078388, 2162078206, 2614888103, 3248222580,
    3835390401, 4022224774, 264347078, 604807628, 770255983, 1249150122, 1555081692, 1996064986,
    2554220882, 2821834349, 2952996808, 3210313671, 3336571891, 3584528711, 113926993, 338241895,
    666307205, 773529912, 1294757372, 1396182291, 1695183700, 1986661051, 2177026350, 2456956037,
    2730485921, 2820302411, 3259730800, 3345764771, 3516065817, 3600352804, 4094571909, 275423344,
    430227734, 506948616, 659060556, 883997877, 958139571, 1322822218, 1537002063, 1747873779,
    1955562222, 2024104815, 2227730452, 2361852424, 2428436474, 2756734187, 3204031479, 3329325298]"

definition sha256_init :: "32 word list" where
  "sha256_init =
   [1779033703, 3144134277, 1013904242, 2773480762, 1359893119, 2600822924, 528734635, 1541459225]"

definition rotr :: "nat \<Rightarrow> 32 word \<Rightarrow> 32 word" where
  "rotr n x = drop_bit n x OR push_bit (32 - n) x"

definition ssig0 :: "32 word \<Rightarrow> 32 word" where
  "ssig0 x = rotr 7 x XOR rotr 18 x XOR drop_bit 3 x"

definition ssig1 :: "32 word \<Rightarrow> 32 word" where
  "ssig1 x = rotr 17 x XOR rotr 19 x XOR drop_bit 10 x"

definition bsig0 :: "32 word \<Rightarrow> 32 word" where
  "bsig0 x = rotr 2 x XOR rotr 13 x XOR rotr 22 x"

definition bsig1 :: "32 word \<Rightarrow> 32 word" where
  "bsig1 x = rotr 6 x XOR rotr 11 x XOR rotr 25 x"

definition ch_fun :: "32 word \<Rightarrow> 32 word \<Rightarrow> 32 word \<Rightarrow> 32 word" where
  "ch_fun x y z = (x AND y) XOR (NOT x AND z)"

definition maj_fun :: "32 word \<Rightarrow> 32 word \<Rightarrow> 32 word \<Rightarrow> 32 word" where
  "maj_fun x y z = (x AND y) XOR (x AND z) XOR (y AND z)"

text \<open>The message, a one bit, zeros, and the length in bits as a 64-bit big-endian number.\<close>

definition be_bytes :: "nat \<Rightarrow> int \<Rightarrow> int list" where
  "be_bytes k n = map (\<lambda>i. n div 256 ^ (k - 1 - i) mod 256) [0..<k]"

definition sha256_pad :: "int list \<Rightarrow> int list" where
  "sha256_pad bs =
     bs @ 128 # replicate ((119 - length bs mod 64) mod 64) 0 @ be_bytes 8 (8 * int (length bs))"

fun be_words :: "int list \<Rightarrow> 32 word list" where
  "be_words (a # b # c # d # r) =
     word_of_int (a * 16777216 + b * 65536 + c * 256 + d) # be_words r"
| "be_words _ = []"

text \<open>The message schedule, newest word first.\<close>

fun sha256_schedule :: "nat \<Rightarrow> 32 word list \<Rightarrow> 32 word list" where
  "sha256_schedule 0 ws = ws"
| "sha256_schedule (Suc k) ws =
     sha256_schedule k ((ssig1 (ws ! 1) + ws ! 6 + ssig0 (ws ! 14) + ws ! 15) # ws)"

fun sha256_round :: "32 word list \<Rightarrow> 32 word \<times> 32 word \<Rightarrow> 32 word list" where
  "sha256_round [a, b, c, d, e, f, g, h] (k, w) =
     (let t1 = h + bsig1 e + ch_fun e f g + k + w;
          t2 = bsig0 a + maj_fun a b c
      in [t1 + t2, a, b, c, d + t1, e, f, g])"
| "sha256_round st _ = st"

definition sha256_block :: "32 word list \<Rightarrow> 32 word list \<Rightarrow> 32 word list" where
  "sha256_block st ws =
     map2 (+) st (foldl sha256_round st (zip sha256_K (rev (sha256_schedule 48 (rev ws)))))"

function sha256_blocks :: "32 word list \<Rightarrow> 32 word list \<Rightarrow> 32 word list" where
  "sha256_blocks st ws =
     (if length ws < 16 then st
      else sha256_blocks (sha256_block st (take 16 ws)) (drop 16 ws))"
  by pat_completeness auto
termination by (relation "measure (\<lambda>(st, ws). length ws)") auto

declare sha256_blocks.simps [simp del]

definition Sum256 :: "string \<Rightarrow> int list" where
  "Sum256 s =
     concat (map (\<lambda>w. be_bytes 4 (uint w))
       (sha256_blocks sha256_init (be_words (sha256_pad (map of_char s)))))"

end
