(* ===== verification/Auth_Service.thy ===== *)
theory Auth_Service
  imports World Crypto
begin

text \<open>
  Passwords and access tokens: the interface \<open>AuthService\<close> (\<open>internal/domain/iam/service\<close>) and its
  implementation \<open>JWTService\<close> (\<open>internal/infrastructure/auth/jwt_service.go\<close>) over the packages
  bcrypt and golang-jwt, which are the parameters \<open>bcrypt_api\<close> and \<open>jwt_api\<close>.
\<close>

record TokenClaims =
  c_UserID :: uuid
  c_Email :: string
  c_OrganizationID :: uuid
  c_Roles :: "string list"
  c_Permissions :: "string list"

record AuthService =
  auth_HashPassword :: "string \<Rightarrow> (goerr + string) eff"
  auth_VerifyPassword :: "string \<Rightarrow> string \<Rightarrow> goerr option"
  auth_GenerateToken :: "TokenClaims \<Rightarrow> (goerr + string) eff"
  auth_ValidateToken :: "string \<Rightarrow> (goerr + TokenClaims) eff"

section \<open>The packages\<close>

text \<open>\<open>GenerateFromPassword\<close> draws a salt; a password of more than 72 bytes is an error.\<close>

record bcrypt_api =
  bcrypt_generate :: "string \<Rightarrow> string \<Rightarrow> string option"
  bcrypt_compare :: "string \<Rightarrow> string \<Rightarrow> bool"

definition bcrypt_ok :: "bcrypt_api \<Rightarrow> bool" where
  "bcrypt_ok B \<longleftrightarrow>
     (\<forall>salt pw h. bcrypt_generate B salt pw = Some h \<longrightarrow> bcrypt_compare B h pw)"

datatype jwt_alg = HS256 | OtherHMAC string | NotHMAC string

record customClaims =
  cc_Issuer :: string
  cc_Subject :: string
  cc_ExpiresAt :: time
  cc_IssuedAt :: time
  cc_ID :: string
  cc_UserID :: string
  cc_Email :: string
  cc_OrganizationID :: string
  cc_Roles :: "string list"
  cc_Permissions :: "string list"

text \<open>
  \<open>jwt_sign\<close> is \<open>NewWithClaims(SigningMethodHS256, c).SignedString(secret)\<close>; \<open>jwt_parse\<close> is
  \<open>ParseWithClaims\<close> at an instant: it asks the key function for the key of the token's method
  and answers the claims and whether the token is valid.
\<close>

record jwt_api =
  jwt_sign :: "string \<Rightarrow> customClaims \<Rightarrow> string option"
  jwt_parse :: "(jwt_alg \<Rightarrow> string option) \<Rightarrow> time \<Rightarrow> string \<Rightarrow> goerr + customClaims \<times> bool"

text \<open>\<open>NewNumericDate\<close> keeps whole seconds.\<close>

definition NumericDate :: "time \<Rightarrow> time" where
  "NumericDate t = t div second * second"

definition ascii :: "string \<Rightarrow> bool" where
  "ascii s \<longleftrightarrow> (\<forall>c \<in> set s. (of_char c :: nat) < 128)"

text \<open>
  What the package promises: a token signed with HS256 parses back to its claims under the same
  secret until the second it expires in, and is refused from then on.
\<close>

definition jwt_ok :: "jwt_api \<Rightarrow> bool" where
  "jwt_ok J \<longleftrightarrow>
     (\<forall>secret c tok kf now. jwt_sign J secret c = Some tok \<longrightarrow> kf HS256 = Some secret \<longrightarrow>
        ascii (cc_Email c) \<longrightarrow> (\<forall>s \<in> set (cc_Roles c) \<union> set (cc_Permissions c). ascii s) \<longrightarrow>
        (if now < cc_ExpiresAt c then jwt_parse J kf now tok = Inr (c, True)
         else \<exists>e. jwt_parse J kf now tok = Inl e))"

section \<open>JWTService\<close>

record JWTService =
  js_secret :: string
  js_expiration :: time
  js_issuer :: string

record JWTConfig =
  jc_Secret :: string
  jc_ExpirationHours :: int
  jc_Issuer :: string

definition NewJWTService :: "JWTConfig \<Rightarrow> JWTService" where
  "NewJWTService cfg =
     \<lparr>js_secret = jc_Secret cfg, js_expiration = wrap64 (jc_ExpirationHours cfg * hour),
      js_issuer = jc_Issuer cfg\<rparr>"

definition HashPassword :: "bcrypt_api \<Rightarrow> string \<Rightarrow> (goerr + string) eff" where
  "HashPassword B password = do {
     salt \<leftarrow> rand_Read 16;
     case salt of
       None \<Rightarrow> fail (Wrapped ''hash password'' (Plain ''rand''))
     | Some s \<Rightarrow> (case bcrypt_generate B s password of
           None \<Rightarrow> fail (Wrapped ''hash password'' (Plain ''bcrypt''))
         | Some h \<Rightarrow> ok h)
   }"

definition VerifyPassword :: "bcrypt_api \<Rightarrow> string \<Rightarrow> string \<Rightarrow> goerr option" where
  "VerifyPassword B hashedPassword password =
     (if bcrypt_compare B hashedPassword password then None
      else Some (New_error ErrUnauthorized ''invalid credentials'' None))"

definition make_claims :: "uuid_api \<Rightarrow> JWTService \<Rightarrow> time \<Rightarrow> uuid \<Rightarrow> TokenClaims \<Rightarrow> customClaims" where
  "make_claims U s now jti claims =
     \<lparr>cc_Issuer = js_issuer s, cc_Subject = uuid_str U (c_UserID claims),
      cc_ExpiresAt = NumericDate (now + js_expiration s), cc_IssuedAt = NumericDate now,
      cc_ID = uuid_str U jti, cc_UserID = uuid_str U (c_UserID claims),
      cc_Email = c_Email claims, cc_OrganizationID = uuid_str U (c_OrganizationID claims),
      cc_Roles = c_Roles claims, cc_Permissions = c_Permissions claims\<rparr>"

definition GenerateToken ::
  "uuid_api \<Rightarrow> jwt_api \<Rightarrow> JWTService \<Rightarrow> TokenClaims \<Rightarrow> (goerr + string) eff" where
  "GenerateToken U J s claims = do {
     now \<leftarrow> time_Now;
     jti \<leftarrow> uuid_New;
     case jwt_sign J (js_secret s) (make_claims U s now jti claims) of
       None \<Rightarrow> fail (Wrapped ''sign token'' (Plain ''jwt''))
     | Some tok \<Rightarrow> ok tok
   }"

definition keyfunc :: "JWTService \<Rightarrow> jwt_alg \<Rightarrow> string option" where
  "keyfunc s alg = (case alg of NotHMAC _ \<Rightarrow> None | _ \<Rightarrow> Some (js_secret s))"

definition Parse_or_nil :: "uuid_api \<Rightarrow> string \<Rightarrow> uuid" where
  "Parse_or_nil U s = (case uuid_parse U s of Some u \<Rightarrow> u | None \<Rightarrow> uuid_nil)"

definition ValidateToken ::
  "uuid_api \<Rightarrow> jwt_api \<Rightarrow> JWTService \<Rightarrow> string \<Rightarrow> (goerr + TokenClaims) eff" where
  "ValidateToken U J s tokenStr = do {
     now \<leftarrow> time_Now;
     case jwt_parse J (keyfunc s) now tokenStr of
       Inl e \<Rightarrow> fail (New_error ErrUnauthorized ''invalid token'' (Some e))
     | Inr (claims, valid) \<Rightarrow>
         if \<not> valid then fail (New_error ErrUnauthorized ''invalid token claims'' None)
         else ok \<lparr>c_UserID = Parse_or_nil U (cc_UserID claims), c_Email = cc_Email claims,
                  c_OrganizationID = Parse_or_nil U (cc_OrganizationID claims),
                  c_Roles = cc_Roles claims, c_Permissions = cc_Permissions claims\<rparr>
   }"

definition JWT_auth :: "uuid_api \<Rightarrow> bcrypt_api \<Rightarrow> jwt_api \<Rightarrow> JWTService \<Rightarrow> AuthService" where
  "JWT_auth U B J s =
     \<lparr>auth_HashPassword = HashPassword B, auth_VerifyPassword = VerifyPassword B,
      auth_GenerateToken = GenerateToken U J s, auth_ValidateToken = ValidateToken U J s\<rparr>"

text \<open>
  A concrete pair of packages that meet the contracts, for the witnesses: a hash is a mark and the
  password; a token is the secret and the token's identifier, of claims that are otherwise fixed.
\<close>

definition demo_bcrypt :: bcrypt_api where
  "demo_bcrypt =
     \<lparr>bcrypt_generate = (\<lambda>salt pw. if length pw > 72 then None else Some (CHR ''$'' # pw)),
      bcrypt_compare = (\<lambda>h pw. h = CHR ''$'' # pw)\<rparr>"

lemma demo_bcrypt_ok: "bcrypt_ok demo_bcrypt"
  by (auto simp: bcrypt_ok_def demo_bcrypt_def split: if_splits)

definition demo_claims :: "string \<Rightarrow> customClaims" where
  "demo_claims jti =
     \<lparr>cc_Issuer = ''masterfabric'', cc_Subject = uuid_str demo_uuid 7, cc_ExpiresAt = hour,
      cc_IssuedAt = 0, cc_ID = jti, cc_UserID = uuid_str demo_uuid 7,
      cc_Email = ''a@b'', cc_OrganizationID = uuid_str demo_uuid 0, cc_Roles = [],
      cc_Permissions = []\<rparr>"

definition demo_jwt :: jwt_api where
  "demo_jwt =
     \<lparr>jwt_sign = (\<lambda>secret c. if c = demo_claims (cc_ID c) then Some (secret @ cc_ID c) else None),
      jwt_parse = (\<lambda>kf now tok. case kf HS256 of
          Some secret \<Rightarrow> if prefix secret tok \<and> now < hour
            then Inr (demo_claims (drop (length secret) tok), True) else Inl (Plain ''invalid'')
        | None \<Rightarrow> Inl (Plain ''invalid''))\<rparr>"

lemma demo_jwt_ok: "jwt_ok demo_jwt"
proof -
  have "cc_ExpiresAt (demo_claims j) = hour" for j by (simp add: demo_claims_def)
  then show ?thesis
    unfolding jwt_ok_def demo_jwt_def
    by (auto split: if_splits) (metis customClaims.select_convs(3) demo_claims_def)+
qed

text \<open>The demonstration's clock stands still.\<close>

definition still :: environment where
  "still = calm\<lparr>env_delay := \<lambda>_. 0\<rparr>"

section \<open>The interface\<close>

text \<open>
  What the use cases rely on: hashing gives a hash that verifies, a generated token validates to
  its claims while it lives and not afterwards, and no operation touches the tables.
\<close>

definition same_tables :: "world \<Rightarrow> world \<Rightarrow> bool" where
  "same_tables w w' \<longleftrightarrow> w'\<lparr>tick := tick w, clock := clock w\<rparr> = w"

lemma same_tables_refl [simp]: "same_tables w w"
  by (simp add: same_tables_def)

lemma same_tables_tick [simp]: "same_tables w (tick_world w') \<longleftrightarrow> same_tables w w'"
  by (simp add: same_tables_def tick_world_def)

lemma same_tables_trans: "same_tables w w' \<Longrightarrow> same_tables w' w'' \<Longrightarrow> same_tables w w''"
  unfolding same_tables_def
  by (metis (no_types, lifting) world.surjective world.update_convs(2,3))

text \<open>Time passes, and the environment is the same.\<close>

definition later :: "world \<Rightarrow> world \<Rightarrow> bool" where
  "later w w' \<longleftrightarrow> environ w' = environ w \<and> tick w \<le> tick w' \<and> clock w \<le> clock w'"

lemma later_refl [simp]: "later w w"
  by (simp add: later_def)

lemma later_tick [simp]: "later w (tick_world w)"
  by (simp add: later_def)

lemma later_trans [trans]: "later w w' \<Longrightarrow> later w' w'' \<Longrightarrow> later w w''"
  by (auto simp: later_def)

lemma same_tables_field:
  "same_tables w w' \<Longrightarrow> (\<And>v n t. f (v\<lparr>tick := n, clock := t\<rparr>) = f v) \<Longrightarrow> f w' = f w"
  by (metis same_tables_def)

lemma same_tables_fields:
  assumes "same_tables w w'"
  shows "refresh_tokens w' = refresh_tokens w" "users w' = users w" "user_roles w' = user_roles w"
    "role_permissions w' = role_permissions w" "bus_ch w' = bus_ch w" "redis w' = redis w"
    "environ w' = environ w" "organizations w' = organizations w" "workspaces w' = workspaces w"
  using same_tables_field [OF assms, of refresh_tokens] same_tables_field [OF assms, of users]
    same_tables_field [OF assms, of user_roles] same_tables_field [OF assms, of role_permissions]
    same_tables_field [OF assms, of bus_ch] same_tables_field [OF assms, of redis]
    same_tables_field [OF assms, of environ] same_tables_field [OF assms, of organizations]
    same_tables_field [OF assms, of workspaces]
  by simp_all

text \<open>
  The laws of the interface that hold whatever the packages do: a check of a password or a token
  and the making of one leave the tables alone, and a token that is accepted is accepted.
\<close>

locale auth_service =
  fixes A :: AuthService
  assumes gen_frame: "run_state (auth_GenerateToken A c) w = (r, w') \<Longrightarrow> same_tables w w' \<and> later w w'"
    and val_frame: "run_state (auth_ValidateToken A s) w = (v, w') \<Longrightarrow> same_tables w w' \<and> later w w'"
    and hash_frame: "run_state (auth_HashPassword A p) w = (r, w') \<Longrightarrow> same_tables w w' \<and> later w w'"
begin

lemma gen_tokens:
  "run_state (auth_GenerateToken A c) w = (r, w') \<Longrightarrow>
   refresh_tokens w' = refresh_tokens w \<and> users w' = users w \<and> environ w' = environ w \<and>
   tick w \<le> tick w' \<and> clock w \<le> clock w'"
  using gen_frame [of c w r w'] by (simp add: same_tables_fields later_def)

lemma hash_users:
  "run_state (auth_HashPassword A p) w = (r, w') \<Longrightarrow>
   users w' = users w \<and> bus_ch w' = bus_ch w \<and> environ w' = environ w \<and> later w w'"
  using hash_frame [of p w r w'] by (simp add: same_tables_fields)

end

lemma HashPassword_frame:
  "run_state (HashPassword B p) w = (r, w') \<Longrightarrow> w' = tick_world w"
  by (auto simp: HashPassword_def split: option.splits)

lemma GenerateToken_frame:
  "run_state (GenerateToken U J s c) w = (r, w') \<Longrightarrow> w' = tick_world (tick_world w)"
  by (auto simp: GenerateToken_def split: option.splits)

lemma ValidateToken_frame:
  "run_state (ValidateToken U J s t) w = (r, w') \<Longrightarrow> w' = tick_world w"
  by (auto simp: ValidateToken_def split: sum.splits prod.splits if_splits)

lemma later_tick2 [simp]: "later w (tick_world (tick_world w))"
  by (rule later_trans [OF later_tick later_tick])

interpretation jwt: auth_service "JWT_auth U B J s" for U B J s
  by unfold_locales
    (auto simp: JWT_auth_def dest!: HashPassword_frame GenerateToken_frame ValidateToken_frame)

lemma HashPassword_verifies:
  assumes "bcrypt_ok B" "run_state (HashPassword B p) w = (Inr h, w')"
  shows "VerifyPassword B h p = None"
  using assms by (auto simp: HashPassword_def VerifyPassword_def bcrypt_ok_def split: option.splits)

text \<open>
  C33. A token made for some claims validates, under the same service, to those claims until its
  expiry and is refused with 401 from then on; its organization is the one put in, so the nil
  organization of a login comes back as the nil organization.
\<close>

theorem token_roundtrip:
  assumes "uuid_api_ok U" and "jwt_ok J"
    and clean: "ascii (c_Email c)" "\<forall>x \<in> set (c_Roles c) \<union> set (c_Permissions c). ascii x"
    and gen: "run_state (GenerateToken U J s c) w = (Inr tok, w1)"
  shows "(clock v < NumericDate (clock w + js_expiration s) \<longrightarrow>
            fst (run_state (ValidateToken U J s tok) v) = Inr c) \<and>
         (clock v \<ge> NumericDate (clock w + js_expiration s) \<longrightarrow>
            (\<exists>e. fst (run_state (ValidateToken U J s tok) v) = Inl e \<and> HTTPStatusCode e = 401))"
proof -
  define cc where "cc = make_claims U s (clock w) (env_uuid (environ w) (tick w + 1)) c"
  have sign: "jwt_sign J (js_secret s) cc = Some tok"
    using gen by (auto simp: GenerateToken_def cc_def split: option.splits)
  have parse: "if clock v < cc_ExpiresAt cc then jwt_parse J (keyfunc s) (clock v) tok = Inr (cc, True)
      else \<exists>e. jwt_parse J (keyfunc s) (clock v) tok = Inl e"
    using \<open>jwt_ok J\<close>[unfolded jwt_ok_def, rule_format, OF sign] clean
    by (auto simp: keyfunc_def cc_def make_claims_def)
  have exp: "cc_ExpiresAt cc = NumericDate (clock w + js_expiration s)"
    by (simp add: cc_def make_claims_def)
  have st: "HTTPStatusCode (New_error ErrUnauthorized m e) = 401" for m e
    by (simp add: New_error_def HTTPStatusCode_def)
  show ?thesis
    using parse \<open>uuid_api_ok U\<close> st
    by (auto simp: exp ValidateToken_def Parse_or_nil_def cc_def make_claims_def split: if_splits)
qed

definition demo_service :: JWTService where
  "demo_service = \<lparr>js_secret = ''s3cret'', js_expiration = hour, js_issuer = ''masterfabric''\<rparr>"

definition demo_login :: TokenClaims where
  "demo_login =
     \<lparr>c_UserID = 7, c_Email = ''a@b'', c_OrganizationID = uuid_nil, c_Roles = [], c_Permissions = []\<rparr>"

lemma demo_claims_made:
  "make_claims demo_uuid demo_service 0 j demo_login = demo_claims (uuid_str demo_uuid j)"
  by (simp add: make_claims_def demo_service_def demo_login_def demo_claims_def NumericDate_def
      second_def minute_def hour_def)

lemma demo_generate:
  "run_state (GenerateToken demo_uuid demo_jwt demo_service demo_login) (empty_world still)
     = (Inr (''s3cret'' @ uuid_str demo_uuid 2), tick_world (tick_world (empty_world still)))"
  by (simp add: GenerateToken_def demo_jwt_def empty_world_def still_def calm_def demo_claims_made)
    (simp add: demo_service_def demo_claims_def)

theorem token_roundtrip_witness:
  "\<exists>v. fst (run_state (ValidateToken demo_uuid demo_jwt demo_service (''s3cret'' @ uuid_str demo_uuid 2)) v) = Inr demo_login"
proof -
  have "ascii (c_Email demo_login)"
    "\<forall>x \<in> set (c_Roles demo_login) \<union> set (c_Permissions demo_login). ascii x"
    by (simp_all add: demo_login_def ascii_def)
  from token_roundtrip [OF demo_uuid_ok demo_jwt_ok this demo_generate, of "empty_world still"]
  have "fst (run_state (ValidateToken demo_uuid demo_jwt demo_service (''s3cret'' @ uuid_str demo_uuid 2))
      (empty_world still))
      = Inr demo_login"
    by (simp add: empty_world_def demo_service_def NumericDate_def second_def minute_def hour_def)
  then show ?thesis by blast
qed

end
