(* ===== verification/Http.thy ===== *)
theory Http
  imports Domain
begin

text \<open>
  The parts of a \<open>net/http\<close> request the program reads. \<open>rq_header\<close> is \<open>Header.Get\<close>: the first
  value of a header, empty where it is absent; \<open>rq_query\<close> is \<open>URL.Query().Get\<close>; \<open>rq_param\<close> is
  \<open>chi.URLParam\<close>. \<open>rq_max\<close> is the number of bytes \<open>http.MaxBytesReader\<close> still lets through.
\<close>

record request =
  rq_method :: string
  rq_path :: string
  rq_header :: "string \<Rightarrow> string"
  rq_query :: "string \<Rightarrow> string"
  rq_cookie :: "string \<Rightarrow> string option"
  rq_body :: string
  rq_RemoteAddr :: string
  rq_Host :: string
  rq_param :: "string \<Rightarrow> string"
  rq_max :: "nat option"

text \<open>A cookie a handler sets; \<open>ck_MaxAge\<close> below zero deletes it.\<close>

datatype same_site = SameSiteUnset | SameSiteStrictMode | SameSiteNoneMode

record cookie =
  ck_Name :: string
  ck_Value :: string
  ck_Path :: string
  ck_MaxAge :: int
  ck_HttpOnly :: bool
  ck_Secure :: bool
  ck_SameSite :: same_site

definition UserAgent :: "request \<Rightarrow> string" where
  "UserAgent r = rq_header r ''User-Agent''"

definition demo_request :: request where
  "demo_request =
     \<lparr>rq_method = ''POST'', rq_path = ''/api/v1/auth/refresh'', rq_header = (\<lambda>_. []),
      rq_query = (\<lambda>_. []), rq_cookie = (\<lambda>_. None), rq_body = [],
      rq_RemoteAddr = ''10.0.0.7:4711'', rq_Host = ''api.example.com'', rq_param = (\<lambda>_. []), rq_max = None\<rparr>"

text \<open>
  \<open>extractIP\<close> of \<open>refresh_token_usecase.go\<close>: the first address of X-Forwarded-For, X-Real-IP, or
  the address of the connection without its port and without the brackets of IPv6.
\<close>

definition extractIP :: "request \<Rightarrow> string" where
  "extractIP r =
     (let xff = rq_header r ''X-Forwarded-For''; xri = rq_header r ''X-Real-IP''
      in if xff \<noteq> [] then (case before_first (CHR '','') xff of Some a \<Rightarrow> TrimSpace a | None \<Rightarrow> xff)
         else if xri \<noteq> [] then xri
         else case before_last (CHR '':'') (rq_RemoteAddr r) of
             Some ip \<Rightarrow> TrimSuffix (TrimPrefix ip ''['') '']''
           | None \<Rightarrow> rq_RemoteAddr r)"

section \<open>The context of a request\<close>

text \<open>
  The values a request's context carries: what the JWT middleware puts there, what the tenant
  resolver adds (\<open>internal/shared/middleware\<close>), and what the gateway sets for its interceptors
  (\<open>internal/shared/context/keys.go\<close>). A key that is not set is \<open>None\<close>.
\<close>

record rctx =
  cx_UserID :: "uuid option"
  cx_Email :: "string option"
  cx_OrganizationID :: "uuid option"
  cx_Permissions :: "string list"
  cx_TenantID :: "uuid option"
  cx_WorkspaceID :: "uuid option"
  cx_RequestID :: string
  gw_EndpointSchema :: "string option"
  gw_PIIMasking :: "bool option"
  gw_EndpointID :: "string option"
  gw_AppID :: "string option"
  gw_OrgID :: "string option"
  gw_UserID :: "string option"

definition background :: rctx where
  "background =
     \<lparr>cx_UserID = None, cx_Email = None, cx_OrganizationID = None, cx_Permissions = [],
      cx_TenantID = None, cx_WorkspaceID = None, cx_RequestID = [], gw_EndpointSchema = None,
      gw_PIIMasking = None, gw_EndpointID = None, gw_AppID = None, gw_OrgID = None, gw_UserID = None\<rparr>"

definition UserIDFromContext :: "rctx \<Rightarrow> uuid option" where
  "UserIDFromContext c = cx_UserID c"

definition OrgIDFromContext :: "rctx \<Rightarrow> uuid option" where
  "OrgIDFromContext c = cx_OrganizationID c"

definition TenantIDFromContext :: "rctx \<Rightarrow> uuid option" where
  "TenantIDFromContext c =
     (case cx_TenantID c of Some u \<Rightarrow> if u = uuid_nil then None else Some u | None \<Rightarrow> None)"

definition WorkspaceIDFromContext :: "rctx \<Rightarrow> uuid option" where
  "WorkspaceIDFromContext c =
     (case cx_WorkspaceID c of Some u \<Rightarrow> if u = uuid_nil then None else Some u | None \<Rightarrow> None)"

text \<open>The value of a \<open>(uuid.UUID, bool)\<close> pair whose flag is ignored.\<close>

definition or_nil :: "uuid option \<Rightarrow> uuid" where
  "or_nil u = (case u of Some x \<Rightarrow> x | None \<Rightarrow> uuid_nil)"

end
