(* ===== verification/Iam.thy ===== *)
theory Iam
  imports Iam_Repo Auth_Service Http
begin

text \<open>
  The IAM use cases (\<open>internal/application/iam/usecase\<close>) over the interfaces they are given:
  registration, login, role assignment, and the rotation of refresh tokens.
\<close>

section \<open>The repositories as the use cases see them\<close>

record UserRepository =
  us_Create :: "User \<Rightarrow> (goerr + User) eff"
  us_GetByID :: "uuid \<Rightarrow> (goerr + User) eff"
  us_GetByEmail :: "string \<Rightarrow> (goerr + User) eff"
  us_Update :: "User \<Rightarrow> (goerr + User) eff"
  us_Delete :: "uuid \<Rightarrow> (goerr + unit) eff"
  us_List :: "int \<Rightarrow> int \<Rightarrow> (goerr + User list \<times> int) eff"

definition UserRepo :: UserRepository where
  "UserRepo =
     \<lparr>us_Create = UserRepo_Create, us_GetByID = UserRepo_GetByID,
      us_GetByEmail = UserRepo_GetByEmail, us_Update = UserRepo_Update,
      us_Delete = UserRepo_Delete, us_List = UserRepo_List\<rparr>"

record RefreshTokenRepository =
  rt_Create :: "RefreshToken \<Rightarrow> (goerr + RefreshToken) eff"
  rt_GetByTokenHash :: "string \<Rightarrow> (goerr + RefreshToken) eff"
  rt_Revoke :: "uuid \<Rightarrow> (goerr + unit) eff"
  rt_RevokeAllByUserID :: "uuid \<Rightarrow> (goerr + unit) eff"
  rt_RevokeFamily :: "uuid \<Rightarrow> (goerr + unit) eff"
  rt_ListActiveByUserID :: "uuid \<Rightarrow> (goerr + RefreshToken list) eff"
  rt_DeleteExpired :: "(goerr + int) eff"

definition RefreshTokenRepo :: RefreshTokenRepository where
  "RefreshTokenRepo =
     \<lparr>rt_Create = RefreshTokenRepo_Create, rt_GetByTokenHash = RefreshTokenRepo_GetByTokenHash,
      rt_Revoke = RefreshTokenRepo_Revoke, rt_RevokeAllByUserID = RefreshTokenRepo_RevokeAllByUserID,
      rt_RevokeFamily = RefreshTokenRepo_RevokeFamily,
      rt_ListActiveByUserID = RefreshTokenRepo_ListActiveByUserID,
      rt_DeleteExpired = RefreshTokenRepo_DeleteExpired\<rparr>"

section \<open>Registration and login\<close>

record RegisterRequest =
  rg_Email :: string
  rg_Password :: string
  rg_FirstName :: string
  rg_LastName :: string

record LoginRequest =
  lg_Email :: string
  lg_Password :: string

record UserInfo =
  ui_ID :: uuid
  ui_Email :: string
  ui_FirstName :: string
  ui_LastName :: string
  ui_Status :: string
  ui_CreatedAt :: time

record LoginResponse =
  lr_Token :: string
  lr_User :: UserInfo

definition user_info :: "User \<Rightarrow> UserInfo" where
  "user_info u =
     \<lparr>ui_ID = u_ID u, ui_Email = u_Email u, ui_FirstName = u_FirstName u,
      ui_LastName = u_LastName u, ui_Status = u_Status u, ui_CreatedAt = u_CreatedAt u\<rparr>"

text \<open>\<open>RegisterUseCase.Execute\<close>. An error of the look-up of the address is ignored.\<close>

definition Register ::
  "UserRepository \<Rightarrow> AuthService \<Rightarrow> RegisterRequest \<Rightarrow> (goerr + UserInfo) eff" where
  "Register userRepo auth req = do {
     existing \<leftarrow> us_GetByEmail userRepo (rg_Email req);
     case existing of
       Inr _ \<Rightarrow> fail (New_error ErrAlreadyExists ''user with this email already exists'' None)
     | Inl _ \<Rightarrow>
         try_or (\<lambda>e. New_error ErrInternal ''failed to hash password'' (Some e))
           (auth_HashPassword auth (rg_Password req)) (\<lambda>h.
         try_do (us_Create userRepo
           \<lparr>u_ID = uuid_nil, u_Email = rg_Email req, u_PasswordHash = h,
            u_FirstName = rg_FirstName req, u_LastName = rg_LastName req,
            u_Status = UserStatusActive, u_CreatedAt = 0, u_UpdatedAt = 0\<rparr>) (\<lambda>user. do {
         now \<leftarrow> time_Now;
         Publish TopicIAM (UserRegistered (u_ID user) (u_Email user) now);
         ok (user_info user)
       }))
   }"

text \<open>\<open>LoginUseCase.Execute\<close>.\<close>

definition Login ::
  "UserRepository \<Rightarrow> AuthService \<Rightarrow> LoginRequest \<Rightarrow> (goerr + LoginResponse) eff" where
  "Login userRepo auth req =
     try_or (\<lambda>_. New_error ErrUnauthorized ''invalid credentials'' None)
       (us_GetByEmail userRepo (lg_Email req)) (\<lambda>user.
     if \<not> User_IsActive user then fail (New_error ErrForbidden ''account is not active'' None)
     else case auth_VerifyPassword auth (u_PasswordHash user) (lg_Password req) of
         Some e \<Rightarrow> fail e
       | None \<Rightarrow>
           try_or (\<lambda>e. New_error ErrInternal ''failed to generate token'' (Some e))
             (auth_GenerateToken auth
               \<lparr>c_UserID = u_ID user, c_Email = u_Email user, c_OrganizationID = uuid_nil,
                c_Roles = [], c_Permissions = []\<rparr>) (\<lambda>tok.
           ok \<lparr>lr_Token = tok, lr_User = user_info user\<rparr>))"

section \<open>Refresh tokens\<close>

record RefreshTokenUseCase =
  uc_refreshTokenRepo :: RefreshTokenRepository
  uc_userRepo :: UserRepository
  uc_auth :: AuthService
  uc_Duration :: time
  uc_AccessTokenTTL :: int

record RefreshResponse =
  rr_AccessToken :: string
  rr_RefreshToken :: string
  rr_TokenType :: string
  rr_ExpiresIn :: int

record SessionInfo =
  si_ID :: uuid
  si_CreatedAt :: time
  si_IPAddress :: string
  si_UserAgent :: string

definition generateOpaqueToken :: "nat \<Rightarrow> (goerr + string) eff" where
  "generateOpaqueToken numBytes = do {
     b \<leftarrow> rand_Read numBytes;
     case b of None \<Rightarrow> fail (Wrapped ''rand read'' (Plain ''rand'')) | Some b \<Rightarrow> ok (RawURLEncoding b)
   }"

definition hashToken :: "string \<Rightarrow> string" where
  "hashToken t = hex_bytes (Sum256 t)"

text \<open>A token as the use case fills it in; the repository sets its ID and creation time.\<close>

definition new_refresh_token ::
  "RefreshTokenUseCase \<Rightarrow> uuid \<Rightarrow> uuid \<Rightarrow> string \<Rightarrow> time \<Rightarrow> request \<Rightarrow> RefreshToken" where
  "new_refresh_token uc uid fid raw now r =
     \<lparr>t_ID = uuid_nil, t_UserID = uid, t_TokenHash = hashToken raw, t_FamilyID = fid,
      t_ExpiresAt = now + uc_Duration uc, t_RevokedAt = None, t_CreatedAt = 0,
      t_IPAddress = extractIP r, t_UserAgent = UserAgent r\<rparr>"

definition GenerateRefreshToken ::
  "RefreshTokenUseCase \<Rightarrow> uuid \<Rightarrow> request \<Rightarrow> (goerr + string \<times> RefreshToken) eff" where
  "GenerateRefreshToken uc uid r =
     try_or (\<lambda>e. New_error ErrInternal ''failed to generate refresh token'' (Some e))
       (generateOpaqueToken 32) (\<lambda>rawToken. do {
     fid \<leftarrow> uuid_New;
     now \<leftarrow> time_Now;
     try_do (rt_Create (uc_refreshTokenRepo uc) (new_refresh_token uc uid fid rawToken now r))
       (\<lambda>t. ok (rawToken, t))
   })"

text \<open>
  \<open>Rotate\<close>, in the three stages between which another request can run: the look-up and the
  checks, the revocation of the token, and the issue of the next pair.
\<close>

definition Rotate_load :: "RefreshTokenUseCase \<Rightarrow> string \<Rightarrow> (goerr + RefreshToken) eff" where
  "Rotate_load uc rawToken =
     try_or (\<lambda>_. New_error ErrUnauthorized ''invalid refresh token'' None)
       (rt_GetByTokenHash (uc_refreshTokenRepo uc) (hashToken rawToken)) (\<lambda>stored.
     if IsRevoked stored
     then do {
       rt_RevokeFamily (uc_refreshTokenRepo uc) (t_FamilyID stored);
       fail (New_error ErrUnauthorized ''refresh token has been revoked'' None)
     }
     else do {
       now \<leftarrow> time_Now;
       if IsExpired now stored
       then fail (New_error ErrUnauthorized ''refresh token has expired'' None)
       else ok stored
     })"

definition Rotate_issue ::
  "RefreshTokenUseCase \<Rightarrow> RefreshToken \<Rightarrow> request \<Rightarrow> (goerr + RefreshResponse) eff" where
  "Rotate_issue uc stored r =
     try_or (\<lambda>_. New_error ErrUnauthorized ''user not found'' None)
       (us_GetByID (uc_userRepo uc) (t_UserID stored)) (\<lambda>user.
     try_or (\<lambda>e. New_error ErrInternal ''failed to generate access token'' (Some e))
       (auth_GenerateToken (uc_auth uc)
         \<lparr>c_UserID = u_ID user, c_Email = u_Email user, c_OrganizationID = uuid_nil,
          c_Roles = [], c_Permissions = []\<rparr>) (\<lambda>accessToken.
     try_or (\<lambda>e. New_error ErrInternal ''failed to generate refresh token'' (Some e))
       (generateOpaqueToken 32) (\<lambda>newRawToken. do {
     now \<leftarrow> time_Now;
     try_do (rt_Create (uc_refreshTokenRepo uc)
         (new_refresh_token uc (t_UserID stored) (t_FamilyID stored) newRawToken now r)) (\<lambda>_.
     ok \<lparr>rr_AccessToken = accessToken, rr_RefreshToken = newRawToken, rr_TokenType = ''Bearer'',
         rr_ExpiresIn = wrap64 (uc_AccessTokenTTL uc * 60)\<rparr>)
   })))"

definition Rotate ::
  "RefreshTokenUseCase \<Rightarrow> string \<Rightarrow> request \<Rightarrow> (goerr + RefreshResponse) eff" where
  "Rotate uc rawToken r =
     try_do (Rotate_load uc rawToken) (\<lambda>stored.
     try_do (rt_Revoke (uc_refreshTokenRepo uc) (t_ID stored)) (\<lambda>_.
     Rotate_issue uc stored r))"

text \<open>\<open>Logout\<close> reports success whenever the look-up fails.\<close>

definition Logout :: "RefreshTokenUseCase \<Rightarrow> string \<Rightarrow> (goerr + unit) eff" where
  "Logout uc rawToken = do {
     stored \<leftarrow> rt_GetByTokenHash (uc_refreshTokenRepo uc) (hashToken rawToken);
     case stored of Inl _ \<Rightarrow> ok () | Inr t \<Rightarrow> rt_Revoke (uc_refreshTokenRepo uc) (t_ID t)
   }"

definition LogoutAll :: "RefreshTokenUseCase \<Rightarrow> uuid \<Rightarrow> (goerr + unit) eff" where
  "LogoutAll uc uid = rt_RevokeAllByUserID (uc_refreshTokenRepo uc) uid"

definition ListSessions :: "RefreshTokenUseCase \<Rightarrow> uuid \<Rightarrow> (goerr + SessionInfo list) eff" where
  "ListSessions uc uid =
     try_do (rt_ListActiveByUserID (uc_refreshTokenRepo uc) uid) (\<lambda>tokens.
     ok (map (\<lambda>t. \<lparr>si_ID = t_ID t, si_CreatedAt = t_CreatedAt t, si_IPAddress = t_IPAddress t,
                   si_UserAgent = t_UserAgent t\<rparr>) tokens))"

end
