(* ===== verification/Sessions.thy ===== *)
theory Sessions
  imports Iam
begin

text \<open>
  The correctness of the refresh-token use case: an abstract session store, the contract of the
  repository as a locale with its PostgreSQL implementation as the interpretation, and the proof
  that every operation of the use case refines the abstract store, under any faults.
\<close>

section \<open>The abstract store\<close>

text \<open>
  Tokens are revoked, and one is added only to a family without an active token, under
  an identifier and a hash that are not in use.
\<close>

inductive tok_step :: "RefreshToken list \<Rightarrow> RefreshToken list \<Rightarrow> bool" where
  tok_revoke: "tok_step ts (revoke_where P now ts)"
| tok_add: "t_RevokedAt t = None \<Longrightarrow> t_ID t \<notin> t_ID ` set ts \<Longrightarrow> t_TokenHash t \<notin> t_TokenHash ` set ts \<Longrightarrow>
    \<forall>x \<in> set ts. t_FamilyID x = t_FamilyID t \<longrightarrow> IsRevoked x \<Longrightarrow> tok_step ts (ts @ [t])"

definition one_active :: "RefreshToken list \<Rightarrow> bool" where
  "one_active ts \<longleftrightarrow>
     (\<forall>a \<in> set ts. \<forall>b \<in> set ts.
        t_FamilyID a = t_FamilyID b \<longrightarrow> \<not> IsRevoked a \<longrightarrow> \<not> IsRevoked b \<longrightarrow> a = b)"

definition token_inv :: "RefreshToken list \<Rightarrow> bool" where
  "token_inv ts \<longleftrightarrow> distinct (map t_ID ts) \<and> distinct (map t_TokenHash ts) \<and> one_active ts"

lemma token_inv_ids: "token_inv ts \<Longrightarrow> a \<in> set ts \<Longrightarrow> b \<in> set ts \<Longrightarrow> t_ID a = t_ID b \<Longrightarrow> a = b"
  by (auto simp: token_inv_def distinct_map dest: inj_onD)

lemma token_inv_hashes:
  "token_inv ts \<Longrightarrow> a \<in> set ts \<Longrightarrow> b \<in> set ts \<Longrightarrow> t_TokenHash a = t_TokenHash b \<Longrightarrow> a = b"
  by (auto simp: token_inv_def distinct_map dest: inj_onD)

lemma revoke_where_keys [simp]:
  "map t_ID (revoke_where P now ts) = map t_ID ts"
  "map t_TokenHash (revoke_where P now ts) = map t_TokenHash ts"
  "map t_FamilyID (revoke_where P now ts) = map t_FamilyID ts"
  by (simp_all add: revoke_where_def)

lemma revoke_where_set:
  "y \<in> set (revoke_where P now ts) \<Longrightarrow>
   \<exists>x \<in> set ts. y = (if P x \<and> t_RevokedAt x = None then x\<lparr>t_RevokedAt := Some now\<rparr> else x)"
  unfolding revoke_where_def by (simp only: set_map image_iff)

lemma revoke_where_active:
  assumes "y \<in> set (revoke_where P now ts)" "\<not> IsRevoked y"
  shows "y \<in> set ts \<and> \<not> P y"
proof -
  from revoke_where_set [OF assms(1)] obtain x where x: "x \<in> set ts"
    "y = (if P x \<and> t_RevokedAt x = None then x\<lparr>t_RevokedAt := Some now\<rparr> else x)" by blast
  with assms(2) have n: "\<not> (P x \<and> t_RevokedAt x = None)"
    by (auto simp: IsRevoked_def split: if_split_asm)
  have "y = x" unfolding x(2) by (rule if_not_P [OF n])
  with x(1) n assms(2) show ?thesis by (auto simp: IsRevoked_def)
qed

lemma revoke_where_revoked:
  "x \<in> set ts \<Longrightarrow> IsRevoked x \<Longrightarrow> x \<in> set (revoke_where P now ts)"
  by (force simp: revoke_where_def IsRevoked_def image_iff)

lemma tok_step_inv:
  assumes "tok_step ts ts'" "token_inv ts"
  shows "token_inv ts'"
  using assms
proof cases
  case (tok_revoke P now)
  then show ?thesis
    using assms(2) by (auto simp: token_inv_def one_active_def dest: revoke_where_active)
next
  case (tok_add t)
  then show ?thesis
    using assms(2) by (auto simp: token_inv_def one_active_def)
qed

lemma tok_steps_inv: "tok_step\<^sup>*\<^sup>* ts ts' \<Longrightarrow> token_inv ts \<Longrightarrow> token_inv ts'"
  by (induction rule: rtranclp_induct) (auto intro: tok_step_inv)

text \<open>A revoked token stays in the store as it is.\<close>

lemma tok_step_revoked: "tok_step ts ts' \<Longrightarrow> t \<in> set ts \<Longrightarrow> IsRevoked t \<Longrightarrow> t \<in> set ts'"
  by (induction rule: tok_step.induct) (auto intro: revoke_where_revoked)

lemma tok_steps_revoked: "tok_step\<^sup>*\<^sup>* ts ts' \<Longrightarrow> t \<in> set ts \<Longrightarrow> IsRevoked t \<Longrightarrow> t \<in> set ts'"
  by (induction rule: rtranclp_induct) (auto intro: tok_step_revoked)

lemma token_inv_filter: "token_inv ts \<Longrightarrow> token_inv (filter P ts)"
  by (auto simp: token_inv_def one_active_def distinct_map_filter)

lemma revoked_family:
  assumes "token_inv ts" "s \<in> set ts" "\<not> IsRevoked s"
  shows "\<forall>x \<in> set (revoke_where (\<lambda>t. t_ID t = t_ID s) now ts).
           t_FamilyID x = t_FamilyID s \<longrightarrow> IsRevoked x"
proof (intro ballI impI)
  fix x
  assume x: "x \<in> set (revoke_where (\<lambda>t. t_ID t = t_ID s) now ts)" and fam: "t_FamilyID x = t_FamilyID s"
  show "IsRevoked x"
  proof (rule ccontr)
    assume "\<not> IsRevoked x"
    with revoke_where_active [OF x] have "x \<in> set ts" "t_ID x \<noteq> t_ID s" by auto
    with assms fam \<open>\<not> IsRevoked x\<close> show False by (auto simp: token_inv_def one_active_def)
  qed
qed

definition families :: "RefreshToken list \<Rightarrow> uuid set" where
  "families ts = t_FamilyID ` set ts"

lemma families_simps [simp]:
  "families (revoke_where P now ts) = families ts"
  "families (ts @ [t]) = insert (t_FamilyID t) (families ts)"
  by (simp_all add: families_def flip: set_map)

section \<open>The contract of the repository\<close>

definition revokes :: "(RefreshToken \<Rightarrow> bool) \<Rightarrow> world \<Rightarrow> (goerr + unit) \<Rightarrow> world \<Rightarrow> bool" where
  "revokes P w r w' \<longleftrightarrow>
     later w w' \<and> users w' = users w \<and>
     ((\<exists>now. refresh_tokens w' = revoke_where P now (refresh_tokens w)) \<or>
      (r \<noteq> Inr () \<and> refresh_tokens w' = refresh_tokens w))"

definition reads_tokens :: "world \<Rightarrow> world \<Rightarrow> bool" where
  "reads_tokens w w' \<longleftrightarrow>
     later w w' \<and> users w' = users w \<and> refresh_tokens w' = refresh_tokens w"

text \<open>What a stored token has of the one given to \<open>Create\<close>, and that its keys were free.\<close>

definition stored_as :: "RefreshToken list \<Rightarrow> RefreshToken \<Rightarrow> RefreshToken \<Rightarrow> bool" where
  "stored_as ts t t' \<longleftrightarrow>
     t_RevokedAt t' = None \<and> t_UserID t' = t_UserID t \<and> t_TokenHash t' = t_TokenHash t \<and>
     t_FamilyID t' = t_FamilyID t \<and> t_ExpiresAt t' = t_ExpiresAt t \<and>
     t_IPAddress t' = t_IPAddress t \<and> t_UserAgent t' = t_UserAgent t \<and>
     t_ID t' \<notin> t_ID ` set ts \<and> t_TokenHash t' \<notin> t_TokenHash ` set ts"

locale refresh_token_store =
  fixes R :: RefreshTokenRepository
  assumes get_law: "run_state (rt_GetByTokenHash R h) w = (r, w') \<Longrightarrow>
      reads_tokens w w' \<and> (\<forall>t. r = Inr t \<longrightarrow> t \<in> set (refresh_tokens w) \<and> t_TokenHash t = h)"
    and list_law: "run_state (rt_ListActiveByUserID R u) w = (l, w') \<Longrightarrow> reads_tokens w w'"
    and revoke_law: "run_state (rt_Revoke R i) w = (x, w') \<Longrightarrow> revokes (\<lambda>t. t_ID t = i) w x w'"
    and family_law: "run_state (rt_RevokeFamily R f) w = (x, w') \<Longrightarrow> revokes (\<lambda>t. t_FamilyID t = f) w x w'"
    and all_law: "run_state (rt_RevokeAllByUserID R u) w = (x, w') \<Longrightarrow> revokes (\<lambda>t. t_UserID t = u) w x w'"
    and create_law: "run_state (rt_Create R t) w = (r, w') \<Longrightarrow>
      later w w' \<and> users w' = users w \<and>
      ((\<exists>t'. refresh_tokens w' = refresh_tokens w @ [t'] \<and> stored_as (refresh_tokens w) t t') \<or>
       ((\<exists>e. r = Inl e) \<and> refresh_tokens w' = refresh_tokens w))"
begin

lemma revokes_step: "revokes P w x w' \<Longrightarrow> tok_step\<^sup>*\<^sup>* (refresh_tokens w) (refresh_tokens w')"
  unfolding revokes_def by (metis r_into_rtranclp rtranclp.rtrancl_refl tok_revoke)

lemma revokes_families: "revokes P w x w' \<Longrightarrow> families (refresh_tokens w') = families (refresh_tokens w)"
  by (auto simp: revokes_def)

lemma create_step:
  assumes "run_state (rt_Create R t) w = (r, w')"
    and "\<forall>x \<in> set (refresh_tokens w). t_FamilyID x = t_FamilyID t \<longrightarrow> IsRevoked x"
  shows "tok_step\<^sup>*\<^sup>* (refresh_tokens w) (refresh_tokens w')"
proof -
  have "tok_step (refresh_tokens w) (refresh_tokens w @ [t'])"
    if "stored_as (refresh_tokens w) t t'" for t'
    using that assms(2) unfolding stored_as_def by (intro tok_add) force+
  with create_law [OF assms(1)] show ?thesis by (metis r_into_rtranclp rtranclp.rtrancl_refl)
qed

end

lemma later_clock: "later w w' \<Longrightarrow> clock w \<le> clock w'"
  by (simp add: later_def)

lemma run_generateOpaqueToken:
  "run_state (generateOpaqueToken n) w =
     (case random_bytes w n of None \<Rightarrow> Inl (Wrapped ''rand read'' (Plain ''rand''))
      | Some b \<Rightarrow> Inr (RawURLEncoding b), tick_world w)"
  by (simp add: generateOpaqueToken_def split: option.splits)

section \<open>The operations\<close>

text \<open>A request to the use case, and the store after it.\<close>

datatype session_op =
    Op_Generate uuid request
  | Op_Rotate string request
  | Op_Logout string
  | Op_LogoutAll uuid
  | Op_ListSessions uuid

fun run_session_op :: "RefreshTokenUseCase \<Rightarrow> session_op \<Rightarrow> world \<Rightarrow> world" where
  "run_session_op uc (Op_Generate u req) w = snd (run_state (GenerateRefreshToken uc u req) w)"
| "run_session_op uc (Op_Rotate raw req) w = snd (run_state (Rotate uc raw req) w)"
| "run_session_op uc (Op_Logout raw) w = snd (run_state (Logout uc raw) w)"
| "run_session_op uc (Op_LogoutAll u) w = snd (run_state (LogoutAll uc u) w)"
| "run_session_op uc (Op_ListSessions u) w = snd (run_state (ListSessions uc u) w)"

definition run_session_ops :: "RefreshTokenUseCase \<Rightarrow> session_op list \<Rightarrow> world \<Rightarrow> world" where
  "run_session_ops uc ops w = fold (run_session_op uc) ops w"

text \<open>
  \<open>uuid.New\<close> does not draw an identifier twice within \<open>tick_limit\<close> effects, and the families in the
  store were drawn before.
\<close>

definition tick_limit :: nat where "tick_limit = 2 ^ 64"

definition session_inv :: "world \<Rightarrow> bool" where
  "session_inv w \<longleftrightarrow>
     token_inv (refresh_tokens w) \<and> inj_on (env_uuid (environ w)) {..<tick_limit} \<and>
     (\<forall>f \<in> families (refresh_tokens w). \<exists>n < tick w. f = env_uuid (environ w) n)"

lemma session_inv_step:
  assumes "session_inv w" "later w w'" "tok_step\<^sup>*\<^sup>* (refresh_tokens w) (refresh_tokens w')"
    and "\<forall>f \<in> families (refresh_tokens w') - families (refresh_tokens w).
           \<exists>n < tick w'. f = env_uuid (environ w) n"
  shows "session_inv w'"
  unfolding session_inv_def
proof (intro conjI ballI)
  show "token_inv (refresh_tokens w')" using assms tok_steps_inv by (simp add: session_inv_def)
  show "inj_on (env_uuid (environ w')) {..<tick_limit}" using assms by (simp add: session_inv_def later_def)
  fix f
  assume "f \<in> families (refresh_tokens w')"
  then have "(\<exists>n < tick w. f = env_uuid (environ w) n) \<or> (\<exists>n < tick w'. f = env_uuid (environ w) n)"
    using assms(1,4) unfolding session_inv_def by blast
  moreover have "tick w \<le> tick w'" "environ w' = environ w" using assms(2) by (simp_all add: later_def)
  ultimately show "\<exists>n < tick w'. f = env_uuid (environ w') n" by (metis less_le_trans)
qed

locale sessions =
  store: refresh_token_store "uc_refreshTokenRepo uc" + auth: auth_service "uc_auth uc"
  for uc :: RefreshTokenUseCase +
  assumes user_law: "run_state (us_GetByID (uc_userRepo uc) i) w = (u, w') \<Longrightarrow>
      reads_tokens w w' \<and> (\<forall>x. u = Inr x \<longrightarrow> x \<in> set (users w) \<and> u_ID x = i)"
begin

lemma load_spec:
  assumes "run_state (Rotate_load uc raw) w = (r, w')"
  shows "later w w' \<and> users w' = users w \<and>
    tok_step\<^sup>*\<^sup>* (refresh_tokens w) (refresh_tokens w') \<and>
    families (refresh_tokens w') = families (refresh_tokens w) \<and>
    (\<forall>s. r = Inr s \<longrightarrow> refresh_tokens w' = refresh_tokens w \<and> s \<in> set (refresh_tokens w) \<and>
       t_TokenHash s = hashToken raw \<and> \<not> IsRevoked s \<and> clock w \<le> t_ExpiresAt s)"
proof -
  obtain g w1 where g: "run_state (rt_GetByTokenHash (uc_refreshTokenRepo uc) (hashToken raw)) w = (g, w1)"
    by fastforce
  note get = store.get_law [OF g]
  show ?thesis
  proof (cases g)
    case (Inl e)
    then show ?thesis using assms get by (auto simp: Rotate_load_def g reads_tokens_def)
  next
    case s: (Inr s)
    show ?thesis
    proof (cases "IsRevoked s")
      case True
      obtain x w2 where x: "run_state (rt_RevokeFamily (uc_refreshTokenRepo uc) (t_FamilyID s)) w1 = (x, w2)"
        by fastforce
      have "w' = w2" "\<exists>e. r = Inl e" using assms True by (auto simp: Rotate_load_def g s x)
      then show ?thesis
        using store.family_law [OF x] store.revokes_step [OF store.family_law [OF x]] get
          store.revokes_families [OF store.family_law [OF x]]
        by (auto simp: revokes_def reads_tokens_def dest: later_trans)
    next
      case False
      then have "w' = tick_world w1" "\<forall>s'. r = Inr s' \<longrightarrow> s' = s \<and> \<not> IsExpired (clock w1) s"
        using assms by (auto simp: Rotate_load_def g s split: if_splits)
      then show ?thesis
        using get False s later_trans [OF _ later_tick, of w w1]
        by (auto simp: reads_tokens_def IsExpired_def dest: later_clock)
    qed
  qed
qed

lemma issue_spec:
  assumes run: "run_state (Rotate_issue uc s req) w = (r, w')"
  shows "later w w' \<and> users w' = users w \<and>
    (refresh_tokens w' = refresh_tokens w \<and> (\<exists>e. r = Inl e) \<or>
     (\<exists>raw now t'. refresh_tokens w' = refresh_tokens w @ [t'] \<and> clock w \<le> now \<and>
        stored_as (refresh_tokens w)
          (new_refresh_token uc (t_UserID s) (t_FamilyID s) raw now req) t' \<and>
        (\<forall>rr. r = Inr rr \<longrightarrow> rr_RefreshToken rr = raw)))"
proof -
  obtain u w1 where u: "run_state (us_GetByID (uc_userRepo uc) (t_UserID s)) w = (u, w1)" by fastforce
  note ul = user_law [OF u, unfolded reads_tokens_def]
  show ?thesis
  proof (cases u)
    case (Inl e)
    then show ?thesis using run ul by (auto simp: Rotate_issue_def u)
  next
    case x: (Inr x)
    obtain a w2 where a: "run_state (auth_GenerateToken (uc_auth uc)
         \<lparr>c_UserID = u_ID x, c_Email = u_Email x, c_OrganizationID = uuid_nil,
          c_Roles = [], c_Permissions = []\<rparr>) w1 = (a, w2)" by fastforce
    note al = auth.gen_tokens [OF a] and al' = auth.gen_frame [OF a]
    have later2: "later w w2" using ul al' by (blast intro: later_trans)
    show ?thesis
    proof (cases "a")
      case (Inl e)
      then have "w' = w2 \<and> (\<exists>e. r = Inl e)" using run by (auto simp: Rotate_issue_def u x a)
      then show ?thesis using ul al later2 by auto
    next
      case tok: (Inr tok)
      show ?thesis
      proof (cases "random_bytes w2 32")
        case None
        then have "w' = tick_world w2 \<and> (\<exists>e. r = Inl e)"
          using run by (auto simp: Rotate_issue_def u x a tok run_generateOpaqueToken)
        then show ?thesis using ul al later_trans [OF later2 later_tick] by auto
      next
        case (Some b)
        let ?w3 = "tick_world (tick_world w2)" and ?raw = "RawURLEncoding b"
        have later3: "later w ?w3" by (blast intro: later_trans later2 later_tick)
        let ?t = "new_refresh_token uc (t_UserID s) (t_FamilyID s) ?raw (clock (tick_world w2)) req"
        obtain c w4 where c: "run_state (rt_Create (uc_refreshTokenRepo uc) ?t) ?w3 = (c, w4)"
          by fastforce
        have r: "w' = w4 \<and> (\<forall>e. c = Inl e \<longrightarrow> r = Inl e) \<and> (\<forall>rr. r = Inr rr \<longrightarrow> rr_RefreshToken rr = ?raw)"
          using run c by (auto simp: Rotate_issue_def u x a tok run_generateOpaqueToken Some split: sum.splits)
        have ck: "clock w \<le> clock (tick_world w2)"
          using later_clock [OF later_trans [OF later2 later_tick]] .
        have same: "refresh_tokens ?w3 = refresh_tokens w" "users ?w3 = users w" using ul al by simp_all
        from store.create_law [OF c, unfolded same] r have "later w w'" "users w' = users w"
          using later_trans [OF later3] by auto
        with store.create_law [OF c, unfolded same] r ck show ?thesis by blast
      qed
    qed
  qed
qed

text \<open>A request for a new pair never leaves two active tokens in a family.\<close>

lemma rotate_spec:
  assumes run: "run_state (Rotate uc raw req) w = (r, w')" and inv: "token_inv (refresh_tokens w)"
  shows "later w w' \<and> users w' = users w \<and> tok_step\<^sup>*\<^sup>* (refresh_tokens w) (refresh_tokens w') \<and>
    families (refresh_tokens w') = families (refresh_tokens w) \<and>
    (\<forall>rr. r = Inr rr \<longrightarrow>
      (\<exists>s t' now. s \<in> set (refresh_tokens w) \<and> t_TokenHash s = hashToken raw \<and> \<not> IsRevoked s \<and>
         clock w \<le> t_ExpiresAt s \<and>
         refresh_tokens w' = revoke_where (\<lambda>t. t_ID t = t_ID s) now (refresh_tokens w) @ [t'] \<and>
         \<not> IsRevoked t' \<and> t_TokenHash t' = hashToken (rr_RefreshToken rr) \<and>
         t_FamilyID t' = t_FamilyID s \<and> t_UserID t' = t_UserID s \<and>
         clock w + uc_Duration uc \<le> t_ExpiresAt t'))"
proof -
  obtain l w1 where l: "run_state (Rotate_load uc raw) w = (l, w1)" by fastforce
  note ll = load_spec [OF l]
  show ?thesis
  proof (cases l)
    case (Inl e)
    then show ?thesis using run ll by (auto simp: Rotate_def l)
  next
    case s: (Inr s)
    obtain x w2 where x: "run_state (rt_Revoke (uc_refreshTokenRepo uc) (t_ID s)) w1 = (x, w2)" by fastforce
    note xl = store.revoke_law [OF x] and xs = store.revokes_step [OF store.revoke_law [OF x]]
    have l2: "later w w2" using ll xl by (auto simp: revokes_def dest: later_trans)
    show ?thesis
    proof (cases x)
      case (Inl e)
      then show ?thesis using run ll xl xs l2 s store.revokes_families [OF xl]
        by (auto simp: Rotate_def l s x revokes_def)
    next
      case (Inr _)
      then obtain now where now: "refresh_tokens w2 = revoke_where (\<lambda>t. t_ID t = t_ID s) now (refresh_tokens w)"
        using xl ll s by (auto simp: revokes_def)
      have free: "\<forall>y \<in> set (refresh_tokens w2). t_FamilyID y = t_FamilyID s \<longrightarrow> IsRevoked y"
        unfolding now using ll s by (intro revoked_family inv) auto
      have i: "run_state (Rotate_issue uc s req) w2 = (r, w')"
        using run Inr by (simp add: Rotate_def l s x)
      note il = issue_spec [OF i]
      have l3: "later w w'" using il l2 later_trans by blast
      have u: "users w' = users w" using il ll xl by (simp add: revokes_def)
      have step: "tok_step (refresh_tokens w2) (refresh_tokens w2 @ [t'])"
        if "stored_as (refresh_tokens w2) (new_refresh_token uc (t_UserID s) (t_FamilyID s) rw nw req) t'"
        for t' rw nw
        using that free by (intro tok_add) (auto simp: stored_as_def new_refresh_token_def)
      have "tok_step\<^sup>*\<^sup>* (refresh_tokens w2) (refresh_tokens w')"
        using il step by (metis r_into_rtranclp rtranclp.rtrancl_refl)
      then have steps: "tok_step\<^sup>*\<^sup>* (refresh_tokens w) (refresh_tokens w')"
        using xs ll s by auto
      have "t_FamilyID s \<in> families (refresh_tokens w)" using ll s by (simp add: families_def)
      then have fam: "families (refresh_tokens w') = families (refresh_tokens w)"
        using il now by (auto simp: stored_as_def new_refresh_token_def)
      have "\<exists>t'. refresh_tokens w' = refresh_tokens w2 @ [t'] \<and> \<not> IsRevoked t' \<and>
          t_TokenHash t' = hashToken (rr_RefreshToken rr) \<and> t_FamilyID t' = t_FamilyID s \<and>
          t_UserID t' = t_UserID s \<and> clock w + uc_Duration uc \<le> t_ExpiresAt t'"
        if "r = Inr rr" for rr
        using il that later_clock [OF l2]
        by (auto simp: stored_as_def new_refresh_token_def IsRevoked_def)
      then show ?thesis using l3 u steps fam ll s unfolding now by blast
    qed
  qed
qed

lemma generate_later: "run_state (GenerateRefreshToken uc u req) w = (r, w') \<Longrightarrow> later w w'"
proof (cases "random_bytes w 32")
  case None
  moreover assume "run_state (GenerateRefreshToken uc u req) w = (r, w')"
  ultimately show ?thesis by (auto simp: GenerateRefreshToken_def run_generateOpaqueToken)
next
  case (Some b)
  let ?t = "new_refresh_token uc u (env_uuid (environ w) (Suc (tick w))) (RawURLEncoding b)
      (clock (tick_world (tick_world w))) req"
  obtain c w4 where c: "run_state (rt_Create (uc_refreshTokenRepo uc) ?t)
      (tick_world (tick_world (tick_world w))) = (c, w4)" by fastforce
  assume "run_state (GenerateRefreshToken uc u req) w = (r, w')"
  then have "w' = w4"
    using c by (auto simp: GenerateRefreshToken_def run_generateOpaqueToken Some split: sum.splits)
  moreover have "later w (tick_world (tick_world (tick_world w)))"
    by (intro later_trans [OF later_tick2 later_tick])
  ultimately show ?thesis using store.create_law [OF c] later_trans by blast
qed

lemma rotate_later: "run_state (Rotate uc raw req) w = (r, w') \<Longrightarrow> later w w'"
  unfolding Rotate_def
  by (auto split: prod.splits sum.splits dest!: load_spec store.revoke_law issue_spec
      simp: revokes_def dest: later_trans)

lemma generate_spec:
  assumes run: "run_state (GenerateRefreshToken uc u req) w = (r, w')"
    and fresh: "Suc (tick w) < tick w' \<Longrightarrow>
      \<forall>t \<in> set (refresh_tokens w). t_FamilyID t \<noteq> env_uuid (environ w) (Suc (tick w))"
  shows "tok_step\<^sup>*\<^sup>* (refresh_tokens w) (refresh_tokens w') \<and>
    (\<forall>t \<in> set (refresh_tokens w') - set (refresh_tokens w).
       \<exists>n < tick w'. t_FamilyID t = env_uuid (environ w) n) \<and>
    (\<forall>raw t. r = Inr (raw, t) \<longrightarrow> (\<exists>t' \<in> set (refresh_tokens w'). \<not> IsRevoked t' \<and>
       t_TokenHash t' = hashToken raw \<and> t_UserID t' = u))"
proof (cases "random_bytes w 32")
  case None
  then have "w' = tick_world w \<and> (\<exists>e. r = Inl e)"
    using run by (auto simp: GenerateRefreshToken_def run_generateOpaqueToken)
  then show ?thesis by auto
next
  case (Some b)
  define w3 where "w3 = tick_world (tick_world (tick_world w))"
  define fid where "fid = env_uuid (environ w) (Suc (tick w))"
  define t where "t = new_refresh_token uc u fid (RawURLEncoding b) (clock (tick_world (tick_world w))) req"
  obtain c w4 where c: "run_state (rt_Create (uc_refreshTokenRepo uc) t) w3 = (c, w4)" by fastforce
  have r: "w' = w4" "\<And>raw x. r = Inr (raw, x) \<Longrightarrow> raw = RawURLEncoding b \<and> c = Inr x"
    using run c unfolding t_def fid_def w3_def
    by (auto simp: GenerateRefreshToken_def run_generateOpaqueToken Some split: sum.splits)
  have w3: "later w w3" "refresh_tokens w3 = refresh_tokens w" "tick w3 = tick w + 3"
    unfolding w3_def by (auto intro: later_trans later_tick)
  note cl = store.create_law [OF c, unfolded w3(2)]
  have t: "t_FamilyID t = fid" "t_TokenHash t = hashToken (RawURLEncoding b)" "t_UserID t = u"
    by (simp_all add: t_def new_refresh_token_def)
  have "tok_step\<^sup>*\<^sup>* (refresh_tokens w3) (refresh_tokens w4)"
    by (rule store.create_step [OF c])
      (use fresh t cl r(1) in \<open>auto simp: fid_def w3(2,3) later_def\<close>)
  moreover have "\<exists>n < tick w'. fid = env_uuid (environ w) n"
    using cl w3(3) r by (intro exI [of _ "Suc (tick w)"]) (auto simp: fid_def later_def)
  ultimately show ?thesis
    using cl r w3(2) t by (auto simp: stored_as_def IsRevoked_def)
qed

lemma logout_spec:
  assumes "run_state (Logout uc raw) w = (r, w')"
  shows "later w w' \<and> tok_step\<^sup>*\<^sup>* (refresh_tokens w) (refresh_tokens w') \<and>
    families (refresh_tokens w') = families (refresh_tokens w)"
proof -
  obtain g w1 where g: "run_state (rt_GetByTokenHash (uc_refreshTokenRepo uc) (hashToken raw)) w = (g, w1)"
    by fastforce
  note get = store.get_law [OF g]
  show ?thesis
  proof (cases g)
    case (Inl e)
    then show ?thesis using assms get by (auto simp: Logout_def g reads_tokens_def)
  next
    case (Inr t)
    then have x: "run_state (rt_Revoke (uc_refreshTokenRepo uc) (t_ID t)) w1 = (r, w')"
      using assms by (simp add: Logout_def g)
    show ?thesis
      using get store.revoke_law [OF x] store.revokes_step [OF store.revoke_law [OF x]]
        store.revokes_families [OF store.revoke_law [OF x]]
      by (auto simp: reads_tokens_def revokes_def dest: later_trans)
  qed
qed

lemma logout_all_spec:
  assumes "run_state (LogoutAll uc u) w = (r, w')"
  shows "later w w' \<and> tok_step\<^sup>*\<^sup>* (refresh_tokens w) (refresh_tokens w') \<and>
    families (refresh_tokens w') = families (refresh_tokens w)"
  using store.all_law [OF assms [unfolded LogoutAll_def]]
    store.revokes_step [OF store.all_law [OF assms [unfolded LogoutAll_def]]]
    store.revokes_families [OF store.all_law [OF assms [unfolded LogoutAll_def]]]
  by (simp add: revokes_def)

lemma list_spec: "run_state (ListSessions uc u) w = (r, w') \<Longrightarrow> reads_tokens w w'"
  by (auto simp: ListSessions_def split: prod.splits sum.splits dest: store.list_law)

lemma op_later: "later w (run_session_op uc op w)"
proof -
  have s: "run_state m w = (fst (run_state m w), snd (run_state m w))" for m :: "'a eff" by simp
  show ?thesis
    by (cases op)
      (simp_all add: generate_later [OF s] rotate_later [OF s] logout_spec [OF s]
        logout_all_spec [OF s] list_spec [OF s, unfolded reads_tokens_def])
qed

lemma ops_later: "later w (run_session_ops uc ops w)"
  by (induction ops arbitrary: w)
    (auto simp: run_session_ops_def intro: later_trans op_later)

lemma op_refines:
  assumes inv: "session_inv w" and short: "tick (run_session_op uc op w) \<le> tick_limit"
  shows "tok_step\<^sup>*\<^sup>* (refresh_tokens w) (refresh_tokens (run_session_op uc op w)) \<and>
    session_inv (run_session_op uc op w)"
proof -
  have ti: "token_inv (refresh_tokens w)" using inv by (simp add: session_inv_def)
  have fresh: "\<forall>t \<in> set (refresh_tokens w). t_FamilyID t \<noteq> env_uuid (environ w) n"
    if "tick w \<le> n" "n < tick_limit" for n
  proof
    fix t
    assume "t \<in> set (refresh_tokens w)"
    then obtain m where "m < tick w" "t_FamilyID t = env_uuid (environ w) m"
      using inv unfolding session_inv_def families_def by blast
    moreover have "inj_on (env_uuid (environ w)) {..<tick_limit}"
      using inv by (simp add: session_inv_def)
    ultimately show "t_FamilyID t \<noteq> env_uuid (environ w) n"
      using that by (auto dest!: inj_onD)
  qed
  show ?thesis
  proof (cases op)
    case (Op_Generate u req)
    obtain r w' where g: "run_state (GenerateRefreshToken uc u req) w = (r, w')" by fastforce
    have l: "later w w'" by (rule generate_later [OF g])
    have "tick w' \<le> tick_limit" using short by (simp add: Op_Generate g)
    then have gs: "tok_step\<^sup>*\<^sup>* (refresh_tokens w) (refresh_tokens w')"
      "\<forall>t \<in> set (refresh_tokens w') - set (refresh_tokens w).
         \<exists>n < tick w'. t_FamilyID t = env_uuid (environ w) n"
      using generate_spec [OF g fresh] by simp_all
    have "\<forall>f \<in> families (refresh_tokens w') - families (refresh_tokens w).
        \<exists>n < tick w'. f = env_uuid (environ w) n"
      using gs(2) unfolding families_def by blast
    with gs(1) l show ?thesis
      using session_inv_step [OF inv, of w'] by (simp add: Op_Generate g)
  next
    case (Op_Rotate raw req)
    obtain r w' where g: "run_state (Rotate uc raw req) w = (r, w')" by fastforce
    from rotate_spec [OF g ti] show ?thesis
      using session_inv_step [OF inv, of w'] by (simp add: Op_Rotate g)
  next
    case (Op_Logout raw)
    obtain r w' where g: "run_state (Logout uc raw) w = (r, w')" by fastforce
    from logout_spec [OF g] show ?thesis
      using session_inv_step [OF inv, of w'] by (simp add: Op_Logout g)
  next
    case (Op_LogoutAll u)
    obtain r w' where g: "run_state (LogoutAll uc u) w = (r, w')" by fastforce
    from logout_all_spec [OF g] show ?thesis
      using session_inv_step [OF inv, of w'] by (simp add: Op_LogoutAll g)
  next
    case (Op_ListSessions u)
    obtain r w' where g: "run_state (ListSessions uc u) w = (r, w')" by fastforce
    from list_spec [OF g] show ?thesis
      using session_inv_step [OF inv, of w'] by (simp add: Op_ListSessions g reads_tokens_def)
  qed
qed

lemma ops_refine:
  "session_inv w \<Longrightarrow> tick (run_session_ops uc ops w) \<le> tick_limit \<Longrightarrow>
   tok_step\<^sup>*\<^sup>* (refresh_tokens w) (refresh_tokens (run_session_ops uc ops w)) \<and>
   session_inv (run_session_ops uc ops w)"
proof (induction ops arbitrary: w)
  case Nil
  then show ?case by (simp add: run_session_ops_def)
next
  case (Cons op ops)
  let ?w = "run_session_op uc op w"
  have run: "run_session_ops uc (op # ops) w = run_session_ops uc ops ?w"
    by (simp add: run_session_ops_def)
  have "tick ?w \<le> tick_limit"
    using ops_later [of ?w ops] Cons.prems(2) by (simp add: run later_def)
  from op_refines [OF Cons.prems(1) this] Cons.IH [of ?w] Cons.prems(2)
  show ?case by (auto simp: run intro: rtranclp_trans)
qed

end

end
