(* ===== verification/Token_Hashes.thy ===== *)
theory Token_Hashes
  imports Iam
begin

text \<open>
  The SHA-256 digests of two concrete tokens, by evaluation: the witnesses of the theorems on
  refresh tokens need two tokens whose hashes differ.
\<close>

definition demo_raw :: string where
  "demo_raw = RawURLEncoding (replicate 32 (CHR ''r''))"

definition demo_raw2 :: string where
  "demo_raw2 = RawURLEncoding (replicate 32 (CHR ''s''))"

lemma hash_raw: "take 1 (hashToken ''raw'') = ''d''"
  by code_simp

lemma hash_demo_raw: "take 1 (hashToken demo_raw) = ''f''"
  by code_simp

lemma hashes_differ: "hashToken demo_raw \<noteq> hashToken ''raw''"
proof -
  have "take 1 (hashToken demo_raw) \<noteq> take 1 (hashToken ''raw'')"
    unfolding hash_demo_raw hash_raw by simp
  then show ?thesis by auto
qed

lemma hash_demo_raw2: "take 1 (hashToken demo_raw2) = ''c''"
  by code_simp

lemma hashes_differ2:
  "hashToken demo_raw2 \<noteq> hashToken ''raw''" "hashToken demo_raw2 \<noteq> hashToken demo_raw"
proof -
  have "take 1 (hashToken demo_raw2) \<noteq> take 1 (hashToken ''raw'')"
    unfolding hash_demo_raw2 hash_raw by simp
  then show "hashToken demo_raw2 \<noteq> hashToken ''raw''" by auto
  have "take 1 (hashToken demo_raw2) \<noteq> take 1 (hashToken demo_raw)"
    unfolding hash_demo_raw2 hash_demo_raw by simp
  then show "hashToken demo_raw2 \<noteq> hashToken demo_raw" by auto
qed

end
