(* ===== verification/Session_Props.thy ===== *)
theory Session_Props
  imports Sessions Token_Hashes
begin

text \<open>
  The PostgreSQL repositories meet the contracts of \<open>Sessions\<close>, and what follows for the
  refresh-token use case as the program wires it (\<open>cmd/server/main.go\<close>).
\<close>

lemma pg_get:
  "run_state (RefreshTokenRepo_GetByTokenHash h) w = (r, w') \<Longrightarrow>
   reads_tokens w w' \<and> (\<forall>t. r = Inr t \<longrightarrow> t \<in> set (refresh_tokens w) \<and> t_TokenHash t = h)"
  by (auto simp: RefreshTokenRepo_GetByTokenHash_def reads_tokens_def
      split: if_splits option.splits dest: find_Some_in)

lemma pg_list:
  "run_state (RefreshTokenRepo_ListActiveByUserID u) w = (r, w') \<Longrightarrow> reads_tokens w w'"
  by (auto simp: RefreshTokenRepo_ListActiveByUserID_def reads_tokens_def
      split: fault.splits sum.splits)

lemma revokes_exec:
  assumes "run_state (do { now \<leftarrow> time_Now;
      try_or h (sql_exec (\<lambda>_. True)
        (\<lambda>w. w\<lparr>refresh_tokens := revoke_where P now (refresh_tokens w)\<rparr>)) ok }) w = (r, w')"
  shows "revokes P w r w'"
proof -
  have "later w (tick_world (tick_world w\<lparr>refresh_tokens := revoke_where P (clock w) (refresh_tokens w)\<rparr>))"
    by (simp add: later_def)
  then show ?thesis using assms by (auto simp: revokes_def later_trans [OF later_tick later_tick] split: if_splits)
qed

lemma pg_revoke: "run_state (RefreshTokenRepo_Revoke i) w = (r, w') \<Longrightarrow> revokes (\<lambda>t. t_ID t = i) w r w'"
  unfolding RefreshTokenRepo_Revoke_def by (rule revokes_exec)

lemma pg_family:
  "run_state (RefreshTokenRepo_RevokeFamily f) w = (r, w') \<Longrightarrow> revokes (\<lambda>t. t_FamilyID t = f) w r w'"
  unfolding RefreshTokenRepo_RevokeFamily_def by (rule revokes_exec)

lemma pg_all:
  "run_state (RefreshTokenRepo_RevokeAllByUserID u) w = (r, w') \<Longrightarrow> revokes (\<lambda>t. t_UserID t = u) w r w'"
  unfolding RefreshTokenRepo_RevokeAllByUserID_def by (rule revokes_exec)

lemma pg_create:
  assumes "run_state (RefreshTokenRepo_Create t) w = (r, w')"
  shows "later w w' \<and> users w' = users w \<and>
      ((\<exists>t'. refresh_tokens w' = refresh_tokens w @ [t'] \<and> stored_as (refresh_tokens w) t t') \<or>
       ((\<exists>e. r = Inl e) \<and> refresh_tokens w' = refresh_tokens w))"
proof -
  define tid where "tid = (if t_ID t = uuid_nil then env_uuid (environ w) (tick w) else t_ID t)"
  define w1 where "w1 = (if t_ID t = uuid_nil then tick_world w else w)"
  define created where "created = (if t_CreatedAt t = 0 then clock w1 else t_CreatedAt t)"
  define w2 where "w2 = (if t_CreatedAt t = 0 then tick_world w1 else w1)"
  define t2 where "t2 = t\<lparr>t_ID := tid, t_CreatedAt := created\<rparr>"
  define c where "c = ((\<forall>x \<in> set (refresh_tokens w). t_ID x \<noteq> tid \<and> t_TokenHash x \<noteq> t_TokenHash t) \<and>
      (\<exists>u \<in> set (users w). u_ID u = t_UserID t))"
  have l: "later w w2" "refresh_tokens w2 = refresh_tokens w" "users w2 = users w"
    by (simp_all add: w2_def w1_def later_trans [OF later_tick later_tick])
  have run: "r = (if next_fault w2 = NoFault \<and> c then Inr t2
        else Inl (internal ''failed to create refresh token'' (next_error w2)))"
    "w' = (if next_fault w2 \<noteq> Refused \<and> c
        then tick_world (w2\<lparr>refresh_tokens := refresh_tokens w @ [t2\<lparr>t_RevokedAt := None\<rparr>]\<rparr>)
        else tick_world w2)"
    using assms
    by (auto simp: RefreshTokenRepo_Create_def Let_def c_def t2_def tid_def w1_def w2_def created_def
        split: if_splits)
  show ?thesis
  proof (cases "next_fault w2 \<noteq> Refused \<and> c")
    case True
    moreover from True have "stored_as (refresh_tokens w) t (t2\<lparr>t_RevokedAt := None\<rparr>)"
      by (auto simp: stored_as_def t2_def c_def)
    moreover have "later w (tick_world (w2\<lparr>refresh_tokens := refresh_tokens w @ [t2\<lparr>t_RevokedAt := None\<rparr>]\<rparr>))"
      using l(1) by (rule later_trans) (simp add: later_def)
    ultimately show ?thesis using run l by auto
  next
    case False
    then show ?thesis using run l later_trans [OF l(1) later_tick] by auto
  qed
qed

interpretation pg: refresh_token_store RefreshTokenRepo
  by unfold_locales
    (unfold RefreshTokenRepo_def RefreshTokenRepository.select_convs,
      erule pg_get, erule pg_list, erule pg_revoke, erule pg_family, erule pg_all, erule pg_create)

text \<open>\<open>NewRefreshTokenUseCase\<close> on the repositories and the service of the program.\<close>

definition NewRefreshTokenUseCase ::
  "uuid_api \<Rightarrow> bcrypt_api \<Rightarrow> jwt_api \<Rightarrow> JWTService \<Rightarrow> time \<Rightarrow> int \<Rightarrow> RefreshTokenUseCase" where
  "NewRefreshTokenUseCase U B J s dur ttl =
     \<lparr>uc_refreshTokenRepo = RefreshTokenRepo, uc_userRepo = UserRepo, uc_auth = JWT_auth U B J s,
      uc_Duration = dur, uc_AccessTokenTTL = ttl\<rparr>"

lemma pg_user:
  "run_state (UserRepo_GetByID i) w = (r, w') \<Longrightarrow>
   reads_tokens w w' \<and> (\<forall>x. r = Inr x \<longrightarrow> x \<in> set (users w) \<and> u_ID x = i)"
  by (auto simp: UserRepo_GetByID_def reads_tokens_def split: if_splits option.splits dest: find_Some_in)

interpretation sess: sessions "NewRefreshTokenUseCase U B J s dur ttl" for U B J s dur ttl
  by (intro sessions.intro sessions_axioms.intro)
    (auto simp: NewRefreshTokenUseCase_def UserRepo_def dest: pg_user
      intro: pg.refresh_token_store_axioms jwt.auth_service_axioms)

section \<open>A concrete store\<close>

text \<open>One user with one refresh token, for the witnesses.\<close>

definition demo_user :: User where
  "demo_user =
     \<lparr>u_ID = 7, u_Email = ''a@b'', u_PasswordHash = ''$secret77'', u_FirstName = ''A'',
      u_LastName = ''B'', u_Status = UserStatusActive, u_CreatedAt = 0, u_UpdatedAt = 0\<rparr>"

definition demo_token :: RefreshToken where
  "demo_token =
     \<lparr>t_ID = 1, t_UserID = 7, t_TokenHash = hashToken ''raw'', t_FamilyID = 2, t_ExpiresAt = hour,
      t_RevokedAt = None, t_CreatedAt = 1, t_IPAddress = ''10.0.0.7'', t_UserAgent = []\<rparr>"

definition demo_world :: "RefreshToken list \<Rightarrow> world" where
  "demo_world ts = (empty_world still)\<lparr>tick := 40, users := [demo_user], refresh_tokens := ts\<rparr>"

definition demo_uc :: RefreshTokenUseCase where
  "demo_uc = NewRefreshTokenUseCase demo_uuid demo_bcrypt demo_jwt demo_service hour 15"

lemma still_simps [simp]:
  "env_fault still n = NoFault" "env_uuid still n = of_nat (n + 1)" "env_delay still n = 0"
  "env_bytes still n = Some (replicate (n + 1) (CHR ''r''))"
  by (simp_all add: still_def calm_def)

lemma demo_world_simps [simp]:
  "environ (demo_world ts) = still" "tick (demo_world ts) = 40" "clock (demo_world ts) = 0"
  "users (demo_world ts) = [demo_user]" "refresh_tokens (demo_world ts) = ts"
  by (simp_all add: demo_world_def empty_world_def)

lemma still_uuid_inj: "inj_on (env_uuid still) {..<tick_limit}"
proof (rule inj_onI)
  fix m n
  assume b: "m \<in> {..<tick_limit}" "n \<in> {..<tick_limit}" and e: "env_uuid still m = env_uuid still n"
  have "unat (of_nat (k + 1) :: uuid) = k + 1" if "k < tick_limit" for k
    using that unfolding unat_of_nat by (intro mod_less) (simp add: tick_limit_def)
  then have "m + 1 = n + 1" using b e by (metis lessThan_iff still_simps(2))
  then show "m = n" by simp
qed

lemma demo_inv:
  assumes "token_inv ts" "families ts \<subseteq> {2}"
  shows "session_inv (demo_world ts)"
proof -
  have "(2 :: uuid) = env_uuid still 1" by simp
  with assms show ?thesis
    unfolding session_inv_def demo_world_simps
    using still_uuid_inj by (metis (mono_tags) one_less_numeral_iff semiring_norm(76) singletonD subsetD)
qed

lemma demo_token_inv: "token_inv [demo_token]"
  by (simp add: token_inv_def one_active_def)

lemmas rotate_unfold = Rotate_def Rotate_load_def Rotate_issue_def NewRefreshTokenUseCase_def
  RefreshTokenRepo_def UserRepo_def RefreshTokenRepo_GetByTokenHash_def RefreshTokenRepo_Revoke_def
  RefreshTokenRepo_Create_def UserRepo_GetByID_def JWT_auth_def

lemma demo_rotate_calls:
  "random_bytes w 32 = Some (replicate 32 (CHR ''r''))" if "environ w = still" "tick w \<ge> 31"
  using that by (simp add: random_bytes_def eval_nat_numeral)

lemma demo_sign:
  "environ w = still \<Longrightarrow> clock w = 0 \<Longrightarrow>
   run_state (GenerateToken demo_uuid demo_jwt demo_service demo_login) w =
     (Inr (''s3cret'' @ uuid_str demo_uuid (of_nat (tick w + 2))), tick_world (tick_world w))"
  by (simp add: GenerateToken_def demo_jwt_def demo_claims_made)
    (simp add: demo_service_def demo_claims_def add.commute)

lemma demo_uc_simps [simp]:
  "uc_refreshTokenRepo demo_uc = RefreshTokenRepo" "uc_userRepo demo_uc = UserRepo"
  "uc_auth demo_uc = JWT_auth demo_uuid demo_bcrypt demo_jwt demo_service" "uc_Duration demo_uc = hour"
  by (simp_all add: demo_uc_def NewRefreshTokenUseCase_def)

lemma demo_issue:
  assumes w: "environ w = still" "clock w = 0" "tick w = 44" "users w = [demo_user]"
    "refresh_tokens w = [t]" "t_ID t = 1" "t_TokenHash t = hashToken ''raw''"
  shows "\<exists>pair w1. run_state (Rotate_issue demo_uc demo_token req) w = (Inr pair, w1) \<and> tick w1 = 52"
proof -
  have u: "run_state (UserRepo_GetByID 7) w = (Inr demo_user, tick_world w)"
    using w by (simp add: UserRepo_GetByID_def next_fault_def demo_user_def)
  have login: "\<lparr>c_UserID = 7, c_Email = ''a@b'', c_OrganizationID = uuid_nil,
      c_Roles = [], c_Permissions = []\<rparr> = demo_login"
    by (simp add: demo_login_def)
  have user: "u_ID demo_user = 7" "u_Email demo_user = ''a@b''" by (simp_all add: demo_user_def)
  have id: "t_UserID demo_token = 7" by (simp add: demo_token_def)
  show ?thesis
    unfolding Rotate_issue_def id
    by (simp add: w u user login UserRepo_def JWT_auth_def demo_sign run_generateOpaqueToken
        demo_rotate_calls RefreshTokenRepo_def RefreshTokenRepo_Create_def Let_def
        new_refresh_token_def next_fault_def hashes_differ [symmetric]
        flip: demo_raw_def)
qed

lemma demo_rotate:
  "\<exists>pair w1. run_state (Rotate demo_uc ''raw'' demo_request) (demo_world [demo_token]) = (Inr pair, w1) \<and>
     tick w1 = 52"
proof -
  have load: "run_state (Rotate_load demo_uc ''raw'') (demo_world [demo_token]) =
      (Inr demo_token, tick_world (tick_world (demo_world [demo_token])))"
    by (simp add: Rotate_load_def RefreshTokenRepo_def RefreshTokenRepo_GetByTokenHash_def
        next_fault_def IsRevoked_def IsExpired_def demo_token_def hour_def minute_def second_def)
  have "t_RevokedAt demo_token = None" by (simp add: demo_token_def)
  then show ?thesis
    unfolding Rotate_def
    by (simp add: load RefreshTokenRepo_def RefreshTokenRepo_Revoke_def next_fault_def revoke_where_def)
      (rule demo_issue [of _ "demo_token\<lparr>t_RevokedAt := Some 0\<rparr>"]; simp add: demo_token_def)
qed

section \<open>Properties\<close>

text \<open>
  C1. A refresh token is redeemed at most once: after a request for a new pair succeeded on it,
  and after whatever other requests the use case served in sequence, whichever statements failed
  or lost their replies, no later request succeeds on it.
\<close>

theorem rotate_at_most_once:
  fixes U B J s dur ttl
  defines "uc \<equiv> NewRefreshTokenUseCase U B J s dur ttl"
  assumes inv: "session_inv w"
    and first: "run_state (Rotate uc raw req) w = (Inr pair, w1)"
    and "w2 = run_session_ops uc ops w1"
    and short: "tick w2 \<le> tick_limit"
    and again: "run_state (Rotate uc raw req') w2 = (r, w3)"
  shows "\<exists>e. r = Inl e"
proof (rule ccontr)
  assume "\<nexists>e. r = Inl e"
  then obtain rr where rr: "r = Inr rr" by (cases r) auto
  have ti: "token_inv (refresh_tokens w)" using inv by (simp add: session_inv_def)
  have "tick w1 \<le> tick_limit"
    using sess.ops_later [of w1 U B J s dur ttl ops] short by (simp add: assms(4) uc_def later_def)
  then have inv1: "session_inv w1"
    using sess.op_refines [OF inv, of U B J s dur ttl "Op_Rotate raw req"] first by (simp add: uc_def)
  from sess.rotate_spec [OF first [unfolded uc_def] ti] obtain t now t' where t:
    "t \<in> set (refresh_tokens w)" "t_TokenHash t = hashToken raw" "\<not> IsRevoked t"
    "refresh_tokens w1 = revoke_where (\<lambda>x. t_ID x = t_ID t) now (refresh_tokens w) @ [t']" by blast
  let ?t = "t\<lparr>t_RevokedAt := Some now\<rparr>"
  have mem: "?t \<in> set (refresh_tokens w1)"
    using t by (force simp: revoke_where_def IsRevoked_def image_iff)
  from sess.ops_refine [OF inv1, of U B J s dur ttl ops]
  have steps: "tok_step\<^sup>*\<^sup>* (refresh_tokens w1) (refresh_tokens w2)" and inv2: "session_inv w2"
    using short by (simp_all add: assms(4) uc_def)
  have mem2: "?t \<in> set (refresh_tokens w2)"
    by (rule tok_steps_revoked [OF steps mem]) (simp add: IsRevoked_def)
  have ti2: "token_inv (refresh_tokens w2)" using inv2 by (simp add: session_inv_def)
  from sess.rotate_spec [OF again [unfolded uc_def] ti2] rr obtain x where
    "x \<in> set (refresh_tokens w2)" "t_TokenHash x = hashToken raw" "\<not> IsRevoked x" by blast
  with token_inv_hashes [OF ti2 _ mem2, of x] t(2) show False by (simp add: IsRevoked_def)
qed

lemma demo_session_inv: "session_inv (demo_world [demo_token])"
  by (rule demo_inv [OF demo_token_inv]) (simp add: families_def demo_token_def)

theorem rotate_at_most_once_witness:
  "\<exists>pair w1 e. run_state (Rotate demo_uc ''raw'' demo_request) (demo_world [demo_token]) = (Inr pair, w1) \<and>
     fst (run_state (Rotate demo_uc ''raw'' demo_request) w1) = Inl e"
proof -
  from demo_rotate obtain pair w1 where first:
    "run_state (Rotate demo_uc ''raw'' demo_request) (demo_world [demo_token]) = (Inr pair, w1)"
    and "tick w1 = 52" by blast
  then have short: "tick w1 \<le> tick_limit" by (simp add: tick_limit_def)
  obtain r w3 where again: "run_state (Rotate demo_uc ''raw'' demo_request) w1 = (r, w3)" by fastforce
  have "w1 = run_session_ops demo_uc [] w1" by (simp add: run_session_ops_def)
  from rotate_at_most_once [OF demo_session_inv first [unfolded demo_uc_def]
      this [unfolded demo_uc_def] short again [unfolded demo_uc_def]]
  show ?thesis using first again by auto
qed

text \<open>
  C14. Whatever requests the use case serves one after the other, and whichever statements fail or
  lose their replies: the tokens keep distinct identifiers and hashes, and no family of tokens
  ever has two that are not revoked.
\<close>

theorem one_active_token_per_family:
  assumes "session_inv w"
    and "tick (run_session_ops (NewRefreshTokenUseCase U B J s dur ttl) ops w) \<le> tick_limit"
  shows "token_inv (refresh_tokens (run_session_ops (NewRefreshTokenUseCase U B J s dur ttl) ops w))"
  using sess.ops_refine [OF assms] by (simp add: session_inv_def)

lemma demo_short: "tick (run_session_ops demo_uc [Op_Rotate ''raw'' demo_request] (demo_world [demo_token])) \<le> tick_limit"
  using demo_rotate by (auto simp: run_session_ops_def tick_limit_def)

theorem one_active_token_per_family_witness:
  "token_inv (refresh_tokens (run_session_ops demo_uc [Op_Rotate ''raw'' demo_request] (demo_world [demo_token])))"
  unfolding demo_uc_def
  by (rule one_active_token_per_family [OF demo_session_inv demo_short [unfolded demo_uc_def]])

text \<open>
  C13. The requests of the use case refine the abstract store: each takes the table through steps
  that revoke tokens or add one to a family without an active token.
\<close>

theorem session_ops_refine_store:
  assumes "session_inv w"
    and "tick (run_session_ops (NewRefreshTokenUseCase U B J s dur ttl) ops w) \<le> tick_limit"
  shows "tok_step\<^sup>*\<^sup>* (refresh_tokens w)
           (refresh_tokens (run_session_ops (NewRefreshTokenUseCase U B J s dur ttl) ops w)) \<and>
         (\<forall>t \<in> set (refresh_tokens w). IsRevoked t \<longrightarrow>
           t \<in> set (refresh_tokens (run_session_ops (NewRefreshTokenUseCase U B J s dur ttl) ops w)))"
  using sess.ops_refine [OF assms] tok_steps_revoked by blast

theorem session_ops_refine_store_witness:
  "tok_step\<^sup>*\<^sup>* [demo_token]
     (refresh_tokens (run_session_ops demo_uc [Op_Rotate ''raw'' demo_request] (demo_world [demo_token])))"
  using session_ops_refine_store [OF demo_session_inv demo_short [unfolded demo_uc_def]]
  by (simp add: demo_uc_def)

text \<open>
  C15. A replayed token is answered with 401, and if the two statements of its request succeed,
  every token of its family is revoked afterwards; tokens of other families are untouched.
\<close>

theorem rotate_replay_revokes_family:
  assumes inv: "token_inv (refresh_tokens w)"
    and t: "t \<in> set (refresh_tokens w)" "t_TokenHash t = hashToken raw" "IsRevoked t"
    and fine: "env_fault (environ w) (tick w) = NoFault" "env_fault (environ w) (tick w + 2) = NoFault"
    and run: "run_state (Rotate (NewRefreshTokenUseCase U B J s dur ttl) raw req) w = (r, w')"
  shows "(\<exists>e. r = Inl e \<and> HTTPStatusCode e = 401) \<and>
    (\<forall>x \<in> set (refresh_tokens w'). t_FamilyID x = t_FamilyID t \<longrightarrow> IsRevoked x) \<and>
    filter (\<lambda>x. t_FamilyID x \<noteq> t_FamilyID t) (refresh_tokens w') =
      filter (\<lambda>x. t_FamilyID x \<noteq> t_FamilyID t) (refresh_tokens w)"
proof -
  have found: "find (\<lambda>x. t_TokenHash x = hashToken raw) (refresh_tokens w) = Some t"
    by (rule find_unique) (use t token_inv_hashes [OF inv] in auto)
  have r: "\<exists>e. r = Inl e \<and> HTTPStatusCode e = 401"
    "refresh_tokens w' = revoke_where (\<lambda>x. t_FamilyID x = t_FamilyID t) (clock (tick_world w)) (refresh_tokens w)"
    using run t(3) fine found
    by (auto simp: Rotate_def Rotate_load_def NewRefreshTokenUseCase_def RefreshTokenRepo_def
        RefreshTokenRepo_GetByTokenHash_def RefreshTokenRepo_RevokeFamily_def next_fault_def)
  have "filter (\<lambda>x. t_FamilyID x \<noteq> f) (revoke_where (\<lambda>x. t_FamilyID x = f) now ts) =
      filter (\<lambda>x. t_FamilyID x \<noteq> f) ts" for f now ts
    by (induction ts) (auto simp: revoke_where_def)
  with r show ?thesis by (auto dest: revoke_where_active)
qed

theorem rotate_replay_revokes_family_witness:
  "\<exists>e w'. run_state (Rotate demo_uc ''raw'' demo_request)
       (demo_world [demo_token\<lparr>t_RevokedAt := Some 5\<rparr>, demo_token\<lparr>t_ID := 9, t_TokenHash := ''h''\<rparr>]) = (Inl e, w') \<and>
     HTTPStatusCode e = 401 \<and> (\<forall>x \<in> set (refresh_tokens w'). t_FamilyID x = 2 \<longrightarrow> IsRevoked x)"
proof -
  let ?a = "demo_token\<lparr>t_RevokedAt := Some 5\<rparr>" and ?b = "demo_token\<lparr>t_ID := 9, t_TokenHash := ''h''\<rparr>"
  have "length (hashToken ''raw'') \<noteq> 1"
    by (simp add: hashToken_def hex_bytes_def length_concat o_def sum_list_triv) presburger
  then have ne: "hashToken ''raw'' \<noteq> ''h''" by auto
  have inv: "token_inv (refresh_tokens (demo_world [?a, ?b]))"
    using ne by (simp add: token_inv_def one_active_def demo_token_def IsRevoked_def)
  obtain r w' where run: "run_state (Rotate demo_uc ''raw'' demo_request) (demo_world [?a, ?b]) = (r, w')"
    by fastforce
  have "?a \<in> set (refresh_tokens (demo_world [?a, ?b]))" "t_TokenHash ?a = hashToken ''raw''" "IsRevoked ?a"
    "env_fault (environ (demo_world [?a, ?b])) (tick (demo_world [?a, ?b])) = NoFault"
    "env_fault (environ (demo_world [?a, ?b])) (tick (demo_world [?a, ?b]) + 2) = NoFault"
    by (simp_all add: demo_token_def IsRevoked_def)
  from rotate_replay_revokes_family [OF inv this run [unfolded demo_uc_def]]
  show ?thesis using run by (auto simp: demo_token_def)
qed

text \<open>
  What a granted request for a new pair did: the token it presented was stored, neither revoked
  nor expired when it came in; it is revoked now, the table has one token more, and that one is
  the only active token of the family, belongs to the same user, is the one handed out, and lives
  at least the configured duration from then on.
\<close>

theorem rotate_success:
  fixes U B J s dur ttl
  defines "uc \<equiv> NewRefreshTokenUseCase U B J s dur ttl"
  assumes inv: "token_inv (refresh_tokens w)"
    and run: "run_state (Rotate uc raw req) w = (Inr pair, w')"
  shows "\<exists>t t' now. t \<in> set (refresh_tokens w) \<and> t_TokenHash t = hashToken raw \<and>
      \<not> IsRevoked t \<and> clock w \<le> t_ExpiresAt t \<and>
      refresh_tokens w' = revoke_where (\<lambda>x. t_ID x = t_ID t) now (refresh_tokens w) @ [t'] \<and>
      t_TokenHash t' = hashToken (rr_RefreshToken pair) \<and> t_UserID t' = t_UserID t \<and>
      clock w + dur \<le> t_ExpiresAt t' \<and>
      {x \<in> set (refresh_tokens w'). t_FamilyID x = t_FamilyID t \<and> \<not> IsRevoked x} = {t'}"
proof -
  from sess.rotate_spec [OF run [unfolded uc_def] inv] obtain t t' now where t:
    "t \<in> set (refresh_tokens w)" "t_TokenHash t = hashToken raw" "\<not> IsRevoked t" "clock w \<le> t_ExpiresAt t"
    "refresh_tokens w' = revoke_where (\<lambda>x. t_ID x = t_ID t) now (refresh_tokens w) @ [t']"
    "\<not> IsRevoked t'" "t_TokenHash t' = hashToken (rr_RefreshToken pair)" "t_FamilyID t' = t_FamilyID t"
    "t_UserID t' = t_UserID t" "clock w + dur \<le> t_ExpiresAt t'"
    by (auto simp: NewRefreshTokenUseCase_def)
  have "{x \<in> set (refresh_tokens w'). t_FamilyID x = t_FamilyID t \<and> \<not> IsRevoked x} = {t'}"
    using revoked_family [OF inv t(1,3), of now] t(5,6,8) by auto
  with t show ?thesis by blast
qed

theorem rotate_success_witness:
  "\<exists>pair w'. run_state (Rotate demo_uc ''raw'' demo_request) (demo_world [demo_token]) = (Inr pair, w') \<and>
     (\<exists>t'. {x \<in> set (refresh_tokens w'). t_FamilyID x = 2 \<and> \<not> IsRevoked x} = {t'})"
proof -
  from demo_rotate obtain pair w' where run:
    "run_state (Rotate demo_uc ''raw'' demo_request) (demo_world [demo_token]) = (Inr pair, w')" by blast
  have "token_inv (refresh_tokens (demo_world [demo_token]))" by (simp add: demo_token_inv)
  from rotate_success [OF this run [unfolded demo_uc_def]] show ?thesis
    using run by (auto simp: demo_token_def)
qed

text \<open>
  Where its statement succeeds, \<open>LogoutAll\<close> revokes every token of the user that was active and
  changes nothing else; and \<open>ListSessions\<close> lists the tokens of the user that are neither
  revoked nor expired, each once, newest first, and lists nothing after a \<open>LogoutAll\<close>.
\<close>

theorem sessions_listed_and_ended:
  fixes U B J s dur ttl
  defines "uc \<equiv> NewRefreshTokenUseCase U B J s dur ttl"
  assumes logout: "run_state (LogoutAll uc u) w = (Inr (), w1)"
    and "next_fault w = NoFault" and "next_fault w1 = NoFault"
  shows "(\<exists>now. refresh_tokens w1 = revoke_where (\<lambda>t. t_UserID t = u) now (refresh_tokens w)) \<and>
    fst (run_state (ListSessions uc u) w1) = Inr [] \<and>
    (\<exists>ts. fst (run_state (ListSessions uc u) w) =
        Inr (map (\<lambda>t. \<lparr>si_ID = t_ID t, si_CreatedAt = t_CreatedAt t, si_IPAddress = t_IPAddress t,
                      si_UserAgent = t_UserAgent t\<rparr>) ts) \<and>
      sorted (rev (map t_CreatedAt ts)) \<and>
      mset ts = mset (filter (\<lambda>t. t_UserID t = u \<and> \<not> IsRevoked t \<and> clock w < t_ExpiresAt t) (refresh_tokens w)))"
proof -
  have r: "revokes (\<lambda>t. t_UserID t = u) w (Inr ()) w1"
    using pg_all logout by (simp add: LogoutAll_def uc_def NewRefreshTokenUseCase_def RefreshTokenRepo_def)
  then obtain now where now: "refresh_tokens w1 = revoke_where (\<lambda>t. t_UserID t = u) now (refresh_tokens w)"
    by (auto simp: revokes_def)
  have list: "fst (run_state (ListSessions uc u) v) =
      Inr (map (\<lambda>t. \<lparr>si_ID = t_ID t, si_CreatedAt = t_CreatedAt t, si_IPAddress = t_IPAddress t,
                    si_UserAgent = t_UserAgent t\<rparr>)
        (newest_first t_CreatedAt (filter (\<lambda>t. t_UserID t = u \<and> t_RevokedAt t = None \<and> t_ExpiresAt t > clock v)
                  (refresh_tokens v))))" if "next_fault v = NoFault" for v
    using that by (simp add: ListSessions_def uc_def NewRefreshTokenUseCase_def RefreshTokenRepo_def
        RefreshTokenRepo_ListActiveByUserID_def)
  have "filter (\<lambda>t. t_UserID t = u \<and> t_RevokedAt t = None \<and> t_ExpiresAt t > clock w1) (refresh_tokens w1) = []"
    unfolding now using revoke_where_active [of _ "\<lambda>t. t_UserID t = u" now "refresh_tokens w"]
    by (auto simp: filter_empty_conv IsRevoked_def)
  then have l1: "fst (run_state (ListSessions uc u) w1) = Inr []"
    using list [of w1] assms(4) by simp
  with l1 list [OF assms(3)] now show ?thesis
    by (intro conjI exI [of _ "newest_first t_CreatedAt (filter (\<lambda>t. t_UserID t = u \<and> t_RevokedAt t = None \<and> t_ExpiresAt t > clock w) (refresh_tokens w))"])
      (auto simp: IsRevoked_def newest_first_sorted)
qed

theorem sessions_listed_and_ended_witness:
  "\<exists>w1. run_state (LogoutAll demo_uc 7) (demo_world [demo_token]) = (Inr (), w1) \<and>
     fst (run_state (ListSessions demo_uc 7) w1) = Inr []"
proof -
  let ?w = "demo_world [demo_token]"
  obtain w1 where run: "run_state (LogoutAll demo_uc 7) ?w = (Inr (), w1)" and e: "environ w1 = still"
    by (simp add: LogoutAll_def RefreshTokenRepo_def RefreshTokenRepo_RevokeAllByUserID_def next_fault_def)
  have "next_fault ?w = NoFault" "next_fault w1 = NoFault" using e by (simp_all add: next_fault_def)
  from sessions_listed_and_ended [OF run [unfolded demo_uc_def] this] show ?thesis
    using run by (auto simp: demo_uc_def)
qed

end
