(* ===== verification/Rotate_Race.thy ===== *)
theory Rotate_Race
  imports Session_Props
begin

text \<open>
  Requests for a new pair that are served at the same time. The statements of different requests
  interleave; \<open>Rotate\<close> runs no transaction. A request is in one of the stages of \<open>Iam\<close>: it has
  not begun, has loaded and checked its token, has revoked it, or is answered.
\<close>

datatype rot_pc =
    Pc_Start
  | Pc_Loaded RefreshToken
  | Pc_Revoked RefreshToken
  | Pc_Done "goerr + RefreshResponse"

record rot_thread =
  th_raw :: string
  th_req :: request
  th_pc :: rot_pc

type_synonym rot_state = "world \<times> rot_thread list"

text \<open>One stage of one request.\<close>

fun stage :: "RefreshTokenUseCase \<Rightarrow> rot_thread \<Rightarrow> world \<Rightarrow> (rot_pc \<times> world) option" where
  "stage uc th w =
     (case th_pc th of
        Pc_Start \<Rightarrow> Some (case run_state (Rotate_load uc (th_raw th)) w of
            (Inl e, w') \<Rightarrow> (Pc_Done (Inl e), w') | (Inr t, w') \<Rightarrow> (Pc_Loaded t, w'))
      | Pc_Loaded t \<Rightarrow> Some (case run_state (rt_Revoke (uc_refreshTokenRepo uc) (t_ID t)) w of
            (Inl e, w') \<Rightarrow> (Pc_Done (Inl e), w') | (Inr _, w') \<Rightarrow> (Pc_Revoked t, w'))
      | Pc_Revoked t \<Rightarrow> Some (case run_state (Rotate_issue uc t (th_req th)) w of
            (r, w') \<Rightarrow> (Pc_Done r, w'))
      | Pc_Done r \<Rightarrow> None)"

declare stage.simps [simp del]

inductive rot_step :: "RefreshTokenUseCase \<Rightarrow> rot_state \<Rightarrow> rot_state \<Rightarrow> bool" for uc where
  rot_stage: "i < length ths \<Longrightarrow> stage uc (ths ! i) w = Some (pc, w') \<Longrightarrow>
    rot_step uc (w, ths) (w', ths[i := (ths ! i)\<lparr>th_pc := pc\<rparr>])"

inductive_cases rot_stepE: "rot_step uc (w, ths) st"

definition rot_start :: "(string \<times> request) list \<Rightarrow> rot_thread list" where
  "rot_start rs = map (\<lambda>(raw, req). \<lparr>th_raw = raw, th_req = req, th_pc = Pc_Start\<rparr>) rs"

text \<open>A request that runs alone does what \<open>Rotate\<close> does.\<close>

lemma rot_step1: "stage uc th w = Some (pc, w') \<Longrightarrow> rot_step uc (w, [th]) (w', [th\<lparr>th_pc := pc\<rparr>])"
  using rot_stage [of 0 "[th]" uc w pc w'] by simp

lemma rot_alone:
  assumes "run_state (Rotate uc raw req) w = (r, w')"
  shows "(rot_step uc)\<^sup>*\<^sup>* (w, [\<lparr>th_raw = raw, th_req = req, th_pc = Pc_Start\<rparr>])
           (w', [\<lparr>th_raw = raw, th_req = req, th_pc = Pc_Done r\<rparr>])"
proof -
  let ?th = "\<lambda>pc. \<lparr>th_raw = raw, th_req = req, th_pc = pc\<rparr>"
  have step: "rot_step uc (v, [?th pc]) (v', [?th pc'])" if "stage uc (?th pc) v = Some (pc', v')" for pc pc' v v'
    using rot_step1 [OF that] by simp
  obtain l w1 where l: "run_state (Rotate_load uc raw) w = (l, w1)" by fastforce
  show ?thesis
  proof (cases l)
    case (Inl e)
    then show ?thesis using assms l by (intro r_into_rtranclp step) (simp add: stage.simps Rotate_def)
  next
    case (Inr t)
    have s1: "rot_step uc (w, [?th Pc_Start]) (w1, [?th (Pc_Loaded t)])"
      by (rule step) (simp add: stage.simps l Inr)
    obtain x w2 where x: "run_state (rt_Revoke (uc_refreshTokenRepo uc) (t_ID t)) w1 = (x, w2)" by fastforce
    show ?thesis
    proof (cases x)
      case (Inl e)
      have "rot_step uc (w1, [?th (Pc_Loaded t)]) (w', [?th (Pc_Done r)])"
        using assms by (intro step) (simp add: stage.simps Rotate_def l Inr x Inl)
      with s1 show ?thesis by (rule converse_rtranclp_into_rtranclp [OF _ r_into_rtranclp])
    next
      case (Inr u)
      have s2: "rot_step uc (w1, [?th (Pc_Loaded t)]) (w2, [?th (Pc_Revoked t)])"
        by (rule step) (simp add: stage.simps x Inr)
      have "rot_step uc (w2, [?th (Pc_Revoked t)]) (w', [?th (Pc_Done r)])"
        using assms \<open>l = Inr t\<close> by (intro step) (simp add: stage.simps Rotate_def l x Inr)
      with s1 s2 show ?thesis
        by (blast intro: converse_rtranclp_into_rtranclp r_into_rtranclp)
    qed
  qed
qed

section \<open>Two requests on one token\<close>

definition race_env :: environment where
  "race_env = still\<lparr>env_bytes := \<lambda>n. Some (replicate 32 (if n < 52 then CHR ''r'' else CHR ''s''))\<rparr>"

lemma race_env_simps [simp]:
  "env_fault race_env n = NoFault" "env_delay race_env n = 0" "env_uuid race_env n = of_nat (n + 1)"
  by (simp_all add: race_env_def)

definition race_world :: world where
  "race_world = (demo_world [demo_token])\<lparr>environ := race_env\<rparr>"

definition quiet :: "nat \<Rightarrow> world \<Rightarrow> bool" where
  "quiet n w \<longleftrightarrow> environ w = race_env \<and> clock w = 0 \<and> tick w = n \<and> users w = [demo_user]"

lemma race_bytes:
  "environ w = race_env \<Longrightarrow>
   random_bytes w 32 = Some (replicate 32 (if tick w < 52 then CHR ''r'' else CHR ''s''))"
  by (simp add: random_bytes_def race_env_def)

lemma race_load:
  assumes "quiet n w" "refresh_tokens w = [demo_token]"
  shows "\<exists>w'. run_state (Rotate_load demo_uc ''raw'') w = (Inr demo_token, w') \<and> quiet (n + 2) w' \<and>
    refresh_tokens w' = refresh_tokens w"
  using assms
  by (simp add: quiet_def Rotate_load_def RefreshTokenRepo_def RefreshTokenRepo_GetByTokenHash_def
      next_fault_def IsRevoked_def IsExpired_def demo_token_def hour_def minute_def second_def)

lemma race_revoke:
  assumes "quiet n w"
  shows "\<exists>w'. run_state (rt_Revoke RefreshTokenRepo 1) w = (Inr (), w') \<and> quiet (n + 2) w' \<and>
    refresh_tokens w' = revoke_where (\<lambda>t. t_ID t = 1) 0 (refresh_tokens w)"
  using assms by (simp add: quiet_def RefreshTokenRepo_def RefreshTokenRepo_Revoke_def next_fault_def)

lemma race_sign:
  "clock w = 0 \<Longrightarrow>
   \<exists>tok. run_state (GenerateToken demo_uuid demo_jwt demo_service demo_login) w =
     (Inr tok, tick_world (tick_world w))"
  by (simp add: GenerateToken_def demo_jwt_def demo_claims_made) (simp add: demo_claims_def)

lemma race_issue:
  fixes w n
  defines "new \<equiv> RawURLEncoding (replicate 32 (if n + 3 < 52 then CHR ''r'' else CHR ''s''))"
  assumes q: "quiet n w"
    and fresh: "\<forall>x \<in> set (refresh_tokens w). t_ID x \<noteq> of_nat (n + 6) \<and> t_TokenHash x \<noteq> hashToken new"
  shows "\<exists>pair w' t'. run_state (Rotate_issue demo_uc demo_token req) w = (Inr pair, w') \<and> quiet (n + 8) w' \<and>
    refresh_tokens w' = refresh_tokens w @ [t'] \<and> t_FamilyID t' = 2 \<and> \<not> IsRevoked t' \<and>
    t_ID t' = of_nat (n + 6) \<and> t_TokenHash t' = hashToken new \<and> rr_RefreshToken pair = new"
proof -
  have e: "environ w = race_env" "clock w = 0" "tick w = n" "users w = [demo_user]"
    using q by (simp_all add: quiet_def)
  have u: "run_state (UserRepo_GetByID 7) w = (Inr demo_user, tick_world w)"
    using e by (simp add: UserRepo_GetByID_def next_fault_def demo_user_def)
  have login: "\<lparr>c_UserID = 7, c_Email = ''a@b'', c_OrganizationID = uuid_nil,
      c_Roles = [], c_Permissions = []\<rparr> = demo_login" by (simp add: demo_login_def)
  have user: "u_ID demo_user = 7" "u_Email demo_user = ''a@b''" by (simp_all add: demo_user_def)
  have tok: "t_UserID demo_token = 7" "t_FamilyID demo_token = 2" by (simp_all add: demo_token_def)
  obtain jwt where jwt: "run_state (GenerateToken demo_uuid demo_jwt demo_service demo_login) (tick_world w)
      = (Inr jwt, tick_world (tick_world (tick_world w)))"
    using race_sign [of "tick_world w"] e by auto
  obtain b where bytes: "random_bytes (tick_world (tick_world (tick_world w))) 32 = Some b"
    and new: "RawURLEncoding b = new"
    using race_bytes [of "tick_world (tick_world (tick_world w))"] e by (auto simp: new_def)
  have fresh': "t_ID x \<noteq> 6 + of_nat n" "t_TokenHash x \<noteq> hashToken new" if "x \<in> set (refresh_tokens w)" for x
    using fresh that by (simp_all add: add.commute)
  show ?thesis
    unfolding Rotate_issue_def tok
    by (simp add: u user login UserRepo_def JWT_auth_def jwt run_generateOpaqueToken bytes
        RefreshTokenRepo_def RefreshTokenRepo_Create_def Let_def new_refresh_token_def next_fault_def
        e fresh' new quiet_def IsRevoked_def)
qed

text \<open>
  C22. Two requests with the same token that are served at the same time can both be granted: each
  loads the token before the other revokes it, and the family then has two active tokens. The
  second revocation changes no row, which \<open>Revoke\<close> does not report.
\<close>

theorem concurrent_rotate_redeems_twice:
  "\<exists>w p1 p2. (rot_step demo_uc)\<^sup>*\<^sup>*
       (race_world, rot_start [(''raw'', demo_request), (''raw'', demo_request)])
       (w, [\<lparr>th_raw = ''raw'', th_req = demo_request, th_pc = Pc_Done (Inr p1)\<rparr>,
            \<lparr>th_raw = ''raw'', th_req = demo_request, th_pc = Pc_Done (Inr p2)\<rparr>]) \<and>
     refresh_tokens race_world = [demo_token] \<and>
     rr_RefreshToken p1 \<noteq> rr_RefreshToken p2 \<and>
     length (filter (\<lambda>t. t_FamilyID t = 2 \<and> \<not> IsRevoked t) (refresh_tokens w)) = 2"
proof -
  let ?th = "\<lambda>pc. \<lparr>th_raw = ''raw'', th_req = demo_request, th_pc = pc\<rparr>"
  have step0: "rot_step demo_uc (v, [?th a, ?th b]) (v', [?th a', ?th b])"
    if "stage demo_uc (?th a) v = Some (a', v')" for a a' b v v'
    using rot_stage [of 0 "[?th a, ?th b]" demo_uc v a' v'] that by simp
  have step1: "rot_step demo_uc (v, [?th a, ?th b]) (v', [?th a, ?th b'])"
    if "stage demo_uc (?th b) v = Some (b', v')" for a b b' v v'
    using rot_stage [of 1 "[?th a, ?th b]" demo_uc v b' v'] that by simp
  have q0: "quiet 40 race_world" "refresh_tokens race_world = [demo_token]"
    by (simp_all add: race_world_def quiet_def)
  have id: "t_ID demo_token = 1" by (simp add: demo_token_def)
  from race_load [OF q0] obtain w1 where w1: "run_state (Rotate_load demo_uc ''raw'') race_world = (Inr demo_token, w1)"
    "quiet 42 w1" "refresh_tokens w1 = [demo_token]" using q0 by auto
  from race_load [OF w1(2,3)] obtain w2 where w2: "run_state (Rotate_load demo_uc ''raw'') w1 = (Inr demo_token, w2)"
    "quiet 44 w2" "refresh_tokens w2 = [demo_token]" using w1 by auto
  let ?r = "demo_token\<lparr>t_RevokedAt := Some 0\<rparr>"
  from race_revoke [OF w2(2)] obtain w3 where w3: "run_state (rt_Revoke RefreshTokenRepo 1) w2 = (Inr (), w3)"
    "quiet 46 w3" "refresh_tokens w3 = [?r]" using w2 by (auto simp: revoke_where_def demo_token_def)
  from race_revoke [OF w3(2)] obtain w4 where w4: "run_state (rt_Revoke RefreshTokenRepo 1) w3 = (Inr (), w4)"
    "quiet 48 w4" "refresh_tokens w4 = [?r]" using w3 by (auto simp: revoke_where_def)
  have f1: "\<forall>x \<in> set (refresh_tokens w4). t_ID x \<noteq> of_nat (48 + 6) \<and>
      t_TokenHash x \<noteq> hashToken (RawURLEncoding (replicate 32 (if 48 + 3 < (52::nat) then CHR ''r'' else CHR ''s'')))"
    using hashes_differ by (simp add: w4 demo_token_def demo_raw_def)
  from race_issue [OF w4(2) f1, of demo_request] obtain p1 w5 t1 where w5:
    "run_state (Rotate_issue demo_uc demo_token demo_request) w4 = (Inr p1, w5)" "quiet 56 w5"
    "refresh_tokens w5 = [?r, t1]" "t_FamilyID t1 = 2" "\<not> IsRevoked t1" "t_ID t1 = 54"
    "t_TokenHash t1 = hashToken demo_raw" "rr_RefreshToken p1 = demo_raw"
    using w4 by (auto simp: demo_raw_def)
  have f2: "\<forall>x \<in> set (refresh_tokens w5). t_ID x \<noteq> of_nat (56 + 6) \<and>
      t_TokenHash x \<noteq> hashToken (RawURLEncoding (replicate 32 (if 56 + 3 < (52::nat) then CHR ''r'' else CHR ''s'')))"
    using hashes_differ2 w5(6,7) by (simp add: w5(3) demo_token_def flip: demo_raw2_def)
  from race_issue [OF w5(2) f2, of demo_request] obtain p2 w6 t2 where w6:
    "run_state (Rotate_issue demo_uc demo_token demo_request) w5 = (Inr p2, w6)"
    "refresh_tokens w6 = [?r, t1, t2]" "t_FamilyID t2 = 2" "\<not> IsRevoked t2"
    "rr_RefreshToken p2 = demo_raw2"
    using w5 by (auto simp: demo_raw2_def)
  let ?L = "Pc_Loaded demo_token" and ?R = "Pc_Revoked demo_token"
  have s1: "rot_step demo_uc (race_world, [?th Pc_Start, ?th Pc_Start]) (w1, [?th ?L, ?th Pc_Start])"
    by (rule step0) (simp add: stage.simps w1)
  have s2: "rot_step demo_uc (w1, [?th ?L, ?th Pc_Start]) (w2, [?th ?L, ?th ?L])"
    by (rule step1) (simp add: stage.simps w2)
  have s3: "rot_step demo_uc (w2, [?th ?L, ?th ?L]) (w3, [?th ?R, ?th ?L])"
    by (rule step0) (simp add: stage.simps w3 id)
  have s4: "rot_step demo_uc (w3, [?th ?R, ?th ?L]) (w4, [?th ?R, ?th ?R])"
    by (rule step1) (simp add: stage.simps w4 id)
  have s5: "rot_step demo_uc (w4, [?th ?R, ?th ?R]) (w5, [?th (Pc_Done (Inr p1)), ?th ?R])"
    by (rule step0) (simp add: stage.simps w5)
  have s6: "rot_step demo_uc (w5, [?th (Pc_Done (Inr p1)), ?th ?R])
      (w6, [?th (Pc_Done (Inr p1)), ?th (Pc_Done (Inr p2))])"
    by (rule step1) (simp add: stage.simps w6)
  note run = converse_rtranclp_into_rtranclp [of "rot_step demo_uc"]
  have "(rot_step demo_uc)\<^sup>*\<^sup>* (race_world, [?th Pc_Start, ?th Pc_Start])
      (w6, [?th (Pc_Done (Inr p1)), ?th (Pc_Done (Inr p2))])"
    by (rule run, rule s1, rule run, rule s2, rule run, rule s3, rule run, rule s4, rule run, rule s5,
      rule r_into_rtranclp [of "rot_step demo_uc"], rule s6)
  moreover have "demo_raw \<noteq> demo_raw2" using hashes_differ2(2) by auto
  ultimately show ?thesis
    using w5(4,5,8) w6(2,3,4,5) q0(2)
    by (intro exI [of _ w6] exI [of _ p1] exI [of _ p2]) (simp add: rot_start_def IsRevoked_def)
qed

end
