(* ===== verification/Iam_Props.thy ===== *)
theory Iam_Props
  imports Session_Props
begin

text \<open>
  Registration and login over the PostgreSQL user table and the JWT service.
\<close>

text \<open>What a statement that reads leaves behind.\<close>

lemma run_GetByEmail:
  "run_state (UserRepo_GetByEmail m) w =
     (if next_fault w = NoFault
      then (case find (\<lambda>u. u_Email u = m) (users w) of
              Some u \<Rightarrow> Inr u
            | None \<Rightarrow> Inl (New_error ErrNotFound ''user not found'' None))
      else Inl (internal ''failed to get user by email'' (next_error w)), tick_world w)"
  by (simp add: UserRepo_GetByEmail_def not_found_or_def next_error_def split: option.splits)

lemma run_UserRepo_Create:
  fixes user w
  defines "uid \<equiv> (if u_ID user = uuid_nil then env_uuid (environ w) (tick w) else u_ID user)"
  defines "w1 \<equiv> (if u_ID user = uuid_nil then tick_world w else w)"
  defines "user' \<equiv> user\<lparr>u_ID := uid, u_CreatedAt := clock w1, u_UpdatedAt := clock w1\<rparr>"
  defines "w2 \<equiv> tick_world w1"
  defines "c \<equiv> (\<forall>u \<in> set (users w). u_ID u \<noteq> uid \<and> u_Email u \<noteq> u_Email user)"
  shows "run_state (UserRepo_Create user) w =
    (if next_fault w2 = NoFault \<and> c then Inr user'
     else Inl (internal ''failed to create user'' (next_error w2)),
     if next_fault w2 \<noteq> Refused \<and> c then tick_world (w2\<lparr>users := users w @ [user']\<rparr>) else tick_world w2)"
  by (simp add: UserRepo_Create_def Let_def uid_def w1_def user'_def w2_def c_def)

lemma UserRepo_Create_spec:
  assumes "run_state (UserRepo_Create user) w = (r, w')"
  shows "bus_ch w' = bus_ch w \<and> bus_cap w' = bus_cap w \<and>
    (users w' = users w \<and> (\<exists>e. r = Inl e) \<or>
     (\<exists>u. users w' = users w @ [u] \<and> u_Email u = u_Email user \<and> u_PasswordHash u = u_PasswordHash user \<and>
        u_Status u = u_Status user \<and> u_ID u \<notin> u_ID ` set (users w) \<and>
        u_Email user \<notin> u_Email ` set (users w) \<and> (r = Inr u \<or> (\<exists>e. r = Inl e))))"
proof -
  define uid where "uid = (if u_ID user = uuid_nil then env_uuid (environ w) (tick w) else u_ID user)"
  define w1 where "w1 = (if u_ID user = uuid_nil then tick_world w else w)"
  define w2 where "w2 = tick_world w1"
  have w: "users w2 = users w" "bus_ch w2 = bus_ch w" "bus_cap w2 = bus_cap w"
    by (simp_all add: w2_def w1_def)
  define c where "c = (\<forall>u \<in> set (users w). u_ID u \<noteq> uid \<and> u_Email u \<noteq> u_Email user)"
  have run: "(r, w') =
      (if next_fault w2 = NoFault \<and> c
       then Inr (user\<lparr>u_ID := uid, u_CreatedAt := clock w1, u_UpdatedAt := clock w1\<rparr>)
       else Inl (internal ''failed to create user'' (next_error w2)),
       if next_fault w2 \<noteq> Refused \<and> c
       then tick_world (w2\<lparr>users := users w @
         [user\<lparr>u_ID := uid, u_CreatedAt := clock w1, u_UpdatedAt := clock w1\<rparr>]\<rparr>) else tick_world w2)"
    by (simp only: assms [symmetric] run_UserRepo_Create uid_def w1_def w2_def c_def)
  show ?thesis
  proof (cases c)
    case True
    then have "uid \<notin> u_ID ` set (users w)" "u_Email user \<notin> u_Email ` set (users w)"
      by (auto simp: c_def)
    then show ?thesis using run w True by (cases "next_fault w2") auto
  next
    case False
    then show ?thesis using run w by simp
  qed
qed

lemma internal_code [simp]: "HTTPStatusCode (internal m e) = 500"
  by (simp add: internal_def)

text \<open>
  C8. A login succeeds only for a stored account with that address that is active and whose hash
  matches the password; it answers with that account and a token made for its identifier, its
  address and the nil organization, and changes no table.
\<close>

theorem login_sound:
  assumes "run_state (Login UserRepo (JWT_auth U B J s) req) w = (Inr resp, w')"
  shows "(\<exists>u \<in> set (users w). u_Email u = lg_Email req \<and> User_IsActive u \<and>
      bcrypt_compare B (u_PasswordHash u) (lg_Password req) \<and> lr_User resp = user_info u \<and>
      (\<exists>v. fst (run_state (GenerateToken U J s
        \<lparr>c_UserID = u_ID u, c_Email = u_Email u, c_OrganizationID = uuid_nil, c_Roles = [],
         c_Permissions = []\<rparr>) v) = Inr (lr_Token resp))) \<and> same_tables w w'"
proof -
  obtain u where u: "next_fault w = NoFault" "find (\<lambda>u. u_Email u = lg_Email req) (users w) = Some u"
    using assms
    by (auto simp: Login_def UserRepo_def run_GetByEmail split: if_splits option.splits)
  obtain g v where g: "run_state (GenerateToken U J s
      \<lparr>c_UserID = u_ID u, c_Email = u_Email u, c_OrganizationID = uuid_nil, c_Roles = [],
       c_Permissions = []\<rparr>) (tick_world w) = (g, v)" by fastforce
  note t = GenerateToken_frame [OF g]
  have r: "User_IsActive u" "bcrypt_compare B (u_PasswordHash u) (lg_Password req)"
    "g = Inr (lr_Token resp)" "lr_User resp = user_info u" "w' = v"
    using assms u g
    by (auto simp: Login_def UserRepo_def run_GetByEmail JWT_auth_def VerifyPassword_def
        split: if_splits sum.splits)
  have "u \<in> set (users w) \<and> u_Email u = lg_Email req" by (rule find_Some_in [OF u(2)])
  with r g t show ?thesis by (metis fst_conv same_tables_refl same_tables_tick)
qed

text \<open>
  C31. A login with an unknown address and one with a wrong password to an active account are
  answered alike, with 401 and the same body.
\<close>

theorem login_does_not_reveal_accounts:
  assumes "next_fault w = NoFault" and u: "find (\<lambda>u. u_Email u = lg_Email req) (users w) = Some u"
    and "User_IsActive u" and wrong: "\<not> bcrypt_compare B (u_PasswordHash u) (lg_Password req)"
    and unknown: "lg_Email req' \<notin> u_Email ` set (users w)"
  shows "\<exists>e. fst (run_state (Login UserRepo (JWT_auth U B J s) req) w) = Inl e \<and>
    fst (run_state (Login UserRepo (JWT_auth U B J s) req') w) = Inl e \<and>
    HTTPStatusCode e = 401"
proof -
  have "find (\<lambda>u. u_Email u = lg_Email req') (users w) = None"
    using unknown by (force simp: find_None_iff)
  then show ?thesis
    using assms by (simp add: Login_def UserRepo_def run_GetByEmail JWT_auth_def VerifyPassword_def)
qed

text \<open>
  An account that is not active is answered with 403 whatever the password is, so the answer
  tells that the address is known.
\<close>

theorem login_inactive_forbidden:
  assumes "next_fault w = NoFault" and "find (\<lambda>u. u_Email u = lg_Email req) (users w) = Some u"
    and "\<not> User_IsActive u"
  shows "\<exists>e. fst (run_state (Login UserRepo A req) w) = Inl e \<and> HTTPStatusCode e = 403"
  using assms by (simp add: Login_def UserRepo_def run_GetByEmail)

text \<open>Addresses of users are unique; registration keeps that.\<close>

definition users_inv :: "world \<Rightarrow> bool" where
  "users_inv w \<longleftrightarrow> distinct (map u_ID (users w)) \<and> distinct (map u_Email (users w))"

lemma register_facts:
  assumes inv: "users_inv w"
    and run: "run_state (Register UserRepo (JWT_auth U B J s) req) w = (r, w')"
  shows "users_inv w' \<and>
    (users w' = users w \<or>
     (\<exists>u. users w' = users w @ [u] \<and> u_Email u = rg_Email req \<and> User_IsActive u \<and>
        rg_Email req \<notin> u_Email ` set (users w) \<and>
        (bcrypt_ok B \<longrightarrow> bcrypt_compare B (u_PasswordHash u) (rg_Password req)))) \<and>
    (\<forall>info. r = Inr info \<longrightarrow> (\<exists>u now. users w' = users w @ [u] \<and> info = user_info u \<and>
       bus_ch w' = (if length (bus_ch w) < bus_cap w
         then bus_ch w @ [(TopicIAM, UserRegistered (u_ID u) (rg_Email req) now)] else bus_ch w))) \<and>
    (\<forall>e. r = Inl e \<longrightarrow> bus_ch w' = bus_ch w)"
proof -
  let ?c = "rg_Email req \<notin> u_Email ` set (users w)"
  show ?thesis
  proof (cases "\<exists>u. next_fault w = NoFault \<and> find (\<lambda>u. u_Email u = rg_Email req) (users w) = Some u")
    case True
    then have "w' = tick_world w" "\<exists>e. r = Inl e"
      using run by (auto simp: Register_def UserRepo_def run_GetByEmail)
    then show ?thesis using inv by (auto simp: users_inv_def)
  next
    case False
    then obtain e where miss: "run_state (us_GetByEmail UserRepo (rg_Email req)) w = (Inl e, tick_world w)"
      by (cases "next_fault w = NoFault"; cases "find (\<lambda>u. u_Email u = rg_Email req) (users w)")
        (simp_all add: UserRepo_def run_GetByEmail)
    obtain h v where h: "run_state (HashPassword B (rg_Password req)) (tick_world w) = (h, v)" by fastforce
    have v: "v = tick_world (tick_world w)" by (rule HashPassword_frame [OF h])
    show ?thesis
    proof (cases h)
      case (Inl e')
      then have "w' = v" "\<exists>e. r = Inl e"
        using run miss h by (auto simp: Register_def JWT_auth_def)
      then show ?thesis using inv v by (auto simp: users_inv_def)
    next
      case (Inr hash)
      define user where "user = \<lparr>u_ID = uuid_nil, u_Email = rg_Email req, u_PasswordHash = hash,
            u_FirstName = rg_FirstName req, u_LastName = rg_LastName req,
            u_Status = UserStatusActive, u_CreatedAt = 0, u_UpdatedAt = 0\<rparr>"
      obtain c w4 where c: "run_state (UserRepo_Create user) v = (c, w4)" by fastforce
      have pw: "bcrypt_ok B \<longrightarrow> bcrypt_compare B hash (rg_Password req)"
        using HashPassword_verifies [OF _ h [unfolded Inr]] by (auto simp: VerifyPassword_def split: if_splits)
      have w4: "users w4 = users w \<and> (\<exists>e. c = Inl e) \<or>
          (\<exists>u. users w4 = users w @ [u] \<and> u_Email u = rg_Email req \<and> User_IsActive u \<and>
            u_PasswordHash u = hash \<and> ?c \<and> u_ID u \<notin> u_ID ` set (users w) \<and> (c = Inr u \<or> (\<exists>e. c = Inl e)))"
        "bus_ch w4 = bus_ch w" "bus_cap w4 = bus_cap w"
        using UserRepo_Create_spec [OF c] by (auto simp: v user_def User_IsActive_def)
      have r: "users w' = users w4" "\<And>e. c = Inl e \<Longrightarrow> r = Inl e \<and> bus_ch w' = bus_ch w4"
        "\<And>u. c = Inr u \<Longrightarrow> r = Inr (user_info u) \<and> bus_ch w' = (if length (bus_ch w4) < bus_cap w4
           then bus_ch w4 @ [(TopicIAM, UserRegistered (u_ID u) (u_Email u) (clock w4))] else bus_ch w4)"
        using run miss h Inr c unfolding user_def
        by (auto simp: Register_def UserRepo_def JWT_auth_def split: sum.splits)
      have "users_inv w'" using inv w4(1) r(1) by (auto simp: users_inv_def)
      moreover have "users w' = users w \<or>
         (\<exists>u. users w' = users w @ [u] \<and> u_Email u = rg_Email req \<and> User_IsActive u \<and> ?c \<and>
            (bcrypt_ok B \<longrightarrow> bcrypt_compare B (u_PasswordHash u) (rg_Password req)))"
        using w4(1) r(1) pw by auto
      ultimately show ?thesis using r w4 by (cases c) auto
    qed
  qed
qed

text \<open>
  C32. Registration, under any faults: identifiers and addresses stay unique, accounts that were
  there are untouched, at most one account is added, and only with the address that was asked
  for and with the active status. A success means it was added, was announced on the bus unless
  the bus was full, and a request whose address is taken adds nothing.
\<close>

theorem register_correct:
  assumes inv: "users_inv w"
    and run: "run_state (Register UserRepo (JWT_auth U B J s) req) w = (r, w')"
  shows "users_inv w' \<and>
    (users w' = users w \<or>
     (\<exists>u. users w' = users w @ [u] \<and> u_Email u = rg_Email req \<and> User_IsActive u \<and>
        rg_Email req \<notin> u_Email ` set (users w) \<and>
        (bcrypt_ok B \<longrightarrow> bcrypt_compare B (u_PasswordHash u) (rg_Password req)))) \<and>
    (\<forall>info. r = Inr info \<longrightarrow> (\<exists>u now. users w' = users w @ [u] \<and> info = user_info u \<and>
       bus_ch w' = (if length (bus_ch w) < bus_cap w
         then bus_ch w @ [(TopicIAM, UserRegistered (u_ID u) (rg_Email req) now)] else bus_ch w))) \<and>
    (\<forall>e. r = Inl e \<longrightarrow> bus_ch w' = bus_ch w)"
  by (rule register_facts [OF assms])

text \<open>
  Who registered can log in: a login with the registered address and password, in any later
  state in which the table of users is the one the registration left and the look-up does not
  fail, answers with the registered account, or with 500 if the token cannot be signed.
\<close>

theorem register_then_login:
  assumes "bcrypt_ok B" and inv: "users_inv w"
    and reg: "run_state (Register UserRepo (JWT_auth U B J s) req) w = (Inr info, w')"
    and v: "users v = users w'" "next_fault v = NoFault"
  shows "(\<exists>resp. fst (run_state (Login UserRepo (JWT_auth U B J s)
            \<lparr>lg_Email = rg_Email req, lg_Password = rg_Password req\<rparr>) v) = Inr resp \<and>
          lr_User resp = info) \<or>
    (\<exists>e. fst (run_state (Login UserRepo (JWT_auth U B J s)
            \<lparr>lg_Email = rg_Email req, lg_Password = rg_Password req\<rparr>) v) = Inl e \<and> HTTPStatusCode e = 500)"
proof -
  have run: "run_state (Register UserRepo (JWT_auth U B J s) req) w = (Inr info, w')" by (rule reg)
  note rc = register_facts [OF inv run]
  obtain u where u: "users w' = users w @ [u]" "info = user_info u" using rc by auto
  then have e: "u_Email u = rg_Email req" "User_IsActive u" "rg_Email req \<notin> u_Email ` set (users w)"
    "bcrypt_compare B (u_PasswordHash u) (rg_Password req)"
    using rc assms(1) by auto
  have "find (\<lambda>x. u_Email x = rg_Email req) (users v) = Some u"
    by (rule find_unique) (use e v u in \<open>force+\<close>)
  then show ?thesis
    using v e u
    by (simp add: Login_def UserRepo_def run_GetByEmail JWT_auth_def VerifyPassword_def
        split: prod.splits sum.splits)
qed

section \<open>Witnesses\<close>

abbreviation demo_auth :: AuthService where
  "demo_auth \<equiv> JWT_auth demo_uuid demo_bcrypt demo_jwt demo_service"

definition demo_register :: RegisterRequest where
  "demo_register = \<lparr>rg_Email = ''a@b'', rg_Password = ''secret77'', rg_FirstName = ''A'', rg_LastName = ''B''\<rparr>"

definition demo_credentials :: LoginRequest where
  "demo_credentials = \<lparr>lg_Email = ''a@b'', lg_Password = ''secret77''\<rparr>"

lemma demo_find: "find (\<lambda>u. u_Email u = ''a@b'') (users (demo_world [])) = Some demo_user"
  by (simp add: demo_user_def)

lemma demo_login_runs:
  "\<exists>resp w'. run_state (Login UserRepo demo_auth demo_credentials) (demo_world []) = (Inr resp, w')"
proof -
  have "\<lparr>c_UserID = u_ID demo_user, c_Email = u_Email demo_user, c_OrganizationID = uuid_nil,
      c_Roles = [], c_Permissions = []\<rparr> = demo_login"
    by (simp add: demo_login_def demo_user_def)
  moreover have "User_IsActive demo_user" "VerifyPassword demo_bcrypt (u_PasswordHash demo_user) ''secret77'' = None"
    by (simp_all add: demo_user_def User_IsActive_def VerifyPassword_def demo_bcrypt_def)
  ultimately show ?thesis
    using demo_find
    by (simp add: Login_def UserRepo_def run_GetByEmail JWT_auth_def demo_sign demo_credentials_def next_fault_def)
qed

theorem login_sound_witness:
  "\<exists>resp w'. run_state (Login UserRepo demo_auth demo_credentials) (demo_world []) = (Inr resp, w') \<and>
     lr_User resp = user_info demo_user \<and> users w' = [demo_user]"
proof -
  from demo_login_runs obtain resp w' where
    run: "run_state (Login UserRepo demo_auth demo_credentials) (demo_world []) = (Inr resp, w')" by blast
  from login_sound [OF run] show ?thesis
    using run by (auto simp: same_tables_fields)
qed

theorem login_does_not_reveal_accounts_witness:
  "\<exists>e. fst (run_state (Login UserRepo demo_auth (demo_credentials\<lparr>lg_Password := ''x''\<rparr>)) (demo_world [])) = Inl e \<and>
    fst (run_state (Login UserRepo demo_auth (demo_credentials\<lparr>lg_Email := ''c@d''\<rparr>)) (demo_world [])) = Inl e"
proof -
  have a: "next_fault (demo_world []) = NoFault" by (simp add: next_fault_def)
  have b: "find (\<lambda>u. u_Email u = lg_Email (demo_credentials\<lparr>lg_Password := ''x''\<rparr>)) (users (demo_world [])) = Some demo_user"
    using demo_find by (simp add: demo_credentials_def)
  have c: "User_IsActive demo_user" by (simp add: demo_user_def User_IsActive_def)
  have d: "\<not> bcrypt_compare demo_bcrypt (u_PasswordHash demo_user) (lg_Password (demo_credentials\<lparr>lg_Password := ''x''\<rparr>))"
    by (simp add: demo_bcrypt_def demo_user_def)
  have e: "lg_Email (demo_credentials\<lparr>lg_Email := ''c@d''\<rparr>) \<notin> u_Email ` set (users (demo_world []))"
    by (simp add: demo_user_def)
  from login_does_not_reveal_accounts [OF a b c d e] show ?thesis by blast
qed

lemma demo_register_runs:
  "\<exists>info w'. run_state (Register UserRepo demo_auth demo_register) ((demo_world [])\<lparr>users := []\<rparr>) = (Inr info, w') \<and>
     environ w' = still"
  by (simp add: Register_def UserRepo_def run_GetByEmail JWT_auth_def HashPassword_def demo_register_def
      next_fault_def random_bytes_def demo_bcrypt_def run_UserRepo_Create user_info_def)

theorem register_correct_witness:
  "\<exists>info w'. run_state (Register UserRepo demo_auth demo_register) ((demo_world [])\<lparr>users := []\<rparr>) = (Inr info, w') \<and>
     (\<exists>u. users w' = [u] \<and> u_Email u = ''a@b'' \<and> info = user_info u)"
proof -
  from demo_register_runs obtain info w' where
    run: "run_state (Register UserRepo demo_auth demo_register) ((demo_world [])\<lparr>users := []\<rparr>) = (Inr info, w')"
    by blast
  have "users_inv ((demo_world [])\<lparr>users := []\<rparr>)" by (simp add: users_inv_def)
  from register_correct [OF this run] show ?thesis
    using run by (auto simp: demo_register_def)
qed

theorem register_then_login_witness:
  "\<exists>info w'. run_state (Register UserRepo demo_auth demo_register) ((demo_world [])\<lparr>users := []\<rparr>) = (Inr info, w') \<and>
     (\<forall>e. fst (run_state (Login UserRepo demo_auth demo_credentials) w') = Inl e \<longrightarrow> HTTPStatusCode e = 500)"
proof -
  from demo_register_runs obtain info w' where
    run: "run_state (Register UserRepo demo_auth demo_register) ((demo_world [])\<lparr>users := []\<rparr>) = (Inr info, w')"
    and env: "environ w' = still" by blast
  have inv: "users_inv ((demo_world [])\<lparr>users := []\<rparr>)" by (simp add: users_inv_def)
  have "next_fault w' = NoFault" using env by (simp add: next_fault_def)
  from register_then_login [OF demo_bcrypt_ok inv run refl this] show ?thesis
    using run by (auto simp: demo_register_def demo_credentials_def)
qed

theorem login_inactive_forbidden_witness:
  "\<exists>e. fst (run_state (Login UserRepo demo_auth demo_credentials)
      ((demo_world [])\<lparr>users := [demo_user\<lparr>u_Status := UserStatusSuspended\<rparr>]\<rparr>)) = Inl e \<and> HTTPStatusCode e = 403"
  by (rule login_inactive_forbidden [where u = "demo_user\<lparr>u_Status := UserStatusSuspended\<rparr>"])
    (simp_all add: next_fault_def demo_credentials_def demo_user_def User_IsActive_def)

end
