(* ===== verification/Rbac.thy ===== *)
theory Rbac
  imports Iam
begin

text \<open>
  Permissions: the interface \<open>RBACService\<close> (\<open>internal/domain/iam/service\<close>), its implementation over
  the role tables with a Redis cache (\<open>internal/infrastructure/auth/rbac_service.go\<close>), and the use
  case that assigns a role.
\<close>

section \<open>Matching a permission\<close>

definition matchesPermission :: "string \<Rightarrow> string \<Rightarrow> bool" where
  "matchesPermission grant required \<longleftrightarrow>
     grant = required \<or> grant = ''*'' \<or>
     (HasSuffix grant '':*'' \<and>
        (let p = TrimSuffix grant '':*'' in required = p \<or> HasPrefix required (p @ '':''))) \<or>
     (grant = ''*:read'' \<and> HasSuffix required '':read'')"

lemma matches_refl [simp]: "matchesPermission p p"
  by (simp add: matchesPermission_def)

lemma matches_star [simp]: "matchesPermission ''*'' p"
  by (simp add: matchesPermission_def)

text \<open>The four ways to match.\<close>

lemma matches_cases [consumes 1, case_names same star wild read]:
  assumes "matchesPermission a b"
  obtains "a = b" | "a = ''*''" | p where "a = p @ '':*''" "b = p \<or> (\<exists>t. b = p @ '':'' @ t)"
  | t where "a = ''*:read''" "b = t @ '':read''"
  using assms unfolding matchesPermission_def Let_def by (auto simp: HasSuffix_iff HasPrefix_iff)

lemma matches_wild: "matchesPermission (p @ '':*'') p" "matchesPermission (p @ '':*'') (p @ '':'' @ t)"
  by (simp_all add: matchesPermission_def HasPrefix_iff)

lemma matches_read: "matchesPermission ''*:read'' (t @ '':read'')"
  by (simp add: matchesPermission_def HasSuffix_iff)

text \<open>A pattern whose stem is itself a pattern, such as \<open>*:*\<close>.\<close>

definition nested_pattern :: "string \<Rightarrow> bool" where
  "nested_pattern a \<longleftrightarrow>
     (\<exists>p. a = p @ '':*'' \<and> (p = ''*'' \<or> p = ''*:read'' \<or> HasSuffix p '':*''))"

lemma wild_split:
  assumes "p @ '':'' @ t = q @ '':*''"
  shows "t = ''*'' \<and> q = p \<or> (\<exists>r. q = p @ '':'' @ r)"
proof -
  obtain s where t: "t = s @ ''*''" and e: "p @ '':'' @ s = q @ '':''"
    using assms by (cases t rule: rev_cases) auto
  show ?thesis
  proof (cases s rule: rev_cases)
    case Nil
    with e t show ?thesis by simp
  next
    case (snoc r c)
    with e have "q = p @ '':'' @ r" by (metis append_assoc butlast_snoc)
    then show ?thesis by blast
  qed
qed

text \<open>
  Matching composes: a permission that grants one which grants a third grants the third,
  except for a pattern whose stem is a pattern; \<open>*:*\<close> grants \<open>*\<close>, which grants all, and does
  not itself grant \<open>endpoint:read\<close>.
\<close>

theorem matches_trans:
  assumes "matchesPermission a b" "matchesPermission b c" and plain: "\<not> nested_pattern a"
  shows "matchesPermission a c"
  using assms(1)
proof (cases rule: matches_cases)
  case (wild p)
  have np: "p \<noteq> ''*''" "p \<noteq> ''*:read''" "\<And>q. p \<noteq> q @ '':*''"
    using plain wild by (auto simp: nested_pattern_def HasSuffix_iff)
  show ?thesis
    using assms(2)
  proof (cases rule: matches_cases)
    case same
    then show ?thesis using assms(1) by simp
  next
    case star
    then have "p = ''*''" using wild by (cases p) auto
    then show ?thesis using np by simp
  next
    case inner: (wild q)
    then obtain t where "p @ '':'' @ t = q @ '':*''" using wild np by metis
    from wild_split [OF this] show ?thesis
      using inner wild matches_wild by fastforce
  next
    case (read t)
    have "p \<noteq> ''*''" "p \<noteq> ''*:read''" by (rule np)+
    with read wild show ?thesis by (cases p) (auto simp: Cons_eq_append_conv)
  qed
next
  case (read t)
  show ?thesis
    using assms(2)
  proof (cases rule: matches_cases)
    case (wild q)
    then show ?thesis using read arg_cong [of "t @ '':read''" "q @ '':*''" last] by simp
  next
    case star
    then show ?thesis using read arg_cong [of "t @ '':read''" "''*''" last] by simp
  qed (use read assms matches_read in auto)
qed (use assms in simp_all)

theorem matches_trans_witness:
  "matchesPermission ''org:*'' ''org:app:read'' \<and> \<not> matchesPermission ''*:*'' ''endpoint:read''"
proof -
  have "\<not> nested_pattern ''org:*''"
  proof
    assume "nested_pattern ''org:*''"
    then obtain p where p: "''org'' @ '':*'' = p @ '':*''" "p = ''*'' \<or> p = ''*:read'' \<or> HasSuffix p '':*''"
      by (auto simp: nested_pattern_def)
    then have "p = ''org''" by (metis append_same_eq)
    with p(2) show False by (simp add: HasSuffix_def suffix_to_prefix)
  qed
  moreover have "matchesPermission ''org:*'' ''org:app:*''" "matchesPermission ''org:app:*'' ''org:app:read''"
    using matches_wild(2) [of "''org''" "''app:*''"] matches_wild(2) [of "''org:app''" "''read''"] by simp_all
  ultimately have "matchesPermission ''org:*'' ''org:app:read''" by (blast intro: matches_trans [of "''org:*''" "''org:app:*''"])
  moreover have "\<not> matchesPermission ''*:*'' ''endpoint:read''"
    by (simp add: matchesPermission_def TrimSuffix_def HasPrefix_def HasSuffix_def suffix_to_prefix)
  ultimately show ?thesis by simp
qed

section \<open>The service\<close>

record RoleRepository =
  ro_Create :: "Role \<Rightarrow> (goerr + Role) eff"
  ro_GetByID :: "uuid \<Rightarrow> (goerr + Role) eff"
  ro_ListByScope :: "string \<Rightarrow> uuid \<Rightarrow> (goerr + Role list) eff"
  ro_Update :: "Role \<Rightarrow> (goerr + Role) eff"
  ro_Delete :: "uuid \<Rightarrow> (goerr + unit) eff"
  ro_AddPermission :: "uuid \<Rightarrow> string \<Rightarrow> (goerr + unit) eff"
  ro_RemovePermission :: "uuid \<Rightarrow> string \<Rightarrow> (goerr + unit) eff"
  ro_GetPermissions :: "uuid \<Rightarrow> (goerr + string list) eff"
  ro_AssignRoleToUser :: "UserRole \<Rightarrow> (goerr + UserRole) eff"
  ro_RemoveRoleFromUser :: "uuid \<Rightarrow> uuid \<Rightarrow> (goerr + unit) eff"
  ro_GetUserRoles :: "uuid \<Rightarrow> uuid \<Rightarrow> (goerr + UserRole list) eff"
  ro_GetUserPermissions :: "uuid \<Rightarrow> uuid \<Rightarrow> (goerr + string list) eff"

definition RoleRepo :: "(string \<Rightarrow> string \<Rightarrow> bool) \<Rightarrow> RoleRepository" where
  "RoleRepo collate =
     \<lparr>ro_Create = RoleRepo_Create, ro_GetByID = RoleRepo_GetByID,
      ro_ListByScope = RoleRepo_ListByScope collate, ro_Update = RoleRepo_Update,
      ro_Delete = RoleRepo_Delete, ro_AddPermission = RoleRepo_AddPermission,
      ro_RemovePermission = RoleRepo_RemovePermission, ro_GetPermissions = RoleRepo_GetPermissions,
      ro_AssignRoleToUser = RoleRepo_AssignRoleToUser,
      ro_RemoveRoleFromUser = RoleRepo_RemoveRoleFromUser,
      ro_GetUserRoles = RoleRepo_GetUserRoles, ro_GetUserPermissions = RoleRepo_GetUserPermissions\<rparr>"

record RBACService =
  rb_HasPermission :: "uuid \<Rightarrow> uuid \<Rightarrow> string \<Rightarrow> (goerr + bool) eff"
  rb_HasAnyPermission :: "uuid \<Rightarrow> uuid \<Rightarrow> string list \<Rightarrow> (goerr + bool) eff"
  rb_GetUserPermissions :: "uuid \<Rightarrow> uuid \<Rightarrow> (goerr + string list) eff"
  rb_InvalidateCache :: "uuid \<Rightarrow> uuid \<Rightarrow> (goerr + unit) eff"

text \<open>\<open>sv_redis\<close> says whether there is a Redis client.\<close>

record RBACServiceImpl =
  sv_roleRepo :: RoleRepository
  sv_redis :: bool

definition permissionCacheTTL :: time where
  "permissionCacheTTL = 15 * minute"

definition cacheKey :: "uuid_api \<Rightarrow> uuid \<Rightarrow> uuid \<Rightarrow> string" where
  "cacheKey U uid gid = ''user:'' @ uuid_str U uid @ '':org:'' @ uuid_str U gid @ '':permissions''"

definition GetUserPermissions ::
  "uuid_api \<Rightarrow> RBACServiceImpl \<Rightarrow> uuid \<Rightarrow> uuid \<Rightarrow> (goerr + string list) eff" where
  "GetUserPermissions U s uid gid = do {
     cached \<leftarrow> (if sv_redis s then redis_get (cacheKey U uid gid) else ret None);
     case cached of
       Some (PermsValue perms) \<Rightarrow> ok perms
     | _ \<Rightarrow>
         try_do (ro_GetUserPermissions (sv_roleRepo s) uid gid) (\<lambda>perms. do {
           (if sv_redis s \<and> perms \<noteq> []
            then redis_set (cacheKey U uid gid) (PermsValue perms) permissionCacheTTL else ret ());
           ok perms
         })
   }"

definition HasPermission ::
  "uuid_api \<Rightarrow> RBACServiceImpl \<Rightarrow> uuid \<Rightarrow> uuid \<Rightarrow> string \<Rightarrow> (goerr + bool) eff" where
  "HasPermission U s uid gid permission =
     try_do (GetUserPermissions U s uid gid)
       (\<lambda>perms. ok (\<exists>p \<in> set perms. matchesPermission p permission))"

definition HasAnyPermission ::
  "uuid_api \<Rightarrow> RBACServiceImpl \<Rightarrow> uuid \<Rightarrow> uuid \<Rightarrow> string list \<Rightarrow> (goerr + bool) eff" where
  "HasAnyPermission U s uid gid permissions =
     try_do (GetUserPermissions U s uid gid)
       (\<lambda>perms. ok (\<exists>grant \<in> set perms. \<exists>required \<in> set permissions. matchesPermission grant required))"

definition InvalidateCache ::
  "uuid_api \<Rightarrow> RBACServiceImpl \<Rightarrow> uuid \<Rightarrow> uuid \<Rightarrow> (goerr + unit) eff" where
  "InvalidateCache U s uid gid = (if sv_redis s then redis_del (cacheKey U uid gid) else ok ())"

definition NewRBACService :: "uuid_api \<Rightarrow> RBACServiceImpl \<Rightarrow> RBACService" where
  "NewRBACService U s =
     \<lparr>rb_HasPermission = HasPermission U s, rb_HasAnyPermission = HasAnyPermission U s,
      rb_GetUserPermissions = GetUserPermissions U s, rb_InvalidateCache = InvalidateCache U s\<rparr>"

text \<open>
  What a client of the service relies on: an answer follows from the permissions the service
  reports in the same state, and asking leaves the tables alone.
\<close>

locale rbac_service =
  fixes S :: RBACService
  assumes has_law: "run_state (rb_HasPermission S u g p) w = (Inr b, w') \<Longrightarrow>
      \<exists>perms. run_state (rb_GetUserPermissions S u g) w = (Inr perms, w') \<and>
        (b \<longleftrightarrow> (\<exists>q \<in> set perms. matchesPermission q p))"
    and any_law: "run_state (rb_HasAnyPermission S u g ps) w = (Inr b, w') \<Longrightarrow>
      \<exists>perms. run_state (rb_GetUserPermissions S u g) w = (Inr perms, w') \<and>
        (b \<longleftrightarrow> (\<exists>q \<in> set perms. \<exists>p \<in> set ps. matchesPermission q p))"
begin

lemma any_singleton:
  assumes "run_state (rb_HasAnyPermission S u g [p]) w = (Inr b, w')"
    and "run_state (rb_HasPermission S u g p) w = (Inr b', w'')"
  shows "b = b' \<and> w' = w''"
  using any_law [OF assms(1)] has_law [OF assms(2)] by auto

text \<open>Who holds a permission holds whatever it grants.\<close>

lemma has_mono:
  assumes "run_state (rb_HasPermission S u g p) w = (Inr True, w')"
    and "matchesPermission p p'" "run_state (rb_HasPermission S u g p') w = (Inr b, w'')"
    and "\<forall>perms. fst (run_state (rb_GetUserPermissions S u g) w) = Inr perms \<longrightarrow>
           (\<forall>q \<in> set perms. \<not> nested_pattern q)"
  shows "b"
  using has_law [OF assms(1)] has_law [OF assms(3)] assms(2,4) by (auto dest: matches_trans)

end

interpretation rbac: rbac_service "NewRBACService U s" for U s
  by unfold_locales
    (auto simp: NewRBACService_def HasPermission_def HasAnyPermission_def split: prod.splits sum.splits)

section \<open>Assigning a role\<close>

record AssignRoleRequest =
  ar_UserID :: uuid
  ar_RoleID :: uuid
  ar_OrganizationID :: uuid
  ar_AppID :: "uuid option"

definition AssignRole ::
  "RoleRepository \<Rightarrow> RBACService \<Rightarrow> AssignRoleRequest \<Rightarrow> (goerr + unit) eff" where
  "AssignRole roleRepo rbac req =
     try_do (ro_AssignRoleToUser roleRepo
       \<lparr>ur_ID = uuid_nil, ur_UserID = ar_UserID req, ur_RoleID = ar_RoleID req,
        ur_OrganizationID = ar_OrganizationID req, ur_AppID = ar_AppID req, ur_CreatedAt = 0\<rparr>) (\<lambda>_. do {
     rb_InvalidateCache rbac (ar_UserID req) (ar_OrganizationID req);
     now \<leftarrow> time_Now;
     Publish TopicIAM (RoleAssigned (ar_UserID req) (ar_RoleID req) (ar_OrganizationID req) now);
     ok ()
   })"

end
