(* ===== verification/Rbac_Props.thy ===== *)
theory Rbac_Props
  imports Rbac Session_Props
begin

text \<open>
  How old an answer of the permission cache can be, and that assigning a role takes effect.
\<close>

lemma cacheKey_inject:
  assumes "uuid_api_ok U"
  shows "cacheKey U u g = cacheKey U u' g' \<longleftrightarrow> u = u' \<and> g = g'"
proof
  assume "cacheKey U u g = cacheKey U u' g'"
  then have e: "uuid_str U u @ CHR '':'' # (''org:'' @ uuid_str U g @ '':permissions'') =
      uuid_str U u' @ CHR '':'' # (''org:'' @ uuid_str U g' @ '':permissions'')"
    by (simp add: cacheKey_def)
  from sep_inject [OF e] assms have "uuid_str U u = uuid_str U u'"
    "uuid_str U g @ '':permissions'' = uuid_str U g' @ '':permissions''" by simp_all
  then show "u = u' \<and> g = g'" using assms by simp
qed simp

lemma granted_tick [simp]: "granted (tick_world w) u g = granted w u g"
  by (simp add: granted_def)

lemma run_role_permissions:
  assumes "run_state (RoleRepo_GetUserPermissions u g) w = (r, w')"
  shows "w' = tick_world w \<and> (\<forall>perms. r = Inr perms \<longrightarrow> set perms \<subseteq> set (granted w u g))"
  using assms
  by (auto simp: RoleRepo_GetUserPermissions_def split: fault.splits dest: in_set_takeD)

text \<open>What one look-up does: it answers from the cache or from the tables, and stores the latter.\<close>

lemma GetUserPermissions_spec:
  fixes U R red
  defines "s \<equiv> \<lparr>sv_roleRepo = R, sv_redis = red\<rparr>"
  assumes R: "ro_GetUserPermissions R = RoleRepo_GetUserPermissions"
    and run: "run_state (GetUserPermissions U s u g) w = (r, w')"
  shows "later w w' \<and>
    (\<forall>perms. r = Inr perms \<longrightarrow>
       (red \<and> redis_live w (cacheKey U u g) = Some (PermsValue perms)) \<or> set perms \<subseteq> set (granted w u g)) \<and>
    (redis w' = redis w \<or>
     (\<exists>perms n. set perms \<subseteq> set (granted w u g) \<and>
        redis w' = (redis w)(cacheKey U u g \<mapsto> (PermsValue perms,
          Some (clock w + int (env_delay (environ w) (tick w)) + int (env_delay (environ w) n) + permissionCacheTTL)))))"
proof -
  define cached where "cached =
    (if red \<and> next_fault w = NoFault then redis_live w (cacheKey U u g) else None)"
  define w1 where "w1 = (if red then tick_world w else w)"
  have c: "run_state (if sv_redis s then redis_get (cacheKey U u g) else ret None) w = (cached, w1)"
    by (simp add: cached_def w1_def s_def)
  have w1: "later w w1" "redis w1 = redis w" "granted w1 u g = granted w u g"
    by (simp_all add: w1_def)
  show ?thesis
  proof (cases "\<exists>perms. cached = Some (PermsValue perms)")
    case True
    then obtain perms where p: "cached = Some (PermsValue perms)" by blast
    then have "r = Inr perms" "w' = w1"
      using run c by (simp_all add: GetUserPermissions_def)
    then show ?thesis using p w1 by (auto simp: cached_def split: if_splits)
  next
    case False
    then have miss: "run_state (GetUserPermissions U s u g) w =
        run_state (try_do (RoleRepo_GetUserPermissions u g) (\<lambda>perms. do {
           (if red \<and> perms \<noteq> []
            then redis_set (cacheKey U u g) (PermsValue perms) permissionCacheTTL else ret ());
           ok perms })) w1"
      using c by (auto simp: GetUserPermissions_def R s_def split: option.splits redis_value.splits)
    obtain q w2 where q: "run_state (RoleRepo_GetUserPermissions u g) w1 = (q, w2)" by fastforce
    note qs = run_role_permissions [OF q]
    have l2: "later w w2" using later_trans [OF w1(1) later_tick] qs by simp
    show ?thesis
    proof (cases q)
      case (Inl e)
      then show ?thesis using run miss q qs l2 w1 by auto
    next
      case (Inr perms)
      then have sub: "set perms \<subseteq> set (granted w u g)" using qs w1 by auto
      define w3 where "w3 = w2\<lparr>redis := (redis w2)(cacheKey U u g \<mapsto> (PermsValue perms, Some (clock w2 + permissionCacheTTL)))\<rparr>"
      have l3: "later w (tick_world w3)" using l2 by (rule later_trans) (simp add: later_def w3_def)
      have l4: "later w (tick_world w2)" by (rule later_trans [OF l2 later_tick])
      have w3: "redis w3 = (redis w)(cacheKey U u g \<mapsto> (PermsValue perms,
          Some (clock w + int (env_delay (environ w) (tick w)) + int (env_delay (environ w) (Suc (tick w))) + permissionCacheTTL)))"
        if red
        using that qs by (simp add: w3_def w1_def)
      have w2: "redis w2 = redis w" using qs w1 by simp
      have "r = Inr perms \<and> (w' = w2 \<or> w' = tick_world w2 \<or> red \<and> w' = tick_world w3)"
        using run miss q Inr by (auto simp: w3_def split: if_splits)
      then consider "r = Inr perms" "w' = w2 \<or> w' = tick_world w2" | "r = Inr perms" "red" "w' = tick_world w3"
        by blast
      then show ?thesis
      proof cases
        case 1
        then show ?thesis using l2 l4 sub w2 by auto
      next
        case 2
        then show ?thesis using l3 sub w3 by (simp only: tick_world_tables) blast
      qed
    qed
  qed
qed

text \<open>
  A history of the program, newest state first: look-ups and invalidations of the service, and
  anything else, which changes the tables as it likes and writes no permission entry to Redis.
\<close>

inductive rbac_run :: "uuid_api \<Rightarrow> RBACServiceImpl \<Rightarrow> world list \<Rightarrow> bool" for U s where
  start: "(\<And>u g. redis w (cacheKey U u g) = None) \<Longrightarrow> rbac_run U s [w]"
| look_up: "rbac_run U s (w # h) \<Longrightarrow> run_state (GetUserPermissions U s u g) w = (r, w') \<Longrightarrow>
    rbac_run U s (w' # w # h)"
| invalidate: "rbac_run U s (w # h) \<Longrightarrow> run_state (InvalidateCache U s u g) w = (x, w') \<Longrightarrow>
    rbac_run U s (w' # w # h)"
| other: "rbac_run U s (w # h) \<Longrightarrow> later w w' \<Longrightarrow>
    (\<And>u g. redis w' (cacheKey U u g) = redis w (cacheKey U u g) \<or> redis w' (cacheKey U u g) = None) \<Longrightarrow>
    rbac_run U s (w' # w # h)"

text \<open>Every entry holds permissions that a state of the history granted.\<close>

definition cache_sound :: "uuid_api \<Rightarrow> nat \<Rightarrow> world list \<Rightarrow> bool" where
  "cache_sound U d h \<longleftrightarrow>
     (\<forall>u g v e. redis (hd h) (cacheKey U u g) = Some (v, e) \<longrightarrow>
        (\<exists>w0 \<in> set h. \<exists>perms t. v = PermsValue perms \<and> e = Some t \<and> set perms \<subseteq> set (granted w0 u g) \<and>
           t \<le> clock w0 + 2 * int d + permissionCacheTTL))"

lemma rbac_run_environ:
  "rbac_run U \<lparr>sv_roleRepo = R, sv_redis = red\<rparr> h \<Longrightarrow>
   ro_GetUserPermissions R = RoleRepo_GetUserPermissions \<Longrightarrow>
   \<forall>w \<in> set h. environ w = environ (hd h)"
proof (induction rule: rbac_run.induct)
  case (look_up w h u g r w')
  then show ?case using GetUserPermissions_spec [OF look_up.prems look_up.hyps(2)] by (auto simp: later_def)
next
  case (invalidate w h u g x w')
  then show ?case by (auto simp: InvalidateCache_def split: if_splits)
qed (auto simp: later_def)

lemma cache_sound_step:
  assumes "cache_sound U d (w # h)"
    and "\<And>u g. redis w' (cacheKey U u g) = redis w (cacheKey U u g) \<or> redis w' (cacheKey U u g) = None"
  shows "cache_sound U d (w' # w # h)"
  unfolding cache_sound_def
proof (intro allI impI)
  fix u g v e
  assume "redis (hd (w' # w # h)) (cacheKey U u g) = Some (v, e)"
  with assms(2) [of u g] have "redis (hd (w # h)) (cacheKey U u g) = Some (v, e)" by auto
  with assms(1) show "\<exists>w0 \<in> set (w' # w # h). \<exists>perms t. v = PermsValue perms \<and> e = Some t \<and>
      set perms \<subseteq> set (granted w0 u g) \<and> t \<le> clock w0 + 2 * int d + permissionCacheTTL"
    unfolding cache_sound_def by (meson list.set_intros(2))
qed

lemma rbac_run_sound:
  assumes "rbac_run U \<lparr>sv_roleRepo = R, sv_redis = red\<rparr> h" "uuid_api_ok U"
    and R: "ro_GetUserPermissions R = RoleRepo_GetUserPermissions"
    and d: "\<And>n. env_delay (environ (hd h)) n \<le> d"
  shows "cache_sound U d h"
  using assms(1) d
proof (induction rule: rbac_run.induct)
  case (start w)
  then show ?case by (simp add: cache_sound_def)
next
  case (look_up w h u g r w')
  note sp = GetUserPermissions_spec [OF R look_up.hyps(2)]
  have d: "env_delay (environ w) n \<le> d" for n using look_up.prems [of n] sp by (simp add: later_def)
  then have IH: "cache_sound U d (w # h)" using look_up.IH by simp
  from sp consider "redis w' = redis w" | perms n where "set perms \<subseteq> set (granted w u g)"
      "redis w' = (redis w)(cacheKey U u g \<mapsto> (PermsValue perms,
          Some (clock w + int (env_delay (environ w) (tick w)) + int (env_delay (environ w) n) + permissionCacheTTL)))"
    by blast
  then show ?case
  proof cases
    case 1
    then show ?thesis using cache_sound_step [OF IH] by simp
  next
    case 2
    show ?thesis
      unfolding cache_sound_def
    proof (intro allI impI)
      fix a b v e
      assume e: "redis (hd (w' # w # h)) (cacheKey U a b) = Some (v, e)"
      show "\<exists>w0 \<in> set (w' # w # h). \<exists>perms t. v = PermsValue perms \<and> e = Some t \<and>
          set perms \<subseteq> set (granted w0 a b) \<and> t \<le> clock w0 + 2 * int d + permissionCacheTTL"
      proof (cases "a = u \<and> b = g")
        case True
        with e 2 d [of "tick w"] d [of n] show ?thesis by (intro bexI [of _ w]) auto
      next
        case False
        then have "cacheKey U a b \<noteq> cacheKey U u g" using cacheKey_inject [OF assms(2)] by simp
        then have "redis (hd (w # h)) (cacheKey U a b) = Some (v, e)" using e 2(2) by simp
        with IH show ?thesis unfolding cache_sound_def by (meson list.set_intros(2))
      qed
    qed
  qed
next
  case (invalidate w h u g x w')
  have w: "environ w' = environ w" "redis w' = redis w \<or> redis w' = (redis w)(cacheKey U u g := None)"
    using invalidate.hyps(2) by (auto simp: InvalidateCache_def split: if_splits)
  then have IH: "cache_sound U d (w # h)" using invalidate by simp
  have same: "redis w' k = redis w k \<or> redis w' k = None" for k using w(2) by (elim disjE) simp_all
  show ?case by (rule cache_sound_step [OF IH]) (rule same)
next
  case (other w h w')
  then have IH: "cache_sound U d (w # h)" by (simp add: later_def)
  show ?case by (rule cache_sound_step [OF IH other.hyps(3)])
qed

text \<open>
  C17. A granted permission is never older than the cache allows: in every history of the program
  in which no effect takes longer than \<open>d\<close>, when \<open>HasPermission\<close> says yes, some state of the
  history, at most 15 minutes and twice \<open>d\<close> ago, gave the user in that organization a permission
  that grants the one asked for. This covers roles that were removed without an invalidation.
\<close>

theorem permission_staleness_bounded:
  assumes "uuid_api_ok U" and hist: "rbac_run U \<lparr>sv_roleRepo = RoleRepo collate, sv_redis = red\<rparr> (w # h)"
    and d: "\<forall>n. env_delay (environ w) n \<le> d"
    and yes: "run_state (HasPermission U \<lparr>sv_roleRepo = RoleRepo collate, sv_redis = red\<rparr> u g p) w = (Inr True, w')"
  shows "\<exists>w0 \<in> set (w # h). clock w \<le> clock w0 + 2 * int d + 15 * minute \<and>
           (\<exists>q \<in> set (granted w0 u g). matchesPermission q p)"
proof -
  have R: "ro_GetUserPermissions (RoleRepo collate) = RoleRepo_GetUserPermissions"
    by (simp add: RoleRepo_def)
  from rbac.has_law [of U "\<lparr>sv_roleRepo = RoleRepo collate, sv_redis = red\<rparr>" u g p w True w'] yes
  obtain perms where
    run: "run_state (GetUserPermissions U \<lparr>sv_roleRepo = RoleRepo collate, sv_redis = red\<rparr> u g) w = (Inr perms, w')"
    and q: "\<exists>q \<in> set perms. matchesPermission q p"
    by (simp add: NewRBACService_def) blast
  from GetUserPermissions_spec [OF R run] consider
    "redis_live w (cacheKey U u g) = Some (PermsValue perms)" | "set perms \<subseteq> set (granted w u g)" by auto
  then show ?thesis
  proof cases
    case 1
    have sound: "cache_sound U d (w # h)"
      by (rule rbac_run_sound [OF hist assms(1) R]) (use d in simp)
    from 1 obtain e where e: "redis w (cacheKey U u g) = Some (PermsValue perms, e)"
      "\<forall>t. e = Some t \<longrightarrow> clock w < t"
      by (auto simp: redis_live_def split: option.splits if_splits)
    with sound obtain w0 t where "w0 \<in> set (w # h)" "e = Some t" "set perms \<subseteq> set (granted w0 u g)"
      "t \<le> clock w0 + 2 * int d + permissionCacheTTL"
      unfolding cache_sound_def by (metis list.sel(1) redis_value.inject(1))
    with e q show ?thesis by (intro bexI [of _ w0]) (auto simp: permissionCacheTTL_def)
  next
    case 2
    with q show ?thesis by (intro bexI [of _ w]) (auto simp: minute_def second_def)
  qed
qed

definition demo_role :: UserRole where
  "demo_role = \<lparr>ur_ID = 20, ur_UserID = 7, ur_RoleID = 3, ur_OrganizationID = 5, ur_AppID = None, ur_CreatedAt = 1\<rparr>"

definition rbac_world :: world where
  "rbac_world = (demo_world [])\<lparr>user_roles := [demo_role],
     role_permissions := [\<lparr>p_RoleID = 3, p_Permission = ''org:*''\<rparr>]\<rparr>"

lemma rbac_world_simps [simp]:
  "environ rbac_world = still" "clock rbac_world = 0" "tick rbac_world = 40" "redis rbac_world = Map.empty"
  "granted rbac_world 7 5 = [''org:*'']"
  by (simp_all add: rbac_world_def granted_def demo_role_def) (simp add: demo_world_def empty_world_def)

definition demo_rbac :: RBACServiceImpl where
  "demo_rbac = \<lparr>sv_roleRepo = RoleRepo (\<lambda>_ _. True), sv_redis = True\<rparr>"

lemma demo_has:
  "\<exists>w'. run_state (HasPermission demo_uuid demo_rbac 7 5 ''org:read'') rbac_world = (Inr True, w')"
proof -
  have "matchesPermission ''org:*'' ''org:read''"
    using matches_wild(2) [of "''org''" "''read''"] by simp
  then show ?thesis
    by (simp add: HasPermission_def GetUserPermissions_def demo_rbac_def RoleRepo_def
        RoleRepo_GetUserPermissions_def redis_live_def next_fault_def)
qed

theorem permission_staleness_bounded_witness:
  "\<exists>w'. run_state (HasPermission demo_uuid demo_rbac 7 5 ''org:read'') rbac_world = (Inr True, w') \<and>
     (\<exists>q \<in> set (granted rbac_world 7 5). matchesPermission q ''org:read'')"
proof -
  from demo_has obtain w' where
    yes: "run_state (HasPermission demo_uuid demo_rbac 7 5 ''org:read'') rbac_world = (Inr True, w')" by blast
  have hist: "rbac_run demo_uuid demo_rbac [rbac_world]" by (rule rbac_run.start) simp
  have d: "\<forall>n. env_delay (environ rbac_world) n \<le> 0" by simp
  from permission_staleness_bounded [OF demo_uuid_ok hist [unfolded demo_rbac_def] d yes [unfolded demo_rbac_def]]
  show ?thesis using yes by auto
qed

text \<open>
  An assignment that succeeds is in force at once: if the invalidation of the cache was not
  refused, the next look-up reports, when its own query does not fail, exactly what the tables
  grant, the permissions of the assigned role among them.
\<close>

theorem assign_role_in_force:
  fixes U collate
  defines "s \<equiv> \<lparr>sv_roleRepo = RoleRepo collate, sv_redis = True\<rparr>"
  assumes run: "run_state (AssignRole (RoleRepo collate) (NewRBACService U s) req) w = (Inr (), w')"
    and del: "env_fault (environ w) (tick w + 3) \<noteq> Refused"
    and query: "env_fault (environ w) (tick w' + 1) = NoFault"
  shows "fst (run_state (GetUserPermissions U s (ar_UserID req) (ar_OrganizationID req)) w')
       = Inr (granted w' (ar_UserID req) (ar_OrganizationID req)) \<and>
     (\<forall>p \<in> set (role_permissions w). p_RoleID p = ar_RoleID req \<longrightarrow>
        p_Permission p \<in> set (granted w' (ar_UserID req) (ar_OrganizationID req)))"
proof -
  let ?row = "\<lparr>ur_ID = env_uuid (environ w) (tick w), ur_UserID = ar_UserID req, ur_RoleID = ar_RoleID req,
      ur_OrganizationID = ar_OrganizationID req, ur_AppID = ar_AppID req,
      ur_CreatedAt = clock w + int (env_delay (environ w) (tick w))\<rparr>"
  have del': "env_fault (environ w) (Suc (Suc (Suc (tick w)))) \<noteq> Refused"
    using del by (simp add: eval_nat_numeral)
  have facts: "environ w' = environ w" "role_permissions w' = role_permissions w"
    "redis w' (cacheKey U (ar_UserID req) (ar_OrganizationID req)) = None"
    "(\<exists>r \<in> set (user_roles w). user_role_conflict r ?row) \<and> user_roles w' = user_roles w \<or>
     user_roles w' = user_roles w @ [?row]"
    using run del'
    by (auto simp: AssignRole_def RoleRepo_def RoleRepo_AssignRoleToUser_def NewRBACService_def
        InvalidateCache_def s_def Let_def next_fault_def split: if_splits sum.splits)
  have "\<exists>r \<in> set (user_roles w'). ur_UserID r = ar_UserID req \<and> ur_RoleID r = ar_RoleID req \<and>
      ur_OrganizationID r = ar_OrganizationID req"
    using facts(4) by (auto simp: user_role_conflict_def)
  then have "\<forall>p \<in> set (role_permissions w). p_RoleID p = ar_RoleID req \<longrightarrow>
        p_Permission p \<in> set (granted w' (ar_UserID req) (ar_OrganizationID req))"
    unfolding granted_def facts(2) by (auto simp: image_iff) metis
  moreover have "fst (run_state (GetUserPermissions U s (ar_UserID req) (ar_OrganizationID req)) w')
       = Inr (granted w' (ar_UserID req) (ar_OrganizationID req))"
    using facts(1,3) query
    by (simp add: GetUserPermissions_def s_def RoleRepo_def RoleRepo_GetUserPermissions_def redis_live_def
        next_fault_def split: if_splits)
  ultimately show ?thesis by blast
qed

definition demo_assignment :: AssignRoleRequest where
  "demo_assignment = \<lparr>ar_UserID = 7, ar_RoleID = 3, ar_OrganizationID = 5, ar_AppID = None\<rparr>"

definition assign_world :: world where
  "assign_world = rbac_world\<lparr>user_roles := [],
     roles := [\<lparr>r_ID = 3, r_ScopeType = ''organization'', r_ScopeID = 5, r_Name = ''admin'',
        r_Description = [], r_CreatedAt = 0, r_UpdatedAt = 0\<rparr>],
     organizations := [\<lparr>o_ID = 5, o_Name = ''Org'', o_Slug = ''org'', o_Status = OrgStatusActive,
        o_SSOConfig = None, o_DataRetentionPolicy = None, o_CreatedAt = 0, o_UpdatedAt = 0\<rparr>],
     redis := [cacheKey demo_uuid 7 5 \<mapsto> (PermsValue [''old:read''], Some hour)]\<rparr>"

theorem assign_role_in_force_witness:
  "\<exists>w'. run_state (AssignRole (RoleRepo (\<lambda>_ _. True)) (NewRBACService demo_uuid demo_rbac) demo_assignment)
      assign_world = (Inr (), w') \<and>
    (\<exists>perms. fst (run_state (GetUserPermissions demo_uuid demo_rbac 7 5) w') = Inr perms \<and> ''org:*'' \<in> set perms)"
proof -
  have e: "environ assign_world = still" by (simp add: assign_world_def)
  obtain w' where run: "run_state (AssignRole (RoleRepo (\<lambda>_ _. True)) (NewRBACService demo_uuid demo_rbac)
      demo_assignment) assign_world = (Inr (), w')" and e': "environ w' = still"
    by (simp add: AssignRole_def RoleRepo_def RoleRepo_AssignRoleToUser_def NewRBACService_def
        InvalidateCache_def demo_rbac_def demo_assignment_def assign_world_def next_fault_def Let_def
        rbac_world_def demo_user_def)
  have "env_fault (environ assign_world) (tick assign_world + 3) \<noteq> Refused"
    "env_fault (environ assign_world) (tick w' + 1) = NoFault" by (simp_all add: e)
  from assign_role_in_force [OF run [unfolded demo_rbac_def] this]
  show ?thesis using run by (auto simp: demo_rbac_def demo_assignment_def assign_world_def rbac_world_def)
qed

end
