(* ===== verification/Tenant_Repo.thy ===== *)
theory Tenant_Repo
  imports Iam_Repo
begin

text \<open>
  The repositories of organizations, apps, API keys and workspaces
  (\<open>internal/infrastructure/postgres/tenant\<close>). Those of workspaces return the driver's error as
  it is in some methods.
\<close>

section \<open>Rows that go with a deleted row\<close>

definition drop_endpoints :: "(Endpoint \<Rightarrow> bool) \<Rightarrow> world \<Rightarrow> world" where
  "drop_endpoints P w =
     (let ids = e_ID ` set (filter P (app_endpoints w))
      in w\<lparr>app_endpoints := filter (\<lambda>e. \<not> P e) (app_endpoints w),
           app_endpoint_policies := filter (\<lambda>p. ep_EndpointID p \<notin> ids) (app_endpoint_policies w)\<rparr>)"

definition drop_apps :: "(App \<Rightarrow> bool) \<Rightarrow> world \<Rightarrow> world" where
  "drop_apps P w =
     (let ids = a_ID ` set (filter P (apps w));
          w = w\<lparr>apps := filter (\<lambda>a. \<not> P a) (apps w),
                app_api_keys := filter (\<lambda>k. k_AppID k \<notin> ids) (app_api_keys w)\<rparr>
      in drop_endpoints (\<lambda>e. e_AppID e \<in> ids) w)"

section \<open>Organizations\<close>

definition OrgRepo_Create :: "Organization \<Rightarrow> (goerr + Organization) eff" where
  "OrgRepo_Create org = do {
     gid \<leftarrow> (if o_ID org = uuid_nil then uuid_New else ret (o_ID org));
     now \<leftarrow> time_Now;
     let org = org\<lparr>o_ID := gid, o_CreatedAt := now, o_UpdatedAt := now\<rparr>;
     try_or (internal ''failed to create organization'')
       (sql_exec (\<lambda>w. \<forall>x \<in> set (organizations w). o_ID x \<noteq> gid \<and> o_Slug x \<noteq> o_Slug org)
                 (\<lambda>w. w\<lparr>organizations := organizations w @ [org]\<rparr>)) (\<lambda>_. ok org)
   }"

definition OrgRepo_GetByID :: "uuid \<Rightarrow> (goerr + Organization) eff" where
  "OrgRepo_GetByID gid =
     try_or (not_found_or ''organization not found'' ''failed to get organization'')
       (sql_query_row (\<lambda>w. find (\<lambda>x. o_ID x = gid) (organizations w))) ok"

definition OrgRepo_GetBySlug :: "string \<Rightarrow> (goerr + Organization) eff" where
  "OrgRepo_GetBySlug slug =
     try_or (not_found_or ''organization not found'' ''failed to get organization by slug'')
       (sql_query_row (\<lambda>w. find (\<lambda>x. o_Slug x = slug) (organizations w))) ok"

definition OrgRepo_Update :: "Organization \<Rightarrow> (goerr + Organization) eff" where
  "OrgRepo_Update org = do {
     now \<leftarrow> time_Now;
     let org = org\<lparr>o_UpdatedAt := now\<rparr>;
     try_or (internal ''failed to update organization'')
       (sql_exec (\<lambda>_. True)
         (\<lambda>w. w\<lparr>organizations := map (\<lambda>x. if o_ID x = o_ID org
            then x\<lparr>o_Name := o_Name org, o_Status := o_Status org, o_SSOConfig := o_SSOConfig org,
                   o_DataRetentionPolicy := o_DataRetentionPolicy org, o_UpdatedAt := o_UpdatedAt org\<rparr>
            else x) (organizations w)\<rparr>)) (\<lambda>_. ok org)
   }"

definition OrgRepo_Delete :: "uuid \<Rightarrow> (goerr + unit) eff" where
  "OrgRepo_Delete gid =
     try_or (internal ''failed to delete organization'')
       (sql_exec (\<lambda>_. True)
         (\<lambda>w. if \<exists>x \<in> set (organizations w). o_ID x = gid
              then drop_apps (\<lambda>a. a_OrganizationID a = gid)
                (w\<lparr>organizations := filter (\<lambda>x. o_ID x \<noteq> gid) (organizations w),
                   organization_users := filter (\<lambda>m. ou_OrganizationID m \<noteq> gid) (organization_users w),
                   user_roles := filter (\<lambda>r. ur_OrganizationID r \<noteq> gid) (user_roles w),
                   workspaces := filter (\<lambda>x. w_OrganizationID x \<noteq> gid) (workspaces w)\<rparr>)
              else w)) ok"

definition OrgRepo_List :: "int \<Rightarrow> int \<Rightarrow> (goerr + Organization list \<times> int) eff" where
  "OrgRepo_List offset lmt =
     page_query ''failed to count organizations'' ''failed to list organizations''
       organizations o_CreatedAt offset lmt"

section \<open>Apps\<close>

definition AppRepo_Create :: "App \<Rightarrow> (goerr + App) eff" where
  "AppRepo_Create app = do {
     aid \<leftarrow> (if a_ID app = uuid_nil then uuid_New else ret (a_ID app));
     now \<leftarrow> time_Now;
     let app = app\<lparr>a_ID := aid, a_CreatedAt := now, a_UpdatedAt := now\<rparr>;
     try_or (internal ''failed to create app'')
       (sql_exec
         (\<lambda>w. (\<forall>x \<in> set (apps w). a_ID x \<noteq> aid \<and>
                (a_OrganizationID x, a_Slug x) \<noteq> (a_OrganizationID app, a_Slug app)) \<and>
              (\<exists>g \<in> set (organizations w). o_ID g = a_OrganizationID app))
         (\<lambda>w. w\<lparr>apps := apps w @ [app]\<rparr>)) (\<lambda>_. ok app)
   }"

definition AppRepo_GetByID :: "uuid \<Rightarrow> (goerr + App) eff" where
  "AppRepo_GetByID aid =
     try_or (not_found_or ''app not found'' ''failed to get app'')
       (sql_query_row (\<lambda>w. find (\<lambda>x. a_ID x = aid) (apps w))) ok"

definition AppRepo_GetBySlug :: "uuid \<Rightarrow> string \<Rightarrow> (goerr + App) eff" where
  "AppRepo_GetBySlug gid slug =
     try_or (not_found_or ''app not found'' ''failed to get app by slug'')
       (sql_query_row (\<lambda>w. find (\<lambda>x. a_OrganizationID x = gid \<and> a_Slug x = slug) (apps w))) ok"

definition AppRepo_Update :: "App \<Rightarrow> (goerr + App) eff" where
  "AppRepo_Update app = do {
     now \<leftarrow> time_Now;
     let app = app\<lparr>a_UpdatedAt := now\<rparr>;
     try_or (internal ''failed to update app'')
       (sql_exec (\<lambda>_. True)
         (\<lambda>w. w\<lparr>apps := map (\<lambda>x. if a_ID x = a_ID app
            then x\<lparr>a_Name := a_Name app, a_Status := a_Status app, a_SLATier := a_SLATier app,
                   a_RateLimitPolicy := a_RateLimitPolicy app, a_UpdatedAt := a_UpdatedAt app\<rparr>
            else x) (apps w)\<rparr>)) (\<lambda>_. ok app)
   }"

definition AppRepo_Delete :: "uuid \<Rightarrow> (goerr + unit) eff" where
  "AppRepo_Delete aid =
     try_or (internal ''failed to delete app'')
       (sql_exec (\<lambda>_. True) (drop_apps (\<lambda>a. a_ID a = aid))) ok"

definition AppRepo_ListByOrg :: "uuid \<Rightarrow> int \<Rightarrow> int \<Rightarrow> (goerr + App list \<times> int) eff" where
  "AppRepo_ListByOrg gid offset lmt =
     page_query ''failed to count apps'' ''failed to list apps''
       (\<lambda>w. filter (\<lambda>x. a_OrganizationID x = gid) (apps w)) a_CreatedAt offset lmt"

section \<open>API keys\<close>

definition APIKeyRepo_Create :: "AppAPIKey \<Rightarrow> (goerr + AppAPIKey) eff" where
  "APIKeyRepo_Create key = do {
     kid \<leftarrow> (if k_ID key = uuid_nil then uuid_New else ret (k_ID key));
     now \<leftarrow> time_Now;
     let key = key\<lparr>k_ID := kid, k_CreatedAt := now\<rparr>;
     try_or (internal ''failed to create api key'')
       (sql_exec
         (\<lambda>w. (\<forall>x \<in> set (app_api_keys w). k_ID x \<noteq> kid) \<and> (\<exists>a \<in> set (apps w). a_ID a = k_AppID key))
         (\<lambda>w. w\<lparr>app_api_keys := app_api_keys w @ [key]\<rparr>)) (\<lambda>_. ok key)
   }"

definition APIKeyRepo_GetByID :: "uuid \<Rightarrow> (goerr + AppAPIKey) eff" where
  "APIKeyRepo_GetByID kid =
     try_or (not_found_or ''api key not found'' ''failed to get api key'')
       (sql_query_row (\<lambda>w. find (\<lambda>x. k_ID x = kid) (app_api_keys w))) ok"

definition APIKeyRepo_GetByHash :: "string \<Rightarrow> (goerr + AppAPIKey) eff" where
  "APIKeyRepo_GetByHash h =
     try_or (not_found_or ''api key not found'' ''failed to get api key by hash'')
       (sql_query_row (\<lambda>w. find (\<lambda>x. k_KeyHash x = h \<and> k_IsActive x) (app_api_keys w))) ok"

definition APIKeyRepo_Revoke :: "uuid \<Rightarrow> (goerr + unit) eff" where
  "APIKeyRepo_Revoke kid =
     try_or (internal ''failed to revoke api key'')
       (sql_exec (\<lambda>_. True)
         (\<lambda>w. w\<lparr>app_api_keys := map (\<lambda>x. if k_ID x = kid then x\<lparr>k_IsActive := False\<rparr> else x)
                (app_api_keys w)\<rparr>)) ok"

definition APIKeyRepo_ListByApp :: "uuid \<Rightarrow> (goerr + AppAPIKey list) eff" where
  "APIKeyRepo_ListByApp aid =
     try_or (internal ''failed to list api keys'')
       (sql_query (\<lambda>w. newest_first k_CreatedAt (filter (\<lambda>x. k_AppID x = aid) (app_api_keys w)))) ok"

section \<open>Workspaces\<close>

definition workspace_statuses :: "string list" where
  "workspace_statuses = [WorkspaceStatusActive, WorkspaceStatusSuspended, WorkspaceStatusArchived]"

definition WorkspaceRepository_Create :: "Workspace \<Rightarrow> (goerr + Workspace) eff" where
  "WorkspaceRepository_Create ws = do {
     now \<leftarrow> time_Now;
     let ws = ws\<lparr>w_CreatedAt := now, w_UpdatedAt := now,
                 w_Status := (if w_Status ws = [] then WorkspaceStatusActive else w_Status ws)\<rparr>;
     try_or pg_goerr
       (sql_exec
         (\<lambda>w. (\<forall>x \<in> set (workspaces w). w_ID x \<noteq> w_ID ws \<and>
                (w_OrganizationID x, w_Slug x) \<noteq> (w_OrganizationID ws, w_Slug ws)) \<and>
              (\<exists>g \<in> set (organizations w). o_ID g = w_OrganizationID ws) \<and>
              w_Status ws \<in> set workspace_statuses)
         (\<lambda>w. w\<lparr>workspaces := workspaces w @ [ws]\<rparr>)) (\<lambda>_. ok ws)
   }"

definition WorkspaceRepository_GetByID :: "uuid \<Rightarrow> (goerr + Workspace) eff" where
  "WorkspaceRepository_GetByID wid =
     try_or (not_found_or ''workspace not found'' ''failed to get workspace'')
       (sql_query_row (\<lambda>w. find (\<lambda>x. w_ID x = wid) (workspaces w))) ok"

definition WorkspaceRepository_GetBySlug :: "uuid \<Rightarrow> string \<Rightarrow> (goerr + Workspace) eff" where
  "WorkspaceRepository_GetBySlug gid slug =
     try_or (not_found_or ''workspace not found'' ''failed to get workspace'')
       (sql_query_row (\<lambda>w. find (\<lambda>x. w_OrganizationID x = gid \<and> w_Slug x = slug) (workspaces w))) ok"

definition WorkspaceRepository_ListByOrganization :: "uuid \<Rightarrow> (goerr + Workspace list) eff" where
  "WorkspaceRepository_ListByOrganization gid =
     try_or pg_goerr
       (sql_query_err (\<lambda>w. newest_first w_CreatedAt (filter (\<lambda>x. w_OrganizationID x = gid) (workspaces w)))) ok"

definition WorkspaceRepository_Update :: "Workspace \<Rightarrow> (goerr + Workspace) eff" where
  "WorkspaceRepository_Update ws = do {
     now \<leftarrow> time_Now;
     let ws = ws\<lparr>w_UpdatedAt := now\<rparr>;
     try_or pg_goerr
       (sql_exec
         (\<lambda>w. \<forall>a \<in> set (workspaces w). w_ID a = w_ID ws \<longrightarrow>
              w_Status ws \<in> set workspace_statuses \<and>
              (\<forall>b \<in> set (workspaces w). w_ID b \<noteq> w_ID ws \<longrightarrow>
                (w_OrganizationID b, w_Slug b) \<noteq> (w_OrganizationID a, w_Slug ws)))
         (\<lambda>w. w\<lparr>workspaces := map (\<lambda>x. if w_ID x = w_ID ws
            then x\<lparr>w_Name := w_Name ws, w_Slug := w_Slug ws, w_Description := w_Description ws,
                   w_Status := w_Status ws, w_UpdatedAt := w_UpdatedAt ws\<rparr>
            else x) (workspaces w)\<rparr>)) (\<lambda>_. ok ws)
   }"

definition WorkspaceRepository_Delete :: "uuid \<Rightarrow> (goerr + unit) eff" where
  "WorkspaceRepository_Delete wid = do {
     now \<leftarrow> time_Now;
     try_or pg_goerr
       (sql_exec (\<lambda>_. True)
         (\<lambda>w. w\<lparr>workspaces := map (\<lambda>x. if w_ID x = wid
            then x\<lparr>w_Status := WorkspaceStatusArchived, w_UpdatedAt := now\<rparr> else x) (workspaces w)\<rparr>)) ok
   }"

end
