(* ===== verification/Tenant.thy ===== *)
theory Tenant
  imports Tenant_Repo Http Crypto
begin

text \<open>
  The tenant use cases (\<open>internal/application/tenant/usecase\<close>): organizations, apps, API keys and
  workspaces, over the repository interfaces.
\<close>

record OrgRepository =
  or_Create :: "Organization \<Rightarrow> (goerr + Organization) eff"
  or_GetByID :: "uuid \<Rightarrow> (goerr + Organization) eff"
  or_GetBySlug :: "string \<Rightarrow> (goerr + Organization) eff"
  or_Update :: "Organization \<Rightarrow> (goerr + Organization) eff"
  or_Delete :: "uuid \<Rightarrow> (goerr + unit) eff"
  or_List :: "int \<Rightarrow> int \<Rightarrow> (goerr + Organization list \<times> int) eff"

definition OrgRepo :: OrgRepository where
  "OrgRepo =
     \<lparr>or_Create = OrgRepo_Create, or_GetByID = OrgRepo_GetByID, or_GetBySlug = OrgRepo_GetBySlug,
      or_Update = OrgRepo_Update, or_Delete = OrgRepo_Delete, or_List = OrgRepo_List\<rparr>"

record AppRepository =
  ap_Create :: "App \<Rightarrow> (goerr + App) eff"
  ap_GetByID :: "uuid \<Rightarrow> (goerr + App) eff"
  ap_GetBySlug :: "uuid \<Rightarrow> string \<Rightarrow> (goerr + App) eff"
  ap_Update :: "App \<Rightarrow> (goerr + App) eff"
  ap_Delete :: "uuid \<Rightarrow> (goerr + unit) eff"
  ap_ListByOrg :: "uuid \<Rightarrow> int \<Rightarrow> int \<Rightarrow> (goerr + App list \<times> int) eff"

definition AppRepo :: AppRepository where
  "AppRepo =
     \<lparr>ap_Create = AppRepo_Create, ap_GetByID = AppRepo_GetByID, ap_GetBySlug = AppRepo_GetBySlug,
      ap_Update = AppRepo_Update, ap_Delete = AppRepo_Delete, ap_ListByOrg = AppRepo_ListByOrg\<rparr>"

record APIKeyRepository =
  ak_Create :: "AppAPIKey \<Rightarrow> (goerr + AppAPIKey) eff"
  ak_GetByID :: "uuid \<Rightarrow> (goerr + AppAPIKey) eff"
  ak_GetByHash :: "string \<Rightarrow> (goerr + AppAPIKey) eff"
  ak_Revoke :: "uuid \<Rightarrow> (goerr + unit) eff"
  ak_ListByApp :: "uuid \<Rightarrow> (goerr + AppAPIKey list) eff"

definition APIKeyRepo :: APIKeyRepository where
  "APIKeyRepo =
     \<lparr>ak_Create = APIKeyRepo_Create, ak_GetByID = APIKeyRepo_GetByID,
      ak_GetByHash = APIKeyRepo_GetByHash, ak_Revoke = APIKeyRepo_Revoke,
      ak_ListByApp = APIKeyRepo_ListByApp\<rparr>"

record WorkspaceRepository =
  ws_Create :: "Workspace \<Rightarrow> (goerr + Workspace) eff"
  ws_GetByID :: "uuid \<Rightarrow> (goerr + Workspace) eff"
  ws_GetBySlug :: "uuid \<Rightarrow> string \<Rightarrow> (goerr + Workspace) eff"
  ws_ListByOrganization :: "uuid \<Rightarrow> (goerr + Workspace list) eff"
  ws_Update :: "Workspace \<Rightarrow> (goerr + Workspace) eff"
  ws_Delete :: "uuid \<Rightarrow> (goerr + unit) eff"

definition WorkspaceRepo :: WorkspaceRepository where
  "WorkspaceRepo =
     \<lparr>ws_Create = WorkspaceRepository_Create, ws_GetByID = WorkspaceRepository_GetByID,
      ws_GetBySlug = WorkspaceRepository_GetBySlug,
      ws_ListByOrganization = WorkspaceRepository_ListByOrganization,
      ws_Update = WorkspaceRepository_Update, ws_Delete = WorkspaceRepository_Delete\<rparr>"

section \<open>Organizations\<close>

record CreateOrgRequest =
  cor_Name :: string
  cor_Slug :: string

record OrgInfo =
  oi_ID :: uuid
  oi_Name :: string
  oi_Slug :: string
  oi_Status :: string
  oi_CreatedAt :: time

definition CreateOrg :: "OrgRepository \<Rightarrow> rctx \<Rightarrow> CreateOrgRequest \<Rightarrow> (goerr + OrgInfo) eff" where
  "CreateOrg orgRepo ctx req = do {
     existing \<leftarrow> or_GetBySlug orgRepo (cor_Slug req);
     case existing of
       Inr _ \<Rightarrow> fail (New_error ErrAlreadyExists ''organization slug already taken'' None)
     | Inl _ \<Rightarrow>
         try_do (or_Create orgRepo
           \<lparr>o_ID = uuid_nil, o_Name = cor_Name req, o_Slug = cor_Slug req, o_Status = OrgStatusActive,
            o_SSOConfig = None, o_DataRetentionPolicy = None, o_CreatedAt = 0, o_UpdatedAt = 0\<rparr>) (\<lambda>org. do {
         now \<leftarrow> time_Now;
         Publish TopicTenant
           (OrganizationCreated (o_ID org) (o_Name org) (or_nil (UserIDFromContext ctx)) now);
         ok \<lparr>oi_ID = o_ID org, oi_Name = o_Name org, oi_Slug = o_Slug org, oi_Status = o_Status org,
             oi_CreatedAt = o_CreatedAt org\<rparr>
       })
   }"

section \<open>Apps\<close>

record CreateAppRequest =
  car_Name :: string
  car_Slug :: string
  car_SLATier :: string

record AppInfo =
  ai_ID :: uuid
  ai_OrganizationID :: uuid
  ai_Name :: string
  ai_Slug :: string
  ai_Status :: string
  ai_SLATier :: string
  ai_CreatedAt :: time

definition CreateApp ::
  "AppRepository \<Rightarrow> OrgRepository \<Rightarrow> uuid \<Rightarrow> CreateAppRequest \<Rightarrow> (goerr + AppInfo) eff" where
  "CreateApp appRepo orgRepo gid req =
     try_do (or_GetByID orgRepo gid) (\<lambda>org.
     if \<not> Org_IsActive org then fail (New_error ErrForbidden ''organization is not active'' None)
     else do {
       existing \<leftarrow> ap_GetBySlug appRepo gid (car_Slug req);
       case existing of
         Inr _ \<Rightarrow> fail (New_error ErrAlreadyExists ''app slug already taken in this organization'' None)
       | Inl _ \<Rightarrow>
           try_do (ap_Create appRepo
             \<lparr>a_ID = uuid_nil, a_OrganizationID = gid, a_Name = car_Name req, a_Slug = car_Slug req,
              a_Status = AppStatusActive,
              a_SLATier = (if car_SLATier req = [] then ''standard'' else car_SLATier req),
              a_RateLimitPolicy = None, a_CreatedAt = 0, a_UpdatedAt = 0\<rparr>) (\<lambda>app. do {
           now \<leftarrow> time_Now;
           Publish TopicTenant (AppCreated (a_ID app) gid (a_Name app) now);
           ok \<lparr>ai_ID = a_ID app, ai_OrganizationID = a_OrganizationID app, ai_Name = a_Name app,
               ai_Slug = a_Slug app, ai_Status = a_Status app, ai_SLATier = a_SLATier app,
               ai_CreatedAt = a_CreatedAt app\<rparr>
         })
     })"

section \<open>API keys\<close>

record APIKeyResponse =
  kr_ID :: uuid
  kr_AppID :: uuid
  kr_Name :: string
  kr_Key :: string
  kr_ExpiresAt :: "time option"
  kr_IsActive :: bool
  kr_CreatedAt :: time

definition generateAPIKey :: "(goerr + string) eff" where
  "generateAPIKey = do {
     b \<leftarrow> rand_Read 32;
     case b of
       None \<Rightarrow> fail (Plain ''rand'')
     | Some bytes \<Rightarrow> ok (''mf_'' @ hex_bytes (map of_char bytes))
   }"

definition hashAPIKey :: "string \<Rightarrow> string" where
  "hashAPIKey key = hex_bytes (Sum256 key)"

definition CreateKey :: "APIKeyRepository \<Rightarrow> uuid \<Rightarrow> string \<Rightarrow> (goerr + APIKeyResponse) eff" where
  "CreateKey keyRepo aid name =
     try_or (\<lambda>e. Wrapped ''generate api key'' e) generateAPIKey (\<lambda>rawKey.
     try_do (ak_Create keyRepo
       \<lparr>k_ID = uuid_nil, k_AppID = aid, k_KeyHash = hashAPIKey rawKey, k_Name = name, k_Scopes = None,
        k_ExpiresAt = None, k_IsActive = True, k_CreatedAt = 0\<rparr>) (\<lambda>key.
     ok \<lparr>kr_ID = k_ID key, kr_AppID = k_AppID key, kr_Name = k_Name key, kr_Key = rawKey,
         kr_ExpiresAt = k_ExpiresAt key, kr_IsActive = k_IsActive key, kr_CreatedAt = k_CreatedAt key\<rparr>))"

definition RevokeKey :: "APIKeyRepository \<Rightarrow> uuid \<Rightarrow> (goerr + unit) eff" where
  "RevokeKey keyRepo kid = ak_Revoke keyRepo kid"

definition ListKeys :: "APIKeyRepository \<Rightarrow> uuid \<Rightarrow> (goerr + APIKeyResponse list) eff" where
  "ListKeys keyRepo aid =
     try_do (ak_ListByApp keyRepo aid) (\<lambda>keys.
     ok (map (\<lambda>k. \<lparr>kr_ID = k_ID k, kr_AppID = k_AppID k, kr_Name = k_Name k, kr_Key = [],
                   kr_ExpiresAt = k_ExpiresAt k, kr_IsActive = k_IsActive k,
                   kr_CreatedAt = k_CreatedAt k\<rparr>) keys))"

section \<open>Workspaces\<close>

record CreateWorkspaceRequest =
  cwr_Name :: string
  cwr_Slug :: string
  cwr_Description :: string

record UpdateWorkspaceRequest =
  uwr_Name :: string
  uwr_Slug :: string
  uwr_Description :: string
  uwr_Status :: string

text \<open>\<open>dto.WorkspaceInfo\<close> has the fields of the entity.\<close>

type_synonym WorkspaceInfo = Workspace

definition CreateWorkspace ::
  "WorkspaceRepository \<Rightarrow> OrgRepository \<Rightarrow> rctx \<Rightarrow> CreateWorkspaceRequest \<Rightarrow> (goerr + WorkspaceInfo) eff"
where
  "CreateWorkspace workspaceRepo orgRepo ctx req =
     (case OrgIDFromContext ctx of
        None \<Rightarrow> fail (New_error ErrUnauthorized ''organization context required'' None)
      | Some gid \<Rightarrow>
          try_or (\<lambda>e. New_error ErrNotFound ''organization not found'' (Some e))
            (or_GetByID orgRepo gid) (\<lambda>org.
          if \<not> Org_IsActive org then fail (New_error ErrForbidden ''organization is not active'' None)
          else do {
            let slug = ToLower (TrimSpace (cwr_Slug req));
            existing \<leftarrow> ws_GetBySlug workspaceRepo gid slug;
            case existing of
              Inr _ \<Rightarrow> fail (New_error ErrAlreadyExists
                ''workspace slug already taken in this organization'' None)
            | Inl _ \<Rightarrow> do {
                wid \<leftarrow> uuid_New;
                try_or (\<lambda>e. New_error ErrInternal ''failed to create workspace'' (Some e))
                  (ws_Create workspaceRepo
                    \<lparr>w_ID = wid, w_OrganizationID = gid, w_Name = TrimSpace (cwr_Name req), w_Slug = slug,
                     w_Description = TrimSpace (cwr_Description req), w_Status = WorkspaceStatusActive,
                     w_CreatedAt = 0, w_UpdatedAt = 0\<rparr>) (\<lambda>ws. do {
                now \<leftarrow> time_Now;
                Publish TopicTenant
                  (WorkspaceCreated (w_ID ws) gid (w_Name ws) (or_nil (UserIDFromContext ctx)) now);
                ok ws
              })}
          }))"

definition UpdateWorkspace ::
  "WorkspaceRepository \<Rightarrow> rctx \<Rightarrow> uuid \<Rightarrow> UpdateWorkspaceRequest \<Rightarrow> (goerr + WorkspaceInfo) eff" where
  "UpdateWorkspace workspaceRepo ctx wid req =
     (case OrgIDFromContext ctx of
        None \<Rightarrow> fail (New_error ErrUnauthorized ''organization context required'' None)
      | Some gid \<Rightarrow>
          try_do (ws_GetByID workspaceRepo wid) (\<lambda>ws.
          if w_OrganizationID ws \<noteq> gid
          then fail (New_error ErrForbidden ''workspace does not belong to your organization'' None)
          else do {
            let ws = (if uwr_Name req \<noteq> [] then ws\<lparr>w_Name := TrimSpace (uwr_Name req)\<rparr> else ws);
            let slug = ToLower (TrimSpace (uwr_Slug req));
            existing \<leftarrow> (if uwr_Slug req \<noteq> [] then ws_GetBySlug workspaceRepo gid slug
                         else fail (Plain []));
            if (case existing of Inr x \<Rightarrow> w_ID x \<noteq> wid | Inl _ \<Rightarrow> False)
            then fail (New_error ErrAlreadyExists ''workspace slug already taken'' None)
            else do {
              let ws = (if uwr_Slug req \<noteq> [] then ws\<lparr>w_Slug := slug\<rparr> else ws);
              let ws = (if uwr_Description req \<noteq> []
                        then ws\<lparr>w_Description := TrimSpace (uwr_Description req)\<rparr> else ws);
              let ws = (if uwr_Status req \<noteq> [] then ws\<lparr>w_Status := uwr_Status req\<rparr> else ws);
              try_or (\<lambda>e. New_error ErrInternal ''failed to update workspace'' (Some e))
                (ws_Update workspaceRepo ws) ok
            }
          }))"

definition ListWorkspaces :: "WorkspaceRepository \<Rightarrow> rctx \<Rightarrow> (goerr + WorkspaceInfo list) eff" where
  "ListWorkspaces workspaceRepo ctx =
     (case OrgIDFromContext ctx of
        None \<Rightarrow> fail (New_error ErrUnauthorized ''organization context required'' None)
      | Some gid \<Rightarrow>
          try_or (\<lambda>e. New_error ErrInternal ''failed to list workspaces'' (Some e))
            (ws_ListByOrganization workspaceRepo gid) ok)"

end
