(* ===== verification/Api_Repo.thy ===== *)
theory Api_Repo
  imports Tenant_Repo
begin

text \<open>
  The repositories of managed endpoints and their policies
  (\<open>internal/infrastructure/postgres/apimanagement\<close>).
\<close>

definition EndpointRepo_Create :: "Endpoint \<Rightarrow> (goerr + Endpoint) eff" where
  "EndpointRepo_Create ep = do {
     eid \<leftarrow> (if e_ID ep = uuid_nil then uuid_New else ret (e_ID ep));
     now \<leftarrow> time_Now;
     let ep = ep\<lparr>e_ID := eid, e_CreatedAt := now, e_UpdatedAt := now\<rparr>;
     try_or (internal ''failed to create endpoint'')
       (sql_exec
         (\<lambda>w. (\<forall>x \<in> set (app_endpoints w). e_ID x \<noteq> eid \<and>
                (e_AppID x, e_Method x, e_Path x, e_Version x) \<noteq>
                (e_AppID ep, e_Method ep, e_Path ep, e_Version ep)) \<and>
              (\<exists>a \<in> set (apps w). a_ID a = e_AppID ep))
         (\<lambda>w. w\<lparr>app_endpoints := app_endpoints w @ [ep]\<rparr>)) (\<lambda>_. ok ep)
   }"

definition EndpointRepo_GetByID :: "uuid \<Rightarrow> (goerr + Endpoint) eff" where
  "EndpointRepo_GetByID eid =
     try_or (not_found_or ''endpoint not found'' ''failed to get endpoint'')
       (sql_query_row (\<lambda>w. find (\<lambda>x. e_ID x = eid) (app_endpoints w))) ok"

definition EndpointRepo_GetByMethodPath ::
  "uuid \<Rightarrow> string \<Rightarrow> string \<Rightarrow> string \<Rightarrow> (goerr + Endpoint) eff" where
  "EndpointRepo_GetByMethodPath aid meth path version =
     try_or (not_found_or ''endpoint not found'' ''failed to get endpoint by method/path'')
       (sql_query_row (\<lambda>w. find (\<lambda>x. e_AppID x = aid \<and> e_Method x = meth \<and> e_Path x = path \<and>
          e_Version x = version) (app_endpoints w))) ok"

definition EndpointRepo_Update :: "Endpoint \<Rightarrow> (goerr + Endpoint) eff" where
  "EndpointRepo_Update ep = do {
     now \<leftarrow> time_Now;
     let ep = ep\<lparr>e_UpdatedAt := now\<rparr>;
     try_or (internal ''failed to update endpoint'')
       (sql_exec
         (\<lambda>w. \<forall>a \<in> set (app_endpoints w). e_ID a = e_ID ep \<longrightarrow>
              (\<forall>b \<in> set (app_endpoints w). e_ID b \<noteq> e_ID ep \<longrightarrow>
                (e_AppID b, e_Method b, e_Path b, e_Version b) \<noteq>
                (e_AppID a, e_Method ep, e_Path ep, e_Version ep)))
         (\<lambda>w. w\<lparr>app_endpoints := map (\<lambda>x. if e_ID x = e_ID ep
            then x\<lparr>e_Method := e_Method ep, e_Path := e_Path ep, e_Version := e_Version ep,
                   e_BackendService := e_BackendService ep, e_BackendAction := e_BackendAction ep,
                   e_Schema := e_Schema ep, e_AuditLevel := e_AuditLevel ep,
                   e_PIIMasking := e_PIIMasking ep, e_EventAfter := e_EventAfter ep,
                   e_Status := e_Status ep, e_UpdatedAt := e_UpdatedAt ep\<rparr>
            else x) (app_endpoints w)\<rparr>)) (\<lambda>_. ok ep)
   }"

definition EndpointRepo_Delete :: "uuid \<Rightarrow> (goerr + unit) eff" where
  "EndpointRepo_Delete eid =
     try_or (internal ''failed to delete endpoint'')
       (sql_exec (\<lambda>_. True) (drop_endpoints (\<lambda>e. e_ID e = eid))) ok"

definition EndpointRepo_ListByApp :: "uuid \<Rightarrow> int \<Rightarrow> int \<Rightarrow> (goerr + Endpoint list \<times> int) eff" where
  "EndpointRepo_ListByApp aid offset lmt =
     page_query ''failed to count endpoints'' ''failed to list endpoints''
       (\<lambda>w. filter (\<lambda>x. e_AppID x = aid) (app_endpoints w)) e_CreatedAt offset lmt"

text \<open>The column \<open>rate_limit\<close> is a 32-bit INTEGER; \<open>endpoint_id\<close> is not unique.\<close>

definition int32 :: "int \<Rightarrow> bool" where
  "int32 n \<longleftrightarrow> - (2 ^ 31) \<le> n \<and> n < 2 ^ 31"

definition PolicyRepo_Create :: "EndpointPolicy \<Rightarrow> (goerr + EndpointPolicy) eff" where
  "PolicyRepo_Create p = do {
     pid \<leftarrow> (if ep_ID p = uuid_nil then uuid_New else ret (ep_ID p));
     now \<leftarrow> time_Now;
     let p = p\<lparr>ep_ID := pid, ep_CreatedAt := now, ep_UpdatedAt := now\<rparr>;
     try_or (internal ''failed to create policy'')
       (sql_exec
         (\<lambda>w. (\<forall>x \<in> set (app_endpoint_policies w). ep_ID x \<noteq> pid) \<and> int32 (ep_RateLimit p) \<and>
              (\<exists>e \<in> set (app_endpoints w). e_ID e = ep_EndpointID p))
         (\<lambda>w. w\<lparr>app_endpoint_policies := app_endpoint_policies w @ [p]\<rparr>)) (\<lambda>_. ok p)
   }"

definition PolicyRepo_GetByEndpointID :: "uuid \<Rightarrow> (goerr + EndpointPolicy) eff" where
  "PolicyRepo_GetByEndpointID eid =
     try_or (not_found_or ''policy not found'' ''failed to get policy'')
       (sql_query_row (\<lambda>w. find (\<lambda>x. ep_EndpointID x = eid) (app_endpoint_policies w))) ok"

definition PolicyRepo_Update :: "EndpointPolicy \<Rightarrow> (goerr + EndpointPolicy) eff" where
  "PolicyRepo_Update p = do {
     now \<leftarrow> time_Now;
     let p = p\<lparr>ep_UpdatedAt := now\<rparr>;
     try_or (internal ''failed to update policy'')
       (sql_exec (\<lambda>_. int32 (ep_RateLimit p))
         (\<lambda>w. w\<lparr>app_endpoint_policies := map (\<lambda>x. if ep_ID x = ep_ID p
            then x\<lparr>ep_RequiredPermission := ep_RequiredPermission p, ep_RateLimit := ep_RateLimit p,
                   ep_AuthPolicy := ep_AuthPolicy p, ep_ValidationPolicy := ep_ValidationPolicy p,
                   ep_ExtraPolicies := ep_ExtraPolicies p, ep_UpdatedAt := ep_UpdatedAt p\<rparr>
            else x) (app_endpoint_policies w)\<rparr>)) (\<lambda>_. ok p)
   }"

definition PolicyRepo_Delete :: "uuid \<Rightarrow> (goerr + unit) eff" where
  "PolicyRepo_Delete pid =
     try_or (internal ''failed to delete policy'')
       (sql_exec (\<lambda>_. True)
         (\<lambda>w. w\<lparr>app_endpoint_policies := filter (\<lambda>x. ep_ID x \<noteq> pid) (app_endpoint_policies w)\<rparr>)) ok"

end
