(* ===== verification/Api_Mgmt.thy ===== *)
theory Api_Mgmt
  imports Api_Repo
begin

text \<open>
  The use cases of managed endpoints (\<open>internal/application/apimanagement/usecase\<close>): defining one,
  activating and retiring it, and setting its policy.
\<close>

record EndpointRepository =
  en_Create :: "Endpoint \<Rightarrow> (goerr + Endpoint) eff"
  en_GetByID :: "uuid \<Rightarrow> (goerr + Endpoint) eff"
  en_GetByMethodPath :: "uuid \<Rightarrow> string \<Rightarrow> string \<Rightarrow> string \<Rightarrow> (goerr + Endpoint) eff"
  en_Update :: "Endpoint \<Rightarrow> (goerr + Endpoint) eff"
  en_Delete :: "uuid \<Rightarrow> (goerr + unit) eff"
  en_ListByApp :: "uuid \<Rightarrow> int \<Rightarrow> int \<Rightarrow> (goerr + Endpoint list \<times> int) eff"

definition EndpointRepo :: EndpointRepository where
  "EndpointRepo =
     \<lparr>en_Create = EndpointRepo_Create, en_GetByID = EndpointRepo_GetByID,
      en_GetByMethodPath = EndpointRepo_GetByMethodPath, en_Update = EndpointRepo_Update,
      en_Delete = EndpointRepo_Delete, en_ListByApp = EndpointRepo_ListByApp\<rparr>"

record PolicyRepository =
  po_Create :: "EndpointPolicy \<Rightarrow> (goerr + EndpointPolicy) eff"
  po_GetByEndpointID :: "uuid \<Rightarrow> (goerr + EndpointPolicy) eff"
  po_Update :: "EndpointPolicy \<Rightarrow> (goerr + EndpointPolicy) eff"
  po_Delete :: "uuid \<Rightarrow> (goerr + unit) eff"

definition PolicyRepo :: PolicyRepository where
  "PolicyRepo =
     \<lparr>po_Create = PolicyRepo_Create, po_GetByEndpointID = PolicyRepo_GetByEndpointID,
      po_Update = PolicyRepo_Update, po_Delete = PolicyRepo_Delete\<rparr>"

record DefineEndpointRequest =
  de_Method :: string
  de_Path :: string
  de_Version :: string
  de_BackendService :: string
  de_BackendAction :: string
  de_Schema :: "string option"
  de_AuditLevel :: string
  de_PIIMasking :: bool
  de_EventAfter :: string

definition DefineEndpoint ::
  "EndpointRepository \<Rightarrow> uuid \<Rightarrow> DefineEndpointRequest \<Rightarrow> (goerr + Endpoint) eff" where
  "DefineEndpoint endpointRepo aid req = do {
     let version = (if de_Version req = [] then ''v1'' else de_Version req);
     existing \<leftarrow> en_GetByMethodPath endpointRepo aid (de_Method req) (de_Path req) version;
     case existing of
       Inr _ \<Rightarrow> fail (New_error ErrAlreadyExists
         ''endpoint already exists for this method/path/version'' None)
     | Inl _ \<Rightarrow>
         try_do (en_Create endpointRepo
           \<lparr>e_ID = uuid_nil, e_AppID = aid, e_Method = de_Method req, e_Path = de_Path req,
            e_Version = version, e_BackendService = de_BackendService req,
            e_BackendAction = de_BackendAction req, e_Schema = de_Schema req,
            e_AuditLevel = (if de_AuditLevel req = [] then ''standard'' else de_AuditLevel req),
            e_PIIMasking = de_PIIMasking req, e_EventAfter = de_EventAfter req,
            e_Status = EndpointStatusActive, e_CreatedAt = 0, e_UpdatedAt = 0\<rparr>) (\<lambda>endpoint. do {
         now \<leftarrow> time_Now;
         Publish TopicAPIManagement
           (EndpointCreated (e_ID endpoint) aid (e_Method endpoint) (e_Path endpoint) now);
         ok endpoint
       })
   }"

definition ActivateEndpoint :: "EndpointRepository \<Rightarrow> uuid \<Rightarrow> (goerr + unit) eff" where
  "ActivateEndpoint endpointRepo eid =
     try_do (en_GetByID endpointRepo eid) (\<lambda>endpoint.
     if e_Status endpoint = EndpointStatusActive
     then fail (New_error ErrBadRequest ''endpoint is already active'' None)
     else
       try_do (en_Update endpointRepo (endpoint\<lparr>e_Status := EndpointStatusActive\<rparr>)) (\<lambda>endpoint. do {
         now \<leftarrow> time_Now;
         Publish TopicAPIManagement (EndpointActivated eid (e_AppID endpoint) now);
         ok ()
       }))"

definition RetireEndpoint :: "EndpointRepository \<Rightarrow> uuid \<Rightarrow> (goerr + unit) eff" where
  "RetireEndpoint endpointRepo eid =
     try_do (en_GetByID endpointRepo eid) (\<lambda>endpoint.
     if e_Status endpoint = EndpointStatusRetired
     then fail (New_error ErrBadRequest ''endpoint is already retired'' None)
     else
       try_do (en_Update endpointRepo (endpoint\<lparr>e_Status := EndpointStatusRetired\<rparr>)) (\<lambda>endpoint. do {
         now \<leftarrow> time_Now;
         Publish TopicAPIManagement (EndpointRetired eid (e_AppID endpoint) now);
         ok ()
       }))"

record UpdatePolicyRequest =
  upr_RequiredPermission :: string
  upr_RateLimit :: int
  upr_AuthPolicy :: string
  upr_ValidationPolicy :: "string option"
  upr_ExtraPolicies :: "string option"

text \<open>An error of the look-up counts as no policy, and another one is created.\<close>

definition UpdatePolicy ::
  "PolicyRepository \<Rightarrow> uuid \<Rightarrow> UpdatePolicyRequest \<Rightarrow> (goerr + EndpointPolicy) eff" where
  "UpdatePolicy policyRepo eid req = do {
     existing \<leftarrow> po_GetByEndpointID policyRepo eid;
     let authPolicy = (if upr_AuthPolicy req = [] then ''jwt'' else upr_AuthPolicy req);
     case existing of
       Inr p \<Rightarrow>
         po_Update policyRepo
           (p\<lparr>ep_RequiredPermission := upr_RequiredPermission req, ep_RateLimit := upr_RateLimit req,
              ep_AuthPolicy := authPolicy, ep_ValidationPolicy := upr_ValidationPolicy req,
              ep_ExtraPolicies := upr_ExtraPolicies req\<rparr>)
     | Inl _ \<Rightarrow>
         po_Create policyRepo
           \<lparr>ep_ID = uuid_nil, ep_EndpointID = eid, ep_RequiredPermission = upr_RequiredPermission req,
            ep_RateLimit = upr_RateLimit req, ep_AuthPolicy = authPolicy,
            ep_ValidationPolicy = upr_ValidationPolicy req, ep_ExtraPolicies = upr_ExtraPolicies req,
            ep_CreatedAt = 0, ep_UpdatedAt = 0\<rparr>
   }"

end
