(* ===== verification/Room.thy ===== *)
theory Room
  imports Errors
begin

text \<open>
  Room keys and channel names, \<open>internal/domain/realtime/model/room.go\<close>. An error is its text.
\<close>

definition DefaultChannel :: string where "DefaultChannel = ''events''"
definition MaxChannelLen :: nat where "MaxChannelLen = 64"

text \<open>The expression \<open>^[a-zA-Z0-9_-]{1,64}$\<close>.\<close>

definition channel_char :: "char \<Rightarrow> bool" where
  "channel_char c \<longleftrightarrow> is_lower c \<or> is_upper c \<or> is_digit c \<or> c = CHR ''_'' \<or> c = CHR ''-''"

definition channelNameRe :: "string \<Rightarrow> bool" where
  "channelNameRe s \<longleftrightarrow> s \<noteq> [] \<and> length s \<le> MaxChannelLen \<and> list_all channel_char s"

type_synonym RoomKey = string

definition BuildRoomKey :: "uuid_api \<Rightarrow> uuid \<Rightarrow> uuid \<Rightarrow> string \<Rightarrow> string + RoomKey" where
  "BuildRoomKey U gid aid chan =
     (let chan = TrimSpace chan; chan = (if chan = [] then DefaultChannel else chan)
      in if \<not> channelNameRe chan then Inl (''invalid channel name: '' @ chan)
         else Inr (''org:'' @ uuid_str U gid @ '':app:'' @ uuid_str U aid @ '':channel:'' @ chan))"

definition ParseRoomKey :: "uuid_api \<Rightarrow> RoomKey \<Rightarrow> string + uuid \<times> uuid \<times> string" where
  "ParseRoomKey U s =
     (if \<not> HasPrefix s ''org:'' \<or> \<not> Contains s '':app:'' \<or> \<not> Contains s '':channel:''
      then Inl ''invalid room key format''
      else case SplitN2 '':app:'' (TrimPrefix s ''org:'') of
          None \<Rightarrow> Inl ''invalid room key format''
        | Some (org, rest) \<Rightarrow>
            (case SplitN2 '':channel:'' rest of
               None \<Rightarrow> Inl ''invalid room key format''
             | Some (app, chan) \<Rightarrow>
                 (case uuid_parse U org of
                    None \<Rightarrow> Inl ''invalid organization id in room key''
                  | Some gid \<Rightarrow>
                      (case uuid_parse U app of
                         None \<Rightarrow> Inl ''invalid app id in room key''
                       | Some aid \<Rightarrow> Inr (gid, aid, chan)))))"

definition ValidateChannelName :: "string \<Rightarrow> string option" where
  "ValidateChannelName name =
     (if channelNameRe (TrimSpace name) then None
      else Some ''channel name must be 1-64 alphanumeric, underscore, or hyphen characters'')"

text \<open>The channel a name stands for.\<close>

definition channel_of :: "string \<Rightarrow> string" where
  "channel_of chan = (if TrimSpace chan = [] then DefaultChannel else TrimSpace chan)"

definition room_key :: "uuid_api \<Rightarrow> uuid \<Rightarrow> uuid \<Rightarrow> string \<Rightarrow> RoomKey" where
  "room_key U gid aid chan = ''org:'' @ uuid_str U gid @ '':app:'' @ uuid_str U aid @ '':channel:'' @ chan"

lemma BuildRoomKey_iff:
  "BuildRoomKey U gid aid chan = Inr key \<longleftrightarrow>
   channelNameRe (channel_of chan) \<and> key = room_key U gid aid (channel_of chan)"
  by (auto simp: BuildRoomKey_def Let_def channel_of_def room_key_def)

lemma channelNameRe_default [simp]: "channelNameRe DefaultChannel"
  by (simp add: channelNameRe_def DefaultChannel_def MaxChannelLen_def channel_char_def is_lower_def)

lemma sublist_middle: "sublist ys (xs @ ys @ zs)"
  by (auto simp: sublist_def)

lemma ParseRoomKey_room_key:
  assumes "uuid_api_ok U"
  shows "ParseRoomKey U (room_key U gid aid chan) = Inr (gid, aid, chan)"
proof -
  let ?rest = "uuid_str U aid @ '':channel:'' @ chan"
  have key: "room_key U gid aid chan = ''org:'' @ uuid_str U gid @ '':app:'' @ ?rest"
    by (simp add: room_key_def)
  have "Contains (room_key U gid aid chan) '':app:''"
    unfolding key Contains_def using sublist_middle [of "'':app:''" "''org:'' @ uuid_str U gid" ?rest]
    by simp
  moreover have "Contains (room_key U gid aid chan) '':channel:''"
    unfolding room_key_def Contains_def
    using sublist_middle [of "'':channel:''" "''org:'' @ uuid_str U gid @ '':app:'' @ uuid_str U aid" chan]
    by simp
  moreover have "SplitN2 '':app:'' (uuid_str U gid @ '':app:'' @ ?rest) = Some (uuid_str U gid, ?rest)"
    by (rule SplitN2_first) (simp add: assms)
  moreover have "SplitN2 '':channel:'' ?rest = Some (uuid_str U aid, chan)"
    by (rule SplitN2_first) (simp add: assms)
  moreover have "HasPrefix (room_key U gid aid chan) ''org:''"
    "TrimPrefix (room_key U gid aid chan) ''org:'' = uuid_str U gid @ '':app:'' @ ?rest"
    unfolding key by (simp_all only: HasPrefix_append TrimPrefix_append)
  ultimately show ?thesis unfolding ParseRoomKey_def using assms by simp
qed

lemma room_key_inject:
  "uuid_api_ok U \<Longrightarrow> room_key U g a c = room_key U g' a' c' \<longleftrightarrow> g = g' \<and> a = a' \<and> c = c'"
  by (metis ParseRoomKey_room_key Pair_inject sum.inject(2))

text \<open>
  C34. A room key parses back to the organization, the app and the channel it was built from, with
  the channel's surrounding white space removed and the default channel in place of a blank
  one; so different organizations or apps never share a room.
\<close>

theorem room_key_roundtrip:
  assumes "uuid_api_ok U" and "BuildRoomKey U gid aid chan = Inr key"
  shows "ParseRoomKey U key = Inr (gid, aid, channel_of chan) \<and>
    (\<forall>gid' aid' chan'. BuildRoomKey U gid' aid' chan' = Inr key \<longrightarrow>
       gid' = gid \<and> aid' = aid \<and> channel_of chan' = channel_of chan)"
  using assms(2) by (auto simp: BuildRoomKey_iff ParseRoomKey_room_key [OF assms(1)] room_key_inject [OF assms(1)])

theorem room_key_roundtrip_witness:
  "ParseRoomKey demo_uuid (room_key demo_uuid 3 5 ''alerts'') = Inr (3, 5, ''alerts'')"
proof -
  have "TrimSpace ''alerts'' = ''alerts''"
    by (rule TrimSpace_id) (simp add: space_bytes_def go_spaces_def)
  then have c: "channel_of ''alerts'' = ''alerts''" by (simp add: channel_of_def)
  then have "BuildRoomKey demo_uuid 3 5 ''alerts'' = Inr (room_key demo_uuid 3 5 ''alerts'')"
    by (simp add: BuildRoomKey_iff channelNameRe_def MaxChannelLen_def channel_char_def is_lower_def)
  from room_key_roundtrip [OF demo_uuid_ok this] show ?thesis by (simp add: c)
qed

end
