(* ===== verification/Hub.thy ===== *)
theory Hub
  imports Room Domain "HOL-Library.AList"
begin

text \<open>
  The WebSocket hub, \<open>internal/infrastructure/websocket/{hub,client,session}.go\<close>. A \<open>*client\<close> and
  a \<open>chan []byte\<close> are references: positions of the lists \<open>h_objs\<close> and \<open>h_chans\<close>, so that two
  client objects can share a channel. Go's maps are association lists without duplicate keys;
  their order is that of insertion, and a theorem of \<open>Hub_Props\<close> shows that the order of the
  members of a room does not matter to a broadcast. The result \<open>None\<close> is a panic. Every operation
  runs under the hub's lock, so it is one step.
\<close>

section \<open>Channels and clients\<close>

record ClientInfo =
  ci_ID :: string
  ci_UserID :: uuid
  ci_OrganizationID :: uuid
  ci_AppID :: uuid

record channel =
  ch_buf :: "string list"
  ch_cap :: nat
  ch_closed :: bool

record client =
  c_id :: string
  c_info :: ClientInfo
  c_send :: nat
  c_rooms :: "RoomKey list"
  c_closed :: bool

record Hub =
  h_max :: int
  h_clients :: "(string \<times> nat) list"
  h_rooms :: "(RoomKey \<times> (string \<times> nat) list) list"
  h_orgChannels :: "(string \<times> RoomKey list) list"
  h_closed :: bool
  h_objs :: "client list"
  h_chans :: "channel list"

definition NewHub :: "int \<Rightarrow> Hub" where
  "NewHub maxConnections =
     \<lparr>h_max = (if maxConnections \<le> 0 then 1000 else maxConnections), h_clients = [], h_rooms = [],
      h_orgChannels = [], h_closed = False, h_objs = [], h_chans = []\<rparr>"

definition make_chan :: "nat \<Rightarrow> Hub \<Rightarrow> nat \<times> Hub" where
  "make_chan cap h = (length (h_chans h), h\<lparr>h_chans := h_chans h @ [\<lparr>ch_buf = [], ch_cap = cap, ch_closed = False\<rparr>]\<rparr>)"

text \<open>\<open>close(ch)\<close>, and \<open>select { case ch <- p: default: }\<close> on a buffered channel.\<close>

definition close_chan :: "nat \<Rightarrow> Hub \<Rightarrow> Hub option" where
  "close_chan i h =
     (if ch_closed (h_chans h ! i) then None
      else Some (h\<lparr>h_chans := (h_chans h)[i := (h_chans h ! i)\<lparr>ch_closed := True\<rparr>]\<rparr>))"

definition try_send :: "nat \<Rightarrow> string \<Rightarrow> Hub \<Rightarrow> Hub option" where
  "try_send i p h =
     (let c = h_chans h ! i
      in if ch_closed c then None
         else if length (ch_buf c) < ch_cap c
           then Some (h\<lparr>h_chans := (h_chans h)[i := c\<lparr>ch_buf := ch_buf c @ [p]\<rparr>]\<rparr>)
         else Some h)"

text \<open>The write pump takes the oldest message.\<close>

definition receive :: "nat \<Rightarrow> Hub \<Rightarrow> string option \<times> Hub" where
  "receive i h =
     (case ch_buf (h_chans h ! i) of
        [] \<Rightarrow> (None, h)
      | p # ps \<Rightarrow> (Some p, h\<lparr>h_chans := (h_chans h)[i := (h_chans h ! i)\<lparr>ch_buf := ps\<rparr>]\<rparr>))"

definition set_obj :: "nat \<Rightarrow> (client \<Rightarrow> client) \<Rightarrow> Hub \<Rightarrow> Hub" where
  "set_obj r f h = h\<lparr>h_objs := (h_objs h)[r := f (h_objs h ! r)]\<rparr>"

definition client_subscribe :: "nat \<Rightarrow> RoomKey \<Rightarrow> Hub \<Rightarrow> Hub" where
  "client_subscribe r room = set_obj r (\<lambda>c. c\<lparr>c_rooms := List.insert room (c_rooms c)\<rparr>)"

definition client_unsubscribe :: "nat \<Rightarrow> RoomKey \<Rightarrow> Hub \<Rightarrow> Hub" where
  "client_unsubscribe r room = set_obj r (\<lambda>c. c\<lparr>c_rooms := removeAll room (c_rooms c)\<rparr>)"

definition isSubscribed :: "nat \<Rightarrow> RoomKey \<Rightarrow> Hub \<Rightarrow> bool" where
  "isSubscribed r room h \<longleftrightarrow> room \<in> set (c_rooms (h_objs h ! r))"

definition closeSend :: "nat \<Rightarrow> Hub \<Rightarrow> Hub option" where
  "closeSend r h =
     (let c = h_objs h ! r
      in if c_closed c then Some h else close_chan (c_send c) (set_obj r (\<lambda>c. c\<lparr>c_closed := True\<rparr>) h))"

section \<open>Rooms\<close>

definition orgKey :: "uuid_api \<Rightarrow> uuid \<Rightarrow> string \<Rightarrow> string" where
  "orgKey U gid chan = uuid_str U gid @ '':'' @ chan"

definition the_or_nil :: "'a list option \<Rightarrow> 'a list" where
  "the_or_nil m = (case m of None \<Rightarrow> [] | Some xs \<Rightarrow> xs)"

definition addToRoomLocked :: "uuid_api \<Rightarrow> nat \<Rightarrow> RoomKey \<Rightarrow> Hub \<Rightarrow> Hub" where
  "addToRoomLocked U r room h =
     (let c = h_objs h ! r;
          members = the_or_nil (map_of (h_rooms h) room);
          h = h\<lparr>h_rooms := AList.update room (AList.update (c_id c) r members) (h_rooms h)\<rparr>;
          h = client_subscribe r room h
      in case ParseRoomKey U room of
           Inr (_, _, chan) \<Rightarrow>
             let k = orgKey U (ci_OrganizationID (c_info c)) chan;
                 rooms = the_or_nil (map_of (h_orgChannels h) k)
             in h\<lparr>h_orgChannels := AList.update k (List.insert room rooms) (h_orgChannels h)\<rparr>
         | Inl _ \<Rightarrow> h)"

text \<open>
  What \<open>removeFromRoomLocked\<close> and \<open>removeClient\<close> both do with a room: the member leaves, and the
  last one takes the room and its entry in the index with it.
\<close>

definition leave_index :: "uuid_api \<Rightarrow> client \<Rightarrow> RoomKey \<Rightarrow> Hub \<Rightarrow> Hub" where
  "leave_index U c room h =
     (case ParseRoomKey U room of
        Inl _ \<Rightarrow> h
      | Inr (_, _, chan) \<Rightarrow>
          let k = orgKey U (ci_OrganizationID (c_info c)) chan
          in case map_of (h_orgChannels h) k of
               None \<Rightarrow> h
             | Some rooms \<Rightarrow>
                 let rooms = removeAll room rooms
                 in if rooms = [] then h\<lparr>h_orgChannels := AList.delete k (h_orgChannels h)\<rparr>
                    else h\<lparr>h_orgChannels := AList.update k rooms (h_orgChannels h)\<rparr>)"

definition leave_room :: "uuid_api \<Rightarrow> client \<Rightarrow> RoomKey \<Rightarrow> Hub \<Rightarrow> Hub" where
  "leave_room U c room h =
     (case map_of (h_rooms h) room of
        None \<Rightarrow> h
      | Some members \<Rightarrow>
          let members = AList.delete (c_id c) members
          in if members = [] then leave_index U c room (h\<lparr>h_rooms := AList.delete room (h_rooms h)\<rparr>)
             else h\<lparr>h_rooms := AList.update room members (h_rooms h)\<rparr>)"

definition removeFromRoomLocked :: "uuid_api \<Rightarrow> nat \<Rightarrow> RoomKey \<Rightarrow> Hub \<Rightarrow> Hub" where
  "removeFromRoomLocked U r room h = client_unsubscribe r room (leave_room U (h_objs h ! r) room h)"

section \<open>The operations of the hub\<close>

text \<open>\<open>removeClient\<close> looks the client up by its identifier only, whichever object it is given.\<close>

definition removeClient :: "uuid_api \<Rightarrow> nat \<Rightarrow> Hub \<Rightarrow> Hub option" where
  "removeClient U r h =
     (let c = h_objs h ! r
      in if map_of (h_clients h) (c_id c) = None then Some h
         else closeSend r (fold (leave_room U c) (c_rooms c)
                (h\<lparr>h_clients := AList.delete (c_id c) (h_clients h)\<rparr>)))"

text \<open>The client that the closure \<open>unregister\<close> removes, if any, and the hub.\<close>

definition Hub_Register :: "uuid_api \<Rightarrow> ClientInfo \<Rightarrow> nat \<Rightarrow> Hub \<Rightarrow> (nat option \<times> Hub) option" where
  "Hub_Register U info send h =
     (if h_closed h then Some (None, h)
      else if int (length (h_clients h)) \<ge> h_max h
        then map_option (\<lambda>h. (None, h)) (close_chan send h)
      else
        let r = length (h_objs h);
            c = \<lparr>c_id = ci_ID info, c_info = info, c_send = send, c_rooms = [], c_closed = False\<rparr>;
            h = h\<lparr>h_objs := h_objs h @ [c], h_clients := AList.update (ci_ID info) r (h_clients h)\<rparr>
        in case BuildRoomKey U (ci_OrganizationID info) (ci_AppID info) DefaultChannel of
             Inr room \<Rightarrow> Some (Some r, addToRoomLocked U r room h)
           | Inl _ \<Rightarrow> Some (Some r, h))"

definition unregister :: "uuid_api \<Rightarrow> nat option \<Rightarrow> Hub \<Rightarrow> Hub option" where
  "unregister U r h = (case r of None \<Rightarrow> Some h | Some r \<Rightarrow> removeClient U r h)"

definition Subscribe :: "uuid_api \<Rightarrow> string \<Rightarrow> string \<Rightarrow> Hub \<Rightarrow> (string + unit) \<times> Hub" where
  "Subscribe U cid chan h =
     (case map_of (h_clients h) cid of
        None \<Rightarrow> (Inl ''client not found'', h)
      | Some r \<Rightarrow>
          let info = c_info (h_objs h ! r)
          in case BuildRoomKey U (ci_OrganizationID info) (ci_AppID info) chan of
               Inl e \<Rightarrow> (Inl e, h)
             | Inr room \<Rightarrow> (Inr (), addToRoomLocked U r room h))"

definition Unsubscribe :: "uuid_api \<Rightarrow> string \<Rightarrow> string \<Rightarrow> Hub \<Rightarrow> (string + unit) \<times> Hub" where
  "Unsubscribe U cid chan h =
     (case map_of (h_clients h) cid of
        None \<Rightarrow> (Inl ''client not found'', h)
      | Some r \<Rightarrow>
          let info = c_info (h_objs h ! r)
          in case BuildRoomKey U (ci_OrganizationID info) (ci_AppID info) chan of
               Inl e \<Rightarrow> (Inl e, h)
             | Inr room \<Rightarrow> (Inr (), removeFromRoomLocked U r room h))"

definition SendToClient :: "string \<Rightarrow> string \<Rightarrow> Hub \<Rightarrow> Hub option" where
  "SendToClient cid p h =
     (case map_of (h_clients h) cid of
        None \<Rightarrow> Some h
      | Some r \<Rightarrow> if h_closed h then Some h else try_send (c_send (h_objs h ! r)) p h)"

definition broadcastLocked :: "RoomKey \<Rightarrow> string \<Rightarrow> Hub \<Rightarrow> Hub option" where
  "broadcastLocked room p h =
     (if h_closed h then Some h
      else case map_of (h_rooms h) room of
          None \<Rightarrow> Some h
        | Some members \<Rightarrow> fold_opt (\<lambda>(_, r). try_send (c_send (h_objs h ! r)) p) members h)"

definition Broadcast :: "RoomKey \<Rightarrow> string \<Rightarrow> Hub \<Rightarrow> Hub option" where
  "Broadcast room p h = broadcastLocked room p h"

definition BroadcastToOrganization :: "uuid_api \<Rightarrow> uuid \<Rightarrow> string \<Rightarrow> string \<Rightarrow> Hub \<Rightarrow> Hub option" where
  "BroadcastToOrganization U gid chan p h =
     fold_opt (\<lambda>room. broadcastLocked room p) (the_or_nil (map_of (h_orgChannels h) (orgKey U gid chan))) h"

definition ConnectionCount :: "Hub \<Rightarrow> int" where
  "ConnectionCount h = int (length (h_clients h))"

definition GetClientInfo :: "string \<Rightarrow> Hub \<Rightarrow> ClientInfo option" where
  "GetClientInfo cid h = map_option (\<lambda>r. c_info (h_objs h ! r)) (map_of (h_clients h) cid)"

definition Close :: "Hub \<Rightarrow> Hub option" where
  "Close h =
     map_option (\<lambda>h. h\<lparr>h_clients := [], h_rooms := [], h_orgChannels := []\<rparr>)
       (fold_opt (\<lambda>(_, r). closeSend r) (h_clients h) (h\<lparr>h_closed := True\<rparr>))"

section \<open>A session\<close>

text \<open>
  \<open>Session.Start\<close> makes a client object of its own, with the session's identifier and channel and
  without rooms. When its read loop ends, \<open>readPump\<close> removes that object, and then the closure
  of \<open>Register\<close> is called.
\<close>

definition Session_Start :: "string \<Rightarrow> nat \<Rightarrow> Hub \<Rightarrow> nat \<times> Hub" where
  "Session_Start cid send h =
     (length (h_objs h),
      h\<lparr>h_objs := h_objs h @ [\<lparr>c_id = cid,
          c_info = \<lparr>ci_ID = [], ci_UserID = uuid_nil, ci_OrganizationID = uuid_nil, ci_AppID = uuid_nil\<rparr>,
          c_send = send, c_rooms = [], c_closed = False\<rparr>]\<rparr>)"

definition session_end :: "uuid_api \<Rightarrow> nat \<Rightarrow> nat option \<Rightarrow> Hub \<Rightarrow> Hub option" where
  "session_end U r unreg h = Option.bind (removeClient U r h) (unregister U unreg)"

end
