(* ===== verification/Hub_Inv.thy ===== *)
theory Hub_Inv
  imports Hub
begin

text \<open>
  The invariant of the hub: the objects and channels it references exist, a client is registered
  exactly as long as its channel is open, the members of a room are the registered clients
  that list the room, every room belongs to the organization and the app of its members, and the
  index by organization holds exactly the rooms there are. The lemmas show what each operation
  on the rooms does to the look-up \<open>in_room\<close>.
\<close>

section \<open>Association lists\<close>

lemma map_of_update [simp]: "map_of (AList.update k v xs) = (map_of xs)(k \<mapsto> v)"
  by (rule update_conv')

lemma map_of_delete [simp]: "map_of (AList.delete k xs) = (map_of xs)(k := None)"
  by (rule delete_conv')

lemma distinct_keys_update [simp]: "distinct (map fst xs) \<Longrightarrow> distinct (map fst (AList.update k v xs))"
  by (rule distinct_update)

lemma distinct_keys_delete [simp]: "distinct (map fst xs) \<Longrightarrow> distinct (map fst (AList.delete k xs))"
  by (rule distinct_delete)

lemma alist_update_nonempty [simp]: "AList.update k v xs \<noteq> []"
  by (cases xs) auto

lemma alist_empty_iff: "xs = [] \<longleftrightarrow> map_of xs = Map.empty"
  by (cases xs) (auto simp: fun_eq_iff)

section \<open>Rooms and the index by organization\<close>

definition in_room :: "Hub \<Rightarrow> RoomKey \<Rightarrow> string \<Rightarrow> nat option" where
  "in_room h room = (case map_of (h_rooms h) room of None \<Rightarrow> Map.empty | Some m \<Rightarrow> map_of m)"

definition index_wf :: "uuid_api \<Rightarrow> Hub \<Rightarrow> bool" where
  "index_wf U h \<longleftrightarrow>
     distinct (map fst (h_rooms h)) \<and> distinct (map fst (h_orgChannels h)) \<and>
     (\<forall>room m. map_of (h_rooms h) room = Some m \<longrightarrow> m \<noteq> [] \<and> distinct (map fst m)) \<and>
     (\<forall>k rs. map_of (h_orgChannels h) k = Some rs \<longrightarrow> distinct rs) \<and>
     (\<forall>k room. room \<in> set (the_or_nil (map_of (h_orgChannels h) k)) \<longleftrightarrow>
        (\<exists>g a chan. k = orgKey U g chan \<and> room = room_key U g a chan \<and> map_of (h_rooms h) room \<noteq> None))"

lemma index_wfI:
  assumes "distinct (map fst (h_rooms h))" "distinct (map fst (h_orgChannels h))"
    and "\<And>room m. map_of (h_rooms h) room = Some m \<Longrightarrow> m \<noteq> [] \<and> distinct (map fst m)"
    and "\<And>k rs. map_of (h_orgChannels h) k = Some rs \<Longrightarrow> distinct rs"
    and "\<And>k room. room \<in> set (the_or_nil (map_of (h_orgChannels h) k)) \<longleftrightarrow>
        (\<exists>g a chan. k = orgKey U g chan \<and> room = room_key U g a chan \<and> map_of (h_rooms h) room \<noteq> None)"
  shows "index_wf U h"
  using assms unfolding index_wf_def by blast

lemma index_wfD:
  assumes "index_wf U h"
  shows "distinct (map fst (h_rooms h))" "distinct (map fst (h_orgChannels h))"
    and "map_of (h_rooms h) room = Some m \<Longrightarrow> m \<noteq> [] \<and> distinct (map fst m)"
    and "map_of (h_orgChannels h) k = Some rs \<Longrightarrow> distinct rs"
    and "room \<in> set (the_or_nil (map_of (h_orgChannels h) k)) \<longleftrightarrow>
        (\<exists>g a chan. k = orgKey U g chan \<and> room = room_key U g a chan \<and> map_of (h_rooms h) room \<noteq> None)"
  using assms unfolding index_wf_def by blast+

lemma append_sep_inject:
  "x \<notin> set xs \<Longrightarrow> x \<notin> set ys \<Longrightarrow> xs @ x # zs = ys @ x # ws \<longleftrightarrow> xs = ys \<and> zs = ws"
proof (induction xs arbitrary: ys)
  case Nil
  then show ?case by (cases ys) auto
next
  case (Cons a xs)
  then show ?case by (cases ys) auto
qed

lemma orgKey_inject: "uuid_api_ok U \<Longrightarrow> orgKey U g c = orgKey U g' c' \<longleftrightarrow> g = g' \<and> c = c'"
  unfolding orgKey_def using append_sep_inject [of "CHR '':''"] by simp

lemma the_or_nil_simps [simp]: "the_or_nil None = []" "the_or_nil (Some xs) = xs"
  by (simp_all add: the_or_nil_def)

lemma leave_index_simps [simp]:
  "h_rooms (leave_index U c room h) = h_rooms h" "h_clients (leave_index U c room h) = h_clients h"
  "h_objs (leave_index U c room h) = h_objs h" "h_chans (leave_index U c room h) = h_chans h"
  "h_closed (leave_index U c room h) = h_closed h" "h_max (leave_index U c room h) = h_max h"
  by (auto simp: leave_index_def Let_def split: sum.splits option.splits)

lemma leave_room_simps [simp]:
  "h_clients (leave_room U c room h) = h_clients h"
  "h_objs (leave_room U c room h) = h_objs h" "h_chans (leave_room U c room h) = h_chans h"
  "h_closed (leave_room U c room h) = h_closed h" "h_max (leave_room U c room h) = h_max h"
  by (auto simp: leave_room_def Let_def split: option.splits)

lemma fold_leave_room_simps [simp]:
  "h_clients (fold (leave_room U c) rooms h) = h_clients h"
  "h_objs (fold (leave_room U c) rooms h) = h_objs h" "h_chans (fold (leave_room U c) rooms h) = h_chans h"
  "h_closed (fold (leave_room U c) rooms h) = h_closed h" "h_max (fold (leave_room U c) rooms h) = h_max h"
  by (induction rooms arbitrary: h) auto

lemma addToRoomLocked_simps [simp]:
  "h_clients (addToRoomLocked U r room h) = h_clients h"
  "h_chans (addToRoomLocked U r room h) = h_chans h"
  "h_closed (addToRoomLocked U r room h) = h_closed h" "h_max (addToRoomLocked U r room h) = h_max h"
  "h_objs (addToRoomLocked U r room h) = h_objs (client_subscribe r room h)"
  by (auto simp: addToRoomLocked_def client_subscribe_def set_obj_def Let_def split: sum.splits)

lemma leave_room_in_room:
  "index_wf U h \<Longrightarrow>
   in_room (leave_room U c room h) = (in_room h)(room := (in_room h room)(c_id c := None))"
  by (auto simp: in_room_def leave_room_def Let_def fun_eq_iff alist_empty_iff split: option.splits)

lemma fold_leave_room:
  assumes "\<And>room h. room \<in> set rooms \<Longrightarrow> index_wf U h \<Longrightarrow> index_wf U (leave_room U c room h)" "index_wf U h"
  shows "index_wf U (fold (leave_room U c) rooms h) \<and>
    in_room (fold (leave_room U c) rooms h) =
      (\<lambda>room. if room \<in> set rooms then (in_room h room)(c_id c := None) else in_room h room)"
  using assms
proof (induction rooms arbitrary: h)
  case (Cons x xs)
  have "index_wf U (leave_room U c x h)" using Cons.prems by simp
  then show ?case
    using Cons.IH [of "leave_room U c x h"] Cons.prems by (auto simp: leave_room_in_room fun_eq_iff)
qed simp

lemma leave_room_index:
  assumes U: "uuid_api_ok U" and wf: "index_wf U h"
    and room: "room = room_key U (ci_OrganizationID (c_info c)) a chan"
  shows "index_wf U (leave_room U c room h)"
proof (cases "map_of (h_rooms h) room")
  case None
  then show ?thesis using wf by (simp add: leave_room_def)
next
  case (Some m)
  let ?g = "ci_OrganizationID (c_info c)" and ?m = "AList.delete (c_id c) m"
  let ?k = "orgKey U ?g chan"
  note D = index_wfD [OF wf]
  show ?thesis
  proof (cases "?m = []")
    case False
    then have "leave_room U c room h = h\<lparr>h_rooms := AList.update room ?m (h_rooms h)\<rparr>"
      using Some by (simp add: leave_room_def)
    moreover have "index_wf U (h\<lparr>h_rooms := AList.update room ?m (h_rooms h)\<rparr>)"
    proof (rule index_wfI)
      fix k room'
      show "room' \<in> set (the_or_nil (map_of (h_orgChannels (h\<lparr>h_rooms := AList.update room ?m (h_rooms h)\<rparr>)) k)) \<longleftrightarrow>
        (\<exists>g a chan. k = orgKey U g chan \<and> room' = room_key U g a chan \<and>
           map_of (h_rooms (h\<lparr>h_rooms := AList.update room ?m (h_rooms h)\<rparr>)) room' \<noteq> None)"
        using D(5) [of room' k] Some by (cases "room' = room") simp_all
    next
      fix room' m'
      assume "map_of (h_rooms (h\<lparr>h_rooms := AList.update room ?m (h_rooms h)\<rparr>)) room' = Some m'"
      then show "m' \<noteq> [] \<and> distinct (map fst m')"
        using D(3) [of room' m'] D(3) [OF Some] False by (cases "room' = room") auto
    next
      fix k rs
      assume "map_of (h_orgChannels (h\<lparr>h_rooms := AList.update room ?m (h_rooms h)\<rparr>)) k = Some rs"
      then show "distinct rs" using D(4) [of k rs] by simp
    qed (simp_all add: D(1,2))
    ultimately show ?thesis by simp
  next
    case True
    have "room \<in> set (the_or_nil (map_of (h_orgChannels h) ?k))" using D(5) Some room by blast
    then obtain rs where rs: "map_of (h_orgChannels h) ?k = Some rs" "room \<in> set rs"
      by (cases "map_of (h_orgChannels h) ?k") auto
    have P: "ParseRoomKey U room = Inr (?g, a, chan)" by (simp add: room ParseRoomKey_room_key [OF U])
    let ?org = "if removeAll room rs = [] then AList.delete ?k (h_orgChannels h)
                else AList.update ?k (removeAll room rs) (h_orgChannels h)"
    have eq: "leave_room U c room h = h\<lparr>h_rooms := AList.delete room (h_rooms h), h_orgChannels := ?org\<rparr>"
      using True Some rs P by (simp add: leave_room_def leave_index_def)
    have look: "the_or_nil (map_of ?org k) =
        (if k = ?k then removeAll room rs else the_or_nil (map_of (h_orgChannels h) k))" for k
      by simp
    have "room' \<in> set (the_or_nil (map_of ?org k)) \<longleftrightarrow>
        (\<exists>g a ch. k = orgKey U g ch \<and> room' = room_key U g a ch \<and>
           map_of (AList.delete room (h_rooms h)) room' \<noteq> None)" for k room'
    proof (cases "k = ?k")
      case True
      have "room' \<in> set rs \<longleftrightarrow> (\<exists>g a ch. k = orgKey U g ch \<and> room' = room_key U g a ch \<and>
           map_of (h_rooms h) room' \<noteq> None)" using D(5) [of room' ?k] rs True by simp
      then show ?thesis unfolding look using True by auto
    next
      case False
      then have "room' = room_key U g a' ch \<Longrightarrow> k = orgKey U g ch \<Longrightarrow> room' \<noteq> room" for g a' ch
        using room room_key_inject [OF U] orgKey_inject [OF U] by blast
      then show ?thesis unfolding look using D(5) [of room' k] False by fastforce
    qed
    then have org: "room' \<in> set (the_or_nil (map_of (h_orgChannels (leave_room U c room h)) k)) \<longleftrightarrow>
        (\<exists>g a ch. k = orgKey U g ch \<and> room' = room_key U g a ch \<and>
           map_of (h_rooms (leave_room U c room h)) room' \<noteq> None)" for k room'
      unfolding eq by simp
    show ?thesis
    proof (rule index_wfI [OF _ _ _ _ org])
      fix room' m' assume "map_of (h_rooms (leave_room U c room h)) room' = Some m'"
      then have "map_of (h_rooms h) room' = Some m'" unfolding eq by (simp split: if_splits)
      then show "m' \<noteq> [] \<and> distinct (map fst m')" by (rule D(3))
    next
      fix k rs' assume "map_of (h_orgChannels (leave_room U c room h)) k = Some rs'"
      then have "map_of (h_orgChannels h) k = Some rs' \<or> rs' = removeAll room rs"
        unfolding eq by (simp split: if_splits)
      then show "distinct rs'" using D(4) [OF rs(1)] D(4) [of k rs'] by (auto simp: distinct_removeAll)
    qed (simp_all add: eq D(1,2))
  qed
qed

lemma addToRoomLocked_in_room:
  "in_room (addToRoomLocked U r room h) =
     (in_room h)(room := (in_room h room)(c_id (h_objs h ! r) \<mapsto> r))"
  by (auto simp: in_room_def addToRoomLocked_def client_subscribe_def set_obj_def Let_def fun_eq_iff
      split: option.splits sum.splits)

lemma addToRoomLocked_index:
  assumes U: "uuid_api_ok U" and wf: "index_wf U h"
    and room: "room = room_key U (ci_OrganizationID (c_info (h_objs h ! r))) a chan"
  shows "index_wf U (addToRoomLocked U r room h)"
proof -
  let ?c = "h_objs h ! r" and ?h = "addToRoomLocked U r room h"
  let ?g = "ci_OrganizationID (c_info ?c)"
  let ?k = "orgKey U ?g chan" and ?m = "the_or_nil (map_of (h_rooms h) room)"
  note D = index_wfD [OF wf]
  have P: "ParseRoomKey U room = Inr (?g, a, chan)" by (simp add: room ParseRoomKey_room_key [OF U])
  have R: "h_rooms ?h = AList.update room (AList.update (c_id ?c) r ?m) (h_rooms h)"
    and C: "h_orgChannels ?h =
      AList.update ?k (List.insert room (the_or_nil (map_of (h_orgChannels h) ?k))) (h_orgChannels h)"
    using P by (simp_all add: addToRoomLocked_def client_subscribe_def set_obj_def Let_def)
  have m: "distinct (map fst ?m)"
    using D(3) [of room] by (cases "map_of (h_rooms h) room") auto
  have org: "room' \<in> set (the_or_nil (map_of (h_orgChannels ?h) k)) \<longleftrightarrow>
        (\<exists>g a ch. k = orgKey U g ch \<and> room' = room_key U g a ch \<and> map_of (h_rooms ?h) room' \<noteq> None)"
    for k room'
  proof (cases "k = ?k \<and> room' = room")
    case True
    then show ?thesis unfolding R C using room by auto
  next
    case False
    then have "room' \<in> set (the_or_nil (map_of (h_orgChannels ?h) k)) \<longleftrightarrow>
      room' \<in> set (the_or_nil (map_of (h_orgChannels h) k))" unfolding C by auto
    moreover have "k = orgKey U g ch \<Longrightarrow> room' = room_key U g a' ch \<Longrightarrow> room' \<noteq> room" for g a' ch
      using False room by (auto simp: room_key_inject [OF U])
    ultimately show ?thesis unfolding R using D(5) [of room' k] by fastforce
  qed
  show ?thesis
  proof (rule index_wfI [OF _ _ _ _ org])
    fix room' m' assume "map_of (h_rooms ?h) room' = Some m'"
    then have "m' = AList.update (c_id ?c) r ?m \<or> map_of (h_rooms h) room' = Some m'"
      unfolding R by (simp split: if_splits)
    then show "m' \<noteq> [] \<and> distinct (map fst m')"
      using D(3) [of room' m'] m by auto
  next
    fix k rs assume "map_of (h_orgChannels ?h) k = Some rs"
    then have "rs = List.insert room (the_or_nil (map_of (h_orgChannels h) ?k)) \<or>
      map_of (h_orgChannels h) k = Some rs" unfolding C by (simp split: if_splits)
    moreover have "distinct (the_or_nil (map_of (h_orgChannels h) ?k))"
      using D(4) [of ?k] by (cases "map_of (h_orgChannels h) ?k") auto
    ultimately show "distinct rs" using D(4) [of k rs] by auto
  qed (simp_all add: R C D(1,2))
qed

end
