(* ===== verification/Hub_Step.thy ===== *)
theory Hub_Step
  imports Hub_Inv
begin

text \<open>
  The invariant of the whole hub and what each operation does under it: none panics, and each has
  the effect on the subscriptions and on the clients' buffers that its specification names.
\<close>

section \<open>The invariant\<close>

definition heap_wf :: "Hub \<Rightarrow> bool" where
  "heap_wf h \<longleftrightarrow>
     distinct (map fst (h_clients h)) \<and> distinct (map c_id (h_objs h)) \<and> distinct (map c_send (h_objs h)) \<and>
     (\<forall>k r. map_of (h_clients h) k = Some r \<longrightarrow> r < length (h_objs h) \<and> c_id (h_objs h ! r) = k) \<and>
     (\<forall>r < length (h_objs h). c_send (h_objs h ! r) < length (h_chans h) \<and>
        ch_closed (h_chans h ! c_send (h_objs h ! r)) = c_closed (h_objs h ! r) \<and>
        c_closed (h_objs h ! r) = (map_of (h_clients h) (c_id (h_objs h ! r)) = None) \<and>
        ci_ID (c_info (h_objs h ! r)) = c_id (h_objs h ! r)) \<and>
     (h_closed h \<longrightarrow> h_clients h = [])"

definition own_room :: "uuid_api \<Rightarrow> client \<Rightarrow> RoomKey \<Rightarrow> bool" where
  "own_room U c room \<longleftrightarrow>
     (\<exists>chan. channelNameRe chan \<and>
        room = room_key U (ci_OrganizationID (c_info c)) (ci_AppID (c_info c)) chan)"

definition rooms_wf :: "uuid_api \<Rightarrow> Hub \<Rightarrow> bool" where
  "rooms_wf U h \<longleftrightarrow>
     (\<forall>room k r. in_room h room k = Some r \<longleftrightarrow>
        map_of (h_clients h) k = Some r \<and> room \<in> set (c_rooms (h_objs h ! r))) \<and>
     (\<forall>r < length (h_objs h). \<forall>room \<in> set (c_rooms (h_objs h ! r)). own_room U (h_objs h ! r) room)"

definition hub_inv :: "uuid_api \<Rightarrow> Hub \<Rightarrow> bool" where
  "hub_inv U h \<longleftrightarrow> heap_wf h \<and> index_wf U h \<and> rooms_wf U h"

lemma heap_wfD:
  assumes "heap_wf h"
  shows "map_of (h_clients h) k = Some r \<Longrightarrow> r < length (h_objs h)"
    and "map_of (h_clients h) k = Some r \<Longrightarrow> c_id (h_objs h ! r) = k"
    and "r < length (h_objs h) \<Longrightarrow> c_send (h_objs h ! r) < length (h_chans h)"
    and "r < length (h_objs h) \<Longrightarrow> ch_closed (h_chans h ! c_send (h_objs h ! r)) = c_closed (h_objs h ! r)"
    and "r < length (h_objs h) \<Longrightarrow>
      c_closed (h_objs h ! r) = (map_of (h_clients h) (c_id (h_objs h ! r)) = None)"
    and "r < length (h_objs h) \<Longrightarrow> ci_ID (c_info (h_objs h ! r)) = c_id (h_objs h ! r)"
    and "r < length (h_objs h) \<Longrightarrow> q < length (h_objs h) \<Longrightarrow>
      c_id (h_objs h ! r) = c_id (h_objs h ! q) \<longleftrightarrow> r = q"
    and "r < length (h_objs h) \<Longrightarrow> q < length (h_objs h) \<Longrightarrow>
      c_send (h_objs h ! r) = c_send (h_objs h ! q) \<longleftrightarrow> r = q"
    and "h_closed h \<Longrightarrow> h_clients h = []" and "distinct (map fst (h_clients h))"
  using assms nth_eq_iff_index_eq [of "map c_id (h_objs h)" r q]
    nth_eq_iff_index_eq [of "map c_send (h_objs h)" r q]
  unfolding heap_wf_def by auto

lemma rooms_wfD:
  assumes "rooms_wf U h"
  shows "in_room h room k = Some r \<longleftrightarrow>
      map_of (h_clients h) k = Some r \<and> room \<in> set (c_rooms (h_objs h ! r))"
    and "r < length (h_objs h) \<Longrightarrow> room \<in> set (c_rooms (h_objs h ! r)) \<Longrightarrow> own_room U (h_objs h ! r) room"
  using assms unfolding rooms_wf_def by blast+

lemma hub_invD: "hub_inv U h \<Longrightarrow> heap_wf h" "hub_inv U h \<Longrightarrow> index_wf U h" "hub_inv U h \<Longrightarrow> rooms_wf U h"
  by (simp_all add: hub_inv_def)

text \<open>A registered object is open; the clients' map and the objects agree.\<close>

lemma registered_open:
  "heap_wf h \<Longrightarrow> map_of (h_clients h) k = Some r \<Longrightarrow> \<not> c_closed (h_objs h ! r)"
  using heap_wfD(1,2,5) by fastforce

lemma registered_iff:
  "heap_wf h \<Longrightarrow> r < length (h_objs h) \<Longrightarrow>
   map_of (h_clients h) (c_id (h_objs h ! r)) = (if c_closed (h_objs h ! r) then None else Some r)"
  by (cases "map_of (h_clients h) (c_id (h_objs h ! r))")
     (use heap_wfD(1,2,5,7) in fastforce)+

lemma hub_inv_NewHub: "hub_inv U (NewHub n)"
  by (simp add: hub_inv_def heap_wf_def index_wf_def rooms_wf_def NewHub_def in_room_def the_or_nil_def)

section \<open>Buffers\<close>

text \<open>The invariant looks at the channels only to see whether they are closed.\<close>

lemma map_eq_nth: "map f xs = map f ys \<Longrightarrow> i < length ys \<Longrightarrow> f (xs ! i) = f (ys ! i)"
  by (metis length_map nth_map)

lemma hub_inv_chans':
  assumes inv: "hub_inv U h"
    and cs: "\<And>r. r < length (h_objs h) \<Longrightarrow> c_send (h_objs h ! r) < length cs \<and>
      ch_closed (cs ! c_send (h_objs h ! r)) = ch_closed (h_chans h ! c_send (h_objs h ! r))"
  shows "hub_inv U (h\<lparr>h_chans := cs\<rparr>)"
  using inv cs by (simp add: hub_inv_def heap_wf_def index_wf_def rooms_wf_def in_room_def)

lemma hub_inv_chans:
  assumes "hub_inv U h" "map ch_closed cs = map ch_closed (h_chans h)"
  shows "hub_inv U (h\<lparr>h_chans := cs\<rparr>)"
proof (rule hub_inv_chans' [OF assms(1)])
  fix r assume "r < length (h_objs h)"
  then have "c_send (h_objs h ! r) < length (h_chans h)" by (rule heap_wfD(3) [OF hub_invD(1) [OF assms(1)]])
  moreover have "length cs = length (h_chans h)" by (metis assms(2) length_map)
  ultimately show "c_send (h_objs h ! r) < length cs \<and>
      ch_closed (cs ! c_send (h_objs h ! r)) = ch_closed (h_chans h ! c_send (h_objs h ! r))"
    using map_eq_nth [OF assms(2)] by simp
qed

definition push :: "string \<Rightarrow> channel \<Rightarrow> channel" where
  "push p c = (if length (ch_buf c) < ch_cap c then c\<lparr>ch_buf := ch_buf c @ [p]\<rparr> else c)"

definition push_all :: "string \<Rightarrow> nat set \<Rightarrow> channel list \<Rightarrow> channel list" where
  "push_all p A cs = map (\<lambda>i. if i \<in> A then push p (cs ! i) else cs ! i) [0..<length cs]"

lemma push_closed [simp]: "ch_closed (push p c) = ch_closed c"
  by (simp add: push_def)

lemma length_push_all [simp]: "length (push_all p A cs) = length cs"
  by (simp add: push_all_def)

lemma push_all_nth [simp]:
  "i < length cs \<Longrightarrow> push_all p A cs ! i = (if i \<in> A then push p (cs ! i) else cs ! i)"
  by (simp add: push_all_def)

lemma push_all_empty [simp]: "push_all p {} cs = cs"
  by (simp add: push_all_def map_nth)

lemma push_all_closed [simp]: "map ch_closed (push_all p A cs) = map ch_closed cs"
  by (rule nth_equalityI) auto

lemma push_all_Un: "A \<inter> B = {} \<Longrightarrow> push_all p B (push_all p A cs) = push_all p (A \<union> B) cs"
  by (rule nth_equalityI) auto

lemma push_all_single: "i < length cs \<Longrightarrow> push_all p {i} cs = cs[i := push p (cs ! i)]"
  by (rule nth_equalityI) (auto simp: nth_list_update)

lemma push_all_hub_inv: "hub_inv U h \<Longrightarrow> hub_inv U (h\<lparr>h_chans := push_all p A (h_chans h)\<rparr>)"
  by (rule hub_inv_chans) simp_all

lemma try_send_open:
  assumes "i < length (h_chans h)" "\<not> ch_closed (h_chans h ! i)"
  shows "try_send i p h = Some (h\<lparr>h_chans := push_all p {i} (h_chans h)\<rparr>)"
proof -
  have "(h_chans h)[i := h_chans h ! i] = h_chans h" by simp
  then show ?thesis using assms
    by (simp add: try_send_def Let_def push_all_single push_def)
qed

lemma fold_try_send:
  assumes "\<And>x. x \<in> set xs \<Longrightarrow> f x < length (h_chans h) \<and> \<not> ch_closed (h_chans h ! f x)"
    and "distinct (map f xs)"
  shows "fold_opt (\<lambda>x. try_send (f x) p) xs h = Some (h\<lparr>h_chans := push_all p (f ` set xs) (h_chans h)\<rparr>)"
  using assms
proof (induction xs arbitrary: h)
  case (Cons x xs)
  let ?h = "h\<lparr>h_chans := push_all p {f x} (h_chans h)\<rparr>"
  have "fold_opt (\<lambda>x. try_send (f x) p) xs ?h = Some (?h\<lparr>h_chans := push_all p (f ` set xs) (h_chans ?h)\<rparr>)"
    using Cons.prems by (intro Cons.IH) auto
  then show ?case using Cons.prems by (simp add: try_send_open push_all_Un)
qed simp

section \<open>Sending\<close>

definition room_chans :: "Hub \<Rightarrow> RoomKey \<Rightarrow> nat set" where
  "room_chans h room = {c_send (h_objs h ! r) | k r. in_room h room k = Some r}"

lemma broadcastLocked_result:
  assumes inv: "hub_inv U h"
  shows "broadcastLocked room p h = Some (h\<lparr>h_chans := push_all p (room_chans h room) (h_chans h)\<rparr>)"
proof -
  note H = heap_wfD [OF hub_invD(1) [OF inv]] and R = rooms_wfD [OF hub_invD(3) [OF inv]]
  have empty: "room_chans h room = {} \<Longrightarrow> Some h = Some (h\<lparr>h_chans := push_all p (room_chans h room) (h_chans h)\<rparr>)"
    by simp
  show ?thesis
  proof (cases "map_of (h_rooms h) room")
    case None
    then have "room_chans h room = {}" by (simp add: room_chans_def in_room_def)
    then show ?thesis using None by (simp add: broadcastLocked_def)
  next
    case (Some m)
    show ?thesis
    proof (cases "h_closed h")
      case True
      then have "room_chans h room = {}" using H(9) R(1) by (simp add: room_chans_def)
      then show ?thesis using True by (simp add: broadcastLocked_def)
    next
      case False
      let ?f = "\<lambda>x. c_send (h_objs h ! snd x)"
      have dm: "distinct (map fst m)" using index_wfD(3) [OF hub_invD(2) [OF inv] Some] by simp
      have mem: "(k, r) \<in> set m \<longleftrightarrow> in_room h room k = Some r" for k r
        using Some dm by (simp add: in_room_def)
      have reg: "(k, r) \<in> set m \<Longrightarrow> map_of (h_clients h) k = Some r" for k r
        using mem R(1) by simp
      have "r < length (h_objs h)" "c_id (h_objs h ! r) = k" "\<not> c_closed (h_objs h ! r)"
        if "(k, r) \<in> set m" for k r
        using reg [OF that] H(1,2) registered_open [OF hub_invD(1) [OF inv]] by blast+
      note M = this
      have "inj_on ?f (set m)"
      proof (rule inj_onI)
        fix x y assume "x \<in> set m" "y \<in> set m" "?f x = ?f y"
        then show "x = y" using H(8) [of "snd x" "snd y"] M [of "fst x" "snd x"] M [of "fst y" "snd y"]
          by (metis prod.collapse)
      qed
      moreover have "distinct m" using dm by (simp add: distinct_map)
      ultimately have "distinct (map ?f m)" by (simp add: distinct_map)
      moreover have "?f x < length (h_chans h) \<and> \<not> ch_closed (h_chans h ! ?f x)" if "x \<in> set m" for x
        using M [of "fst x" "snd x"] that H(3,4) [of "snd x"] by simp
      ultimately have "fold_opt (\<lambda>x. try_send (?f x) p) m h =
          Some (h\<lparr>h_chans := push_all p (?f ` set m) (h_chans h)\<rparr>)"
        by (intro fold_try_send) auto
      moreover have "?f ` set m = room_chans h room" by (force simp: room_chans_def mem [symmetric])
      ultimately show ?thesis using False Some by (simp add: broadcastLocked_def case_prod_unfold)
    qed
  qed
qed

lemma SendToClient_result:
  assumes "hub_inv U h"
  shows "SendToClient cid p h =
    Some (h\<lparr>h_chans := push_all p {c_send (h_objs h ! r) | r. map_of (h_clients h) cid = Some r} (h_chans h)\<rparr>)"
proof (cases "map_of (h_clients h) cid")
  case (Some r)
  note H = heap_wfD [OF hub_invD(1) [OF assms]]
  have "\<not> h_closed h" using H(9) Some by auto
  then show ?thesis
    using Some H(1) [OF Some] H(3,4) [of r] registered_open [OF hub_invD(1) [OF assms] Some]
    by (simp add: SendToClient_def try_send_open)
qed (simp add: SendToClient_def)

lemma room_chans_upd [simp]: "room_chans (h\<lparr>h_chans := cs\<rparr>) room = room_chans h room"
  by (simp add: room_chans_def in_room_def)

text \<open>The rooms of an organization and a channel have no client in common.\<close>

lemma room_chans_disjoint:
  assumes U: "uuid_api_ok U" and inv: "hub_inv U h" and ne: "a \<noteq> b"
  shows "room_chans h (room_key U g a chan) \<inter> room_chans h (room_key U g b chan) = {}"
proof -
  note H = heap_wfD [OF hub_invD(1) [OF inv]] and R = rooms_wfD [OF hub_invD(3) [OF inv]]
  have app: "ci_AppID (c_info (h_objs h ! r)) = x \<and> r < length (h_objs h)"
    if "in_room h (room_key U g x chan) k = Some r" for x k r
    using that R(1) R(2) [of r "room_key U g x chan"] H(1)
    by (auto simp: own_room_def room_key_inject [OF U])
  show ?thesis
  proof (rule ccontr)
    assume "\<not> ?thesis"
    then obtain k r k' r' where "in_room h (room_key U g a chan) k = Some r"
      "in_room h (room_key U g b chan) k' = Some r'" "c_send (h_objs h ! r) = c_send (h_objs h ! r')"
      by (auto simp: room_chans_def)
    then show False using app H(8) ne by metis
  qed
qed

lemma fold_broadcast:
  assumes "hub_inv U h" "\<And>x y. x \<in> set rooms \<Longrightarrow> y \<in> set rooms \<Longrightarrow> x \<noteq> y \<Longrightarrow> room_chans h x \<inter> room_chans h y = {}"
    and "distinct rooms"
  shows "fold_opt (\<lambda>room. broadcastLocked room p) rooms h =
    Some (h\<lparr>h_chans := push_all p (\<Union>room \<in> set rooms. room_chans h room) (h_chans h)\<rparr>)"
  using assms
proof (induction rooms arbitrary: h)
  case (Cons x xs)
  let ?h = "h\<lparr>h_chans := push_all p (room_chans h x) (h_chans h)\<rparr>"
  have "fold_opt (\<lambda>room. broadcastLocked room p) xs ?h =
      Some (?h\<lparr>h_chans := push_all p (\<Union>room \<in> set xs. room_chans ?h room) (h_chans ?h)\<rparr>)"
    by (rule Cons.IH [OF push_all_hub_inv [OF Cons.prems(1)]]) (use Cons.prems in simp_all)
  moreover have "room_chans h x \<inter> (\<Union>room \<in> set xs. room_chans h room) = {}"
    using Cons.prems(2) [of x] Cons.prems(3) by fastforce
  ultimately show ?case using broadcastLocked_result [OF Cons.prems(1)] by (simp add: push_all_Un)
qed simp

lemma BroadcastToOrganization_result:
  assumes U: "uuid_api_ok U" and inv: "hub_inv U h"
  shows "BroadcastToOrganization U g chan p h =
    Some (h\<lparr>h_chans := push_all p (\<Union>a. room_chans h (room_key U g a chan)) (h_chans h)\<rparr>)"
proof -
  let ?rs = "the_or_nil (map_of (h_orgChannels h) (orgKey U g chan))"
  note D = index_wfD [OF hub_invD(2) [OF inv]]
  have rs: "room \<in> set ?rs \<longleftrightarrow> (\<exists>a. room = room_key U g a chan \<and> map_of (h_rooms h) room \<noteq> None)" for room
    unfolding D(5) orgKey_inject [OF U] by blast
  have "distinct ?rs" using D(4) [of "orgKey U g chan"]
    by (cases "map_of (h_orgChannels h) (orgKey U g chan)") auto
  then have "BroadcastToOrganization U g chan p h =
    Some (h\<lparr>h_chans := push_all p (\<Union>room \<in> set ?rs. room_chans h room) (h_chans h)\<rparr>)"
    unfolding BroadcastToOrganization_def using room_chans_disjoint [OF U inv]
    by (intro fold_broadcast [OF inv]) (metis rs, assumption)
  moreover have "(\<Union>room \<in> set ?rs. room_chans h room) = (\<Union>a. room_chans h (room_key U g a chan))"
  proof (intro equalityI subsetI)
    fix i assume "i \<in> (\<Union>a. room_chans h (room_key U g a chan))"
    then obtain a where a: "i \<in> room_chans h (room_key U g a chan)" by blast
    then have "map_of (h_rooms h) (room_key U g a chan) \<noteq> None"
      by (auto simp: room_chans_def in_room_def split: option.splits)
    then show "i \<in> (\<Union>room \<in> set ?rs. room_chans h room)" using a rs by blast
  next
    fix i assume "i \<in> (\<Union>room \<in> set ?rs. room_chans h room)"
    then obtain room where "room \<in> set ?rs" "i \<in> room_chans h room" by (elim UN_E)
    moreover from this(1) obtain a where "room = room_key U g a chan" unfolding rs by (elim exE conjE)
    ultimately show "i \<in> (\<Union>a. room_chans h (room_key U g a chan))" by blast
  qed
  ultimately show ?thesis by simp
qed

end
