(* ===== verification/Hub_Ops.thy ===== *)
theory Hub_Ops
  imports Hub_Step
begin

text \<open>
  The operations that change who is subscribed to what: each keeps the invariant, and in terms of
  the subscriptions it does what \<open>spec_hub_op\<close> says.
\<close>

section \<open>Changing one object\<close>

lemma set_obj_simps [simp]:
  "h_clients (set_obj r f h) = h_clients h" "h_rooms (set_obj r f h) = h_rooms h"
  "h_orgChannels (set_obj r f h) = h_orgChannels h" "h_chans (set_obj r f h) = h_chans h"
  "h_closed (set_obj r f h) = h_closed h" "h_max (set_obj r f h) = h_max h"
  "length (h_objs (set_obj r f h)) = length (h_objs h)" "in_room (set_obj r f h) = in_room h"
  "q < length (h_objs h) \<Longrightarrow> h_objs (set_obj r f h) ! q = (if q = r then f (h_objs h ! r) else h_objs h ! q)"
  by (auto simp: set_obj_def in_room_def fun_eq_iff nth_list_update)

lemma map_list_update_same: "g (f (xs ! r)) = g (xs ! r) \<Longrightarrow> map g (xs[r := f (xs ! r)]) = map g xs"
  by (metis list_update_id map_update)

lemma heap_wf_objs:
  assumes "heap_wf h" "map c_id os = map c_id (h_objs h)" "map c_send os = map c_send (h_objs h)"
    "map c_closed os = map c_closed (h_objs h)" "map c_info os = map c_info (h_objs h)"
  shows "heap_wf (h\<lparr>h_objs := os, h_rooms := R, h_orgChannels := G\<rparr>)"
proof -
  have len: "length os = length (h_objs h)" using assms(2) by (metis length_map)
  have eq: "c_id (os ! r) = c_id (h_objs h ! r)" "c_send (os ! r) = c_send (h_objs h ! r)"
    "c_closed (os ! r) = c_closed (h_objs h ! r)" "c_info (os ! r) = c_info (h_objs h ! r)"
    if "r < length (h_objs h)" for r
    using map_eq_nth [OF assms(2) that] map_eq_nth [OF assms(3) that] map_eq_nth [OF assms(4) that]
      map_eq_nth [OF assms(5) that] .
  show ?thesis using assms(1) unfolding heap_wf_def by (auto simp: len eq assms(2,3))
qed

section \<open>Subscribing and unsubscribing\<close>

lemma addToRoomLocked_objs:
  "h_objs (addToRoomLocked U r room h) =
     (h_objs h)[r := (h_objs h ! r)\<lparr>c_rooms := List.insert room (c_rooms (h_objs h ! r))\<rparr>]"
  by (simp add: client_subscribe_def set_obj_def)

lemma heap_wf_addToRoomLocked: "heap_wf h \<Longrightarrow> heap_wf (addToRoomLocked U r room h)"
proof -
  assume wf: "heap_wf h"
  have "addToRoomLocked U r room h =
      h\<lparr>h_objs := h_objs (addToRoomLocked U r room h), h_rooms := h_rooms (addToRoomLocked U r room h),
        h_orgChannels := h_orgChannels (addToRoomLocked U r room h)\<rparr>"
    by (simp del: addToRoomLocked_simps(5) add: addToRoomLocked_def client_subscribe_def set_obj_def Let_def
        split: sum.splits)
  moreover have "heap_wf \<dots>"
    by (rule heap_wf_objs [OF wf]) (simp_all only: addToRoomLocked_objs, simp_all add: map_list_update_same)
  ultimately show ?thesis by (rule ssubst [where P = heap_wf])
qed

lemma hub_inv_addToRoomLocked:
  assumes U: "uuid_api_ok U" and inv: "hub_inv U h" and reg: "map_of (h_clients h) k = Some r"
    and own: "own_room U (h_objs h ! r) room"
  shows "hub_inv U (addToRoomLocked U r room h)"
proof -
  note H = heap_wfD [OF hub_invD(1) [OF inv]] and R = rooms_wfD [OF hub_invD(3) [OF inv]]
  let ?h = "addToRoomLocked U r room h"
  obtain chan where chan: "room = room_key U (ci_OrganizationID (c_info (h_objs h ! r)))
      (ci_AppID (c_info (h_objs h ! r))) chan" using own by (auto simp: own_room_def)
  have r: "r < length (h_objs h)" "c_id (h_objs h ! r) = k" using H(1,2) reg by blast+
  have nth: "h_objs ?h ! q = (if q = r then (h_objs h ! r)\<lparr>c_rooms := List.insert room (c_rooms (h_objs h ! r))\<rparr>
      else h_objs h ! q)" if "q < length (h_objs h)" for q
    using that by (simp add: client_subscribe_def)
  have "in_room ?h room' k' = Some q \<longleftrightarrow>
      map_of (h_clients ?h) k' = Some q \<and> room' \<in> set (c_rooms (h_objs ?h ! q))" for room' k' q
  proof (cases "map_of (h_clients h) k' = Some q")
    case True
    then have q: "q < length (h_objs h)" "c_id (h_objs h ! q) = k'" using H(1,2) by blast+
    then have "k' = k \<longleftrightarrow> q = r" using r H(7) by blast
    then show ?thesis using True nth [OF q(1)] R(1) [of room' k' q] r
      by (auto simp: addToRoomLocked_in_room)
  next
    case False
    then show ?thesis using R(1) [of room' k' q] r reg by (auto simp: addToRoomLocked_in_room)
  qed
  moreover have "own_room U (h_objs ?h ! q) room'"
    if "q < length (h_objs ?h)" "room' \<in> set (c_rooms (h_objs ?h ! q))" for q room'
  proof -
    have q: "q < length (h_objs h)" using that(1) by (simp add: client_subscribe_def)
    then have "own_room U (h_objs h ! q) room'"
      using that(2) nth [OF q] R(2) [OF q] own by (auto split: if_splits)
    then show ?thesis using nth [OF q] by (auto simp: own_room_def)
  qed
  ultimately have "rooms_wf U ?h" unfolding rooms_wf_def by blast
  then show ?thesis unfolding hub_inv_def
    using heap_wf_addToRoomLocked [OF hub_invD(1) [OF inv]]
      addToRoomLocked_index [OF U hub_invD(2) [OF inv] chan] by blast
qed

lemma hub_inv_removeFromRoomLocked:
  assumes U: "uuid_api_ok U" and inv: "hub_inv U h" and reg: "map_of (h_clients h) k = Some r"
    and own: "own_room U (h_objs h ! r) room"
  shows "hub_inv U (removeFromRoomLocked U r room h)"
proof -
  note H = heap_wfD [OF hub_invD(1) [OF inv]] and R = rooms_wfD [OF hub_invD(3) [OF inv]]
  let ?g = "leave_room U (h_objs h ! r) room h" and ?h = "removeFromRoomLocked U r room h"
  obtain chan where chan: "room = room_key U (ci_OrganizationID (c_info (h_objs h ! r)))
      (ci_AppID (c_info (h_objs h ! r))) chan" using own by (auto simp: own_room_def)
  have g: "index_wf U ?g" by (rule leave_room_index [OF U hub_invD(2) [OF inv] chan])
  have r: "r < length (h_objs h)" "c_id (h_objs h ! r) = k" using H(1,2) reg by blast+
  have nth: "h_objs ?h ! q = (if q = r then (h_objs h ! r)\<lparr>c_rooms := removeAll room (c_rooms (h_objs h ! r))\<rparr>
      else h_objs h ! q)" if "q < length (h_objs h)" for q
    using that by (simp add: removeFromRoomLocked_def client_unsubscribe_def)
  have ir: "in_room ?h = (in_room h)(room := (in_room h room)(k := None))"
    using leave_room_in_room [OF hub_invD(2) [OF inv]] r
    by (simp add: removeFromRoomLocked_def client_unsubscribe_def)
  have cl: "h_clients ?h = h_clients h" "length (h_objs ?h) = length (h_objs h)"
    by (simp_all add: removeFromRoomLocked_def client_unsubscribe_def)
  have "in_room ?h room' k' = Some q \<longleftrightarrow>
      map_of (h_clients ?h) k' = Some q \<and> room' \<in> set (c_rooms (h_objs ?h ! q))" for room' k' q
  proof (cases "map_of (h_clients h) k' = Some q")
    case True
    then have q: "q < length (h_objs h)" "c_id (h_objs h ! q) = k'" using H(1,2) by blast+
    then have "k' = k \<longleftrightarrow> q = r" using r H(7) by blast
    then show ?thesis using True nth [OF q(1)] R(1) [of room' k' q] unfolding ir cl by auto
  next
    case False
    then show ?thesis using R(1) [of room' k' q] unfolding ir cl by auto
  qed
  moreover have "own_room U (h_objs ?h ! q) room'"
    if "q < length (h_objs ?h)" "room' \<in> set (c_rooms (h_objs ?h ! q))" for q room'
  proof -
    have q: "q < length (h_objs h)" using that(1) cl by simp
    then have "own_room U (h_objs h ! q) room'"
      using that(2) nth [OF q] R(2) [OF q] by (auto split: if_splits)
    then show ?thesis using nth [OF q] by (auto simp: own_room_def)
  qed
  ultimately have "rooms_wf U ?h" unfolding rooms_wf_def by blast
  moreover have "index_wf U ?h"
    using g by (simp add: index_wf_def removeFromRoomLocked_def client_unsubscribe_def)
  moreover have "heap_wf ?h"
  proof -
    have "?h = h\<lparr>h_objs := (h_objs h)[r := (h_objs h ! r)\<lparr>c_rooms := removeAll room (c_rooms (h_objs h ! r))\<rparr>],
        h_rooms := h_rooms ?g, h_orgChannels := h_orgChannels ?g\<rparr>"
      by (simp add: removeFromRoomLocked_def client_unsubscribe_def set_obj_def)
    moreover have "heap_wf \<dots>"
      by (rule heap_wf_objs [OF hub_invD(1) [OF inv]]) (simp_all add: map_list_update_same)
    ultimately show ?thesis by simp
  qed
  ultimately show ?thesis by (simp add: hub_inv_def)
qed

section \<open>Registering\<close>

lemma hub_inv_Register:
  assumes U: "uuid_api_ok U" and inv: "hub_inv U h"
    and fresh: "ci_ID info \<notin> c_id ` set (h_objs h)" "send \<notin> c_send ` set (h_objs h)"
    and chan: "send < length (h_chans h)" "\<not> ch_closed (h_chans h ! send)"
    and room: "\<not> h_closed h" "int (length (h_clients h)) < h_max h"
  shows "\<exists>h'. Hub_Register U info send h = Some (Some (length (h_objs h)), h') \<and> hub_inv U h' \<and>
    map_of (h_clients h') = (map_of (h_clients h))(ci_ID info \<mapsto> length (h_objs h)) \<and>
    h_objs h' = h_objs h @ [\<lparr>c_id = ci_ID info, c_info = info, c_send = send,
      c_rooms = [room_key U (ci_OrganizationID info) (ci_AppID info) DefaultChannel], c_closed = False\<rparr>] \<and>
    h_chans h' = h_chans h \<and> h_closed h' = h_closed h \<and> h_max h' = h_max h"
proof -
  note H = heap_wfD [OF hub_invD(1) [OF inv]] and R = rooms_wfD [OF hub_invD(3) [OF inv]]
  let ?n = "length (h_objs h)" and ?i = "ci_ID info"
  let ?c = "\<lparr>c_id = ?i, c_info = info, c_send = send, c_rooms = [], c_closed = False\<rparr>"
  let ?h = "h\<lparr>h_objs := h_objs h @ [?c], h_clients := AList.update ?i ?n (h_clients h)\<rparr>"
  let ?room = "room_key U (ci_OrganizationID info) (ci_AppID info) DefaultChannel"
  have new: "map_of (h_clients h) ?i = None"
  proof (rule ccontr)
    assume "map_of (h_clients h) ?i \<noteq> None"
    then obtain r where "map_of (h_clients h) ?i = Some r" by blast
    then have "r < ?n" "c_id (h_objs h ! r) = ?i" using H(1,2) by blast+
    then show False using fresh(1) by (metis image_eqI nth_mem)
  qed
  have nid: "r < ?n \<Longrightarrow> c_id (h_objs h ! r) \<noteq> ?i" for r
    using fresh(1) nth_mem by (metis image_eqI)
  have "heap_wf ?h"
    using hub_invD(1) [OF inv] fresh chan room(1) new nid unfolding heap_wf_def
    by (auto simp: nth_append less_Suc_eq)
  moreover have "index_wf U ?h" using hub_invD(2) [OF inv] by (simp add: index_wf_def)
  moreover have "rooms_wf U ?h"
  proof -
    have "in_room ?h room k = Some r \<longleftrightarrow>
        map_of (h_clients ?h) k = Some r \<and> room \<in> set (c_rooms (h_objs ?h ! r))" for room k r
    proof (cases "k = ?i")
      case True
      then show ?thesis using R(1) [of room k r] new by (auto simp: in_room_def nth_append)
    next
      case False
      then show ?thesis using R(1) [of room k r] H(1) [of k r]
        by (auto simp: in_room_def nth_append)
    qed
    moreover have "own_room U (h_objs ?h ! q) room"
      if "q < length (h_objs ?h)" "room \<in> set (c_rooms (h_objs ?h ! q))" for q room
      using that R(2) [of q room] by (auto simp: nth_append less_Suc_eq split: if_splits)
    ultimately show ?thesis unfolding rooms_wf_def by blast
  qed
  ultimately have inv1: "hub_inv U ?h" by (simp add: hub_inv_def)
  have build: "BuildRoomKey U (ci_OrganizationID info) (ci_AppID info) DefaultChannel = Inr ?room"
  proof -
    have "TrimSpace DefaultChannel = DefaultChannel" unfolding DefaultChannel_def
      by (rule TrimSpace_id) (simp add: space_bytes_def go_spaces_def)
    moreover have "DefaultChannel \<noteq> []" by (simp add: DefaultChannel_def)
    ultimately show ?thesis by (simp add: BuildRoomKey_iff channel_of_def)
  qed
  have "hub_inv U (addToRoomLocked U ?n ?room ?h)"
    by (rule hub_inv_addToRoomLocked [OF U inv1, of ?i]) (auto simp: own_room_def intro: exI [of _ DefaultChannel])
  moreover have "Hub_Register U info send h = Some (Some ?n, addToRoomLocked U ?n ?room ?h)"
    using room by (simp add: Hub_Register_def Let_def build)
  ultimately show ?thesis
    by (simp add: client_subscribe_def set_obj_def)
qed

section \<open>Removing\<close>

text \<open>Closing the channel of an object that is in step with it.\<close>

definition in_step :: "Hub \<Rightarrow> bool" where
  "in_step h \<longleftrightarrow> distinct (map c_send (h_objs h)) \<and>
     (\<forall>r < length (h_objs h). c_send (h_objs h ! r) < length (h_chans h) \<and>
        ch_closed (h_chans h ! c_send (h_objs h ! r)) = c_closed (h_objs h ! r))"

definition closed_at :: "nat set \<Rightarrow> Hub \<Rightarrow> Hub \<Rightarrow> bool" where
  "closed_at A h h' \<longleftrightarrow>
     map c_id (h_objs h') = map c_id (h_objs h) \<and> map c_send (h_objs h') = map c_send (h_objs h) \<and>
     map c_info (h_objs h') = map c_info (h_objs h) \<and> map c_rooms (h_objs h') = map c_rooms (h_objs h) \<and>
     (\<forall>q < length (h_objs h). c_closed (h_objs h' ! q) = (c_closed (h_objs h ! q) \<or> q \<in> A)) \<and>
     length (h_chans h') = length (h_chans h) \<and> map ch_buf (h_chans h') = map ch_buf (h_chans h) \<and>
     map ch_cap (h_chans h') = map ch_cap (h_chans h) \<and>
     h_clients h' = h_clients h \<and> h_rooms h' = h_rooms h \<and> h_orgChannels h' = h_orgChannels h \<and>
     h_closed h' = h_closed h \<and> h_max h' = h_max h"

lemma closed_at_len: "closed_at A h h' \<Longrightarrow> length (h_objs h') = length (h_objs h)"
  unfolding closed_at_def by (metis length_map)

lemma closed_at_refl: "closed_at {} h h"
  by (simp add: closed_at_def)

lemma closed_at_trans: "closed_at A h h' \<Longrightarrow> closed_at B h' h'' \<Longrightarrow> closed_at (A \<union> B) h h''"
  using closed_at_len [of A h h'] by (auto simp: closed_at_def)

lemma closeSend_result:
  assumes "in_step h" "r < length (h_objs h)"
  shows "\<exists>h'. closeSend r h = Some h' \<and> in_step h' \<and> closed_at {r} h h'"
proof (cases "c_closed (h_objs h ! r)")
  case True
  then show ?thesis using assms by (auto simp: closeSend_def closed_at_def)
next
  case False
  let ?o = "h_objs h ! r" and ?s = "c_send (h_objs h ! r)"
  let ?h = "h\<lparr>h_objs := (h_objs h)[r := ?o\<lparr>c_closed := True\<rparr>],
    h_chans := (h_chans h)[?s := (h_chans h ! ?s)\<lparr>ch_closed := True\<rparr>]\<rparr>"
  have s: "?s < length (h_chans h)" "\<not> ch_closed (h_chans h ! ?s)"
    using assms False unfolding in_step_def by blast+
  have "closeSend r h = Some ?h"
    using False s by (simp add: closeSend_def Let_def close_chan_def set_obj_def)
  moreover have "closed_at {r} h ?h" using assms(2)
    by (auto simp: closed_at_def map_list_update_same nth_list_update)
  moreover have "in_step ?h"
  proof -
    have ne: "q \<noteq> r \<Longrightarrow> q < length (h_objs h) \<Longrightarrow> c_send (h_objs h ! q) \<noteq> ?s" for q
      using assms nth_eq_iff_index_eq [of "map c_send (h_objs h)" q r] by (simp add: in_step_def)
    have "c_send (h_objs ?h ! q) < length (h_chans ?h) \<and>
        ch_closed (h_chans ?h ! c_send (h_objs ?h ! q)) = c_closed (h_objs ?h ! q)"
      if q: "q < length (h_objs h)" for q
    proof (cases "q = r")
      case True
      then show ?thesis using assms(2) s by simp
    next
      case False
      have "c_send (h_objs h ! q) < length (h_chans h) \<and>
          ch_closed (h_chans h ! c_send (h_objs h ! q)) = c_closed (h_objs h ! q)"
        using assms(1) q unfolding in_step_def by blast
      then show ?thesis using False ne [OF False q] by simp
    qed
    moreover have "distinct (map c_send (h_objs ?h))"
      using assms(1) by (simp add: in_step_def map_list_update_same)
    ultimately show ?thesis by (simp add: in_step_def)
  qed
  ultimately show ?thesis by blast
qed

lemma fold_closeSend:
  assumes "in_step h" "\<And>x. x \<in> set xs \<Longrightarrow> f x < length (h_objs h)"
  shows "\<exists>h'. fold_opt (\<lambda>x. closeSend (f x)) xs h = Some h' \<and> in_step h' \<and> closed_at (f ` set xs) h h'"
  using assms
proof (induction xs arbitrary: h)
  case Nil
  then show ?case by (simp add: closed_at_refl)
next
  case (Cons x xs)
  obtain h1 where h1: "closeSend (f x) h = Some h1" "in_step h1" "closed_at {f x} h h1"
    using closeSend_result [OF Cons.prems(1), of "f x"] Cons.prems(2) by auto
  obtain h2 where "fold_opt (\<lambda>x. closeSend (f x)) xs h1 = Some h2" "in_step h2" "closed_at (f ` set xs) h1 h2"
    using Cons.IH [OF h1(2)] Cons.prems(2) closed_at_len [OF h1(3)] by auto
  moreover have "{f x} \<union> f ` set xs = f ` set (x # xs)" by auto
  ultimately show ?case using h1 closed_at_trans [OF h1(3)] by fastforce
qed

lemma heap_wf_in_step: "heap_wf h \<Longrightarrow> in_step h"
  by (auto simp: heap_wf_def in_step_def)

lemma closed_at_nth:
  assumes "closed_at A h h'" "q < length (h_objs h)"
  shows "c_id (h_objs h' ! q) = c_id (h_objs h ! q)" "c_send (h_objs h' ! q) = c_send (h_objs h ! q)"
    "c_info (h_objs h' ! q) = c_info (h_objs h ! q)" "c_rooms (h_objs h' ! q) = c_rooms (h_objs h ! q)"
    "c_closed (h_objs h' ! q) = (c_closed (h_objs h ! q) \<or> q \<in> A)"
proof -
  have m: "map c_id (h_objs h') = map c_id (h_objs h)" "map c_send (h_objs h') = map c_send (h_objs h)"
    "map c_info (h_objs h') = map c_info (h_objs h)" "map c_rooms (h_objs h') = map c_rooms (h_objs h)"
    using assms(1) by (simp_all add: closed_at_def)
  show "c_id (h_objs h' ! q) = c_id (h_objs h ! q)" "c_send (h_objs h' ! q) = c_send (h_objs h ! q)"
    "c_info (h_objs h' ! q) = c_info (h_objs h ! q)" "c_rooms (h_objs h' ! q) = c_rooms (h_objs h ! q)"
    using m assms(2) by (auto intro: map_eq_nth)
  show "c_closed (h_objs h' ! q) = (c_closed (h_objs h ! q) \<or> q \<in> A)"
    using assms by (simp add: closed_at_def)
qed

text \<open>
  When the objects of \<open>A\<close> are closed and their clients are gone from the map and the rooms, the
  invariant holds again.
\<close>

lemma hub_inv_closed:
  assumes inv: "hub_inv U h" and cl: "closed_at A h0 h'"
    and h0: "h_objs h0 = h_objs h" "h_chans h0 = h_chans h" and st: "in_step h'"
    and clients: "distinct (map fst (h_clients h0))"
      "\<And>k r. map_of (h_clients h0) k = Some r \<longleftrightarrow> map_of (h_clients h) k = Some r \<and> r \<notin> A"
    and idx: "index_wf U h0"
    and rooms: "\<And>room k r. in_room h0 room k = Some r \<longleftrightarrow> in_room h room k = Some r \<and> r \<notin> A"
    and closed: "h_closed h0 \<longrightarrow> h_clients h0 = []"
  shows "hub_inv U h'"
proof -
  note H = heap_wfD [OF hub_invD(1) [OF inv]] and R = rooms_wfD [OF hub_invD(3) [OF inv]]
  have len: "length (h_objs h') = length (h_objs h)" using closed_at_len [OF cl] h0 by simp
  note N = closed_at_nth [OF cl, unfolded h0(1)]
  have same: "map c_id (h_objs h') = map c_id (h_objs h)" "map c_send (h_objs h') = map c_send (h_objs h)"
    "h_clients h' = h_clients h0" "h_closed h' = h_closed h0" "h_rooms h' = h_rooms h0"
    "h_orgChannels h' = h_orgChannels h0"
    using cl h0(1) by (simp_all add: closed_at_def)
  have none: "map_of (h_clients h0) (c_id (h_objs h ! q)) = None \<longleftrightarrow> c_closed (h_objs h ! q) \<or> q \<in> A"
    if q: "q < length (h_objs h)" for q
  proof (cases "map_of (h_clients h) (c_id (h_objs h ! q))")
    case None
    then have "map_of (h_clients h0) (c_id (h_objs h ! q)) = None"
      using clients(2) [of "c_id (h_objs h ! q)"] by (cases "map_of (h_clients h0) (c_id (h_objs h ! q))") auto
    then show ?thesis using H(5) [OF q] None by simp
  next
    case (Some r)
    then have "r = q" using H(1,2) [OF Some] H(7) [of r q] q by simp
    then have "map_of (h_clients h0) (c_id (h_objs h ! q)) = Some x \<longleftrightarrow> x = q \<and> q \<notin> A" for x
      unfolding clients(2) using Some by auto
    from this [of q] this [of "the (map_of (h_clients h0) (c_id (h_objs h ! q)))"]
    have "map_of (h_clients h0) (c_id (h_objs h ! q)) = None \<longleftrightarrow> q \<in> A" by (metis option.collapse option.distinct(1))
    then show ?thesis using Some H(5) [OF q] by simp
  qed
  have hw: "distinct (map c_id (h_objs h))" "distinct (map c_send (h_objs h))"
    using hub_invD(1) [OF inv] by (simp_all add: heap_wf_def)
  have "heap_wf h'" unfolding heap_wf_def same len
  proof (intro conjI allI impI)
    fix k r assume "map_of (h_clients h0) k = Some r"
    then have reg: "map_of (h_clients h) k = Some r" using clients(2) by blast
    then show "r < length (h_objs h)" using H(1) by blast
    then show "c_id (h_objs h' ! r) = k" using N(1) H(2) [OF reg] by simp
  next
    fix r assume r: "r < length (h_objs h)"
    have "c_send (h_objs h' ! r) < length (h_chans h') \<and>
        ch_closed (h_chans h' ! c_send (h_objs h' ! r)) = c_closed (h_objs h' ! r)"
      using st r len by (simp add: in_step_def)
    then show "c_send (h_objs h' ! r) < length (h_chans h')"
      "ch_closed (h_chans h' ! c_send (h_objs h' ! r)) = c_closed (h_objs h' ! r)" by blast+
    show "c_closed (h_objs h' ! r) = (map_of (h_clients h0) (c_id (h_objs h' ! r)) = None)"
      using N(1,5) [OF r] none [OF r] by simp
    show "ci_ID (c_info (h_objs h' ! r)) = c_id (h_objs h' ! r)" using N(1,3) [OF r] H(6) [OF r] by simp
  qed (use hw clients(1) closed in blast)+
  moreover have "index_wf U h'" using idx by (simp add: index_wf_def same)
  moreover have "rooms_wf U h'" unfolding rooms_wf_def len
  proof (intro conjI allI impI ballI)
    fix room k r
    have "in_room h' room k = Some r \<longleftrightarrow> in_room h room k = Some r \<and> r \<notin> A"
      using rooms by (simp add: in_room_def same)
    then show "in_room h' room k = Some r \<longleftrightarrow>
        map_of (h_clients h') k = Some r \<and> room \<in> set (c_rooms (h_objs h' ! r))"
      using R(1) [of room k r] clients(2) [of k r] N(4) [of r] H(1) [of k r] same(3) by auto
  next
    fix r room assume r: "r < length (h_objs h)" "room \<in> set (c_rooms (h_objs h' ! r))"
    then have "own_room U (h_objs h ! r) room" using R(2) N(4) by simp
    then show "own_room U (h_objs h' ! r) room" using N(3) [OF r(1)] by (simp add: own_room_def)
  qed
  ultimately show ?thesis by (simp add: hub_inv_def)
qed

lemma hub_inv_removeClient:
  assumes U: "uuid_api_ok U" and inv: "hub_inv U h" and reg: "map_of (h_clients h) k = Some r"
  shows "\<exists>h0 h'. removeClient U r h = Some h' \<and> hub_inv U h' \<and> closed_at {r} h0 h' \<and>
    h_objs h0 = h_objs h \<and> h_chans h0 = h_chans h \<and> h_closed h0 = h_closed h \<and> h_max h0 = h_max h \<and>
    map_of (h_clients h0) = (map_of (h_clients h))(k := None)"
proof -
  note H = heap_wfD [OF hub_invD(1) [OF inv]] and R = rooms_wfD [OF hub_invD(3) [OF inv]]
  let ?c = "h_objs h ! r"
  let ?h1 = "h\<lparr>h_clients := AList.delete k (h_clients h)\<rparr>"
  let ?h0 = "fold (leave_room U ?c) (c_rooms ?c) ?h1"
  have r: "r < length (h_objs h)" "c_id ?c = k" using H(1,2) reg by blast+
  have wf: "index_wf U (leave_room U ?c room g)" if m: "room \<in> set (c_rooms ?c)" and g: "index_wf U g" for room g
  proof -
    obtain chan where "room = room_key U (ci_OrganizationID (c_info ?c)) (ci_AppID (c_info ?c)) chan"
      using R(2) [OF r(1) m] by (auto simp: own_room_def)
    then show ?thesis by (rule leave_room_index [OF U g])
  qed
  have "index_wf U ?h1" using hub_invD(2) [OF inv] by (simp add: index_wf_def)
  note F = fold_leave_room [where rooms = "c_rooms ?c", OF wf this, unfolded r(2)]
  have E: "in_room ?h1 = in_room h" by (rule ext) (simp add: in_room_def)
  have idx: "index_wf U ?h0" and ir: "in_room ?h0 = (\<lambda>room. if room \<in> set (c_rooms ?c)
      then (in_room h room)(k := None) else in_room h room)"
    using F unfolding E by blast+
  have "in_step ?h0" using heap_wf_in_step [OF hub_invD(1) [OF inv]] by (simp add: in_step_def)
  then obtain h' where h': "closeSend r ?h0 = Some h'" "in_step h'" "closed_at {r} ?h0 h'"
    using closeSend_result [of ?h0 r] r(1) by auto
  have only: "map_of (h_clients h) k' = Some r \<longleftrightarrow> k' = k" for k' using H(2) reg r(2) by metis
  have "hub_inv U h'"
  proof (rule hub_inv_closed [OF inv h'(3) _ _ h'(2) _ _ idx])
    fix k' r' show "map_of (h_clients ?h0) k' = Some r' \<longleftrightarrow> map_of (h_clients h) k' = Some r' \<and> r' \<notin> {r}"
      using only [of k'] reg by (cases "k' = k") auto
  next
    fix room k' r' show "in_room ?h0 room k' = Some r' \<longleftrightarrow> in_room h room k' = Some r' \<and> r' \<notin> {r}"
      unfolding ir using R(1) [of room k' r'] only [of k'] reg
      by (cases "room \<in> set (c_rooms ?c)"; cases "k' = k") auto
  qed (use H(9,10) in simp_all)
  moreover have "removeClient U r h = Some h'" using reg r(2) h'(1) by (simp add: removeClient_def)
  ultimately show ?thesis using h'(3) by (intro exI [of _ ?h0] exI [of _ h']) simp
qed

lemma hub_inv_Close:
  assumes inv: "hub_inv U h"
  shows "\<exists>h'. Close h = Some h' \<and> hub_inv U h' \<and> h_closed h' \<and> h_clients h' = [] \<and> h_max h' = h_max h \<and>
    map c_id (h_objs h') = map c_id (h_objs h)"
proof -
  note H = heap_wfD [OF hub_invD(1) [OF inv]] and R = rooms_wfD [OF hub_invD(3) [OF inv]]
  let ?h = "h\<lparr>h_closed := True\<rparr>" and ?A = "snd ` set (h_clients h)"
  have reg: "(k, r) \<in> set (h_clients h) \<longleftrightarrow> map_of (h_clients h) k = Some r" for k r
    using H(10) by simp
  have "in_step ?h" using heap_wf_in_step [OF hub_invD(1) [OF inv]] by (simp add: in_step_def)
  moreover have "snd x < length (h_objs ?h)" if "x \<in> set (h_clients h)" for x
    using that reg [of "fst x" "snd x"] H(1) by auto
  ultimately obtain h1 where h1: "fold_opt (\<lambda>x. closeSend (snd x)) (h_clients h) ?h = Some h1"
      "in_step h1" "closed_at ?A ?h h1" using fold_closeSend [of ?h "h_clients h" snd] by blast
  let ?h' = "h1\<lparr>h_clients := [], h_rooms := [], h_orgChannels := []\<rparr>"
  let ?h0 = "?h\<lparr>h_clients := [], h_rooms := [], h_orgChannels := []\<rparr>"
  have cl: "closed_at ?A ?h0 ?h'" using h1(3) by (simp add: closed_at_def)
  have st: "in_step ?h'" using h1(2) by (simp add: in_step_def)
  have "hub_inv U ?h'"
  proof (rule hub_inv_closed [OF inv cl _ _ st])
    fix k r show "map_of (h_clients ?h0) k = Some r \<longleftrightarrow> map_of (h_clients h) k = Some r \<and> r \<notin> ?A"
      using reg [of k r] by force
  next
    fix room k r show "in_room ?h0 room k = Some r \<longleftrightarrow> in_room h room k = Some r \<and> r \<notin> ?A"
      using R(1) [of room k r] reg [of k r] by (force simp: in_room_def)
  qed (simp_all add: index_wf_def)
  moreover have "Close h = Some ?h'" using h1(1) by (simp add: Close_def case_prod_unfold)
  ultimately show ?thesis using h1(3) by (auto simp: closed_at_def)
qed

end
