(* ===== verification/Hub_Props.thy ===== *)
theory Hub_Props
  imports Hub_Ops
begin

text \<open>
  The hub against its abstract specification, a map from the connected clients to their
  subscriptions, and what the clients receive. The locale \<open>room_hub\<close> is the interface the event
  bridge relies on.
\<close>

section \<open>The specification\<close>

type_synonym subscriptions = "string \<rightharpoonup> ClientInfo \<times> RoomKey set"

definition hub_abs :: "Hub \<Rightarrow> subscriptions" where
  "hub_abs h = (\<lambda>cid. map_option (\<lambda>r. (c_info (h_objs h ! r), set (c_rooms (h_objs h ! r)))) (map_of (h_clients h) cid))"

datatype hub_op =
    OpConnect ClientInfo
  | OpUnregister string
  | OpSubscribe string string
  | OpUnsubscribe string string
  | OpSend string string
  | OpBroadcast RoomKey string
  | OpBroadcastOrg uuid string string
  | OpReceive string
  | OpClose

text \<open>
  The operations as the program calls them: a connection registers a new channel of 64 messages,
  and the closure \<open>unregister\<close> removes the object its \<open>Register\<close> made.
\<close>

definition obj_of :: "string \<Rightarrow> Hub \<Rightarrow> nat option" where
  "obj_of cid h = find (\<lambda>r. c_id (h_objs h ! r) = cid) [0..<length (h_objs h)]"

fun run_hub_op :: "uuid_api \<Rightarrow> hub_op \<Rightarrow> Hub \<Rightarrow> Hub option" where
  "run_hub_op U (OpConnect info) h =
     (let (i, h) = make_chan 64 h in map_option snd (Hub_Register U info i h))"
| "run_hub_op U (OpUnregister cid) h = unregister U (obj_of cid h) h"
| "run_hub_op U (OpSubscribe cid chan) h = Some (snd (Subscribe U cid chan h))"
| "run_hub_op U (OpUnsubscribe cid chan) h = Some (snd (Unsubscribe U cid chan h))"
| "run_hub_op U (OpSend cid p) h = SendToClient cid p h"
| "run_hub_op U (OpBroadcast room p) h = Broadcast room p h"
| "run_hub_op U (OpBroadcastOrg g chan p) h = BroadcastToOrganization U g chan p h"
| "run_hub_op U (OpReceive cid) h =
     Some (case map_of (h_clients h) cid of None \<Rightarrow> h | Some r \<Rightarrow> snd (receive (c_send (h_objs h ! r)) h))"
| "run_hub_op U OpClose h = Close h"

definition run_hub :: "uuid_api \<Rightarrow> hub_op list \<Rightarrow> Hub \<Rightarrow> Hub option" where
  "run_hub U ops h = fold_opt (run_hub_op U) ops h"

fun spec_hub_op :: "uuid_api \<Rightarrow> int \<Rightarrow> hub_op \<Rightarrow> bool \<times> subscriptions \<Rightarrow> bool \<times> subscriptions" where
  "spec_hub_op U m (OpConnect info) (ended, S) =
     (ended, if ended \<or> m \<le> int (card (dom S)) then S
              else S(ci_ID info \<mapsto>
                (info, {room_key U (ci_OrganizationID info) (ci_AppID info) DefaultChannel})))"
| "spec_hub_op U m (OpUnregister cid) (ended, S) = (ended, S(cid := None))"
| "spec_hub_op U m (OpSubscribe cid chan) (ended, S) =
     (ended, case S cid of None \<Rightarrow> S
       | Some (info, R) \<Rightarrow>
           (case BuildRoomKey U (ci_OrganizationID info) (ci_AppID info) chan of
              Inl _ \<Rightarrow> S | Inr room \<Rightarrow> S(cid \<mapsto> (info, insert room R))))"
| "spec_hub_op U m (OpUnsubscribe cid chan) (ended, S) =
     (ended, case S cid of None \<Rightarrow> S
       | Some (info, R) \<Rightarrow>
           (case BuildRoomKey U (ci_OrganizationID info) (ci_AppID info) chan of
              Inl _ \<Rightarrow> S | Inr room \<Rightarrow> S(cid \<mapsto> (info, R - {room}))))"
| "spec_hub_op U m OpClose (ended, S) = (True, Map.empty)"
| "spec_hub_op U m _ S = S"

fun connects :: "hub_op list \<Rightarrow> string list" where
  "connects [] = []"
| "connects (OpConnect info # ops) = ci_ID info # connects ops"
| "connects (_ # ops) = connects ops"

section \<open>Each operation\<close>

lemma hub_abs_chans [simp]: "hub_abs (h\<lparr>h_chans := cs\<rparr>) = hub_abs h"
  by (simp add: hub_abs_def)

lemma card_clients: "heap_wf h \<Longrightarrow> card (dom (hub_abs h)) = length (h_clients h)"
proof -
  assume "heap_wf h"
  then have "distinct (map fst (h_clients h))" by (rule heap_wfD(10))
  moreover have "dom (hub_abs h) = fst ` set (h_clients h)"
    by (auto simp: hub_abs_def dom_map_of_conv_image_fst [symmetric])
  ultimately show ?thesis by (metis distinct_card length_map set_map)
qed

lemma obj_of_registered:
  assumes "heap_wf h"
  shows "obj_of cid h = Some r \<Longrightarrow> map_of (h_clients h) cid = Some q \<Longrightarrow> r = q"
    and "map_of (h_clients h) cid = Some r \<Longrightarrow> \<exists>q. obj_of cid h = Some q"
    and "obj_of cid h = Some r \<Longrightarrow> r < length (h_objs h) \<and> c_id (h_objs h ! r) = cid"
proof -
  show O: "obj_of cid h = Some r \<Longrightarrow> r < length (h_objs h) \<and> c_id (h_objs h ! r) = cid" for r
    by (auto simp: obj_of_def find_Some_iff)
  show "obj_of cid h = Some r \<Longrightarrow> map_of (h_clients h) cid = Some q \<Longrightarrow> r = q"
    using O [of r] heap_wfD(1,2) [OF assms, of cid q] heap_wfD(7) [OF assms, of r q] by simp
  assume "map_of (h_clients h) cid = Some r"
  then have "r < length (h_objs h)" "c_id (h_objs h ! r) = cid" using heap_wfD(1,2) [OF assms] by blast+
  then have "obj_of cid h \<noteq> None" by (auto simp: obj_of_def find_None_iff)
  then show "\<exists>q. obj_of cid h = Some q" by blast
qed

lemma own_room_build:
  assumes "BuildRoomKey U (ci_OrganizationID (c_info c)) (ci_AppID (c_info c)) chan = Inr room"
  shows "own_room U c room"
  using assms by (auto simp: BuildRoomKey_iff own_room_def)

definition ids_of :: "Hub \<Rightarrow> string set" where
  "ids_of h = c_id ` set (h_objs h)"

lemma ids_of_same: "map c_id (h_objs h') = map c_id (h_objs h) \<Longrightarrow> ids_of h' = ids_of h"
  unfolding ids_of_def by (metis list.set_map)

lemma abs_update_obj:
  assumes "heap_wf h" "map_of (h_clients h) k = Some r" "h_clients h' = h_clients h"
    "h_objs h' = (h_objs h)[r := (h_objs h ! r)\<lparr>c_rooms := rs\<rparr>]"
  shows "hub_abs h' = (hub_abs h)(k \<mapsto> (c_info (h_objs h ! r), set rs))"
proof
  fix cid
  note H = heap_wfD [OF assms(1)]
  show "hub_abs h' cid = ((hub_abs h)(k \<mapsto> (c_info (h_objs h ! r), set rs))) cid"
  proof (cases "map_of (h_clients h) cid")
    case None
    then show ?thesis using assms by (auto simp: hub_abs_def)
  next
    case (Some q)
    then have "q < length (h_objs h)" "q = r \<longleftrightarrow> cid = k"
      using H(1,2) [OF Some] H(1,2) [OF assms(2)] H(7) [of q r] assms(2) by auto
    then show ?thesis using Some assms by (auto simp: hub_abs_def nth_list_update)
  qed
qed

lemma hub_connect_step:
  assumes U: "uuid_api_ok U" and inv: "hub_inv U h" and fresh: "ci_ID info \<notin> ids_of h"
  shows "\<exists>h'. run_hub_op U (OpConnect info) h = Some h' \<and> hub_inv U h' \<and>
    (h_closed h', hub_abs h') = spec_hub_op U (h_max h) (OpConnect info) (h_closed h, hub_abs h) \<and>
    h_max h' = h_max h \<and> ids_of h' \<subseteq> insert (ci_ID info) (ids_of h)"
proof -
  note H = heap_wfD [OF hub_invD(1) [OF inv]]
  let ?c = "\<lparr>ch_buf = [], ch_cap = 64, ch_closed = False\<rparr>" and ?i = "length (h_chans h)"
  let ?h = "h\<lparr>h_chans := h_chans h @ [?c]\<rparr>"
  have inv': "hub_inv U (h\<lparr>h_chans := h_chans h @ [c]\<rparr>)" for c
    by (rule hub_inv_chans' [OF inv]) (use H(3) in \<open>force simp: nth_append\<close>)
  have eff: "run_hub_op U (OpConnect info) h = map_option snd (Hub_Register U info ?i ?h)"
    by (simp add: make_chan_def)
  consider "h_closed h" | "\<not> h_closed h" "h_max h \<le> int (length (h_clients h))"
    | "\<not> h_closed h" "int (length (h_clients h)) < h_max h" by linarith
  then show ?thesis
  proof cases
    case 1
    then have "run_hub_op U (OpConnect info) h = Some ?h" unfolding eff by (simp add: Hub_Register_def)
    then show ?thesis using 1 inv' by (auto simp: ids_of_def)
  next
    case 2
    then have "run_hub_op U (OpConnect info) h = Some (h\<lparr>h_chans := h_chans h @ [?c\<lparr>ch_closed := True\<rparr>]\<rparr>)"
      unfolding eff by (simp add: Hub_Register_def close_chan_def)
    then show ?thesis using 2 inv' card_clients [OF hub_invD(1) [OF inv]] by (auto simp: ids_of_def)
  next
    case 3
    have "?i \<notin> c_send ` set (h_objs h)"
    proof
      assume "?i \<in> c_send ` set (h_objs h)"
      then obtain q where "q < length (h_objs h)" "c_send (h_objs h ! q) = ?i" by (auto simp: in_set_conv_nth)
      then show False using H(3) by fastforce
    qed
    then obtain h' where h': "Hub_Register U info ?i ?h = Some (Some (length (h_objs h)), h')" "hub_inv U h'"
      "map_of (h_clients h') = (map_of (h_clients h))(ci_ID info \<mapsto> length (h_objs h))"
      "h_objs h' = h_objs h @ [\<lparr>c_id = ci_ID info, c_info = info, c_send = ?i,
        c_rooms = [room_key U (ci_OrganizationID info) (ci_AppID info) DefaultChannel], c_closed = False\<rparr>]"
      "h_closed h' = h_closed h" "h_max h' = h_max h"
      using hub_inv_Register [OF U inv' [of ?c], of info ?i] fresh 3 by (auto simp: ids_of_def)
    have "hub_abs h' = (hub_abs h)(ci_ID info \<mapsto>
        (info, {room_key U (ci_OrganizationID info) (ci_AppID info) DefaultChannel}))"
      using H(1) by (auto simp: hub_abs_def h'(3,4) fun_eq_iff nth_append intro!: option.map_cong)
    then show ?thesis using 3 h' card_clients [OF hub_invD(1) [OF inv]] unfolding eff
      by (auto simp: ids_of_def)
  qed
qed

lemma hub_op_step:
  assumes U: "uuid_api_ok U" and inv: "hub_inv U h" and fresh: "set (connects [opn]) \<inter> ids_of h = {}"
  shows "\<exists>h'. run_hub_op U opn h = Some h' \<and> hub_inv U h' \<and>
    (h_closed h', hub_abs h') = spec_hub_op U (h_max h) opn (h_closed h, hub_abs h) \<and>
    h_max h' = h_max h \<and> ids_of h' \<subseteq> set (connects [opn]) \<union> ids_of h"
proof -
  note hw = hub_invD(1) [OF inv]
  note H = heap_wfD [OF hw] and R = rooms_wfD [OF hub_invD(3) [OF inv]]
  show ?thesis
  proof (cases opn)
    case (OpConnect info)
    then show ?thesis using hub_connect_step [OF U inv, of info] fresh by simp
  next
    case (OpUnregister cid)
    show ?thesis
    proof (cases "map_of (h_clients h) cid")
      case None
      then have "run_hub_op U opn h = Some h" using obj_of_registered(3) [OF hw, of cid]
        by (auto simp: OpUnregister unregister_def removeClient_def split: option.splits)
      then show ?thesis using None inv OpUnregister by (auto simp: hub_abs_def fun_eq_iff)
    next
      case (Some r)
      then have "obj_of cid h = Some r" using obj_of_registered [OF hw] by blast
      moreover obtain h0 h' where h': "removeClient U r h = Some h'" "hub_inv U h'" "closed_at {r} h0 h'"
        "h_objs h0 = h_objs h" "h_closed h0 = h_closed h" "h_max h0 = h_max h"
        "map_of (h_clients h0) = (map_of (h_clients h))(cid := None)"
        using hub_inv_removeClient [OF U inv Some] by blast
      note N = closed_at_nth [OF h'(3), unfolded h'(4)]
      have same: "map_of (h_clients h') = (map_of (h_clients h))(cid := None)" "h_closed h' = h_closed h"
        "h_max h' = h_max h" "map c_id (h_objs h') = map c_id (h_objs h)"
        using h'(3-7) by (simp_all add: closed_at_def)
      have "hub_abs h' = (hub_abs h)(cid := None)"
        using N(3,4) H(1) by (auto simp: hub_abs_def same fun_eq_iff intro!: option.map_cong)
      ultimately show ?thesis using h'(1,2) same ids_of_same [OF same(4)]
        by (simp add: OpUnregister unregister_def)
    qed
  next
    case (OpSubscribe cid chan)
    show ?thesis
    proof (cases "map_of (h_clients h) cid")
      case None
      then show ?thesis using inv OpSubscribe by (simp add: Subscribe_def hub_abs_def)
    next
      case (Some r)
      let ?i = "c_info (h_objs h ! r)"
      show ?thesis
      proof (cases "BuildRoomKey U (ci_OrganizationID ?i) (ci_AppID ?i) chan")
        case (Inl e)
        then show ?thesis using Some inv OpSubscribe by (simp add: Subscribe_def hub_abs_def)
      next
        case (Inr room)
        let ?h = "addToRoomLocked U r room h"
        have run: "run_hub_op U opn h = Some ?h" using Some Inr OpSubscribe by (simp add: Subscribe_def)
        have inv': "hub_inv U ?h" by (rule hub_inv_addToRoomLocked [OF U inv Some own_room_build [OF Inr]])
        have "hub_abs ?h = (hub_abs h)(cid \<mapsto> (?i, insert room (set (c_rooms (h_objs h ! r)))))"
          using abs_update_obj [OF hw Some, of ?h] addToRoomLocked_objs by simp
        moreover have "ids_of ?h = ids_of h"
          by (rule ids_of_same) (simp only: addToRoomLocked_objs, simp add: map_list_update_same)
        ultimately show ?thesis using run inv' Some Inr OpSubscribe by (simp add: hub_abs_def)
      qed
    qed
  next
    case (OpUnsubscribe cid chan)
    show ?thesis
    proof (cases "map_of (h_clients h) cid")
      case None
      then show ?thesis using inv OpUnsubscribe by (simp add: Unsubscribe_def hub_abs_def)
    next
      case (Some r)
      let ?i = "c_info (h_objs h ! r)"
      show ?thesis
      proof (cases "BuildRoomKey U (ci_OrganizationID ?i) (ci_AppID ?i) chan")
        case (Inl e)
        then show ?thesis using Some inv OpUnsubscribe by (simp add: Unsubscribe_def hub_abs_def)
      next
        case (Inr room)
        let ?h = "removeFromRoomLocked U r room h"
        have run: "run_hub_op U opn h = Some ?h" using Some Inr OpUnsubscribe by (simp add: Unsubscribe_def)
        have inv': "hub_inv U ?h" by (rule hub_inv_removeFromRoomLocked [OF U inv Some own_room_build [OF Inr]])
        have objs: "h_objs ?h = (h_objs h)[r := (h_objs h ! r)\<lparr>c_rooms := removeAll room (c_rooms (h_objs h ! r))\<rparr>]"
          and same: "h_clients ?h = h_clients h" "h_closed ?h = h_closed h" "h_max ?h = h_max h"
          by (simp_all add: removeFromRoomLocked_def client_unsubscribe_def set_obj_def)
        have "hub_abs ?h = (hub_abs h)(cid \<mapsto> (?i, set (c_rooms (h_objs h ! r)) - {room}))"
          using abs_update_obj [OF hw Some same(1) objs] by simp
        moreover have "ids_of ?h = ids_of h" by (rule ids_of_same) (simp add: objs map_list_update_same)
        ultimately show ?thesis using run inv' same Some Inr OpUnsubscribe by (simp add: hub_abs_def)
      qed
    qed
  next
    case (OpSend cid p)
    then show ?thesis using SendToClient_result [OF inv] push_all_hub_inv [OF inv] by (simp add: ids_of_def)
  next
    case (OpBroadcast room p)
    then show ?thesis using broadcastLocked_result [OF inv] push_all_hub_inv [OF inv]
      by (simp add: Broadcast_def ids_of_def)
  next
    case (OpBroadcastOrg g chan p)
    then show ?thesis using BroadcastToOrganization_result [OF U inv] push_all_hub_inv [OF inv]
      by (simp add: ids_of_def)
  next
    case (OpReceive cid)
    show ?thesis
    proof (cases "map_of (h_clients h) cid")
      case None
      then show ?thesis using OpReceive inv by simp
    next
      case (Some r)
      let ?i = "c_send (h_objs h ! r)"
      have "hub_inv U (h\<lparr>h_chans := (h_chans h)[?i := (h_chans h ! ?i)\<lparr>ch_buf := ps\<rparr>]\<rparr>)" for ps
        by (rule hub_inv_chans [OF inv]) (simp add: map_list_update_same)
      then show ?thesis using OpReceive inv Some by (auto simp: receive_def ids_of_def split: list.splits)
    qed
  next
    case OpClose
    obtain h' where "Close h = Some h'" "hub_inv U h'" "h_closed h'" "h_clients h' = []" "h_max h' = h_max h"
      and ids: "map c_id (h_objs h') = map c_id (h_objs h)" using hub_inv_Close [OF inv] by blast
    then show ?thesis using OpClose ids_of_same [OF ids] by (simp add: hub_abs_def)
  qed
qed

lemma connects_append: "connects (opn # ops) = connects [opn] @ connects ops"
  by (cases opn) simp_all

lemma run_hub_refines:
  assumes U: "uuid_api_ok U" and "hub_inv U h" "distinct (connects ops)" "set (connects ops) \<inter> ids_of h = {}"
  shows "\<exists>h'. run_hub U ops h = Some h' \<and> hub_inv U h' \<and>
    (h_closed h', hub_abs h') = fold (spec_hub_op U (h_max h)) ops (h_closed h, hub_abs h)"
  using assms(2-)
proof (induction ops arbitrary: h)
  case Nil
  then show ?case by (simp add: run_hub_def)
next
  case (Cons x ops)
  have "set (connects [x]) \<inter> ids_of h = {}" "set (connects [x]) \<inter> set (connects ops) = {}"
    using Cons.prems(2,3) unfolding connects_append [of x ops] by auto
  then obtain h1 where h1: "run_hub_op U x h = Some h1" "hub_inv U h1"
      "(h_closed h1, hub_abs h1) = spec_hub_op U (h_max h) x (h_closed h, hub_abs h)" "h_max h1 = h_max h"
      "ids_of h1 \<subseteq> set (connects [x]) \<union> ids_of h"
    using hub_op_step [OF U Cons.prems(1)] by blast
  have "distinct (connects ops)" "set (connects ops) \<inter> ids_of h1 = {}"
    using Cons.prems(2,3) h1(5) unfolding connects_append [of x ops] by auto
  from Cons.IH [OF h1(2) this] show ?case using h1(1,3,4) by (simp add: run_hub_def)
qed

section \<open>What the clients receive\<close>

definition inbox :: "Hub \<Rightarrow> string \<Rightarrow> channel option" where
  "inbox h cid = map_option (\<lambda>r. h_chans h ! c_send (h_objs h ! r)) (map_of (h_clients h) cid)"

definition joined :: "Hub \<Rightarrow> string \<Rightarrow> RoomKey \<Rightarrow> bool" where
  "joined h cid room \<longleftrightarrow> (\<exists>r. map_of (h_clients h) cid = Some r \<and> isSubscribed r room h)"

lemma joined_upd [simp]: "joined (h\<lparr>h_chans := cs\<rparr>) = joined h"
  by (simp add: joined_def isSubscribed_def fun_eq_iff)

lemma inbox_push:
  assumes "hub_inv U h"
  shows "inbox (h\<lparr>h_chans := push_all p A (h_chans h)\<rparr>) cid =
    (if \<exists>r. map_of (h_clients h) cid = Some r \<and> c_send (h_objs h ! r) \<in> A
     then map_option (push p) (inbox h cid) else inbox h cid)"
  using heap_wfD(1,3) [OF hub_invD(1) [OF assms]]
  by (cases "map_of (h_clients h) cid") (auto simp: inbox_def)

lemma room_chans_joined:
  assumes "hub_inv U h" "map_of (h_clients h) cid = Some r"
  shows "c_send (h_objs h ! r) \<in> room_chans h room \<longleftrightarrow> joined h cid room"
proof -
  note H = heap_wfD [OF hub_invD(1) [OF assms(1)]] and R = rooms_wfD [OF hub_invD(3) [OF assms(1)]]
  have "c_send (h_objs h ! q) = c_send (h_objs h ! r) \<longleftrightarrow> k = cid \<and> q = r" if "map_of (h_clients h) k = Some q" for k q
    using H(1,2) [OF that] H(1,2) [OF assms(2)] H(8) [of q r] by auto
  then show ?thesis using assms(2) unfolding room_chans_def joined_def isSubscribed_def R(1) by force
qed

lemma broadcast_law:
  assumes "hub_inv U h"
  shows "\<exists>h'. Broadcast room p h = Some h' \<and> hub_inv U h' \<and> joined h' = joined h \<and>
    (\<forall>cid. inbox h' cid = (if joined h cid room then map_option (push p) (inbox h cid) else inbox h cid))"
proof -
  have "(\<exists>r. map_of (h_clients h) cid = Some r \<and> c_send (h_objs h ! r) \<in> room_chans h room) \<longleftrightarrow>
      joined h cid room" for cid
    using room_chans_joined [OF assms] by (auto simp: joined_def)
  then show ?thesis
    using broadcastLocked_result [OF assms] push_all_hub_inv [OF assms] inbox_push [OF assms]
    by (simp add: Broadcast_def)
qed

lemma org_broadcast_law:
  assumes U: "uuid_api_ok U" and inv: "hub_inv U h"
  shows "\<exists>h'. BroadcastToOrganization U g chan p h = Some h' \<and> hub_inv U h' \<and> joined h' = joined h \<and>
    (\<forall>cid. inbox h' cid = (if \<exists>a. joined h cid (room_key U g a chan)
       then map_option (push p) (inbox h cid) else inbox h cid))"
proof -
  have "(\<exists>r. map_of (h_clients h) cid = Some r \<and>
      c_send (h_objs h ! r) \<in> (\<Union>a. room_chans h (room_key U g a chan))) \<longleftrightarrow>
      (\<exists>a. joined h cid (room_key U g a chan))" for cid
    using room_chans_joined [OF inv] by (auto simp: joined_def)
  then show ?thesis
    using BroadcastToOrganization_result [OF U inv] push_all_hub_inv [OF inv] inbox_push [OF inv]
    by simp
qed

text \<open>A client is only ever in rooms of its own organization and app.\<close>

lemma joined_own:
  assumes "uuid_api_ok U" "hub_inv U h" "joined h cid (room_key U g a chan)"
  shows "\<exists>info. GetClientInfo cid h = Some info \<and> ci_OrganizationID info = g \<and> ci_AppID info = a"
proof -
  obtain r where r: "map_of (h_clients h) cid = Some r" "room_key U g a chan \<in> set (c_rooms (h_objs h ! r))"
    using assms(3) by (auto simp: joined_def isSubscribed_def)
  then have "own_room U (h_objs h ! r) (room_key U g a chan)"
    using rooms_wfD(2) [OF hub_invD(3) [OF assms(2)]] heap_wfD(1) [OF hub_invD(1) [OF assms(2)]] by blast
  then show ?thesis using r(1) by (auto simp: GetClientInfo_def own_room_def room_key_inject [OF assms(1)])
qed

section \<open>The interface of the event bridge\<close>

datatype delivery = ToRoom RoomKey | ToOrg uuid string

locale room_hub =
  fixes inv :: "'h \<Rightarrow> bool"
    and member :: "'h \<Rightarrow> string \<Rightarrow> RoomKey \<Rightarrow> bool"
    and mail :: "'h \<Rightarrow> string \<Rightarrow> channel option"
    and org_room :: "uuid \<Rightarrow> string \<Rightarrow> RoomKey set"
    and to_room :: "RoomKey \<Rightarrow> string \<Rightarrow> 'h \<Rightarrow> 'h option"
    and to_org :: "uuid \<Rightarrow> string \<Rightarrow> string \<Rightarrow> 'h \<Rightarrow> 'h option"
  assumes to_room_law: "inv h \<Longrightarrow> \<exists>h'. to_room room p h = Some h' \<and> inv h' \<and> member h' = member h \<and>
      (\<forall>c. mail h' c = (if member h c room then map_option (push p) (mail h c) else mail h c))"
    and to_org_law: "inv h \<Longrightarrow> \<exists>h'. to_org g chan p h = Some h' \<and> inv h' \<and> member h' = member h \<and>
      (\<forall>c. mail h' c = (if \<exists>room \<in> org_room g chan. member h c room
         then map_option (push p) (mail h c) else mail h c))"
begin

definition deliver :: "string \<Rightarrow> delivery \<Rightarrow> 'h \<Rightarrow> 'h option" where
  "deliver p d h = (case d of ToRoom room \<Rightarrow> to_room room p h | ToOrg g chan \<Rightarrow> to_org g chan p h)"

definition reaches :: "'h \<Rightarrow> string \<Rightarrow> delivery \<Rightarrow> bool" where
  "reaches h c d = (case d of ToRoom room \<Rightarrow> member h c room
     | ToOrg g chan \<Rightarrow> (\<exists>room \<in> org_room g chan. member h c room))"

lemma deliver_law:
  "inv h \<Longrightarrow> \<exists>h'. deliver p d h = Some h' \<and> inv h' \<and> member h' = member h \<and>
     (\<forall>c. mail h' c = (if reaches h c d then map_option (push p) (mail h c) else mail h c))"
  using to_room_law [of h _ p] to_org_law [of h _ _ p]
  by (cases d) (simp_all add: deliver_def reaches_def)

text \<open>A list of deliveries never fails, and each client gets one copy per delivery that reaches it.\<close>

lemma deliver_all:
  "inv h \<Longrightarrow> \<exists>h'. fold_opt (deliver p) ds h = Some h' \<and> inv h' \<and> member h' = member h \<and>
     (\<forall>c. mail h' c = map_option ((push p) ^^ length (filter (reaches h c) ds)) (mail h c))"
proof (induction ds arbitrary: h)
  case (Cons d ds)
  obtain h1 where h1: "deliver p d h = Some h1" "inv h1" "member h1 = member h"
      "\<And>c. mail h1 c = (if reaches h c d then map_option (push p) (mail h c) else mail h c)"
    using deliver_law [OF Cons.prems] by blast
  have "reaches h1 c = reaches h c" for c
    using h1(3) by (auto simp: reaches_def fun_eq_iff split: delivery.splits)
  then show ?case using Cons.IH [OF h1(2)] h1
    by (auto simp: option.map_comp comp_def funpow_swap1)
qed (simp add: option.map_id0 id_def [symmetric] option.map_id)

end

end
