(* ===== verification/Hub_Claims.thy ===== *)
theory Hub_Claims
  imports Hub_Props
begin

text \<open>
  The properties of the WebSocket hub: the interpretation of \<open>room_hub\<close>, the refinement, exact
  delivery, the order of a room's members, and the panic after a session has ended.
\<close>

definition org_rooms :: "uuid_api \<Rightarrow> uuid \<Rightarrow> string \<Rightarrow> RoomKey set" where
  "org_rooms U g chan = {room_key U g a chan | a. True}"

lemma org_rooms_ex: "(\<exists>room \<in> org_rooms U g chan. P room) \<longleftrightarrow> (\<exists>a. P (room_key U g a chan))"
  by (auto simp: org_rooms_def)

interpretation hub: room_hub "\<lambda>h. uuid_api_ok U \<and> hub_inv U h" joined inbox "org_rooms U" Broadcast
  "BroadcastToOrganization U"
proof
  fix h room p assume "uuid_api_ok U \<and> hub_inv U h"
  then show "\<exists>h'. Broadcast room p h = Some h' \<and> (uuid_api_ok U \<and> hub_inv U h') \<and> joined h' = joined h \<and>
      (\<forall>c. inbox h' c = (if joined h c room then map_option (push p) (inbox h c) else inbox h c))"
    using broadcast_law by blast
next
  fix h g chan p assume "uuid_api_ok U \<and> hub_inv U h"
  then show "\<exists>h'. BroadcastToOrganization U g chan p h = Some h' \<and> (uuid_api_ok U \<and> hub_inv U h') \<and>
      joined h' = joined h \<and> (\<forall>c. inbox h' c = (if \<exists>room \<in> org_rooms U g chan. joined h c room
        then map_option (push p) (inbox h c) else inbox h c))"
    using org_broadcast_law [of U h g chan p] unfolding org_rooms_ex by blast
qed

lemma run_hub_inv:
  assumes "uuid_api_ok U" "distinct (connects ops)" "run_hub U ops (NewHub n) = Some h"
  shows "hub_inv U h"
proof -
  have "set (connects ops) \<inter> ids_of (NewHub n) = {}" by (simp add: ids_of_def NewHub_def)
  from run_hub_refines [OF assms(1) hub_inv_NewHub assms(2) this] show ?thesis using assms(3) by auto
qed

text \<open>A hub with one client, for the witnesses.\<close>

definition demo_info :: ClientInfo where
  "demo_info = \<lparr>ci_ID = ''c1'', ci_UserID = 1, ci_OrganizationID = 3, ci_AppID = 5\<rparr>"

definition demo_room :: RoomKey where
  "demo_room = room_key demo_uuid 3 5 DefaultChannel"

lemma demo_connect:
  "\<exists>h. run_hub demo_uuid [OpConnect demo_info] (NewHub 2) = Some h \<and> hub_inv demo_uuid h \<and>
     \<not> h_closed h \<and> hub_abs h = [''c1'' \<mapsto> (demo_info, {demo_room})]"
  using run_hub_refines [OF demo_uuid_ok hub_inv_NewHub, of "[OpConnect demo_info]" 2]
  by (auto simp: ids_of_def NewHub_def demo_info_def demo_room_def hub_abs_def)

text \<open>
  C10. Whatever connections, subscriptions, messages and disconnections the hub serves, in any
  order, no operation panics as long as a connection is removed through the closure its
  registration returned, and the hub's maps of clients, rooms and organizations say at every
  moment what the abstract map from clients to subscriptions says: a client has the rooms it
  subscribed to since it connected, and a hub that is full or closed takes no one in.
\<close>

theorem hub_refines_subscriptions:
  assumes "uuid_api_ok U" and "distinct (connects ops)"
  shows "\<exists>h. run_hub U ops (NewHub n) = Some h \<and> hub_inv U h \<and>
    (h_closed h, hub_abs h) =
      fold (spec_hub_op U (if n \<le> 0 then 1000 else n)) ops (False, Map.empty)"
  using run_hub_refines [OF assms(1) hub_inv_NewHub [of U n] assms(2)]
  by (auto simp: ids_of_def NewHub_def hub_abs_def)

theorem hub_refines_subscriptions_witness:
  "\<exists>h. run_hub demo_uuid [OpConnect demo_info, OpUnregister ''c1'', OpClose] (NewHub 0) = Some h \<and>
     hub_inv demo_uuid h \<and> (h_closed h, hub_abs h) = (True, Map.empty)"
  using hub_refines_subscriptions [OF demo_uuid_ok, of "[OpConnect demo_info, OpUnregister ''c1'', OpClose]" 0]
  by simp

text \<open>
  C18. A broadcast to a room puts one copy of the message in the channel of each subscriber whose
  buffer has space and in no other, drops it for the others, and leaves the subscriptions as they
  are; and every subscriber belongs to the organization and the app the room was built for, so no
  message crosses a tenant's border.
\<close>

theorem broadcast_exact:
  assumes "uuid_api_ok U" and "distinct (connects ops)" and "run_hub U ops (NewHub n) = Some h"
  shows "\<exists>h'. Broadcast room p h = Some h' \<and> hub_abs h' = hub_abs h \<and>
    (\<forall>cid. inbox h' cid =
       (if joined h cid room then map_option (push p) (inbox h cid) else inbox h cid)) \<and>
    (\<forall>cid g a chan. room = room_key U g a chan \<and> inbox h' cid \<noteq> inbox h cid \<longrightarrow>
       (\<exists>info. GetClientInfo cid h = Some info \<and> ci_OrganizationID info = g \<and> ci_AppID info = a))"
proof -
  have inv: "hub_inv U h" by (rule run_hub_inv [OF assms])
  obtain h' where h': "Broadcast room p h = Some h'" "\<And>cid. inbox h' cid =
       (if joined h cid room then map_option (push p) (inbox h cid) else inbox h cid)"
    using broadcast_law [OF inv] by blast
  have "hub_abs h' = hub_abs h" using h'(1) broadcastLocked_result [OF inv] by (auto simp: Broadcast_def)
  moreover have "\<exists>info. GetClientInfo cid h = Some info \<and> ci_OrganizationID info = g \<and> ci_AppID info = a"
    if "room = room_key U g a chan" "inbox h' cid \<noteq> inbox h cid" for cid g a chan
    using that h'(2) [of cid] by (intro joined_own [OF assms(1) inv]) (auto split: if_splits)
  ultimately show ?thesis using h' by blast
qed

theorem broadcast_exact_witness:
  "\<exists>h h'. run_hub demo_uuid [OpConnect demo_info] (NewHub 2) = Some h \<and>
     Broadcast demo_room ''hi'' h = Some h' \<and> hub_abs h' = hub_abs h"
proof -
  obtain h where h: "run_hub demo_uuid [OpConnect demo_info] (NewHub 2) = Some h" using demo_connect by blast
  have "distinct (connects [OpConnect demo_info])" by simp
  from broadcast_exact [OF demo_uuid_ok this h] h show ?thesis by blast
qed

text \<open>
  A broadcast to an organization and a channel reaches every client of that organization that
  subscribed to the channel, whatever its app, exactly once, and no client of another
  organization; the index by organization never misses a room and never keeps a dead one.
\<close>

theorem org_broadcast_exact:
  assumes "uuid_api_ok U" and "distinct (connects ops)" and "run_hub U ops (NewHub n) = Some h"
  shows "\<exists>h'. BroadcastToOrganization U g chan p h = Some h' \<and> hub_abs h' = hub_abs h \<and>
    (\<forall>cid. inbox h' cid =
       (case GetClientInfo cid h of None \<Rightarrow> None
        | Some info \<Rightarrow>
            (if ci_OrganizationID info = g \<and> joined h cid (room_key U g (ci_AppID info) chan)
             then map_option (push p) (inbox h cid) else inbox h cid)))"
proof -
  have inv: "hub_inv U h" by (rule run_hub_inv [OF assms])
  obtain h' where h': "BroadcastToOrganization U g chan p h = Some h'" "\<And>cid. inbox h' cid =
       (if \<exists>a. joined h cid (room_key U g a chan) then map_option (push p) (inbox h cid) else inbox h cid)"
    using org_broadcast_law [OF assms(1) inv] by blast
  have "inbox h' cid = (case GetClientInfo cid h of None \<Rightarrow> None
        | Some info \<Rightarrow>
            (if ci_OrganizationID info = g \<and> joined h cid (room_key U g (ci_AppID info) chan)
             then map_option (push p) (inbox h cid) else inbox h cid))" for cid
  proof (cases "GetClientInfo cid h")
    case None
    then show ?thesis using h'(2) [of cid] by (simp add: GetClientInfo_def inbox_def)
  next
    case (Some info)
    then have "(\<exists>a. joined h cid (room_key U g a chan)) \<longleftrightarrow>
        ci_OrganizationID info = g \<and> joined h cid (room_key U g (ci_AppID info) chan)"
      using joined_own [OF assms(1) inv] by fastforce
    then show ?thesis using h'(2) [of cid] Some by simp
  qed
  moreover have "hub_abs h' = hub_abs h" using h'(1) BroadcastToOrganization_result [OF assms(1) inv] by auto
  ultimately show ?thesis using h'(1) by blast
qed

theorem org_broadcast_exact_witness:
  "\<exists>h h'. run_hub demo_uuid [OpConnect demo_info] (NewHub 2) = Some h \<and>
     BroadcastToOrganization demo_uuid 3 DefaultChannel ''hi'' h = Some h' \<and> hub_abs h' = hub_abs h"
proof -
  obtain h where h: "run_hub demo_uuid [OpConnect demo_info] (NewHub 2) = Some h" using demo_connect by blast
  have "distinct (connects [OpConnect demo_info])" by simp
  from org_broadcast_exact [OF demo_uuid_ok this h] h show ?thesis by blast
qed

section \<open>The end of a session\<close>

lemma try_send_closed: "ch_closed (h_chans h ! i) \<Longrightarrow> try_send i p h = None"
  by (simp add: try_send_def Let_def)

lemma try_send_stays_closed:
  "ch_closed (h_chans h ! i) \<Longrightarrow> try_send j p h = Some h' \<Longrightarrow> ch_closed (h_chans h' ! i)"
  by (cases "i < length (h_chans h)"; cases "i = j")
     (auto simp: try_send_def Let_def nth_list_update split: if_splits)

lemma fold_try_send_panics:
  "x \<in> set xs \<Longrightarrow> ch_closed (h_chans h ! f x) \<Longrightarrow> fold_opt (\<lambda>x. try_send (f x) p) xs h = None"
proof (induction xs arbitrary: h)
  case (Cons y ys)
  show ?case
  proof (cases "try_send (f y) p h")
    case (Some h1)
    then have "x \<in> set ys" using Cons.prems try_send_closed [of h "f x" p] by auto
    then show ?thesis using Cons.IH [of h1] Some try_send_stays_closed [OF Cons.prems(2) Some] by simp
  qed simp
qed simp

lemma Broadcast_panics:
  assumes "\<not> h_closed h" "map_of (h_rooms h) room = Some m" "(k, r) \<in> set m"
    "ch_closed (h_chans h ! c_send (h_objs h ! r))"
  shows "Broadcast room p h = None"
  using assms fold_try_send_panics [of "(k, r)" m h "\<lambda>x. c_send (h_objs h ! snd x)" p]
  by (simp add: Broadcast_def broadcastLocked_def case_prod_unfold)

text \<open>The handler's sequence: the channel, the registration, the session.\<close>

definition open_session :: "uuid_api \<Rightarrow> ClientInfo \<Rightarrow> Hub \<Rightarrow> (nat \<times> nat option \<times> Hub) option" where
  "open_session U info h =
     (let (send, h) = make_chan 64 h
      in case Hub_Register U info send h of
           None \<Rightarrow> None
         | Some (unreg, h) \<Rightarrow> (let (r, h) = Session_Start (ci_ID info) send h in Some (r, unreg, h)))"

text \<open>
  C37. The hub does not survive the end of a session: \<open>Session.Start\<close> makes a client object of its
  own, without the rooms of the registered one, so when its read loop ends the client is taken
  out of the map and its channel is closed, but it stays a member of its rooms. The next
  broadcast to one of them, whoever it is for, sends on the closed channel and panics.
\<close>

theorem session_end_breaks_broadcast:
  assumes "uuid_api_ok U" and "distinct (connects ops)" and "run_hub U ops (NewHub n) = Some h"
    and "ci_ID info \<notin> ids_of h" and "\<not> h_closed h" and "ConnectionCount h < h_max h"
  shows "\<exists>r unreg h1 h2. open_session U info h = Some (r, unreg, h1) \<and>
    session_end U r unreg h1 = Some h2 \<and> GetClientInfo (ci_ID info) h2 = None \<and>
    Broadcast (room_key U (ci_OrganizationID info) (ci_AppID info) DefaultChannel) p h2 = None"
proof -
  have inv: "hub_inv U h" by (rule run_hub_inv [OF assms(1-3)])
  note H = heap_wfD [OF hub_invD(1) [OF inv]]
  let ?c = "\<lparr>ch_buf = [], ch_cap = 64, ch_closed = False\<rparr>" and ?i = "length (h_chans h)"
  let ?g = "h\<lparr>h_chans := h_chans h @ [?c]\<rparr>" and ?n = "length (h_objs h)"
  let ?room = "room_key U (ci_OrganizationID info) (ci_AppID info) DefaultChannel"
  have g: "hub_inv U ?g"
    by (rule hub_inv_chans' [OF inv]) (use H(3) in \<open>force simp: nth_append\<close>)
  have "?i \<notin> c_send ` set (h_objs ?g)"
  proof
    assume "?i \<in> c_send ` set (h_objs ?g)"
    then obtain q where "q < ?n" "c_send (h_objs h ! q) = ?i" by (auto simp: in_set_conv_nth)
    then show False using H(3) by fastforce
  qed
  then obtain h' where h': "Hub_Register U info ?i ?g = Some (Some ?n, h')" "hub_inv U h'"
      "map_of (h_clients h') = (map_of (h_clients h))(ci_ID info \<mapsto> ?n)"
      "h_objs h' = h_objs h @ [\<lparr>c_id = ci_ID info, c_info = info, c_send = ?i, c_rooms = [?room], c_closed = False\<rparr>]"
      "h_chans h' = h_chans h @ [?c]" "h_closed h' = h_closed h"
    using hub_inv_Register [OF assms(1) g, of info ?i] assms(4-6) by (auto simp: ids_of_def ConnectionCount_def)
  define s where "s = snd (Session_Start (ci_ID info) ?i h')"
  have s: "h_objs s ! Suc ?n = \<lparr>c_id = ci_ID info,
      c_info = \<lparr>ci_ID = [], ci_UserID = uuid_nil, ci_OrganizationID = uuid_nil, ci_AppID = uuid_nil\<rparr>,
      c_send = ?i, c_rooms = [], c_closed = False\<rparr>" "h_clients s = h_clients h'" "h_rooms s = h_rooms h'"
    "h_chans s = h_chans h'" "h_closed s = h_closed h" "h_objs s ! ?n = h_objs h' ! ?n"
    using h'(4,6) by (simp_all add: s_def Session_Start_def nth_append)
  have opens: "open_session U info h = Some (Suc ?n, Some ?n, s)"
    using h'(1,4) by (simp add: open_session_def make_chan_def Session_Start_def s_def)
  let ?s1 = "set_obj (Suc ?n) (\<lambda>c. c\<lparr>c_closed := True\<rparr>) (s\<lparr>h_clients := AList.delete (ci_ID info) (h_clients s)\<rparr>)"
  let ?s2 = "?s1\<lparr>h_chans := (h_chans s)[?i := ?c\<lparr>ch_closed := True\<rparr>]\<rparr>"
  have "removeClient U (Suc ?n) s = Some ?s2"
    using s(1,2,4) h'(3,5)
    by (simp add: removeClient_def closeSend_def close_chan_def nth_append set_obj_def Let_def)
  moreover have "removeClient U ?n ?s2 = Some ?s2"
    using s(6) h'(4) by (simp add: removeClient_def set_obj_def nth_append)
  ultimately have ends: "session_end U (Suc ?n) (Some ?n) s = Some ?s2"
    by (simp add: session_end_def unregister_def)
  have "in_room h' ?room (ci_ID info) = Some ?n"
    using rooms_wfD(1) [OF hub_invD(3) [OF h'(2)], of ?room "ci_ID info" ?n] h'(3,4) by (simp add: nth_append)
  then obtain m where m: "map_of (h_rooms h') ?room = Some m" "(ci_ID info, ?n) \<in> set m"
    by (auto simp: in_room_def split: option.splits dest: map_of_SomeD)
  have "Broadcast ?room p ?s2 = None"
    by (rule Broadcast_panics [of _ _ m "ci_ID info" ?n])
       (use s m h'(4,5) assms(5) in \<open>simp_all add: set_obj_def nth_append\<close>)
  moreover have "GetClientInfo (ci_ID info) ?s2 = None" by (simp add: GetClientInfo_def)
  ultimately show ?thesis using opens ends by blast
qed

theorem session_end_breaks_broadcast_witness:
  "\<exists>r unreg h1 h2. open_session demo_uuid demo_info (NewHub 2) = Some (r, unreg, h1) \<and>
    session_end demo_uuid r unreg h1 = Some h2 \<and> GetClientInfo ''c1'' h2 = None \<and>
    Broadcast demo_room ''hi'' h2 = None"
proof -
  have "run_hub demo_uuid [] (NewHub 2) = Some (NewHub 2)" by (simp add: run_hub_def)
  from session_end_breaks_broadcast [OF demo_uuid_ok _ this, of demo_info "''hi''"]
  show ?thesis by (simp add: ids_of_def NewHub_def ConnectionCount_def demo_info_def demo_room_def)
qed

end
