(* ===== verification/Go_Time.thy ===== *)
theory Go_Time
  imports Go_Strings
begin

text \<open>
  The text of an instant in UTC, as \<open>time.Time\<close> marshals itself (RFC 3339 with nanoseconds, without
  trailing zeros). Instants count nanoseconds from the zero \<open>time.Time\<close>, 1 January of the year 1.
\<close>

definition pad_digits :: "nat \<Rightarrow> nat \<Rightarrow> string" where
  "pad_digits k n = (let s = nat_digits n in replicate (k - length s) (CHR ''0'') @ s)"

definition leap :: "nat \<Rightarrow> bool" where
  "leap y \<longleftrightarrow> y mod 4 = 0 \<and> (y mod 100 \<noteq> 0 \<or> y mod 400 = 0)"

definition month_days :: "nat \<Rightarrow> nat list" where
  "month_days y = [31, if leap y then 29 else 28, 31, 30, 31, 30, 31, 31, 30, 31, 30, 31]"

fun month_of :: "nat \<Rightarrow> nat list \<Rightarrow> nat \<Rightarrow> nat \<times> nat" where
  "month_of m [] d = (m, d + 1)"
| "month_of m (l # ls) d = (if d < l then (m, d + 1) else month_of (m + 1) ls (d - l))"

text \<open>The year and the day in it of a day number: cycles of 400, 100, 4 and 1 years.\<close>

definition civil :: "nat \<Rightarrow> nat \<times> nat \<times> nat" where
  "civil day =
     (let c400 = day div 146097; d = day mod 146097;
          c100 = min 3 (d div 36524); d = d - c100 * 36524;
          c4 = d div 1461; d = d mod 1461;
          c1 = min 3 (d div 365); d = d - c1 * 365;
          y = 400 * c400 + 100 * c100 + 4 * c4 + c1 + 1;
          (m, md) = month_of 1 (month_days y) d
      in (y, m, md))"

definition RFC3339Nano :: "time \<Rightarrow> string" where
  "RFC3339Nano t =
     (let n = nat t;
          secs = n div 1000000000;
          frac = n mod 1000000000;
          (y, m, d) = civil (secs div 86400);
          s = secs mod 86400
      in pad_digits 4 y @ ''-'' @ pad_digits 2 m @ ''-'' @ pad_digits 2 d @ ''T'' @
         pad_digits 2 (s div 3600) @ '':'' @ pad_digits 2 (s div 60 mod 60) @ '':'' @ pad_digits 2 (s mod 60) @
         (if frac = 0 then []
          else CHR ''.'' # rev (dropWhile (\<lambda>c. c = CHR ''0'') (rev (pad_digits 9 frac)))) @ ''Z'')"

end
