(* ===== verification/Events.thy ===== *)
theory Events
  imports World Json Go_Time
begin

text \<open>
  Domain events on the wire and on the bus (\<open>internal/shared/events\<close>, \<open>internal/domain/*/event\<close>,
  \<open>internal/domain/realtime/model/message.go\<close>): their JSON, the envelope, the messages for
  WebSocket clients, and the in-process bus with its dispatch loop.
\<close>

section \<open>JSON\<close>

definition juuid :: "uuid_api \<Rightarrow> uuid \<Rightarrow> json" where
  "juuid U u = JStr (uuid_str U u)"

definition jtime :: "time \<Rightarrow> json" where
  "jtime t = JStr (RFC3339Nano t)"

text \<open>\<open>omitempty\<close> on a string.\<close>

definition omit :: "string \<Rightarrow> string \<Rightarrow> (string \<times> json) list" where
  "omit k s = (if s = [] then [] else [(k, JStr s)])"

fun event_json :: "uuid_api \<Rightarrow> event \<Rightarrow> json" where
  "event_json U (UserRegistered u m t) =
     JObj [(''user_id'', juuid U u), (''email'', JStr m), (''timestamp'', jtime t)]"
| "event_json U (UserInvited u g b t) =
     JObj [(''user_id'', juuid U u), (''organization_id'', juuid U g), (''invited_by'', juuid U b),
           (''timestamp'', jtime t)]"
| "event_json U (RoleAssigned u r g t) =
     JObj [(''user_id'', juuid U u), (''role_id'', juuid U r), (''organization_id'', juuid U g),
           (''timestamp'', jtime t)]"
| "event_json U (RoleRevoked u r g t) =
     JObj [(''user_id'', juuid U u), (''role_id'', juuid U r), (''organization_id'', juuid U g),
           (''timestamp'', jtime t)]"
| "event_json U (OrganizationCreated g n b t) =
     JObj [(''organization_id'', juuid U g), (''name'', JStr n), (''created_by'', juuid U b),
           (''timestamp'', jtime t)]"
| "event_json U (AppCreated a g n t) =
     JObj [(''app_id'', juuid U a), (''organization_id'', juuid U g), (''name'', JStr n),
           (''timestamp'', jtime t)]"
| "event_json U (AppUpdated a g t) =
     JObj [(''app_id'', juuid U a), (''organization_id'', juuid U g), (''timestamp'', jtime t)]"
| "event_json U (WorkspaceCreated w g n b t) =
     JObj [(''workspace_id'', juuid U w), (''organization_id'', juuid U g), (''name'', JStr n),
           (''created_by'', juuid U b), (''timestamp'', jtime t)]"
| "event_json U (EndpointCreated e a m p t) =
     JObj [(''endpoint_id'', juuid U e), (''app_id'', juuid U a), (''method'', JStr m), (''path'', JStr p),
           (''timestamp'', jtime t)]"
| "event_json U (EndpointUpdated e a t) =
     JObj [(''endpoint_id'', juuid U e), (''app_id'', juuid U a), (''timestamp'', jtime t)]"
| "event_json U (EndpointRetired e a t) =
     JObj [(''endpoint_id'', juuid U e), (''app_id'', juuid U a), (''timestamp'', jtime t)]"
| "event_json U (EndpointActivated e a t) =
     JObj [(''endpoint_id'', juuid U e), (''app_id'', juuid U a), (''timestamp'', jtime t)]"

section \<open>Messages to WebSocket clients\<close>

abbreviation ActionSubscribe :: string where "ActionSubscribe \<equiv> ''subscribe''"
abbreviation ActionUnsubscribe :: string where "ActionUnsubscribe \<equiv> ''unsubscribe''"
abbreviation ActionPing :: string where "ActionPing \<equiv> ''ping''"
abbreviation TypePong :: string where "TypePong \<equiv> ''pong''"
abbreviation TypeSubscribed :: string where "TypeSubscribed \<equiv> ''subscribed''"
abbreviation TypeError :: string where "TypeError \<equiv> ''error''"

record OutboundMessage =
  om_Type :: string
  om_Topic :: string
  om_OrganizationID :: string
  om_AppID :: string
  om_Channel :: string
  om_Message :: string
  om_Data :: "json option"
  om_Timestamp :: time

definition NewEventMessage :: "string \<Rightarrow> string \<Rightarrow> string \<Rightarrow> string \<Rightarrow> json \<Rightarrow> OutboundMessage eff" where
  "NewEventMessage eventType topic orgID appID data = do {
     now \<leftarrow> time_Now;
     ret \<lparr>om_Type = eventType, om_Topic = topic, om_OrganizationID = orgID, om_AppID = appID,
          om_Channel = [], om_Message = [], om_Data = Some data, om_Timestamp = now\<rparr>
   }"

definition NewControlMessage :: "string \<Rightarrow> string \<Rightarrow> string \<Rightarrow> OutboundMessage eff" where
  "NewControlMessage msgType chan message = do {
     now \<leftarrow> time_Now;
     ret \<lparr>om_Type = msgType, om_Topic = [], om_OrganizationID = [], om_AppID = [], om_Channel = chan,
          om_Message = message, om_Data = None, om_Timestamp = now\<rparr>
   }"

text \<open>\<open>omitempty\<close> does not leave out a \<open>time.Time\<close>, which is a struct.\<close>

definition OutboundMessage_json :: "OutboundMessage \<Rightarrow> json" where
  "OutboundMessage_json m =
     JObj ([(''type'', JStr (om_Type m))] @ omit ''topic'' (om_Topic m) @
       omit ''organization_id'' (om_OrganizationID m) @ omit ''app_id'' (om_AppID m) @
       omit ''channel'' (om_Channel m) @ omit ''message'' (om_Message m) @
       (case om_Data m of None \<Rightarrow> [] | Some j \<Rightarrow> [(''data'', j)]) @ [(''timestamp'', jtime (om_Timestamp m))])"

section \<open>The envelope\<close>

record Envelope =
  env_ID :: string
  env_Type :: string
  env_Source :: string
  env_OrganizationID :: string
  env_AppID :: string
  env_Timestamp :: time
  env_Data :: string

definition NewEnvelope :: "uuid_api \<Rightarrow> string \<Rightarrow> string \<Rightarrow> json \<Rightarrow> Envelope eff" where
  "NewEnvelope U eventType source data = do {
     u \<leftarrow> uuid_New;
     now \<leftarrow> time_Now;
     ret \<lparr>env_ID = uuid_str U u, env_Type = eventType, env_Source = source, env_OrganizationID = [],
          env_AppID = [], env_Timestamp = now, env_Data = Marshal data\<rparr>
   }"

section \<open>The in-process bus\<close>

text \<open>
  A handler takes the event and the state of the program and may panic. \<open>bus_ch\<close> of the world is the
  channel, filled by \<open>Publish\<close>. The dispatch loop takes one event after the other and waits for all
  handlers of its topic before the next; it runs them at the same time, and the model runs them
  in the order of their registration (of the handlers the program registers for a topic, one
  logs and one has an effect).
\<close>

type_synonym 's handler = "event \<Rightarrow> 's \<Rightarrow> 's option"

record 's InProcessBus =
  bus_handlers :: "string \<Rightarrow> 's handler list"
  bus_size :: nat

definition NewInProcessBus :: "int \<Rightarrow> 's InProcessBus" where
  "NewInProcessBus bufferSize =
     \<lparr>bus_handlers = (\<lambda>_. []), bus_size = (if bufferSize \<le> 0 then 256 else nat bufferSize)\<rparr>"

definition bus_Subscribe :: "string \<Rightarrow> 's handler \<Rightarrow> 's InProcessBus \<Rightarrow> 's InProcessBus" where
  "bus_Subscribe topic f b =
     b\<lparr>bus_handlers := (bus_handlers b)(topic := bus_handlers b topic @ [f])\<rparr>"

definition dispatch_one :: "'s InProcessBus \<Rightarrow> string \<times> event \<Rightarrow> 's \<Rightarrow> 's option" where
  "dispatch_one b env s = fold_opt (\<lambda>f. f (snd env)) (bus_handlers b (fst env)) s"

text \<open>The loop over the events in the channel, until it is empty; \<open>get\<close> and \<open>put\<close> reach it in the state.\<close>

definition dispatch :: "'s InProcessBus \<Rightarrow> (string \<times> event) list \<Rightarrow> 's \<Rightarrow> 's option" where
  "dispatch b envs s = fold_opt (dispatch_one b) envs s"

end
