(* ===== verification/Event_Bridge.thy ===== *)
theory Event_Bridge
  imports Hub_Claims Events Tenant
begin

text \<open>
  The event bridge, \<open>internal/infrastructure/websocket/event_bridge.go\<close>: which events go to which
  rooms, and the handler that broadcasts them. Its state is the world and the hub; \<open>None\<close> is a panic
  of a broadcast. The deliveries of a route go through the interface \<open>room_hub\<close>.
\<close>

record eventRoute =
  rt_orgID :: uuid
  rt_appID :: uuid
  rt_eventType :: string

definition route :: "uuid \<Rightarrow> uuid \<Rightarrow> string \<Rightarrow> eventRoute list" where
  "route g a ty = [\<lparr>rt_orgID = g, rt_appID = a, rt_eventType = ty\<rparr>]"

fun extractRoutes :: "event \<Rightarrow> eventRoute list" where
  "extractRoutes (UserRegistered _ _ _) = []"
| "extractRoutes (RoleAssigned _ _ g _) = (if g = uuid_nil then [] else route g uuid_nil ''role.assigned'')"
| "extractRoutes (OrganizationCreated g _ _ _) = route g uuid_nil ''organization.created''"
| "extractRoutes (AppCreated a g _ _) = route g a ''app.created''"
| "extractRoutes (AppUpdated a g _) = route g a ''app.updated''"
| "extractRoutes (WorkspaceCreated _ g _ _ _) = route g uuid_nil ''workspace.created''"
| "extractRoutes (EndpointCreated _ a _ _ _) = route uuid_nil a ''endpoint.created''"
| "extractRoutes (EndpointUpdated _ a _) = route uuid_nil a ''endpoint.updated''"
| "extractRoutes (EndpointRetired _ a _) = route uuid_nil a ''endpoint.retired''"
| "extractRoutes (EndpointActivated _ a _) = route uuid_nil a ''endpoint.activated''"
| "extractRoutes _ = []"

text \<open>The organization of a route: its own, or that of its app, which the repository knows.\<close>

definition route_org :: "AppRepository \<Rightarrow> eventRoute \<Rightarrow> uuid option eff" where
  "route_org repo rt =
     (if rt_appID rt \<noteq> uuid_nil \<and> rt_orgID rt = uuid_nil
      then State_Monad.bind (ap_GetByID repo (rt_appID rt))
             (\<lambda>r. ret (case r of Inl _ \<Rightarrow> None | Inr a \<Rightarrow> Some (a_OrganizationID a)))
      else ret (Some (rt_orgID rt)))"

text \<open>The default channel and the topic's, each once; a room whose name is not valid is left out.\<close>

definition route_targets :: "uuid_api \<Rightarrow> uuid \<Rightarrow> uuid \<Rightarrow> string \<Rightarrow> delivery list" where
  "route_targets U g a chan =
     concat (map (\<lambda>ch. if a \<noteq> uuid_nil
                        then (case BuildRoomKey U g a ch of Inl _ \<Rightarrow> [] | Inr room \<Rightarrow> [ToRoom room])
                        else [ToOrg g ch])
       (if chan = DefaultChannel then [DefaultChannel] else [DefaultChannel, chan]))"

definition deliver_to :: "uuid_api \<Rightarrow> string \<Rightarrow> delivery \<Rightarrow> Hub \<Rightarrow> Hub option" where
  "deliver_to U p d h =
     (case d of ToRoom room \<Rightarrow> Broadcast room p h | ToOrg g chan \<Rightarrow> BroadcastToOrganization U g chan p h)"

definition event_payload :: "uuid_api \<Rightarrow> string \<Rightarrow> event \<Rightarrow> eventRoute \<Rightarrow> uuid \<Rightarrow> string eff" where
  "event_payload U topic ev rt g = do {
     msg \<leftarrow> NewEventMessage (rt_eventType rt) topic (uuid_str U g) (uuid_str U (rt_appID rt)) (event_json U ev);
     ret (Marshal (OutboundMessage_json msg))
   }"

definition handle_route ::
  "uuid_api \<Rightarrow> AppRepository \<Rightarrow> string \<Rightarrow> string \<Rightarrow> event \<Rightarrow> eventRoute \<Rightarrow> world \<times> Hub \<Rightarrow> (world \<times> Hub) option" where
  "handle_route U repo topic chan ev rt s =
     (let (w, h) = s; (g, w) = run_state (route_org repo rt) w
      in case g of
           None \<Rightarrow> Some (w, h)
         | Some g \<Rightarrow>
             if g = uuid_nil then Some (w, h)
             else let (p, w) = run_state (event_payload U topic ev rt g) w
                  in map_option (\<lambda>h. (w, h)) (fold_opt (deliver_to U p) (route_targets U g (rt_appID rt) chan) h))"

definition handleEvent ::
  "uuid_api \<Rightarrow> AppRepository \<Rightarrow> string \<Rightarrow> string \<Rightarrow> event \<Rightarrow> world \<times> Hub \<Rightarrow> (world \<times> Hub) option" where
  "handleEvent U repo topic chan ev s = fold_opt (handle_route U repo topic chan ev) (extractRoutes ev) s"

definition bridge_Register ::
  "uuid_api \<Rightarrow> AppRepository \<Rightarrow> (world \<times> Hub) InProcessBus \<Rightarrow> (world \<times> Hub) InProcessBus" where
  "bridge_Register U repo b =
     bus_Subscribe TopicAPIManagement (handleEvent U repo TopicAPIManagement ''api-management'')
       (bus_Subscribe TopicTenant (handleEvent U repo TopicTenant ''tenant'')
         (bus_Subscribe TopicIAM (handleEvent U repo TopicIAM ''iam'') b))"

text \<open>An iteration of the dispatch loop: the oldest event of the channel and all its handlers.\<close>

definition dispatch_next :: "(world \<times> Hub) InProcessBus \<Rightarrow> world \<times> Hub \<Rightarrow> (world \<times> Hub) option" where
  "dispatch_next b s =
     (case bus_ch (fst s) of
        [] \<Rightarrow> Some s
      | env # envs \<Rightarrow> dispatch_one b env ((fst s)\<lparr>bus_ch := envs\<rparr>, snd s))"

section \<open>Delivery\<close>

lemma deliver_to_eq: "uuid_api_ok U \<and> hub_inv U h \<Longrightarrow> deliver_to U p d h = hub.deliver U p d h"
  by (simp add: deliver_to_def hub.deliver_def)

lemma deliver_to_hub: "deliver_to U = hub.deliver U"
  by (auto simp: fun_eq_iff deliver_to_def hub.deliver_def)

lemmas deliver_targets = hub.deliver_all [folded deliver_to_hub]

text \<open>
  The scope of an event, an organization and perhaps an app, and how many copies of its message a
  client gets: one for each of the two channels it joined within the scope.
\<close>

definition event_scope :: "AppRepository \<Rightarrow> event \<Rightarrow> world \<Rightarrow> (uuid \<times> uuid) option" where
  "event_scope repo ev w =
     (case extractRoutes ev of
        [] \<Rightarrow> None
      | rt # _ \<Rightarrow>
          (case fst (run_state (route_org repo rt) w) of
             None \<Rightarrow> None
           | Some g \<Rightarrow> if g = uuid_nil then None else Some (g, rt_appID rt)))"

definition bridge_copies :: "uuid_api \<Rightarrow> Hub \<Rightarrow> (uuid \<times> uuid) option \<Rightarrow> string \<Rightarrow> string \<Rightarrow> nat" where
  "bridge_copies U h scope chan cid =
     (case scope of
        None \<Rightarrow> 0
      | Some (g, a) \<Rightarrow>
          length (filter (\<lambda>ch. \<exists>x. (a = uuid_nil \<or> x = a) \<and> joined h cid (room_key U g x ch))
            [DefaultChannel, chan]))"

definition bridge_channels :: "string list" where
  "bridge_channels = [''iam'', ''tenant'', ''api-management'']"

lemma bridge_channel:
  assumes "chan \<in> set bridge_channels"
  shows "chan \<noteq> DefaultChannel" "BuildRoomKey U g a chan = Inr (room_key U g a chan)"
    "BuildRoomKey U g a DefaultChannel = Inr (room_key U g a DefaultChannel)"
proof -
  have "TrimSpace chan = chan" "TrimSpace DefaultChannel = DefaultChannel"
    by (rule TrimSpace_id, use assms in \<open>auto simp: bridge_channels_def DefaultChannel_def space_bytes_def go_spaces_def\<close>)+
  then show "chan \<noteq> DefaultChannel" "BuildRoomKey U g a chan = Inr (room_key U g a chan)"
    "BuildRoomKey U g a DefaultChannel = Inr (room_key U g a DefaultChannel)"
    using assms
    by (auto simp: BuildRoomKey_iff channel_of_def bridge_channels_def DefaultChannel_def channelNameRe_def
        MaxChannelLen_def channel_char_def is_lower_def)
qed

lemma copies_targets:
  assumes "chan \<in> set bridge_channels"
  shows "length (filter (hub.reaches U h cid) (route_targets U g a chan)) = bridge_copies U h (Some (g, a)) chan cid"
  using bridge_channel [OF assms]
  by (simp add: route_targets_def bridge_copies_def hub.reaches_def org_rooms_ex)

lemma copies_own:
  assumes "uuid_api_ok U" "hub_inv U h" "bridge_copies U h scope chan cid > 0"
  shows "\<exists>g a info. scope = Some (g, a) \<and> GetClientInfo cid h = Some info \<and> ci_OrganizationID info = g \<and>
    (a = uuid_nil \<or> ci_AppID info = a)"
proof (cases scope)
  case None
  then show ?thesis using assms(3) by (simp add: bridge_copies_def)
next
  case (Some ga)
  obtain g a where ga: "ga = (g, a)" by (cases ga)
  then obtain ch x where "a = uuid_nil \<or> x = a" "joined h cid (room_key U g x ch)"
    using assms(3) Some by (auto simp: bridge_copies_def split: if_splits)
  then show ?thesis using joined_own [OF assms(1,2)] Some ga by fastforce
qed

lemma fold_opt_single [simp]: "fold_opt f [x] s = f x s"
  by (cases "f x s") auto

lemma extractRoutes_cases: "extractRoutes ev = [] \<or> (\<exists>rt. extractRoutes ev = [rt])"
  by (cases ev) (auto simp: route_def)

lemma inbox_pow_0: "map_option ((push p) ^^ 0) x = x"
  by (cases x) simp_all

text \<open>A message of an event, sent to its scope at some instant.\<close>

definition event_message :: "uuid_api \<Rightarrow> string \<Rightarrow> event \<Rightarrow> (uuid \<times> uuid) option \<Rightarrow> string \<Rightarrow> bool" where
  "event_message U topic ev scope p \<longleftrightarrow>
     (\<exists>rt g w. extractRoutes ev = [rt] \<and> scope = Some (g, rt_appID rt) \<and>
        p = fst (run_state (event_payload U topic ev rt g) w))"

lemma handleEvent_runs:
  assumes "uuid_api_ok U" and "hub_inv U h" and "chan \<in> set bridge_channels"
  shows "\<exists>w' h' p. handleEvent U repo topic chan ev (w, h) = Some (w', h') \<and> hub_inv U h' \<and> joined h' = joined h \<and>
    (\<forall>cid. inbox h' cid = map_option ((push p) ^^ bridge_copies U h (event_scope repo ev w) chan cid) (inbox h cid)) \<and>
    (event_scope repo ev w \<noteq> None \<longrightarrow> event_message U topic ev (event_scope repo ev w) p)"
proof -
  let ?sc = "event_scope repo ev w"
  have none: "inbox h cid = map_option ((push p) ^^ bridge_copies U h None chan cid) (inbox h cid)" for cid p
    by (simp only: bridge_copies_def option.case inbox_pow_0)
  show ?thesis
  proof (cases "extractRoutes ev = []")
    case True
    then show ?thesis using assms(2) none by (auto simp: handleEvent_def event_scope_def)
  next
    case False
    then obtain rt where rt: "extractRoutes ev = [rt]" using extractRoutes_cases by blast
    then have run: "handleEvent U repo topic chan ev (w, h) = handle_route U repo topic chan ev rt (w, h)"
      by (simp only: handleEvent_def fold_opt_single)
    obtain gopt w1 where w1: "run_state (route_org repo rt) w = (gopt, w1)" by fastforce
    show ?thesis
    proof (cases "gopt = None \<or> gopt = Some uuid_nil")
      case True
      then have "?sc = None" using rt w1 by (auto simp: event_scope_def)
      moreover have "handleEvent U repo topic chan ev (w, h) = Some (w1, h)"
        unfolding run using w1 True by (auto simp: handle_route_def)
      ultimately show ?thesis using assms(2) none by auto
    next
      case False
      then obtain g where g: "gopt = Some g" "g \<noteq> uuid_nil" by auto
      then have sc: "?sc = Some (g, rt_appID rt)" using rt w1 by (simp add: event_scope_def)
      obtain p w2 where w2: "run_state (event_payload U topic ev rt g) w1 = (p, w2)" by fastforce
      let ?ds = "route_targets U g (rt_appID rt) chan"
      obtain h' where h': "fold_opt (deliver_to U p) ?ds h = Some h'" "hub_inv U h'" "joined h' = joined h"
          "\<And>c. inbox h' c = map_option ((push p) ^^ length (filter (hub.reaches U h c) ?ds)) (inbox h c)"
        using deliver_targets [of U h p ?ds] assms by blast
      have "handleEvent U repo topic chan ev (w, h) = Some (w2, h')"
        unfolding run using w1 w2 g h'(1) by (simp add: handle_route_def)
      moreover have "event_message U topic ev ?sc p"
        unfolding event_message_def sc using rt w2 by (metis fst_conv)
      ultimately show ?thesis using h'(2-4) by (auto simp: sc copies_targets [OF assms(3)])
    qed
  qed
qed



end
