(* ===== verification/Decode.thy ===== *)
theory Decode
  imports Json Http
begin

text \<open>
  Decoding a JSON text into a Go struct: a member sets the field whose name it equals but for the
  case of its letters, \<open>null\<close> leaves a field as it is, a later member overrides an earlier one,
  members without a field are ignored, and a value of another type is an error.
\<close>

definition string_value :: "json \<Rightarrow> string option" where
  "string_value j = (case j of JStr s \<Rightarrow> Some s | _ \<Rightarrow> None)"

definition bool_value :: "json \<Rightarrow> bool option" where
  "bool_value j = (case j of JBool b \<Rightarrow> Some b | _ \<Rightarrow> None)"

text \<open>An \<open>int\<close> field takes an integer literal in the range of the type.\<close>

definition int_value :: "json \<Rightarrow> int option" where
  "int_value j = (case j of JInt n \<Rightarrow> if int64_min \<le> n \<and> n \<le> int64_max then Some n else None | _ \<Rightarrow> None)"

definition uuid_value :: "uuid_api \<Rightarrow> json \<Rightarrow> uuid option" where
  "uuid_value U j = (case j of JStr s \<Rightarrow> uuid_parse U s | _ \<Rightarrow> None)"

fun decode_field :: "(json \<Rightarrow> 'a option) \<Rightarrow> string \<Rightarrow> 'a \<Rightarrow> (string \<times> json) list \<Rightarrow> 'a option" where
  "decode_field f name acc [] = Some acc"
| "decode_field f name acc ((k, v) # kvs) =
     (if EqualFold k name
      then (if v = JNull then decode_field f name acc kvs
            else case f v of None \<Rightarrow> None | Some x \<Rightarrow> decode_field f name x kvs)
      else decode_field f name acc kvs)"

text \<open>A pointer or slice field: \<open>null\<close> makes it \<open>nil\<close>.\<close>

fun decode_opt :: "(json \<Rightarrow> 'a option) \<Rightarrow> string \<Rightarrow> 'a option \<Rightarrow> (string \<times> json) list \<Rightarrow> 'a option option" where
  "decode_opt f name acc [] = Some acc"
| "decode_opt f name acc ((k, v) # kvs) =
     (if EqualFold k name
      then (if v = JNull then decode_opt f name None kvs
            else case f v of None \<Rightarrow> None | Some x \<Rightarrow> decode_opt f name (Some x) kvs)
      else decode_opt f name acc kvs)"

definition field_str :: "string \<Rightarrow> (string \<times> json) list \<Rightarrow> string option" where
  "field_str name = decode_field string_value name []"

definition field_bool :: "string \<Rightarrow> (string \<times> json) list \<Rightarrow> bool option" where
  "field_bool name = decode_field bool_value name False"

definition field_int :: "string \<Rightarrow> (string \<times> json) list \<Rightarrow> int option" where
  "field_int name = decode_field int_value name 0"

definition field_uuid :: "uuid_api \<Rightarrow> string \<Rightarrow> (string \<times> json) list \<Rightarrow> uuid option" where
  "field_uuid U name = decode_field (uuid_value U) name uuid_nil"

text \<open>
  A \<open>json.RawMessage\<close> keeps the text of its value, here its encoding, as the columns it is stored in
  are JSONB; it is encoded as the value it is. For \<open>null\<close> it is the text \<open>null\<close>.
\<close>

fun decode_raw :: "string \<Rightarrow> string option \<Rightarrow> (string \<times> json) list \<Rightarrow> string option" where
  "decode_raw name acc [] = acc"
| "decode_raw name acc ((k, v) # kvs) =
     decode_raw name (if EqualFold k name then Some (Marshal v) else acc) kvs"

definition raw_json :: "string \<Rightarrow> json" where
  "raw_json s = (case parse_json s of Some j \<Rightarrow> j | None \<Rightarrow> JNull)"

text \<open>The members of a text that is to fill a struct: \<open>null\<close> fills nothing.\<close>

definition struct_members :: "string \<Rightarrow> (string \<times> json) list option" where
  "struct_members s =
     (case parse_json s of Some (JObj kvs) \<Rightarrow> Some kvs | Some JNull \<Rightarrow> Some [] | _ \<Rightarrow> None)"

end
