(* ===== verification/Realtime.thy ===== *)
theory Realtime
  imports Event_Bridge Decode Rbac Auth_Service Http
begin

text \<open>
  WebSocket connections: the use case that checks a connection, the handler that upgrades and
  registers it and serves the actions of its client
  (\<open>internal/infrastructure/http/handler/realtime\<close>), the token and the origin of the request. The
  upgrade itself is \<open>gorilla/websocket\<close>: a parameter that may refuse a request.
\<close>

section \<open>Token, origin, configuration\<close>

definition bearer :: "string \<Rightarrow> string option" where
  "bearer authHeader =
     (case SplitN2 '' '' authHeader of
        None \<Rightarrow> None
      | Some (scheme, token) \<Rightarrow> if EqualFold scheme ''bearer'' then Some token else None)"

definition ExtractBearerToken :: "request \<Rightarrow> string" where
  "ExtractBearerToken r =
     (let token = TrimSpace (rq_query r ''token'')
      in if token \<noteq> [] then token
         else let authHeader = rq_header r ''Authorization''
              in if authHeader = [] then []
                 else case bearer authHeader of None \<Rightarrow> [] | Some t \<Rightarrow> TrimSpace t)"

definition originChecker :: "string list \<Rightarrow> request \<Rightarrow> bool" where
  "originChecker allowed r =
     (if allowed = [] then True
      else let allowedSet = map TrimSpace allowed; origin = rq_header r ''Origin''
           in origin = [] \<or> ''*'' \<in> set allowedSet \<or> origin \<in> set allowedSet)"

record UpgraderConfig =
  uc_ReadBufferSize :: int
  uc_WriteBufferSize :: int
  uc_AllowedOrigins :: "string list"

record Upgrader =
  up_ReadBufferSize :: int
  up_WriteBufferSize :: int
  up_CheckOrigin :: "request \<Rightarrow> bool"

definition NewUpgrader :: "UpgraderConfig \<Rightarrow> Upgrader" where
  "NewUpgrader cfg =
     \<lparr>up_ReadBufferSize = (if uc_ReadBufferSize cfg \<le> 0 then 1024 else uc_ReadBufferSize cfg),
      up_WriteBufferSize = (if uc_WriteBufferSize cfg \<le> 0 then 1024 else uc_WriteBufferSize cfg),
      up_CheckOrigin = originChecker (uc_AllowedOrigins cfg)\<rparr>"

definition PingInterval :: "int \<Rightarrow> time" where
  "PingInterval seconds = (if seconds \<le> 0 then 30 * second else wrap64 (seconds * second))"

section \<open>The use case\<close>

record ConnectInput =
  in_UserID :: uuid
  in_OrganizationID :: uuid
  in_AppID :: uuid

definition ValidateConnect ::
  "AppRepository \<Rightarrow> RBACService \<Rightarrow> uuid \<Rightarrow> uuid \<Rightarrow> uuid \<Rightarrow> (goerr + ConnectInput) eff" where
  "ValidateConnect repo rbac uid gid aid =
     (if uid = uuid_nil then fail (New_error ErrUnauthorized ''user not authenticated'' None)
      else if gid = uuid_nil then fail (New_error ErrBadRequest ''organization context required'' None)
      else if aid = uuid_nil then fail (New_error ErrBadRequest ''app context required'' None)
      else try_or (\<lambda>e. New_error ErrNotFound ''app not found'' (Some e)) (ap_GetByID repo aid) (\<lambda>app.
        if a_OrganizationID app \<noteq> gid
        then fail (New_error ErrForbidden ''app does not belong to organization'' None)
        else if \<not> App_IsActive app then fail (New_error ErrForbidden ''app is not active'' None)
        else try_or (\<lambda>e. New_error ErrInternal ''permission check failed'' (Some e))
          (rb_HasPermission rbac uid gid ''app:read'') (\<lambda>has.
            if \<not> has then fail (New_error ErrForbidden ''insufficient permissions to connect'' None)
            else ok \<lparr>in_UserID = uid, in_OrganizationID = gid, in_AppID = aid\<rparr>)))"

definition ParseAppHeader :: "uuid_api \<Rightarrow> string \<Rightarrow> goerr + uuid" where
  "ParseAppHeader U s =
     (if s = [] then Inl (New_error ErrBadRequest ''X-App-ID header required'' None)
      else case uuid_parse U s of
          None \<Rightarrow> Inl (New_error ErrBadRequest ''invalid X-App-ID'' (Some (Wrapped ''parse app id'' (Plain ''invalid UUID''))))
        | Some a \<Rightarrow> Inr a)"

definition resolveOrgID :: "uuid_api \<Rightarrow> request \<Rightarrow> rctx \<Rightarrow> uuid \<Rightarrow> uuid" where
  "resolveOrgID U r c claimOrgID =
     (case (if rq_header r ''X-Organization-ID'' = [] then None
            else uuid_parse U (rq_header r ''X-Organization-ID'')) of
        Some g \<Rightarrow> g
      | None \<Rightarrow> if claimOrgID \<noteq> uuid_nil then claimOrgID
                else case TenantIDFromContext c of Some g \<Rightarrow> g | None \<Rightarrow> uuid_nil)"

section \<open>The handler\<close>

record realtime_Handler =
  rh_appRepo :: AppRepository
  rh_rbac :: RBACService
  rh_auth :: AuthService
  rh_upgrade :: "request \<Rightarrow> bool"
  rh_enabled :: bool

text \<open>An answered request, a refused upgrade, or the object of the session and its closure.\<close>

datatype connection =
    Answered response
  | UpgradeFailed
  | Connected string nat "nat option"

definition Connect_open ::
  "uuid_api \<Rightarrow> ConnectInput \<Rightarrow> world \<times> Hub \<Rightarrow> (connection \<times> world \<times> Hub) option" where
  "Connect_open U inp s =
     (let (w, h) = s; (u, w) = run_state uuid_New w; cid = uuid_str U u;
          (send, h) = make_chan 64 h;
          info = \<lparr>ci_ID = cid, ci_UserID = in_UserID inp, ci_OrganizationID = in_OrganizationID inp,
                  ci_AppID = in_AppID inp\<rparr>
      in case Hub_Register U info send h of
           None \<Rightarrow> None
         | Some (unreg, h) \<Rightarrow>
             (let (r, h) = Session_Start cid send h;
                  (msg, w) = run_state (NewControlMessage TypeSubscribed DefaultChannel ''connected'') w
              in map_option (\<lambda>h. (Connected cid r unreg, w, h))
                   (try_send send (Marshal (OutboundMessage_json msg)) h)))"

definition Connect ::
  "uuid_api \<Rightarrow> realtime_Handler \<Rightarrow> rctx \<Rightarrow> request \<Rightarrow> world \<times> Hub \<Rightarrow> (connection \<times> world \<times> Hub) option" where
  "Connect U H c r s =
     (let (w, h) = s
      in if \<not> rh_enabled H then Some (Answered (response_JSON 503 (error_body ''websocket is disabled'')), w, h)
         else let token = ExtractBearerToken r
         in if token = [] then Some (Answered (response_JSON 401 (error_body ''missing token'')), w, h)
         else case run_state (auth_ValidateToken (rh_auth H) token) w of
             (Inl _, w) \<Rightarrow> Some (Answered (response_JSON 401 (error_body ''invalid token'')), w, h)
           | (Inr claims, w) \<Rightarrow>
               (case ParseAppHeader U (rq_header r ''X-App-ID'') of
                  Inl e \<Rightarrow> Some (Answered (response_Error e), w, h)
                | Inr aid \<Rightarrow>
                    (case run_state (ValidateConnect (rh_appRepo H) (rh_rbac H) (c_UserID claims)
                              (resolveOrgID U r c (c_OrganizationID claims)) aid) w of
                       (Inl e, w) \<Rightarrow> Some (Answered (response_Error e), w, h)
                     | (Inr inp, w) \<Rightarrow>
                         if \<not> rh_upgrade H r then Some (UpgradeFailed, w, h) else Connect_open U inp (w, h))))"

definition sendControl :: "string \<Rightarrow> string \<Rightarrow> string \<Rightarrow> string \<Rightarrow> world \<times> Hub \<Rightarrow> (world \<times> Hub) option" where
  "sendControl cid msgType chan message s =
     (let (w, h) = s; (msg, w) = run_state (NewControlMessage msgType chan message) w
      in map_option (\<lambda>h. (w, h)) (SendToClient cid (Marshal (OutboundMessage_json msg)) h))"

definition sendError :: "string \<Rightarrow> string \<Rightarrow> world \<times> Hub \<Rightarrow> (world \<times> Hub) option" where
  "sendError cid message s = sendControl cid TypeError [] message s"

definition decode_inbound :: "string \<Rightarrow> (string \<times> string) option" where
  "decode_inbound raw =
     Option.bind (struct_members raw) (\<lambda>kvs.
       Option.bind (field_str ''action'' kvs) (\<lambda>a. map_option (\<lambda>c. (a, c)) (field_str ''channel'' kvs)))"

definition handleClientAction :: "uuid_api \<Rightarrow> string \<Rightarrow> string \<Rightarrow> world \<times> Hub \<Rightarrow> (world \<times> Hub) option" where
  "handleClientAction U cid raw s =
     (case decode_inbound raw of
        None \<Rightarrow> sendError cid ''invalid message format'' s
      | Some (action, chan) \<Rightarrow>
          if action = ActionPing then sendControl cid TypePong [] [] s
          else if action = ActionSubscribe then
            (case ValidateChannelName chan of
               Some e \<Rightarrow> sendError cid e s
             | None \<Rightarrow>
                 (case Subscribe U cid chan (snd s) of
                    (Inl e, h) \<Rightarrow> sendError cid e (fst s, h)
                  | (Inr _, h) \<Rightarrow> sendControl cid TypeSubscribed chan [] (fst s, h)))
          else if action = ActionUnsubscribe then
            (case ValidateChannelName chan of
               Some e \<Rightarrow> sendError cid e s
             | None \<Rightarrow>
                 (case Unsubscribe U cid chan (snd s) of
                    (Inl e, h) \<Rightarrow> sendError cid e (fst s, h)
                  | (Inr _, h) \<Rightarrow> Some (fst s, h)))
          else sendError cid ''unknown action'' s)"

end
