(* ===== verification/Json_Props.thy ===== *)
theory Json_Props
  imports Json
begin

text \<open>Decoding undoes encoding: strings, integers, then values.\<close>

section \<open>Strings\<close>

lemma hex_val_digit: "hex_val (''0123456789abcdef'' ! (k mod 16)) = Some (k mod 16)"
proof -
  have "\<forall>i \<in> set [0..<16]. hex_val (''0123456789abcdef'' ! i) = Some i" by code_simp
  then show ?thesis by simp
qed

lemma hex_num_hex4: "n < 65536 \<Longrightarrow> hex_num 0 (hex4 n) = Some n"
proof -
  assume n: "n < 65536"
  have "n div 16 div 16 = n div 256" "n div 256 div 16 = n div 4096" "n div 4096 div 16 = 0"
    using n by (simp_all add: div_mult2_eq [symmetric])
  then have m: "n div 4096 mod 16 = n div 4096" and "n div 16 = 16 * (n div 256) + n div 16 mod 16"
    "n div 256 = 16 * (n div 4096) + n div 256 mod 16"
    using mult_div_mod_eq [of 16 "n div 16"] mult_div_mod_eq [of 16 "n div 256"]
      mult_div_mod_eq [of 16 "n div 4096"] by simp_all
  moreover note m
  moreover have "n = 4096 * c + 256 * m2 + 16 * m1 + m0"
    if "n = 16 * a + m0" "a = 16 * b + m1" "b = 16 * c + m2" for a b c m0 m1 m2 :: nat
    using that by simp
  ultimately have "n = 4096 * (n div 4096 mod 16) + 256 * (n div 256 mod 16) + 16 * (n div 16 mod 16) + n mod 16"
    by (metis mult_div_mod_eq)
  then show ?thesis using hex_val_digit [of "n div 4096"] m by (simp add: hex4_def hex_val_digit)
qed

lemma length_hex4 [simp]: "length (hex4 n) = 4"
  by (simp add: hex4_def)

lemma utf8_ascii: "(of_char c :: nat) < 128 \<Longrightarrow> utf8 (of_char c) = [c]"
  by (simp add: utf8_def Let_def)

lemma char_eqI: "(of_char c :: nat) = of_char d \<Longrightarrow> c = d"
  by simp

lemma of_char_consts [simp]:
  "(of_char (CHR 0x08) :: nat) = 8" "(of_char (CHR 0x09) :: nat) = 9" "(of_char (CHR 0x0A) :: nat) = 10"
  "(of_char (CHR 0x0C) :: nat) = 12" "(of_char (CHR 0x0D) :: nat) = 13"
  by simp_all

lemma parse_str_escape: "parse_str (escape_char c @ t) = map_option (apfst ((#) c)) (parse_str t)"
proof -
  let ?n = "of_char c :: nat"
  have n: "?n = 8 \<longleftrightarrow> c = CHR 0x08" "?n = 9 \<longleftrightarrow> c = CHR 0x09" "?n = 10 \<longleftrightarrow> c = CHR 0x0A"
    "?n = 12 \<longleftrightarrow> c = CHR 0x0C" "?n = 13 \<longleftrightarrow> c = CHR 0x0D"
    using char_eqI [of c] of_char_consts by metis+
  show ?thesis
  proof (cases "c \<in> {CHR 0x22, CHR 0x5C, CHR 0x08, CHR 0x09, CHR 0x0A, CHR 0x0C, CHR 0x0D}")
    case True
    then show ?thesis
      by (elim insertE emptyE; subst parse_str.simps; simp add: escape_char_def simple_escape_def)
  next
    case False
    then have ne: "c \<noteq> CHR 0x22" "c \<noteq> CHR 0x5C" "?n \<noteq> 8" "?n \<noteq> 9" "?n \<noteq> 10" "?n \<noteq> 12" "?n \<noteq> 13"
      using n by blast+
    show ?thesis
    proof (cases "?n < 32 \<or> ?n = 38 \<or> ?n = 60 \<or> ?n = 62")
      case True
      then have "escape_char c = CHR 0x5C # CHR ''u'' # hex4 ?n" "?n < 128"
        using ne by (auto simp: escape_char_def Let_def)
      moreover from this(2) have "\<not> 0xD800 \<le> ?n" "?n < 65536" by simp_all
      moreover have "(@) [c] = (#) c" by (rule ext) simp
      ultimately show ?thesis by (subst parse_str.simps) (simp add: hex_num_hex4 utf8_ascii)
    next
      case False
      then have "escape_char c = [c]" using ne by (simp add: escape_char_def)
      then show ?thesis using ne False by (subst parse_str.simps) simp
    qed
  qed
qed

lemma parse_str_quote: "parse_str (concat (map escape_char s) @ CHR 0x22 # r) = Some (s, r)"
proof (induction s)
  case Nil
  show ?case by (subst parse_str.simps) simp
qed (simp add: parse_str_escape)

section \<open>Numbers\<close>

lemma of_char_digit: "d < 10 \<Longrightarrow> (of_char (char_of (48 + d :: nat) :: char) :: nat) = 48 + d"
  by simp

lemma is_digit_char: "d < (10::nat) \<Longrightarrow> is_digit (char_of (48 + d))"
  by (simp add: is_digit_def)

lemma nat_digits_digits: "list_all is_digit (nat_digits n)"
proof (induction n rule: nat_digits.induct)
  case (1 n)
  then show ?case by (subst nat_digits.simps) (auto simp: is_digit_char)
qed

lemma nat_digits_nonempty [simp]: "nat_digits n \<noteq> []"
  by (subst nat_digits.simps) simp

lemma digits_val_append:
  "digits_val acc (xs @ ys) = Option.bind (digits_val acc xs) (\<lambda>a. digits_val a ys)"
  by (induction xs arbitrary: acc) auto

lemma digits_val_nat_digits: "digits_val 0 (nat_digits n) = Some (int n)"
proof (induction n rule: nat_digits.induct)
  case (1 n)
  have one: "digits_val a [char_of (48 + d)] = Some (10 * a + int d)" if "d < 10" for d a
  proof -
    have "(of_char (char_of (48 + d) :: char) :: int) = int (48 + d)"
      using of_nat_of_char [of "char_of (48 + d)"] of_char_digit [OF that] by metis
    then show ?thesis using is_digit_char [OF that] by simp
  qed
  show ?case
  proof (cases "n < 10")
    case True
    then show ?thesis using one [OF True, of 0] by (subst nat_digits.simps) simp
  next
    case False
    have "10 * int (n div 10) + int (n mod 10) = int n" by presburger
    then show ?thesis using False 1 one [of "n mod 10"]
      by (subst nat_digits.simps) (simp add: digits_val_append)
  qed
qed

lemma digit_number_char: "is_digit c \<Longrightarrow> number_char c"
  by (simp add: number_char_def)

lemma Itoa_number_chars: "list_all number_char (Itoa n)"
  using nat_digits_digits [of "nat n"] nat_digits_digits [of "nat (- n)"]
  by (auto simp: Itoa_def list_all_iff digit_number_char number_char_def)

lemma nat_digits_hd: "9 < n \<Longrightarrow> hd (nat_digits n) \<noteq> CHR ''0''"
proof (induction n rule: nat_digits.induct)
  case (1 n)
  show ?case
  proof (cases "n div 10 < 10")
    case True
    have "nat_digits (n div 10) = [char_of (48 + n div 10)]" using True by (subst nat_digits.simps) simp
    moreover have "char_of (48 + n div 10) \<noteq> CHR ''0''"
    proof
      assume "char_of (48 + n div 10) = CHR ''0''"
      then have "(of_char (char_of (48 + n div 10) :: char) :: nat) = 48" by simp
      then show False using of_char_digit [OF True] 1 by simp
    qed
    ultimately show ?thesis using 1 by (subst nat_digits.simps) simp
  next
    case False
    then show ?thesis using 1 by (subst nat_digits.simps) simp
  qed
qed

lemma length_nat_digits: "1 < length (nat_digits n) \<Longrightarrow> 9 < n"
  by (rule ccontr, subst (asm) nat_digits.simps) simp

lemma digits1_nat_digits: "digits1 (nat_digits n) = Some (nat_digits n, [])"
  using nat_digits_digits [of n] nat_digits_nonempty [of n]
  by (cases "nat_digits n") (simp_all add: digits1_def list_all_iff)

lemma nat_digits_not_minus: "nat_digits n = c # r \<Longrightarrow> c \<noteq> CHR ''-''"
  using nat_digits_digits [of n] by (auto simp: is_digit_def)

lemma number_of_Itoa: "number_of (Itoa n) = Some (JInt n)"
proof -
  have zero: "\<not> (length (nat_digits k) > 1 \<and> hd (nat_digits k) = CHR ''0'')" for k
    using nat_digits_hd length_nat_digits by blast
  show ?thesis
  proof (cases "n < 0")
    case True
    have "nat_digits (nat (- n)) \<noteq> CHR ''-'' # nat_digits (nat (- n))" by (metis not_Cons_self)
    then show ?thesis using True zero [of "nat (- n)"]
      by (simp add: Itoa_def number_of_def Let_def digits1_nat_digits digits_val_nat_digits)
  next
    case False
    then obtain c r where cr: "nat_digits (nat n) = c # r" "c \<noteq> CHR ''-''"
      using nat_digits_nonempty nat_digits_not_minus by (metis neq_Nil_conv)
    have "number_of (nat_digits (nat n)) = Some (JInt n)"
      using False cr zero [of "nat n"] digits1_nat_digits [of "nat n"] digits_val_nat_digits [of "nat n"]
      by (simp add: number_of_def Let_def)
    then show ?thesis using False by (simp add: Itoa_def)
  qed
qed

section \<open>Values\<close>

text \<open>The literals that are numbers but not integers.\<close>

definition literal_ok :: "string \<Rightarrow> bool" where
  "literal_ok s \<longleftrightarrow> number_of s = Some (JLit s) \<and> list_all number_char s"

fun numbers_ok :: "json \<Rightarrow> bool" where
  "numbers_ok (JLit s) = literal_ok s"
| "numbers_ok (JArr xs) = list_all numbers_ok xs"
| "numbers_ok (JObj kvs) = list_all (\<lambda>(k, v). numbers_ok v) kvs"
| "numbers_ok _ = True"

definition stops :: "string \<Rightarrow> bool" where
  "stops r \<longleftrightarrow> r = [] \<or> \<not> number_char (hd r)"

lemma number_of_start: "number_of s = Some j \<Longrightarrow> \<exists>c r. s = c # r \<and> (is_digit c \<or> c = CHR ''-'')"
proof (cases s)
  case Nil
  then show "number_of s = Some j \<Longrightarrow> ?thesis" by (simp add: number_of_def digits1_def)
next
  case (Cons c r)
  have "digits1 (c # r) = None" if "\<not> is_digit c" using that by (simp add: digits1_def)
  then show "number_of s = Some j \<Longrightarrow> ?thesis" using Cons
    by (cases "c = CHR ''-''"; cases "is_digit c") (simp_all add: number_of_def)
qed

lemma number_start_char:
  "is_digit c \<or> c = CHR ''-'' \<Longrightarrow>
   \<not> is_ws c \<and> c \<notin> {CHR 0x22, CHR ''['', CHR ''{'', CHR '']'', CHR ''}'', CHR ''n'', CHR ''t'', CHR ''f''}"
  by (auto simp: is_ws_def is_digit_def)

lemma takeWhile_number:
  assumes "list_all number_char s" "stops r"
  shows "takeWhile number_char (s @ r) = s" "dropWhile number_char (s @ r) = r"
  using assms by (cases r; auto simp: list_all_iff stops_def)+

lemma parse_number:
  assumes "number_of s = Some j" "list_all number_char s" "stops r"
  shows "parse_value (Suc n) (s @ r) = Some (j, r)"
proof -
  obtain c t where s: "s = c # t" "is_digit c \<or> c = CHR ''-''" using number_of_start [OF assms(1)] by blast
  note c = number_start_char [OF s(2)]
  have "skip_ws (s @ r) = s @ r" using c s(1) by (simp add: skip_ws_def)
  moreover have "parse_value (Suc n) (c # t @ r) = Some (j, r)"
    using c takeWhile_number [OF assms(2,3)] assms(1) s(1) by (auto simp: skip_ws_def)
  ultimately show ?thesis using s(1) by simp
qed

lemma Marshal_start:
  "numbers_ok j \<Longrightarrow> \<exists>c t. Marshal j = c # t \<and> \<not> is_ws c \<and> c \<noteq> CHR '']'' \<and> c \<noteq> CHR ''}''"
proof (cases j)
  case (JInt n)
  then show ?thesis using number_of_start [OF number_of_Itoa [of n]] number_start_char by auto
next
  case (JLit s)
  assume "numbers_ok j"
  then show ?thesis using JLit number_of_start [of s "JLit s"] number_start_char by (auto simp: literal_ok_def)
qed (auto simp: is_ws_def quote_def)

lemma skip_ws_Marshal: "numbers_ok j \<Longrightarrow> skip_ws (Marshal j @ r) = Marshal j @ r"
  using Marshal_start [of j] by (auto simp: skip_ws_def)

lemma stops_comma [simp]: "stops (CHR '','' # r)" "stops (CHR '']'' # r)" "stops (CHR ''}'' # r)" "stops []"
  by (simp_all add: stops_def number_char_def is_digit_def)

definition parses :: "json \<Rightarrow> bool" where
  "parses j \<longleftrightarrow> (\<forall>n r. 2 * length (Marshal j) \<le> n \<longrightarrow> stops r \<longrightarrow> parse_value n (Marshal j @ r) = Some (j, r))"

lemma parsesD: "parses j \<Longrightarrow> 2 * length (Marshal j) \<le> n \<Longrightarrow> stops r \<Longrightarrow> parse_value n (Marshal j @ r) = Some (j, r)"
  by (simp add: parses_def)

lemma parsesI:
  assumes "Marshal j \<noteq> []" "\<And>m r. stops r \<Longrightarrow> parse_value (Suc m) (Marshal j @ r) = Some (j, r)"
  shows "parses j"
  unfolding parses_def
proof (intro allI impI)
  fix n r assume n: "2 * length (Marshal j) \<le> n" and r: "stops r"
  have "0 < length (Marshal j)" using assms(1) by simp
  then obtain m where "n = Suc m" using n by (cases n) simp_all
  then show "parse_value n (Marshal j @ r) = Some (j, r)" using assms(2) [OF r] by simp
qed

lemma parse_elems_Join:
  assumes "xs \<noteq> []" "\<And>x. x \<in> set xs \<Longrightarrow> parses x"
    and "2 * (length (Join '','' (map Marshal xs)) + 1) \<le> n"
  shows "parse_elems n (Join '','' (map Marshal xs) @ CHR '']'' # r) = Some (xs, r)"
  using assms
proof (induction xs arbitrary: n)
  case (Cons x xs)
  show ?case
  proof (cases xs)
    case Nil
    then obtain m where n: "n = Suc m" "2 * length (Marshal x) \<le> m" using Cons.prems(3) by (cases n) auto
    then show ?thesis using Nil parsesD [of x m "CHR '']'' # r"] Cons.prems(2)
      by (simp add: skip_ws_def is_ws_def)
  next
    case (Cons y ys)
    let ?J = "Join '','' (map Marshal xs)"
    have J: "Join '','' (map Marshal (x # xs)) = Marshal x @ '','' @ ?J" using Cons by simp
    then obtain m where n: "n = Suc m" "2 * length (Marshal x) \<le> m" "2 * (length ?J + 1) \<le> m"
      using Cons.prems(3) by (cases n) auto
    have "parse_elems m (?J @ CHR '']'' # r) = Some (xs, r)"
      using Cons.IH [of m] Cons Cons.prems(2) n(3) by simp
    then show ?thesis unfolding J n(1)
      using parsesD [of x m "CHR '','' # ?J @ CHR '']'' # r"] Cons.prems(2) n(2)
      by (simp add: skip_ws_def is_ws_def)
  qed
qed simp

definition member_text :: "string \<times> json \<Rightarrow> string" where
  "member_text kv = quote (fst kv) @ '':'' @ Marshal (snd kv)"

lemma parse_members_Join:
  assumes "kvs \<noteq> []" "\<And>kv. kv \<in> set kvs \<Longrightarrow> parses (snd kv)"
    and "2 * (length (Join '','' (map member_text kvs)) + 1) \<le> n"
  shows "parse_members n (Join '','' (map member_text kvs) @ CHR ''}'' # r) = Some (kvs, r)"
  using assms
proof (induction kvs arbitrary: n)
  case (Cons kv kvs)
  obtain k v where kv: "kv = (k, v)" by (cases kv)
  have pv: "parses v" using Cons.prems(2) [of kv] by (simp add: kv)
  have str: "parse_str (concat (map escape_char k) @ CHR 0x22 # t) = Some (k, t)" for t
    by (rule parse_str_quote)
  show ?case
  proof (cases kvs)
    case Nil
    then obtain m where n: "n = Suc m" "2 * length (Marshal v) \<le> m"
      using Cons.prems(3) by (cases n) (auto simp: member_text_def kv)
    then show ?thesis using Nil parsesD [OF pv, of m "CHR ''}'' # r"]
      by (simp add: skip_ws_def is_ws_def member_text_def kv quote_def str)
  next
    case (Cons y ys)
    let ?J = "Join '','' (map member_text kvs)"
    have J: "Join '','' (map member_text (kv # kvs)) = member_text kv @ '','' @ ?J" using Cons by simp
    moreover have "length (Marshal v) < length (member_text kv)" by (simp add: member_text_def kv)
    ultimately obtain m where n: "n = Suc m" "2 * length (Marshal v) \<le> m" "2 * (length ?J + 1) \<le> m"
      using Cons.prems(3) by (cases n) simp_all
    have "parse_members m (?J @ CHR ''}'' # r) = Some (kvs, r)"
      using Cons.IH [of m] Cons Cons.prems(2) n(3) by simp
    then show ?thesis unfolding J n(1)
      using parsesD [OF pv, of m "CHR '','' # ?J @ CHR ''}'' # r"] n(2)
      by (simp add: skip_ws_def is_ws_def member_text_def kv quote_def str)
  qed
qed simp

lemma Marshal_obj: "Marshal (JObj kvs) = ''{'' @ Join '','' (map member_text kvs) @ ''}''"
  by (simp add: member_text_def case_prod_unfold cong: map_cong)

lemma Join_start:
  "xs \<noteq> [] \<Longrightarrow> (\<exists>c t. hd xs = c # t \<and> P c) \<Longrightarrow> \<exists>c t. Join sep xs = c # t \<and> P c"
  by (cases "(sep, xs)" rule: Join.cases) auto

lemma parses_Marshal: "numbers_ok j \<Longrightarrow> parses j"
proof (induction j rule: Marshal.induct)
  case (6 xs)
  show ?case unfolding parses_def
  proof (intro allI impI)
    fix n r assume n: "2 * length (Marshal (JArr xs)) \<le> n"
    obtain m where m: "n = Suc m" using n by (cases n) simp_all
    show "parse_value n (Marshal (JArr xs) @ r) = Some (JArr xs, r)"
    proof (cases "xs = []")
      case True
      then show ?thesis by (simp add: m skip_ws_def is_ws_def)
    next
      case False
      let ?J = "Join '','' (map Marshal xs)"
      have "parse_elems m (?J @ CHR '']'' # r) = Some (xs, r)"
        by (rule parse_elems_Join [OF False]) (use 6 n m in \<open>auto simp: list_all_iff\<close>)
      moreover have "\<exists>c t. ?J = c # t \<and> \<not> is_ws c \<and> c \<noteq> CHR '']''"
        by (rule Join_start) (use False Marshal_start [of "hd xs"] 6 in \<open>auto simp: list_all_iff hd_map\<close>)
      ultimately show ?thesis by (auto simp: m skip_ws_def is_ws_def)
    qed
  qed
next
  case (7 kvs)
  show ?case unfolding parses_def Marshal_obj
  proof (intro allI impI)
    let ?J = "Join '','' (map member_text kvs)"
    fix n r assume n: "2 * length (''{'' @ ?J @ ''}'') \<le> n"
    obtain m where m: "n = Suc m" using n by (cases n) simp_all
    show "parse_value n ((''{'' @ ?J @ ''}'') @ r) = Some (JObj kvs, r)"
    proof (cases "kvs = []")
      case True
      then show ?thesis by (simp add: m skip_ws_def is_ws_def)
    next
      case False
      have "parses (snd kv)" if "kv \<in> set kvs" for kv
        using 7 that by (cases kv) (auto simp: list_all_iff)
      then have "parse_members m (?J @ CHR ''}'' # r) = Some (kvs, r)"
        by (rule parse_members_Join [OF False]) (use n m in simp_all)
      moreover have "\<exists>c t. ?J = c # t \<and> c = CHR 0x22"
        by (rule Join_start) (use False in \<open>auto simp: hd_map member_text_def quote_def\<close>)
      ultimately show ?thesis by (auto simp: m skip_ws_def is_ws_def)
    qed
  qed
next
  case (3 k)
  show ?case
    by (rule parsesI) (use number_of_start [OF number_of_Itoa [of k]]
        parse_number [OF number_of_Itoa [of k] Itoa_number_chars [of k]] in auto)
next
  case (4 s)
  have s: "number_of s = Some (JLit s)" "list_all number_char s" using 4 by (simp_all add: literal_ok_def)
  show ?case by (rule parsesI) (use number_of_start [OF s(1)] parse_number [OF s] in auto)
next
  case (5 s)
  show ?case by (rule parsesI) (simp_all add: quote_def skip_ws_def is_ws_def parse_str_quote)
next
  case 1
  show ?case by (rule parsesI) (simp_all add: skip_ws_def is_ws_def)
next
  case (2 b)
  show ?case by (rule parsesI; cases b) (simp_all add: skip_ws_def is_ws_def)
qed

text \<open>
  What the program encodes decodes to the same value: strings with every byte, integers of any
  size, nested arrays and objects; into an \<open>interface{}\<close> it decodes to that value with the
  members of every object in the order of their keys and the last of equal keys kept.
\<close>

lemma json_roundtrip:
  assumes "numbers_ok j"
  shows "parse_json (Marshal j) = Some j \<and> Unmarshal (Marshal j) = Some (go_map j)"
proof -
  have "parse_value (2 * length (Marshal j) + 2) (Marshal j @ []) = Some (j, [])"
    by (rule parsesD [OF parses_Marshal [OF assms]]) simp_all
  then have "parse_json (Marshal j) = Some j" by (simp add: parse_json_def skip_ws_def)
  then show ?thesis by (simp add: Unmarshal_def)
qed

end
