(* ===== verification/Realtime_Props.thy ===== *)
theory Realtime_Props
  imports Realtime Json_Props
begin

text \<open>What a connection proves, what a client's messages can do, and the full hub.\<close>

lemma ValidateConnect_ok:
  assumes "run_state (ValidateConnect AppRepo rbac uid gid aid) w = (Inr inp, w')"
  shows "uid \<noteq> uuid_nil \<and> gid \<noteq> uuid_nil \<and> inp = \<lparr>in_UserID = uid, in_OrganizationID = gid, in_AppID = aid\<rparr> \<and>
    (\<exists>app \<in> set (apps w). a_ID app = aid \<and> a_OrganizationID app = gid \<and> App_IsActive app) \<and>
    run_state (rb_HasPermission rbac uid gid ''app:read'') (tick_world w) = (Inr True, w')"
  using assms
  by (auto simp: ValidateConnect_def AppRepo_def AppRepo_GetByID_def App_IsActive_def find_Some_iff
      split: if_splits sum.splits prod.splits option.splits)

lemma Hub_Register_info:
  assumes "Hub_Register U info send g = Some (unreg, g')" "\<not> h_closed g" "\<not> h_max g \<le> int (length (h_clients g))"
  shows "\<exists>r < length (h_objs g'). map_of (h_clients g') (ci_ID info) = Some r \<and> c_info (h_objs g' ! r) = info"
  using assms by (intro exI [of _ "length (h_objs g)"])
    (auto simp: Hub_Register_def Let_def client_subscribe_def set_obj_def nth_append split: sum.splits)

lemma try_send_objs: "try_send i p g = Some g' \<Longrightarrow> h_objs g' = h_objs g \<and> h_clients g' = h_clients g"
  by (auto simp: try_send_def Let_def split: if_splits)

text \<open>On a full hub the channel is closed before the welcome message is sent.\<close>

lemma Connect_open_full:
  "\<not> h_closed h \<Longrightarrow> h_max h \<le> int (length (h_clients h)) \<Longrightarrow> Connect_open U inp (w, h) = None"
  by (simp add: Connect_open_def make_chan_def Hub_Register_def close_chan_def Session_Start_def try_send_def
      NewControlMessage_def run_state_bind)

lemma Connect_open_info:
  assumes "Connect_open U inp (w, h) = Some (Connected cid obj unreg, w', h')" "\<not> h_closed h"
  shows "GetClientInfo cid h' = Some \<lparr>ci_ID = cid, ci_UserID = in_UserID inp,
      ci_OrganizationID = in_OrganizationID inp, ci_AppID = in_AppID inp\<rparr>"
proof -
  have room: "\<not> h_max h \<le> int (length (h_clients h))" using Connect_open_full assms by fastforce
  let ?cid = "uuid_str U (env_uuid (environ w) (tick w))"
  let ?info = "\<lparr>ci_ID = ?cid, ci_UserID = in_UserID inp,
      ci_OrganizationID = in_OrganizationID inp, ci_AppID = in_AppID inp\<rparr>"
  let ?h = "snd (make_chan 64 h)" and ?i = "length (h_chans h)"
  obtain un g where g: "Hub_Register U ?info ?i ?h = Some (un, g)"
    using assms(1) by (auto simp: Connect_open_def make_chan_def Let_def split: option.splits)
  from Hub_Register_info [OF this] assms(2) room
  obtain r where r: "r < length (h_objs g)" "map_of (h_clients g) ?cid = Some r" "c_info (h_objs g ! r) = ?info"
    by (auto simp: make_chan_def)
  have "cid = ?cid \<and> (\<exists>p. try_send ?i p (snd (Session_Start ?cid ?i g)) = Some h')"
    using assms(1) g by (auto simp: Connect_open_def make_chan_def Session_Start_def Let_def split: prod.splits)
  then show ?thesis using r try_send_objs
    by (fastforce simp: GetClientInfo_def Session_Start_def nth_append)
qed

text \<open>
  A WebSocket connection is only opened for a token the service accepts, for an app that is
  stored, active and of the organization the request resolves to, and for a user who has the
  permission \<open>app:read\<close> there; unless the hub is shut down, the client is then registered with
  exactly the user of the token, that organization and that app.
\<close>

theorem connect_sound:
  assumes "Connect U H c r (w, h) = Some (Connected cid obj unreg, w', h')" and "rh_appRepo H = AppRepo"
  shows "\<exists>claims w1 gid app w2.
    run_state (auth_ValidateToken (rh_auth H) (ExtractBearerToken r)) w = (Inr claims, w1) \<and>
    gid = resolveOrgID U r c (c_OrganizationID claims) \<and> gid \<noteq> uuid_nil \<and> c_UserID claims \<noteq> uuid_nil \<and>
    uuid_parse U (rq_header r ''X-App-ID'') = Some (a_ID app) \<and> app \<in> set (apps w1) \<and>
    a_OrganizationID app = gid \<and> App_IsActive app \<and>
    run_state (rb_HasPermission (rh_rbac H) (c_UserID claims) gid ''app:read'') (tick_world w1) = (Inr True, w2) \<and>
    rh_upgrade H r \<and>
    (\<not> h_closed h \<longrightarrow> GetClientInfo cid h' =
       Some \<lparr>ci_ID = cid, ci_UserID = c_UserID claims, ci_OrganizationID = gid, ci_AppID = a_ID app\<rparr>)"
proof -
  let ?token = "ExtractBearerToken r"
  obtain res w1 where w1: "run_state (auth_ValidateToken (rh_auth H) ?token) w = (res, w1)" by fastforce
  obtain claims where claims: "res = Inr claims" using assms(1) w1
    by (auto simp: Connect_def Let_def split: if_splits sum.splits)
  let ?gid = "resolveOrgID U r c (c_OrganizationID claims)"
  obtain aid where aid: "ParseAppHeader U (rq_header r ''X-App-ID'') = Inr aid" using assms(1) w1 claims
    by (auto simp: Connect_def Let_def split: if_splits sum.splits)
  obtain vres w2 where w2: "run_state (ValidateConnect AppRepo (rh_rbac H) (c_UserID claims) ?gid aid) w1 = (vres, w2)"
    by fastforce
  obtain inp where inp: "vres = Inr inp" using assms w1 claims aid w2
    by (auto simp: Connect_def Let_def split: if_splits sum.splits)
  have up: "rh_upgrade H r" and op: "Connect_open U inp (w2, h) = Some (Connected cid obj unreg, w', h')"
    using assms w1 claims aid w2 inp by (auto simp: Connect_def Let_def split: if_splits)
  note V = ValidateConnect_ok [OF w2 [unfolded inp]]
  have parse: "uuid_parse U (rq_header r ''X-App-ID'') = Some aid"
    using aid by (auto simp: ParseAppHeader_def split: if_splits option.splits)
  note info = Connect_open_info [OF op]
  have app: "\<exists>app \<in> set (apps w1). a_ID app = aid \<and> a_OrganizationID app = ?gid \<and> App_IsActive app" using V by blast
  then obtain app where app: "app \<in> set (apps w1)" "a_ID app = aid" "a_OrganizationID app = ?gid" "App_IsActive app"
    by blast
  have inp': "inp = \<lparr>in_UserID = c_UserID claims, in_OrganizationID = ?gid, in_AppID = aid\<rparr>" using V by blast
  show ?thesis
    by (intro exI [of _ claims] exI [of _ w1] exI [of _ ?gid] exI [of _ app] exI [of _ w2] conjI impI)
      (use w1 claims V parse up app info in \<open>simp_all add: inp'\<close>)
qed

text \<open>
  A connection that passes every check of a hub that is full panics: \<open>Register\<close> closes the
  channel it was given, reports nothing, and the handler sends its welcome message on it.
\<close>

theorem connect_full_panics:
  assumes "rh_enabled H" and "ExtractBearerToken r \<noteq> []"
    and "run_state (auth_ValidateToken (rh_auth H) (ExtractBearerToken r)) w = (Inr claims, w1)"
    and "ParseAppHeader U (rq_header r ''X-App-ID'') = Inr aid"
    and "run_state (ValidateConnect (rh_appRepo H) (rh_rbac H) (c_UserID claims)
           (resolveOrgID U r c (c_OrganizationID claims)) aid) w1 = (Inr inp, w2)"
    and "rh_upgrade H r" and "\<not> h_closed h" and "h_max h \<le> ConnectionCount h"
  shows "Connect U H c r (w, h) = None"
  using assms Connect_open_full [of h U inp w2] by (simp add: Connect_def ConnectionCount_def)

text \<open>A client, an app and a token for the witnesses.\<close>

definition open_service :: AuthService where
  "open_service =
     \<lparr>auth_HashPassword = (\<lambda>p. ok p), auth_VerifyPassword = (\<lambda>h p. None), auth_GenerateToken = (\<lambda>c. ok ''t''),
      auth_ValidateToken = (\<lambda>t. ok \<lparr>c_UserID = 7, c_Email = [], c_OrganizationID = 3, c_Roles = [], c_Permissions = []\<rparr>)\<rparr>"

definition open_rbac :: RBACService where
  "open_rbac =
     \<lparr>rb_HasPermission = (\<lambda>u g p. ok True), rb_HasAnyPermission = (\<lambda>u g ps. ok True),
      rb_GetUserPermissions = (\<lambda>u g. ok [''*'']), rb_InvalidateCache = (\<lambda>u g. ok ())\<rparr>"

definition open_handler :: realtime_Handler where
  "open_handler =
     \<lparr>rh_appRepo = AppRepo, rh_rbac = open_rbac, rh_auth = open_service, rh_upgrade = originChecker [],
      rh_enabled = True\<rparr>"

definition ws_request :: request where
  "ws_request = demo_request\<lparr>rq_header := (\<lambda>k. if k = ''X-App-ID'' then uuid_str demo_uuid 5 else
     if k = ''Authorization'' then ''Bearer abc'' else [])\<rparr>"

definition ws_world :: world where
  "ws_world = (empty_world calm)\<lparr>apps := [\<lparr>a_ID = 5, a_OrganizationID = 3, a_Name = ''shop'', a_Slug = ''shop'',
     a_Status = AppStatusActive, a_SLATier = [], a_RateLimitPolicy = None, a_CreatedAt = 0, a_UpdatedAt = 0\<rparr>]\<rparr>"

lemma ws_world_validates:
  "run_state (ValidateConnect AppRepo open_rbac 7 3 5) ws_world =
     (Inr \<lparr>in_UserID = 7, in_OrganizationID = 3, in_AppID = 5\<rparr>, tick_world ws_world)"
  by (simp add: ValidateConnect_def AppRepo_def AppRepo_GetByID_def ws_world_def empty_world_def calm_def
      next_fault_def open_rbac_def App_IsActive_def)

lemma ws_token: "ExtractBearerToken ws_request = ''abc''"
proof -
  have "TrimSpace [] = []" "TrimSpace ''abc'' = ''abc''"
    by (rule TrimSpace_id, simp add: space_bytes_def go_spaces_def)+
  moreover have "bearer ''Bearer abc'' = Some ''abc''" by code_simp
  ultimately show ?thesis by (simp add: ExtractBearerToken_def ws_request_def demo_request_def)
qed

lemma ws_app: "ParseAppHeader demo_uuid (rq_header ws_request ''X-App-ID'') = Inr 5"
  using uuid_parse_str [OF demo_uuid_ok, of 5] uuid_str_nonempty [OF demo_uuid_ok, of 5]
  by (simp add: ParseAppHeader_def ws_request_def)

lemma ws_org: "resolveOrgID demo_uuid ws_request background 3 = 3"
  by (simp add: resolveOrgID_def ws_request_def)

theorem connect_full_panics_witness:
  "\<exists>h. run_hub demo_uuid [OpConnect demo_info] (NewHub 1) = Some h \<and>
     Connect demo_uuid open_handler background ws_request (ws_world, h) = None"
proof -
  obtain h where h: "run_hub demo_uuid [OpConnect demo_info] (NewHub 1) = Some h" "hub_inv demo_uuid h"
      "(h_closed h, hub_abs h) = (False, [''c1'' \<mapsto> (demo_info, {demo_room})])" "h_max h = 1"
    using hub_op_step [OF demo_uuid_ok hub_inv_NewHub, of "OpConnect demo_info" 1]
    by (auto simp: ids_of_def NewHub_def demo_info_def demo_room_def hub_abs_def run_hub_def
        simp del: run_hub_op.simps)
  then have "length (h_clients h) = 1" using card_clients [OF hub_invD(1) [OF h(2)]] by simp
  then have full: "\<not> h_closed h" "h_max h \<le> ConnectionCount h" using h(3,4) by (simp_all add: ConnectionCount_def)
  have "Connect demo_uuid open_handler background ws_request (ws_world, h) = None"
    by (rule connect_full_panics [where claims = "\<lparr>c_UserID = 7, c_Email = [], c_OrganizationID = 3, c_Roles = [],
          c_Permissions = []\<rparr>" and ?w1.0 = ws_world and aid = 5, OF _ _ _ ws_app _ _ full])
      (simp_all add: open_handler_def ws_token open_service_def ws_org ws_world_validates originChecker_def)
  then show ?thesis using h(1) by blast
qed

theorem connect_sound_witness:
  "\<exists>cid obj unreg w' h'. Connect demo_uuid open_handler background ws_request (ws_world, NewHub 1) =
     Some (Connected cid obj unreg, w', h') \<and>
     GetClientInfo cid h' = Some \<lparr>ci_ID = cid, ci_UserID = 7, ci_OrganizationID = 3, ci_AppID = 5\<rparr>"
proof -
  let ?inp = "\<lparr>in_UserID = 7, in_OrganizationID = 3, in_AppID = 5\<rparr>"
  have "Connect demo_uuid open_handler background ws_request (ws_world, NewHub 1) =
      Connect_open demo_uuid ?inp (tick_world ws_world, NewHub 1)"
    using ws_app by (simp add: Connect_def open_handler_def ws_token open_service_def ws_org ws_world_validates
        originChecker_def)
  moreover have "\<exists>cid obj unreg w' h'. Connect_open demo_uuid ?inp (tick_world ws_world, NewHub 1) =
      Some (Connected cid obj unreg, w', h')"
    by (simp add: Connect_open_def make_chan_def Hub_Register_def NewHub_def Session_Start_def try_send_def Let_def
        NewControlMessage_def run_state_bind split: sum.splits)
  ultimately obtain cid obj unreg w' h' where
    c: "Connect demo_uuid open_handler background ws_request (ws_world, NewHub 1) = Some (Connected cid obj unreg, w', h')"
    by auto
  have "rh_appRepo open_handler = AppRepo" by (simp add: open_handler_def)
  from connect_sound [OF c this] obtain claims w1 gid and app :: App where k:
    "run_state (auth_ValidateToken (rh_auth open_handler) (ExtractBearerToken ws_request)) ws_world = (Inr claims, w1)"
    "gid = resolveOrgID demo_uuid ws_request background (c_OrganizationID claims)"
    "uuid_parse demo_uuid (rq_header ws_request ''X-App-ID'') = Some (a_ID app)"
    "\<not> h_closed (NewHub 1) \<longrightarrow> GetClientInfo cid h' =
       Some \<lparr>ci_ID = cid, ci_UserID = c_UserID claims, ci_OrganizationID = gid, ci_AppID = a_ID app\<rparr>"
    by blast
  have "c_OrganizationID claims = 3" "c_UserID claims = 7" using k(1) by (auto simp: open_handler_def open_service_def)
  moreover have "uuid_parse demo_uuid (rq_header ws_request ''X-App-ID'') = Some 5"
    using uuid_parse_str [OF demo_uuid_ok, of 5] by (simp add: ws_request_def)
  ultimately have "GetClientInfo cid h' =
       Some \<lparr>ci_ID = cid, ci_UserID = 7, ci_OrganizationID = 3, ci_AppID = 5\<rparr>"
    using k(2-4) by (simp add: ws_org NewHub_def)
  then show ?thesis using c by blast
qed

section \<open>The messages of a client\<close>

definition confined :: "uuid_api \<Rightarrow> string \<Rightarrow> Hub \<Rightarrow> (world \<times> Hub) option \<Rightarrow> bool" where
  "confined U cid h r \<longleftrightarrow>
     (\<exists>w' h'. r = Some (w', h') \<and> hub_inv U h' \<and>
        (\<forall>k. k \<noteq> cid \<longrightarrow> hub_abs h' k = hub_abs h k \<and> inbox h' k = inbox h k))"

lemma confined_refl: "hub_inv U h \<Longrightarrow> confined U cid h (Some (w, h))"
  by (auto simp: confined_def)

lemma sendControl_confined:
  assumes "hub_inv U h"
  shows "confined U cid h (sendControl cid ty chan m (w, h))"
proof -
  obtain msg w1 where msg: "run_state (NewControlMessage ty chan m) w = (msg, w1)" by fastforce
  let ?p = "Marshal (OutboundMessage_json msg)"
  let ?A = "{c_send (h_objs h ! r) | r. map_of (h_clients h) cid = Some r}"
  let ?h = "h\<lparr>h_chans := push_all ?p ?A (h_chans h)\<rparr>"
  note H = heap_wfD [OF hub_invD(1) [OF assms]]
  have "inbox ?h k = inbox h k" if "k \<noteq> cid" for k
  proof -
    have "c_send (h_objs h ! r) \<notin> ?A" if "map_of (h_clients h) k = Some r" for r
      using H(1,2) [OF that] H(1,2,8) \<open>k \<noteq> cid\<close> by fastforce
    then show ?thesis unfolding inbox_push [OF assms] by auto
  qed
  then show ?thesis using SendToClient_result [OF assms, of cid ?p] push_all_hub_inv [OF assms] msg
    by (simp add: confined_def sendControl_def)
qed

lemma confined_then:
  assumes "hub_inv U h'" "\<And>k. k \<noteq> cid \<Longrightarrow> hub_abs h' k = hub_abs h k \<and> inbox h' k = inbox h k" "confined U cid h' r"
  shows "confined U cid h r"
  using assms unfolding confined_def by metis

lemma inbox_same:
  assumes "heap_wf h" "h_clients h' = h_clients h" "h_chans h' = h_chans h"
    "map c_send (h_objs h') = map c_send (h_objs h)"
  shows "inbox h' = inbox h"
proof
  fix k
  have "c_send (h_objs h' ! r) = c_send (h_objs h ! r)" if "map_of (h_clients h) k = Some r" for r
    using map_eq_nth [OF assms(4)] heap_wfD(1) [OF assms(1) that] by blast
  then show "inbox h' k = inbox h k" using assms(2,3) by (auto simp: inbox_def intro!: option.map_cong)
qed

lemma Subscribe_inbox:
  assumes "heap_wf h"
  shows "inbox (snd (Subscribe U cid chan h)) = inbox h" "inbox (snd (Unsubscribe U cid chan h)) = inbox h"
proof -
  have "inbox (addToRoomLocked U r room h) = inbox h" "inbox (removeFromRoomLocked U r room h) = inbox h" for r room
    by (rule inbox_same [OF assms]; simp add: client_subscribe_def removeFromRoomLocked_def
        client_unsubscribe_def set_obj_def map_list_update_same)+
  then show "inbox (snd (Subscribe U cid chan h)) = inbox h" "inbox (snd (Unsubscribe U cid chan h)) = inbox h"
    by (simp_all add: Subscribe_def Unsubscribe_def Let_def split: option.splits sum.splits)
qed

lemma Subscribe_confined:
  assumes U: "uuid_api_ok U" and inv: "hub_inv U h"
    and h': "h' = snd (Subscribe U cid chan h) \<or> h' = snd (Unsubscribe U cid chan h)"
  shows "hub_inv U h'" "k \<noteq> cid \<Longrightarrow> hub_abs h' k = hub_abs h k \<and> inbox h' k = inbox h k"
proof -
  obtain opn where opn: "run_hub_op U opn h = Some h'" "opn = OpSubscribe cid chan \<or> opn = OpUnsubscribe cid chan"
    using h' by (metis run_hub_op.simps(3,4))
  then have "set (connects [opn]) \<inter> ids_of h = {}" by auto
  from hub_op_step [OF U inv this] opn
  show "hub_inv U h'" "k \<noteq> cid \<Longrightarrow> hub_abs h' k = hub_abs h k \<and> inbox h' k = inbox h k"
    using Subscribe_inbox [OF hub_invD(1) [OF inv], of U cid chan] h'
    by (auto split: option.splits sum.splits)
qed

lemma confined_after:
  assumes "uuid_api_ok U" and "hub_inv U h"
    and "h' = snd (Subscribe U cid chan h) \<or> h' = snd (Unsubscribe U cid chan h)" and "confined U cid h' r"
  shows "confined U cid h r"
  by (rule confined_then [OF Subscribe_confined(1) [OF assms(1-3)] Subscribe_confined(2) [OF assms(1-3)] assms(4)])



section \<open>The protocol\<close>

definition InboundMessage_json :: "string \<Rightarrow> string \<Rightarrow> json" where
  "InboundMessage_json action chan = JObj ((''action'', JStr action) # omit ''channel'' chan)"

lemma field_names [simp]: "EqualFold ''action'' ''action''" "EqualFold ''channel'' ''channel''"
    "\<not> EqualFold ''channel'' ''action''" "\<not> EqualFold ''action'' ''channel''"
  by code_simp+



end
