(* ===== verification/Interceptors.thy ===== *)
theory Interceptors
  imports Json Http
begin

text \<open>
  The interceptors of the gateway (\<open>internal/infrastructure/gateway/interceptors\<close>) and the chain
  that runs them (\<open>internal/domain/gateway/interceptor.go\<close>). An interceptor gets the context that
  the pipeline has put into the request. A JSON schema is checked by \<open>gojsonschema\<close>, which is not
  part of the repository: \<open>schema_check\<close> gives the texts of the violations, or its own error. The
  text of a decoding error of \<open>encoding/json\<close> is not modelled, nor is the \<open>Status\<close> line of a
  response, which nothing reads.
\<close>

section \<open>Bodies and headers\<close>

text \<open>
  \<open>io.ReadAll(io.LimitReader(req.Body, n))\<close>: the bytes and the request with the rest of its body.
  A body whose size \<open>http.MaxBytesReader\<close> limits below \<open>n\<close> gives an error where it is longer.
\<close>

definition maxInterceptorBodySize :: nat where
  "maxInterceptorBodySize = 1048576"

definition read_all :: "nat \<Rightarrow> request \<Rightarrow> goerr + (string \<times> request)" where
  "read_all n r =
     (case rq_max r of
        None \<Rightarrow> Inr (take n (rq_body r), r\<lparr>rq_body := drop n (rq_body r)\<rparr>)
      | Some l \<Rightarrow>
          if l < n \<and> l < length (rq_body r) then Inl (Plain ''http: request body too large'')
          else Inr (take n (rq_body r),
            r\<lparr>rq_body := drop n (rq_body r), rq_max := Some (l - length (take n (rq_body r)))\<rparr>))"

definition set_body :: "string \<Rightarrow> request \<Rightarrow> request" where
  "set_body b r = r\<lparr>rq_body := b, rq_max := None\<rparr>"

text \<open>Two names of the same header: their canonical forms agree.\<close>

definition token_char :: "char \<Rightarrow> bool" where
  "token_char c \<longleftrightarrow> is_upper c \<or> is_lower c \<or> is_digit c \<or> c \<in> set (CHR 0x27 # CHR 0x60 # ''!#$%&*+-.^_|~'')"

definition same_header :: "string \<Rightarrow> string \<Rightarrow> bool" where
  "same_header a b \<longleftrightarrow> a = b \<or> (list_all token_char a \<and> list_all token_char b \<and> EqualFold a b)"

definition Header_Set :: "string \<Rightarrow> string \<Rightarrow> request \<Rightarrow> request" where
  "Header_Set name v r = r\<lparr>rq_header := (\<lambda>n. if same_header name n then v else rq_header r n)\<rparr>"

definition Query_Set :: "string \<Rightarrow> string \<Rightarrow> request \<Rightarrow> request" where
  "Query_Set key v r = r\<lparr>rq_query := (rq_query r)(key := v)\<rparr>"

text \<open>A response of a backend; the header maps names to lists of values.\<close>

record backend_response =
  br_StatusCode :: int
  br_Header :: "(string \<times> string list) list"
  br_Body :: string

definition Response_Set :: "string \<Rightarrow> string \<Rightarrow> backend_response \<Rightarrow> backend_response" where
  "Response_Set name v x =
     x\<lparr>br_Header := filter (\<lambda>(k, _). \<not> same_header name k) (br_Header x) @ [(name, [v])]\<rparr>"

text \<open>\<open>strings.ReplaceAll\<close>, for a text to replace that is not empty.\<close>

function ReplaceAll :: "string \<Rightarrow> string \<Rightarrow> string \<Rightarrow> string" where
  "ReplaceAll s old new =
     (case s of
        [] \<Rightarrow> []
      | c # cs \<Rightarrow> if old \<noteq> [] \<and> prefix old s then new @ ReplaceAll (drop (length old) s) old new
                  else c # ReplaceAll cs old new)"
  by pat_completeness auto
termination
proof (relation "measure (\<lambda>(s, _, _). length s)", goal_cases)
  case (2 s old new c cs)
  then show ?case by (cases old) auto
qed auto

declare ReplaceAll.simps [simp del]

definition replace_if :: "string option \<Rightarrow> string \<Rightarrow> string \<Rightarrow> string" where
  "replace_if v var s = (case v of None \<Rightarrow> s | Some x \<Rightarrow> ReplaceAll s var x)"

section \<open>Transformers\<close>

text \<open>The tables of a transformer are Go maps, given in the order in which a loop visits them.\<close>

record RequestTransformer =
  rt_header :: "(string \<times> string) list"
  rt_query :: "(string \<times> string) list"
  rt_body :: "(string \<Rightarrow> goerr + string) option"

definition transformTemplate :: "rctx \<Rightarrow> string \<Rightarrow> string" where
  "transformTemplate c s =
     replace_if (gw_AppID c) ''{app_id}''
       (replace_if (gw_UserID c) ''{user_id}'' (replace_if (gw_OrgID c) ''{org_id}'' s))"

definition RequestTransformer_InterceptRequest ::
  "RequestTransformer \<Rightarrow> rctx \<Rightarrow> request \<Rightarrow> goerr + request" where
  "RequestTransformer_InterceptRequest t c r =
     (let r = fold (\<lambda>(name, v). Header_Set name (transformTemplate c v)) (rt_header t) r;
          r = fold (\<lambda>(key, v). Query_Set key (transformTemplate c v)) (rt_query t) r
      in case rt_body t of
           None \<Rightarrow> Inr r
         | Some f \<Rightarrow>
             (case read_all maxInterceptorBodySize r of
                Inl e \<Rightarrow> Inl (Wrapped ''failed to read request body'' e)
              | Inr (body, r) \<Rightarrow>
                  if body = [] then Inr r
                  else case f body of
                      Inl e \<Rightarrow> Inl (Wrapped ''body transformation failed'' e)
                    | Inr b \<Rightarrow> Inr (set_body b r)))"

record ResponseTransformer =
  st_header :: "(string \<times> string) list"
  st_status :: "(int \<Rightarrow> int) option"
  st_body :: "(string \<Rightarrow> goerr + string) option"

definition Response_transformTemplate :: "rctx \<Rightarrow> backend_response \<Rightarrow> string \<Rightarrow> string" where
  "Response_transformTemplate c x s = ReplaceAll (transformTemplate c s) ''{status_code}'' (Itoa (br_StatusCode x))"

definition ResponseTransformer_InterceptResponse ::
  "ResponseTransformer \<Rightarrow> rctx \<Rightarrow> backend_response \<Rightarrow> goerr + backend_response" where
  "ResponseTransformer_InterceptResponse t c x =
     (let x = fold (\<lambda>(name, v) x. Response_Set name (Response_transformTemplate c x v) x) (st_header t) x;
          x = (case st_status t of None \<Rightarrow> x | Some f \<Rightarrow> x\<lparr>br_StatusCode := f (br_StatusCode x)\<rparr>)
      in case st_body t of
           None \<Rightarrow> Inr x
         | Some f \<Rightarrow>
             (let body = take maxInterceptorBodySize (br_Body x)
              in if body = [] then Inr x
                 else case f body of
                     Inl e \<Rightarrow> Inl (Wrapped ''body transformation failed'' e)
                   | Inr b \<Rightarrow> Inr (x\<lparr>br_Body := b\<rparr>)))"

section \<open>Validation against a schema\<close>

text \<open>\<open>json.Unmarshal\<close> into a \<open>map[string]interface{}\<close>: an object, or \<open>null\<close>, which gives the nil map.\<close>

definition unmarshal_map :: "string \<Rightarrow> json option" where
  "unmarshal_map s =
     (case Unmarshal s of Some (JObj kvs) \<Rightarrow> Some (JObj kvs) | Some JNull \<Rightarrow> Some JNull | _ \<Rightarrow> None)"

type_synonym schema_check = "json \<Rightarrow> string \<Rightarrow> goerr + string list"

definition body_method :: "string \<Rightarrow> bool" where
  "body_method m \<longleftrightarrow> m = ''POST'' \<or> m = ''PUT'' \<or> m = ''PATCH''"

definition SchemaValidator_InterceptRequest :: "schema_check \<Rightarrow> rctx \<Rightarrow> request \<Rightarrow> goerr + request" where
  "SchemaValidator_InterceptRequest check c r =
     (case gw_EndpointSchema c of
        None \<Rightarrow> Inr r
      | Some schemaJSON \<Rightarrow>
          if schemaJSON = [] \<or> \<not> body_method (rq_method r) then Inr r
          else case read_all maxInterceptorBodySize r of
              Inl e \<Rightarrow> Inl (Wrapped ''failed to read request body'' e)
            | Inr (body, r) \<Rightarrow>
                if body = [] then Inr r
                else case unmarshal_map schemaJSON of
                    None \<Rightarrow> Inl (Wrapped ''invalid schema JSON'' (Plain ''json error''))
                  | Some schema \<Rightarrow>
                      (case check schema body of
                         Inl e \<Rightarrow> Inl (Wrapped ''schema validation error'' e)
                       | Inr errs \<Rightarrow>
                           if errs \<noteq> [] then Inl (Plain (''validation failed: ['' @ Join '' '' errs @ '']''))
                           else Inr (set_body body r)))"

section \<open>Masking\<close>

text \<open>
  The pattern of a field is its name, quoted, without regard to the case of letters: for \<open>regexp\<close>
  the letters s and k also match the long s (U+017F) and the Kelvin sign (U+212A).
\<close>

fun fold_case :: "string \<Rightarrow> string" where
  "fold_case [] = []"
| "fold_case [c] = [lower_char c]"
| "fold_case [c, d] = (if c = CHR 0xC5 \<and> d = CHR 0xBF then ''s'' else lower_char c # fold_case [d])"
| "fold_case (c # d # e # cs) =
     (if c = CHR 0xC5 \<and> d = CHR 0xBF then CHR ''s'' # fold_case (e # cs)
      else if c = CHR 0xE2 \<and> d = CHR 0x84 \<and> e = CHR 0xAA then CHR ''k'' # fold_case cs
      else lower_char c # fold_case (d # e # cs))"

record PIIMasker =
  maskFields :: "string list"
  maskValue :: string

definition NewPIIMasker :: "string list \<Rightarrow> string \<Rightarrow> PIIMasker" where
  "NewPIIMasker names v = \<lparr>maskFields = names, maskValue = (if v = [] then ''***'' else v)\<rparr>"

definition masked_key :: "PIIMasker \<Rightarrow> string \<Rightarrow> bool" where
  "masked_key p key \<longleftrightarrow> (\<exists>f \<in> set (maskFields p). Contains (fold_case key) (fold_case f))"

text \<open>
  The loop assigns to the map it visits; the value of a key that matches is replaced, and the
  values of the others are masked where they are maps, or slices whose items are maps.
\<close>

fun mask_value :: "PIIMasker \<Rightarrow> json \<Rightarrow> json" where
  "mask_value p (JObj kvs) =
     JObj (map (\<lambda>(k, v). (k, if masked_key p k then JStr (maskValue p) else mask_value p v)) kvs)"
| "mask_value p (JArr xs) = JArr (map (\<lambda>x. case x of JObj _ \<Rightarrow> mask_value p x | _ \<Rightarrow> x) xs)"
| "mask_value p j = j"

definition maskMap :: "PIIMasker \<Rightarrow> (string \<times> json) list \<Rightarrow> (string \<times> json) list" where
  "maskMap p m = map (\<lambda>(k, v). (k, if masked_key p k then JStr (maskValue p) else mask_value p v)) m"

definition maskBody :: "PIIMasker \<Rightarrow> string \<Rightarrow> string" where
  "maskBody p body =
     (case unmarshal_map body of
        None \<Rightarrow> body
      | Some (JObj m) \<Rightarrow> Marshal (JObj (maskMap p m))
      | Some j \<Rightarrow> Marshal j)"

definition PIIMasker_InterceptRequest :: "PIIMasker \<Rightarrow> rctx \<Rightarrow> request \<Rightarrow> goerr + request" where
  "PIIMasker_InterceptRequest p c r =
     (if gw_PIIMasking c \<noteq> Some True \<or> \<not> body_method (rq_method r) then Inr r
      else case read_all maxInterceptorBodySize r of
          Inl e \<Rightarrow> Inl (Wrapped ''failed to read request body'' e)
        | Inr (body, r) \<Rightarrow> if body = [] then Inr r else Inr (set_body (maskBody p body) r))"

definition PIIMasker_InterceptResponse ::
  "PIIMasker \<Rightarrow> rctx \<Rightarrow> backend_response \<Rightarrow> goerr + backend_response" where
  "PIIMasker_InterceptResponse p c x =
     (if gw_PIIMasking c \<noteq> Some True then Inr x
      else let body = take maxInterceptorBodySize (br_Body x)
           in if body = [] then Inr x else Inr (x\<lparr>br_Body := maskBody p body\<rparr>))"

section \<open>The chain\<close>

record interceptor =
  ic_InterceptRequest :: "rctx \<Rightarrow> request \<Rightarrow> goerr + request"
  ic_InterceptResponse :: "rctx \<Rightarrow> backend_response \<Rightarrow> goerr + backend_response"

definition request_transformer :: "RequestTransformer \<Rightarrow> interceptor" where
  "request_transformer t =
     \<lparr>ic_InterceptRequest = RequestTransformer_InterceptRequest t, ic_InterceptResponse = (\<lambda>c x. Inr x)\<rparr>"

definition response_transformer :: "ResponseTransformer \<Rightarrow> interceptor" where
  "response_transformer t =
     \<lparr>ic_InterceptRequest = (\<lambda>c r. Inr r), ic_InterceptResponse = ResponseTransformer_InterceptResponse t\<rparr>"

definition schema_validator :: "schema_check \<Rightarrow> interceptor" where
  "schema_validator check =
     \<lparr>ic_InterceptRequest = SchemaValidator_InterceptRequest check, ic_InterceptResponse = (\<lambda>c x. Inr x)\<rparr>"

definition pii_masker :: "PIIMasker \<Rightarrow> interceptor" where
  "pii_masker p =
     \<lparr>ic_InterceptRequest = PIIMasker_InterceptRequest p, ic_InterceptResponse = PIIMasker_InterceptResponse p\<rparr>"

fun Chain_InterceptRequest :: "interceptor list \<Rightarrow> rctx \<Rightarrow> request \<Rightarrow> goerr + request" where
  "Chain_InterceptRequest [] c r = Inr r"
| "Chain_InterceptRequest (i # ics) c r =
     (case ic_InterceptRequest i c r of Inl e \<Rightarrow> Inl e | Inr r \<Rightarrow> Chain_InterceptRequest ics c r)"

fun respond_all :: "interceptor list \<Rightarrow> rctx \<Rightarrow> backend_response \<Rightarrow> goerr + backend_response" where
  "respond_all [] c x = Inr x"
| "respond_all (i # ics) c x =
     (case ic_InterceptResponse i c x of Inl e \<Rightarrow> Inl e | Inr x \<Rightarrow> respond_all ics c x)"

definition Chain_InterceptResponse :: "interceptor list \<Rightarrow> rctx \<Rightarrow> backend_response \<Rightarrow> goerr + backend_response" where
  "Chain_InterceptResponse ics c x = respond_all (rev ics) c x"

end
