(* ===== verification/Gateway.thy ===== *)
theory Gateway
  imports Interceptors Rbac Tenant Api_Mgmt
begin

text \<open>
  The gateway (\<open>internal/gateway\<close>): the pipeline that admits a request for a managed endpoint,
  with its rate limit in Redis, the registry of backends, and the resolver of API keys and slugs.
  An HTTP handler takes the context and the request and gives an answer; a middleware takes the
  next handler.
\<close>

section \<open>Handlers and backends\<close>

text \<open>A response of the program, one with a cookie, or one that is copied from a backend.\<close>

datatype answer =
    Sent response
  | SetCookie cookie response
  | Copied backend_response

type_synonym http_handler = "rctx \<Rightarrow> request \<Rightarrow> answer eff"

type_synonym backend_handler = "rctx \<Rightarrow> Endpoint \<Rightarrow> request \<Rightarrow> (goerr + backend_response option) eff"

type_synonym BackendRegistry = "(string \<times> backend_handler) list"

definition NewBackendRegistry :: BackendRegistry where
  "NewBackendRegistry = []"

definition registry_Register :: "string \<Rightarrow> backend_handler \<Rightarrow> BackendRegistry \<Rightarrow> BackendRegistry" where
  "registry_Register serviceName f R = (serviceName, f) # filter (\<lambda>(k, _). k \<noteq> serviceName) R"

definition registry_IsRegistered :: "BackendRegistry \<Rightarrow> string \<Rightarrow> bool" where
  "registry_IsRegistered R serviceName \<longleftrightarrow> map_of R serviceName \<noteq> None"

definition GetHandler :: "BackendRegistry \<Rightarrow> string \<Rightarrow> backend_handler option" where
  "GetHandler R serviceName = map_of R serviceName"

definition registry_Handle :: "BackendRegistry \<Rightarrow> backend_handler" where
  "registry_Handle R c ep r =
     (case map_of R (e_BackendService ep) of
        None \<Rightarrow> fail (Plain (''backend service '' @ [CHR 0x27] @ e_BackendService ep @ [CHR 0x27] @ '' not registered''))
      | Some f \<Rightarrow> f c ep r)"

definition ListRegisteredServices :: "BackendRegistry \<Rightarrow> string list" where
  "ListRegisteredServices R = map fst R"

record HandlerResolver =
  hr_Handle :: backend_handler
  hr_IsRegistered :: "string \<Rightarrow> bool"

definition registry_resolver :: "BackendRegistry \<Rightarrow> HandlerResolver" where
  "registry_resolver R = \<lparr>hr_Handle = registry_Handle R, hr_IsRegistered = registry_IsRegistered R\<rparr>"

section \<open>The pipeline\<close>

text \<open>\<open>pl_redis\<close> says whether there is a Redis client; \<open>pl_interceptors\<close> is the chain, \<open>[]\<close> where there is none.\<close>

record Pipeline =
  pl_endpointRepo :: EndpointRepository
  pl_policyRepo :: PolicyRepository
  pl_rbac :: RBACService
  pl_redis :: bool
  pl_interceptors :: "interceptor list"
  pl_backend :: HandlerResolver

definition NewPipeline ::
  "EndpointRepository \<Rightarrow> PolicyRepository \<Rightarrow> RBACService \<Rightarrow> bool \<Rightarrow> HandlerResolver option \<Rightarrow>
   interceptor list \<Rightarrow> Pipeline" where
  "NewPipeline er pr rbac red backend ics =
     \<lparr>pl_endpointRepo = er, pl_policyRepo = pr, pl_rbac = rbac, pl_redis = red, pl_interceptors = ics,
      pl_backend = (case backend of None \<Rightarrow> registry_resolver NewBackendRegistry | Some b \<Rightarrow> b)\<rparr>"

definition skipPrefixes :: "string list" where
  "skipPrefixes =
     [''/health'', ''/api/v1/auth'', ''/api/v1/admin'', ''/api/v1/ws'', ''/api/v1/statistics'']"

definition shouldSkipPipeline :: "string \<Rightarrow> bool" where
  "shouldSkipPipeline path \<longleftrightarrow> (\<exists>p \<in> set skipPrefixes. HasPrefix path p)"

definition lookup_path :: "string \<Rightarrow> string" where
  "lookup_path path =
     (if HasPrefix path ''/api/v1''
      then (let p = TrimPrefix path ''/api/v1'' in if p = [] then ''/'' else p)
      else path)"

text \<open>
  The Lua script: it is one atomic step of Redis. Its result is the new count, -1, or an error
  where the value is not a number; \<open>INCR\<close> keeps the expiry of the key.
\<close>

definition rate_key :: "uuid_api \<Rightarrow> uuid \<Rightarrow> uuid \<Rightarrow> string" where
  "rate_key U aid eid = ''rate:'' @ uuid_str U aid @ '':'' @ uuid_str U eid"

definition redis_expiry :: "world \<Rightarrow> string \<Rightarrow> time option" where
  "redis_expiry w k = (if redis_live w k = None then None else snd (the (redis w k)))"

definition rateLimitScript :: "string \<Rightarrow> int \<Rightarrow> time \<Rightarrow> world \<Rightarrow> int option \<times> redis" where
  "rateLimitScript key lmt window w =
     (case (case redis_live w key of
              None \<Rightarrow> Some 0
            | Some (IntValue n) \<Rightarrow> Some n
            | Some (PermsValue _) \<Rightarrow> None
            | Some (OtherValue _) \<Rightarrow> None) of
        None \<Rightarrow> (None, redis w)
      | Some current \<Rightarrow>
          if current \<ge> lmt then (Some (-1), redis w)
          else let n = current + 1
               in (Some n, (redis w)(key \<mapsto>
                    (IntValue n, if n = 1 then Some (clock w + window) else redis_expiry w key))))"

definition checkRateLimit :: "uuid_api \<Rightarrow> uuid \<Rightarrow> uuid \<Rightarrow> int \<Rightarrow> (goerr + unit) eff" where
  "checkRateLimit U aid eid lmt =
     State (\<lambda>w. let (result, store) = rateLimitScript (rate_key U aid eid) lmt (60 * second) w
       in (if next_fault w \<noteq> NoFault
           then Inl (Wrapped ''rate limit check failed'' (Plain (env_cause (environ w) (tick w))))
           else case result of
               None \<Rightarrow> Inl (Wrapped ''rate limit check failed'' (Plain ''script error''))
             | Some n \<Rightarrow> if n = -1 then Inl (Plain ''rate limit exceeded'') else Inr (),
           tick_world (if next_fault w \<noteq> Refused then w\<lparr>redis := store\<rparr> else w)))"

text \<open>
  What the checks say of a request: it is none of the gateway's, it is answered, or it is admitted
  to the endpoint of the app.
\<close>

datatype admission =
    Pass
  | Reject response
  | Admit uuid Endpoint

definition check_permission ::
  "Pipeline \<Rightarrow> rctx \<Rightarrow> EndpointPolicy option \<Rightarrow> response option eff" where
  "check_permission P c policy =
     (case policy of
        None \<Rightarrow> ret None
      | Some p \<Rightarrow>
          if ep_RequiredPermission p = [] then ret None
          else case UserIDFromContext c of
              None \<Rightarrow> ret (Some (response_JSON 401 (error_body ''authentication required'')))
            | Some uid \<Rightarrow> do {
                has \<leftarrow> rb_HasPermission (pl_rbac P) uid (or_nil (OrgIDFromContext c)) (ep_RequiredPermission p);
                ret (case has of
                       Inl _ \<Rightarrow> Some (response_JSON 500 (error_body ''permission check failed''))
                     | Inr b \<Rightarrow> if b then None
                         else Some (response_JSON 403 (error_body ''insufficient permissions for this endpoint'')))
              })"

definition check_rate ::
  "uuid_api \<Rightarrow> Pipeline \<Rightarrow> uuid \<Rightarrow> Endpoint \<Rightarrow> EndpointPolicy option \<Rightarrow> response option eff" where
  "check_rate U P aid ep policy =
     (case policy of
        None \<Rightarrow> ret None
      | Some p \<Rightarrow>
          if ep_RateLimit p > 0 \<and> pl_redis P then do {
            e \<leftarrow> checkRateLimit U aid (e_ID ep) (ep_RateLimit p);
            ret (case e of Inl _ \<Rightarrow> Some (response_JSON 429 (error_body ''rate limit exceeded'')) | Inr _ \<Rightarrow> None)
          } else ret None)"

definition admit :: "uuid_api \<Rightarrow> Pipeline \<Rightarrow> rctx \<Rightarrow> request \<Rightarrow> admission eff" where
  "admit U P c r =
     (if shouldSkipPipeline (rq_path r) then ret Pass
      else if rq_header r ''X-App-ID'' = [] then ret Pass
      else case uuid_parse U (rq_header r ''X-App-ID'') of
          None \<Rightarrow> ret (Reject (response_JSON 400 (error_body ''invalid X-App-ID'')))
        | Some aid \<Rightarrow> do {
            found \<leftarrow> en_GetByMethodPath (pl_endpointRepo P) aid (rq_method r) (lookup_path (rq_path r)) ''v1'';
            case found of
              Inl _ \<Rightarrow> ret Pass
            | Inr ep \<Rightarrow>
                if \<not> Endpoint_IsActive ep
                then ret (Reject (response_JSON 410 (error_body ''endpoint is not active'')))
                else do {
                  fetched \<leftarrow> po_GetByEndpointID (pl_policyRepo P) (e_ID ep);
                  let policy = (case fetched of Inl _ \<Rightarrow> None | Inr p \<Rightarrow> Some p);
                  denied \<leftarrow> check_permission P c policy;
                  case denied of
                    Some x \<Rightarrow> ret (Reject x)
                  | None \<Rightarrow> do {
                      limited \<leftarrow> check_rate U P aid ep policy;
                      ret (case limited of Some x \<Rightarrow> Reject x | None \<Rightarrow> Admit aid ep)
                    }
                }
          })"

text \<open>The values the pipeline puts into the context for the interceptors.\<close>

definition gateway_context :: "uuid_api \<Rightarrow> uuid \<Rightarrow> Endpoint \<Rightarrow> rctx \<Rightarrow> rctx" where
  "gateway_context U aid ep c =
     c\<lparr>gw_EndpointSchema := e_Schema ep, gw_PIIMasking := Some (e_PIIMasking ep),
       gw_EndpointID := Some (uuid_str U (e_ID ep)), gw_AppID := Some (uuid_str U aid),
       gw_OrgID := (case OrgIDFromContext c of Some g \<Rightarrow> Some (uuid_str U g) | None \<Rightarrow> gw_OrgID c),
       gw_UserID := (case UserIDFromContext c of Some u \<Rightarrow> Some (uuid_str U u) | None \<Rightarrow> gw_UserID c)\<rparr>"

definition endpoint_note :: "uuid_api \<Rightarrow> Endpoint \<Rightarrow> json" where
  "endpoint_note U ep =
     JObj [(''backend_action'', JStr (e_BackendAction ep)), (''backend_service'', JStr (e_BackendService ep)),
       (''endpoint_id'', JStr (uuid_str U (e_ID ep))), (''message'', JStr ''Endpoint validated successfully''),
       (''method'', JStr (e_Method ep)),
       (''note'', JStr (''No handler found for '' @ [CHR 0x27] @ e_BackendService ep @ [CHR 0x27] @
          ''. Register a handler or configure HTTP proxy.'')),
       (''path'', JStr (e_Path ep))]"

definition forward :: "uuid_api \<Rightarrow> Pipeline \<Rightarrow> uuid \<Rightarrow> Endpoint \<Rightarrow> http_handler" where
  "forward U P aid ep c r =
     (let c = gateway_context U aid ep c
      in case Chain_InterceptRequest (pl_interceptors P) c r of
           Inl e \<Rightarrow> ret (Sent (response_JSON 400 (error_body (Error_string e))))
         | Inr r \<Rightarrow> do {
             x \<leftarrow> hr_Handle (pl_backend P) c ep r;
             ret (case x of
                Inl e \<Rightarrow> Sent (response_JSON 502
                  (JObj [(''error'', JStr ''backend service error''), (''message'', JStr (Error_string e))]))
              | Inr (Some b) \<Rightarrow> Copied b
              | Inr None \<Rightarrow> Sent (response_JSON 200 (endpoint_note U ep)))
           })"

definition Enforce :: "uuid_api \<Rightarrow> Pipeline \<Rightarrow> http_handler \<Rightarrow> http_handler" where
  "Enforce U P next c r = do {
     a \<leftarrow> admit U P c r;
     case a of
       Pass \<Rightarrow> next c r
     | Reject x \<Rightarrow> ret (Sent x)
     | Admit aid ep \<Rightarrow> forward U P aid ep c r
   }"

section \<open>The resolver\<close>

definition ResolveAppByAPIKey :: "APIKeyRepository \<Rightarrow> AppRepository \<Rightarrow> string \<Rightarrow> (goerr + uuid \<times> uuid) eff" where
  "ResolveAppByAPIKey keyRepo appRepo rawKey =
     try_do (ak_GetByHash keyRepo (hex_bytes (Sum256 rawKey))) (\<lambda>key.
       try_do (ap_GetByID appRepo (k_AppID key)) (\<lambda>app. ok (a_OrganizationID app, a_ID app)))"

definition ResolveOrgBySlug :: "OrgRepository \<Rightarrow> string \<Rightarrow> (goerr + uuid) eff" where
  "ResolveOrgBySlug orgs slug = try_do (or_GetBySlug orgs slug) (\<lambda>org. ok (o_ID org))"

end
