(* ===== verification/Gateway_Props.thy ===== *)
theory Gateway_Props
  imports Gateway Json_Props Iam_Props
begin

text \<open>What the gateway admits, its rate limit, and what its interceptors do to a request.\<close>

section \<open>Admission\<close>

lemma Enforce_admit:
  assumes "run_state (admit U P c r) w = (a, w')"
  shows "run_state (Enforce U P next c r) w =
    (case a of Pass \<Rightarrow> run_state (next c r) w' | Reject x \<Rightarrow> (Sent x, w')
     | Admit aid ep \<Rightarrow> run_state (forward U P aid ep c r) w')"
  using assms by (auto simp: Enforce_def run_state_bind split: admission.splits)

lemma run_EndpointRepo_lookup:
  "run_state (en_GetByMethodPath EndpointRepo aid m p v) w = (x, w') \<Longrightarrow>
     w' = tick_world w \<and> (\<forall>ep. x = Inr ep \<longrightarrow> ep \<in> set (app_endpoints w) \<and> e_AppID ep = aid \<and> e_Method ep = m \<and>
       e_Path ep = p \<and> e_Version ep = v)"
  by (auto simp: EndpointRepo_def EndpointRepo_GetByMethodPath_def split: option.splits if_splits dest: find_Some_in)

lemma run_PolicyRepo_fetch:
  "run_state (po_GetByEndpointID PolicyRepo eid) w =
     (if next_fault w = NoFault
      then (case find (\<lambda>x. ep_EndpointID x = eid) (app_endpoint_policies w) of
              None \<Rightarrow> Inl (New_error ErrNotFound ''policy not found'' None) | Some p \<Rightarrow> Inr p)
      else Inl (not_found_or ''policy not found'' ''failed to get policy'' (next_error w)), tick_world w)"
  by (auto simp: PolicyRepo_def PolicyRepo_GetByEndpointID_def not_found_or_def split: option.splits)

text \<open>What the two checks of a policy leave standing.\<close>

definition permitted :: "Pipeline \<Rightarrow> rctx \<Rightarrow> EndpointPolicy \<Rightarrow> bool" where
  "permitted P c p \<longleftrightarrow>
     (ep_RequiredPermission p \<noteq> [] \<longrightarrow>
        (\<exists>uid w w'. UserIDFromContext c = Some uid \<and>
           run_state (rb_HasPermission (pl_rbac P) uid (or_nil (OrgIDFromContext c)) (ep_RequiredPermission p)) w =
             (Inr True, w')))"

definition within_rate :: "uuid_api \<Rightarrow> Pipeline \<Rightarrow> uuid \<Rightarrow> Endpoint \<Rightarrow> EndpointPolicy \<Rightarrow> bool" where
  "within_rate U P aid ep p \<longleftrightarrow>
     (ep_RateLimit p > 0 \<and> pl_redis P \<longrightarrow>
        (\<exists>w w'. run_state (checkRateLimit U aid (e_ID ep) (ep_RateLimit p)) w = (Inr (), w')))"

lemma check_permission_None:
  "run_state (check_permission P c (Some p)) w = (None, w') \<Longrightarrow> permitted P c p"
  by (auto simp: check_permission_def permitted_def run_state_bind
      split: if_splits option.splits sum.splits prod.splits)

lemma check_rate_None:
  "run_state (check_rate U P aid ep (Some p)) w = (None, w') \<Longrightarrow> within_rate U P aid ep p"
  by (auto simp: check_rate_def within_rate_def run_state_bind split: if_splits sum.splits prod.splits)

lemma admit_Admit:
  assumes "run_state (admit U P c r) w = (Admit aid ep, w')"
  shows "\<exists>w1 fetched w2 w3. \<not> shouldSkipPipeline (rq_path r) \<and> uuid_parse U (rq_header r ''X-App-ID'') = Some aid \<and>
    run_state (en_GetByMethodPath (pl_endpointRepo P) aid (rq_method r) (lookup_path (rq_path r)) ''v1'') w = (Inr ep, w1) \<and>
    Endpoint_IsActive ep \<and>
    run_state (po_GetByEndpointID (pl_policyRepo P) (e_ID ep)) w1 = (fetched, w2) \<and>
    (let policy = (case fetched of Inl _ \<Rightarrow> None | Inr p \<Rightarrow> Some p)
     in run_state (check_permission P c policy) w2 = (None, w3) \<and>
        run_state (check_rate U P aid ep policy) w3 = (None, w'))"
  using assms
  by (fastforce simp: admit_def run_state_bind Let_def split: if_splits option.splits sum.splits prod.splits)

lemma admit_backend: "admit U (P\<lparr>pl_backend := B\<rparr>) c r = admit U P c r"
proof -
  have sel: "pl_rbac (P\<lparr>pl_backend := B\<rparr>) = pl_rbac P" "pl_redis (P\<lparr>pl_backend := B\<rparr>) = pl_redis P"
    "pl_endpointRepo (P\<lparr>pl_backend := B\<rparr>) = pl_endpointRepo P"
    "pl_policyRepo (P\<lparr>pl_backend := B\<rparr>) = pl_policyRepo P" by simp_all
  have same: "check_permission (P\<lparr>pl_backend := B\<rparr>) c p = check_permission P c p"
    "check_rate U (P\<lparr>pl_backend := B\<rparr>) aid ep p = check_rate U P aid ep p" for aid ep p
    unfolding check_permission_def check_rate_def sel by (rule refl)+
  show ?thesis unfolding admit_def sel same ..
qed


text \<open>
  When the policy of an active endpoint cannot be read, the gateway fails open: the request is
  forwarded whatever permission and rate limit the stored policy asks for, and whoever sent it.
\<close>

theorem policy_fetch_fails_open:
  assumes "\<not> shouldSkipPipeline (rq_path r)" and "rq_header r ''X-App-ID'' \<noteq> []"
    and "uuid_parse U (rq_header r ''X-App-ID'') = Some aid"
    and "pl_endpointRepo P = EndpointRepo" and "pl_policyRepo P = PolicyRepo"
    and "find (\<lambda>x. e_AppID x = aid \<and> e_Method x = rq_method r \<and> e_Path x = lookup_path (rq_path r) \<and>
           e_Version x = ''v1'') (app_endpoints w) = Some ep" and "Endpoint_IsActive ep"
    and "env_fault (environ w) (tick w) = NoFault" and "env_fault (environ w) (tick w + 1) \<noteq> NoFault"
  shows "run_state (Enforce U P next c r) w = run_state (forward U P aid ep c r) (tick_world (tick_world w))"
proof -
  have e: "run_state (en_GetByMethodPath EndpointRepo aid (rq_method r) (lookup_path (rq_path r)) ''v1'') w =
      (Inr ep, tick_world w)"
    using assms(6,8) by (simp add: EndpointRepo_def EndpointRepo_GetByMethodPath_def next_fault_def)
  obtain err where p: "run_state (po_GetByEndpointID PolicyRepo (e_ID ep)) (tick_world w) =
      (Inl err, tick_world (tick_world w))"
    using assms(9) by (simp add: run_PolicyRepo_fetch next_fault_def)
  have "run_state (admit U P c r) w = (Admit aid ep, tick_world (tick_world w))"
    using assms(1-3,7) e p
    by (simp add: admit_def assms(4,5) run_state_bind check_permission_def check_rate_def)
  from Enforce_admit [OF this] show ?thesis by simp
qed

section \<open>The rate limit\<close>

fun rate_run :: "uuid_api \<Rightarrow> uuid \<Rightarrow> uuid \<Rightarrow> int \<Rightarrow> nat \<Rightarrow> world \<Rightarrow> bool list \<times> world" where
  "rate_run U aid eid lmt 0 w = ([], w)"
| "rate_run U aid eid lmt (Suc n) w =
     (let (x, w) = run_state (checkRateLimit U aid eid lmt) w; (bs, w) = rate_run U aid eid lmt n w
      in ((\<not> isl x) # bs, w))"

text \<open>The key counts \<open>n\<close>, and not less until the instant \<open>T\<close>.\<close>

definition counts :: "string \<Rightarrow> time \<Rightarrow> world \<Rightarrow> int \<Rightarrow> bool" where
  "counts k T w n \<longleftrightarrow>
     n = 0 \<and> redis_live w k = None \<or> 1 \<le> n \<and> (\<exists>E. redis w k = Some (IntValue n, Some E) \<and> T < E)"

lemma counts_later:
  "counts k T w n \<Longrightarrow> redis w' = redis w \<Longrightarrow> clock w \<le> clock w' \<Longrightarrow> counts k T w' n"
  by (auto simp: counts_def redis_live_def split: option.splits prod.splits if_splits)

lemma checkRateLimit_step:
  assumes "counts (rate_key U aid eid) T w n" "clock w \<le> T" "T < clock w + 60 * second" "n \<le> lmt" "0 < lmt"
  shows "\<exists>x w1 n'. run_state (checkRateLimit U aid eid lmt) w = (x, w1) \<and> counts (rate_key U aid eid) T w1 n' \<and>
    n' \<le> lmt \<and> n \<le> n' \<and> (\<not> isl x \<longrightarrow> n' = n + 1) \<and> clock w \<le> clock w1 \<and> environ w1 = environ w \<and>
    tick w1 = tick w + 1 \<and> (next_fault w = NoFault \<longrightarrow> isl x = (lmt \<le> n) \<and> n' = min (n + 1) lmt)"
proof -
  let ?k = "rate_key U aid eid"
  have live: "(case redis_live w ?k of None \<Rightarrow> Some 0 | Some (IntValue n) \<Rightarrow> Some n
      | Some (PermsValue _) \<Rightarrow> None | Some (OtherValue _) \<Rightarrow> None) = Some n"
    using assms(1,2) by (auto simp: counts_def redis_live_def)
  show ?thesis
  proof (cases "lmt \<le> n")
    case True
    then have "rateLimitScript ?k lmt (60 * second) w = (Some (-1), redis w)"
      using live by (simp add: rateLimitScript_def)
    then show ?thesis using True assms(1,4)
      by (auto simp: checkRateLimit_def Let_def intro!: exI [of _ n] counts_later [OF assms(1)])
  next
    case False
    let ?E = "if n + 1 = 1 then Some (clock w + 60 * second) else redis_expiry w ?k"
    have script: "rateLimitScript ?k lmt (60 * second) w = (Some (n + 1), (redis w)(?k \<mapsto> (IntValue (n + 1), ?E)))"
      using live False by (simp add: rateLimitScript_def Let_def)
    have E: "\<exists>E. ?E = Some E \<and> T < E"
      using assms(1-3) by (auto simp: counts_def redis_expiry_def redis_live_def)
    have n0: "0 \<le> n" using assms(1) by (auto simp: counts_def)
    show ?thesis
    proof (cases "next_fault w = Refused")
      case True
      then show ?thesis using False assms(4)
        by (auto simp: checkRateLimit_def Let_def script intro!: exI [of _ n] counts_later [OF assms(1)])
    next
      case ok: False
      have "counts ?k T (tick_world (w\<lparr>redis := (redis w)(?k \<mapsto> (IntValue (n + 1), ?E))\<rparr>)) (n + 1)"
        using E n0 by (auto simp: counts_def)
      then show ?thesis using False ok n0
        by (auto simp: checkRateLimit_def Let_def script intro!: exI [of _ "n + 1"])
    qed
  qed
qed

lemma checkRateLimit_clock: "run_state (checkRateLimit U aid eid lmt) w = (x, w1) \<Longrightarrow> clock w \<le> clock w1"
  by (auto simp: checkRateLimit_def Let_def split: prod.splits)

lemma rate_run_clock: "rate_run U aid eid lmt m w = (bs, w') \<Longrightarrow> clock w \<le> clock w'"
proof (induction m arbitrary: w bs)
  case (Suc m)
  obtain x w1 where x: "run_state (checkRateLimit U aid eid lmt) w = (x, w1)" by fastforce
  obtain cs w2 where "rate_run U aid eid lmt m w1 = (cs, w2)" by fastforce
  then show ?case using Suc checkRateLimit_clock [OF x] x by fastforce
qed simp

lemma replicate_step:
  "n < lmt \<Longrightarrow> replicate (min (Suc m) (nat (lmt - n))) True @ replicate (Suc m - nat (lmt - n)) False =
     True # replicate (min m (nat (lmt - (n + 1)))) True @ replicate (m - nat (lmt - (n + 1))) False"
proof -
  assume "n < lmt"
  then have "nat (lmt - n) = Suc (nat (lmt - (n + 1)))" by simp
  then show ?thesis by simp
qed

lemma rate_run_bound:
  assumes "rate_run U aid eid lmt m w = (bs, w')" "counts (rate_key U aid eid) T w n" "clock w' \<le> T"
    "T < clock w + 60 * second" "n \<le> lmt" "0 < lmt"
  shows "clock w \<le> clock w' \<and> int (length (filter (\<lambda>b. b) bs)) \<le> lmt - n \<and>
    ((\<forall>i < m. env_fault (environ w) (tick w + i) = NoFault) \<longrightarrow>
       bs = replicate (min m (nat (lmt - n))) True @ replicate (m - nat (lmt - n)) False)"
  using assms
proof (induction m arbitrary: w bs n)
  case (Suc m)
  obtain x w1 where x: "run_state (checkRateLimit U aid eid lmt) w = (x, w1)" by fastforce
  obtain cs where cs: "rate_run U aid eid lmt m w1 = (cs, w')" "bs = (\<not> isl x) # cs"
    using Suc.prems(1) x by (auto simp: Let_def split: prod.splits)
  note le = checkRateLimit_clock [OF x]
  have "clock w \<le> T" using le rate_run_clock [OF cs(1)] Suc.prems(3) by simp
  from checkRateLimit_step [OF Suc.prems(2) this Suc.prems(4,5,6)] x obtain n' where n':
    "counts (rate_key U aid eid) T w1 n'" "n' \<le> lmt" "n \<le> n'" "\<not> isl x \<longrightarrow> n' = n + 1"
    "environ w1 = environ w" "tick w1 = tick w + 1"
    "next_fault w = NoFault \<longrightarrow> isl x = (lmt \<le> n) \<and> n' = min (n + 1) lmt" by auto
  have IH: "clock w1 \<le> clock w'" "int (length (filter (\<lambda>b. b) cs)) \<le> lmt - n'"
    "(\<forall>i < m. env_fault (environ w) (tick w + 1 + i) = NoFault) \<Longrightarrow>
       cs = replicate (min m (nat (lmt - n'))) True @ replicate (m - nat (lmt - n')) False"
    using Suc.IH [OF cs(1) n'(1) Suc.prems(3) _ n'(2) Suc.prems(6)] Suc.prems(4) le n'(5,6) by simp_all
  have "bs = replicate (min (Suc m) (nat (lmt - n))) True @ replicate (Suc m - nat (lmt - n)) False"
    if ok: "\<forall>i < Suc m. env_fault (environ w) (tick w + i) = NoFault"
  proof -
    have "next_fault w = NoFault" using ok by (force simp: next_fault_def)
    then have nf: "isl x = (lmt \<le> n)" "n' = min (n + 1) lmt" using n'(7) by simp_all
    have "\<forall>i < m. env_fault (environ w) (tick w + 1 + i) = NoFault" using ok by (metis Suc_eq_plus1 Suc_mono add.assoc add.commute)
    note c = IH(3) [OF this]
    show ?thesis
    proof (cases "lmt \<le> n")
      case True
      then show ?thesis using nf c Suc.prems(5) cs(2) by (simp add: min_def)
    next
      case False
      then show ?thesis using nf c cs(2) replicate_step [of n lmt m] by simp
    qed
  qed
  then show ?case using le IH(1,2) n'(3,4) cs(2) by auto
qed simp

text \<open>
  C16. Within the window of a minute the gateway lets at most \<open>limit\<close> requests for an endpoint of an
  app through, whatever faults Redis has; and where Redis has none it lets exactly the first
  \<open>limit\<close> through and refuses all others.
\<close>

theorem rate_limit_window:
  assumes "rate_run U aid eid lmt m w = (bs, w')" and "redis_live w (rate_key U aid eid) = None"
    and "clock w' < clock w + 60 * second" and "0 < lmt"
  shows "int (length (filter (\<lambda>b. b) bs)) \<le> lmt \<and>
    ((\<forall>i < m. env_fault (environ w) (tick w + i) = NoFault) \<longrightarrow>
       bs = replicate (min m (nat lmt)) True @ replicate (m - nat lmt) False)"
  using rate_run_bound [OF assms(1) _ order_refl assms(3), of 0] assms(2,4) by (simp add: counts_def)

lemma rate_run_demo: "rate_run demo_uuid 1 2 2 3 (empty_world calm) =
   ([True, True, False], snd (rate_run demo_uuid 1 2 2 3 (empty_world calm)))"
  by (simp add: eval_nat_numeral checkRateLimit_def rateLimitScript_def redis_live_def redis_expiry_def Let_def
      empty_world_def calm_def next_fault_def tick_world_def second_def)

theorem rate_limit_window_witness:
  "int (length (filter (\<lambda>b. b) (fst (rate_run demo_uuid 1 2 2 3 (empty_world calm))))) \<le> 2 \<and>
   fst (rate_run demo_uuid 1 2 2 3 (empty_world calm)) = [True, True, False]"
proof -
  have "clock (snd (rate_run demo_uuid 1 2 2 3 (empty_world calm))) < clock (empty_world calm) + 60 * second"
    by (simp add: eval_nat_numeral checkRateLimit_def rateLimitScript_def redis_live_def redis_expiry_def Let_def
        empty_world_def calm_def next_fault_def tick_world_def second_def)
  from rate_limit_window [OF rate_run_demo _ this] show ?thesis
    using arg_cong [OF rate_run_demo, of fst] by (simp add: redis_live_def empty_world_def)
qed

section \<open>Witnesses\<close>

definition gw_backend :: "int \<Rightarrow> HandlerResolver" where
  "gw_backend code =
     \<lparr>hr_Handle = (\<lambda>c ep r. ok (Some \<lparr>br_StatusCode = code, br_Header = [], br_Body = []\<rparr>)),
      hr_IsRegistered = (\<lambda>_. True)\<rparr>"

definition gw_pipeline :: Pipeline where
  "gw_pipeline =
     NewPipeline EndpointRepo PolicyRepo (NewRBACService demo_uuid \<lparr>sv_roleRepo = RoleRepo (\<lambda>_ _. True), sv_redis = True\<rparr>)
       True (Some (gw_backend 200)) []"

definition gw_endpoint :: Endpoint where
  "gw_endpoint =
     \<lparr>e_ID = 9, e_AppID = 5, e_Method = ''GET'', e_Path = ''/orders'', e_Version = ''v1'',
      e_BackendService = ''order-service'', e_BackendAction = ''list'', e_Schema = None, e_AuditLevel = [],
      e_PIIMasking = False, e_EventAfter = [], e_Status = EndpointStatusActive, e_CreatedAt = 0, e_UpdatedAt = 0\<rparr>"

definition gw_policy :: EndpointPolicy where
  "gw_policy =
     \<lparr>ep_ID = 4, ep_EndpointID = 9, ep_RequiredPermission = ''order:read'', ep_RateLimit = 1, ep_AuthPolicy = [],
      ep_ValidationPolicy = None, ep_ExtraPolicies = None, ep_CreatedAt = 0, ep_UpdatedAt = 0\<rparr>"

definition gw_world :: "(nat \<Rightarrow> fault) \<Rightarrow> EndpointPolicy list \<Rightarrow> world" where
  "gw_world f ps =
     (empty_world (calm\<lparr>env_fault := f\<rparr>))\<lparr>app_endpoints := [gw_endpoint], app_endpoint_policies := ps\<rparr>"

definition gw_request :: request where
  "gw_request =
     demo_request\<lparr>rq_method := ''GET'', rq_path := ''/api/v1/orders'',
       rq_header := (\<lambda>k. if k = ''X-App-ID'' then uuid_str demo_uuid 5 else [])\<rparr>"

lemma gw_request_simps [simp]:
  "rq_method gw_request = ''GET''" "lookup_path (rq_path gw_request) = ''/orders''"
  "\<not> shouldSkipPipeline (rq_path gw_request)" "rq_header gw_request ''X-App-ID'' = uuid_str demo_uuid 5"
  by (simp_all add: gw_request_def demo_request_def lookup_path_def HasPrefix_def TrimPrefix_def
      shouldSkipPipeline_def skipPrefixes_def)

lemma gw_found:
  "find (\<lambda>x. e_AppID x = 5 \<and> e_Method x = rq_method gw_request \<and> e_Path x = lookup_path (rq_path gw_request) \<and>
     e_Version x = ''v1'') (app_endpoints (gw_world f ps)) = Some gw_endpoint"
  by (simp add: gw_world_def gw_endpoint_def empty_world_def)

lemma gw_parse: "uuid_parse demo_uuid (rq_header gw_request ''X-App-ID'') = Some 5"
  by (simp add: uuid_parse_str [OF demo_uuid_ok])

lemma gw_pipeline_simps [simp]:
  "pl_endpointRepo gw_pipeline = EndpointRepo" "pl_policyRepo gw_pipeline = PolicyRepo"
  "pl_interceptors gw_pipeline = []" "pl_backend gw_pipeline = gw_backend 200"
  by (simp_all add: gw_pipeline_def NewPipeline_def)

lemma gw_self: "gw_pipeline = gw_pipeline\<lparr>pl_backend := gw_backend 200\<rparr>"
  by (simp add: gw_pipeline_def NewPipeline_def)

lemma gw_forward:
  "run_state (forward demo_uuid (gw_pipeline\<lparr>pl_backend := gw_backend n\<rparr>) 5 gw_endpoint c gw_request) w =
     (Copied \<lparr>br_StatusCode = n, br_Header = [], br_Body = []\<rparr>, w)"
  by (simp add: forward_def gw_backend_def run_state_bind)

text \<open>Without a user, and with a policy that asks for a permission.\<close>

theorem policy_fetch_fails_open_witness:
  "fst (run_state (Enforce demo_uuid gw_pipeline (\<lambda>c r. ret (Sent NoContent)) background gw_request)
     (gw_world (\<lambda>n. if n = 1 then Refused else NoFault) [gw_policy])) =
   Copied \<lparr>br_StatusCode = 200, br_Header = [], br_Body = []\<rparr>"
proof -
  let ?w = "gw_world (\<lambda>n. if n = 1 then Refused else NoFault) [gw_policy]"
  have w: "tick ?w = 0" "environ ?w = calm\<lparr>env_fault := (\<lambda>n. if n = 1 then Refused else NoFault)\<rparr>"
    by (simp_all add: gw_world_def empty_world_def)
  show ?thesis
    using policy_fetch_fails_open [OF _ _ gw_parse _ _ gw_found, of gw_pipeline _ _ "\<lambda>c r. ret (Sent NoContent)" background]
      gw_forward [of 200, folded gw_self] w uuid_str_nonempty [OF demo_uuid_ok, of 5]
    by (simp add: gw_endpoint_def Endpoint_IsActive_def)
qed


end
