(* ===== verification/Interceptor_Props.thy ===== *)
theory Interceptor_Props
  imports Interceptors Json_Props
begin

text \<open>What the gateway's interceptors guarantee: masking, validation, and what the chain leaves alone.\<close>

section \<open>Decoded maps\<close>

fun go_sorted :: "json \<Rightarrow> bool" where
  "go_sorted (JArr xs) \<longleftrightarrow> list_all go_sorted xs"
| "go_sorted (JObj kvs) \<longleftrightarrow> sorted_wrt (<) (map fst kvs) \<and> list_all (\<lambda>(k, v). go_sorted v) kvs"
| "go_sorted _ \<longleftrightarrow> True"

lemma last_wins_keys: "distinct (map fst (last_wins kvs)) \<and> set (last_wins kvs) \<subseteq> set kvs"
  by (induction kvs rule: last_wins.induct) auto

lemma last_wins_id: "distinct (map fst kvs) \<Longrightarrow> last_wins kvs = kvs"
  by (induction kvs rule: last_wins.induct) auto

lemma go_sorted_go_map: "go_sorted (go_map j)"
proof (induction j rule: go_map.induct)
  case (2 kvs)
  let ?xs = "last_wins (map (\<lambda>(k, v). (k, go_map v)) kvs)"
  have "distinct (map fst (sort_key fst ?xs))"
    using last_wins_keys by (simp add: distinct_map)
  then have "sorted_wrt (<) (map fst (sort_key fst ?xs))" by (simp add: strict_sorted_iff)
  moreover have "list_all (\<lambda>(k, v). go_sorted v) (sort_key fst ?xs)"
    using last_wins_keys [of "map (\<lambda>(k, v). (k, go_map v)) kvs"] 2 by (fastforce simp: list_all_iff)
  ultimately show ?case by simp
qed (auto simp: list_all_iff)

lemma go_map_id: "go_sorted j \<Longrightarrow> go_map j = j"
proof (induction j rule: go_map.induct)
  case (2 kvs)
  have "map (\<lambda>(k, v). (k, go_map v)) kvs = kvs"
    using 2 by (intro map_idI) (auto simp: list_all_iff)
  moreover have "distinct (map fst kvs)" "sorted (map fst kvs)"
    using 2(2) by (simp_all add: strict_sorted_iff)
  ultimately show ?case by (simp add: last_wins_id sort_key_id_if_sorted)
qed (auto simp: list_all_iff intro: map_idI)

text \<open>What is decoded can be encoded and decoded again.\<close>

lemma number_of_ok: "number_of s = Some j \<Longrightarrow> list_all number_char s \<Longrightarrow> numbers_ok j"
  by (auto simp: number_of_def Let_def literal_ok_def split: option.splits prod.splits if_splits list.splits)

lemma number_of_takeWhile: "number_of (takeWhile number_char s) = Some j \<Longrightarrow> numbers_ok j"
  by (rule number_of_ok) (auto simp: list_all_iff dest: set_takeWhileD)

lemma if_chain:
  "(if a then Some (JNull, p) else if b then Some (JBool True, q) else if d then Some (JBool False, u)
    else map_option (\<lambda>j. (j, v)) m) = Some (j, r) \<Longrightarrow> j = JNull \<or> (\<exists>b. j = JBool b) \<or> m = Some j"
  by (auto split: if_splits)

lemma parse_numbers_ok:
  "parse_value n s = Some (j, r) \<Longrightarrow> numbers_ok j"
  "parse_elems n s = Some (xs, r) \<Longrightarrow> list_all numbers_ok xs"
  "parse_members n s = Some (kvs, r) \<Longrightarrow> list_all (\<lambda>(k, v). numbers_ok v) kvs"
proof (induction n s and n s and n s arbitrary: j r and xs r and kvs r
    rule: parse_value_parse_elems_parse_members.induct)
  case (2 n s)
  obtain c t where c: "skip_ws s = c # t" using 2(3) by (cases "skip_ws s") simp_all
  consider "c = CHR 0x22" | "c = CHR ''[''" | "c = CHR ''{''" | "c \<noteq> CHR 0x22" "c \<noteq> CHR ''[''" "c \<noteq> CHR ''{''" by blast
  then show ?case
  proof cases
    case 2
    then show ?thesis using "2.IH"(1) "2.prems" c by (fastforce split: list.splits if_splits)
  next
    case 3
    then show ?thesis using "2.IH"(2) "2.prems" c by (fastforce split: list.splits if_splits)
  next
    case 4
    have "j = JNull \<or> (\<exists>b. j = JBool b) \<or> number_of (takeWhile number_char (c # t)) = Some j"
      using "2.prems" unfolding parse_value.simps c list.case if_not_P [OF 4(1)] if_not_P [OF 4(2)] if_not_P [OF 4(3)]
      by (blast dest: if_chain)
    then show ?thesis by (elim disjE exE) (simp, simp, rule number_of_takeWhile)
  qed (use "2.prems" c in auto)
next
  case (4 n s)
  then show ?case by (auto split: list.splits if_splits option.splits prod.splits)
next
  case (6 n s)
  then show ?case by (auto split: list.splits if_splits option.splits prod.split_asm)
qed simp_all

lemma go_map_numbers: "numbers_ok j \<Longrightarrow> numbers_ok (go_map j)"
proof (induction j rule: go_map.induct)
  case (2 kvs)
  then show ?case using last_wins_keys [of "map (\<lambda>(k, v). (k, go_map v)) kvs"]
    by (fastforce simp: list_all_iff)
qed (auto simp: list_all_iff)

lemma Unmarshal_facts: "Unmarshal s = Some j \<Longrightarrow> numbers_ok j \<and> go_sorted j"
  by (auto simp: Unmarshal_def parse_json_def go_sorted_go_map simp del: parse_value.simps
      split: option.splits if_splits dest!: parse_numbers_ok(1) intro!: go_map_numbers)

lemma Unmarshal_Marshal: "numbers_ok j \<Longrightarrow> go_sorted j \<Longrightarrow> Unmarshal (Marshal j) = Some j"
  using json_roundtrip [of j] by (simp add: go_map_id)

section \<open>Masking\<close>

text \<open>A place in a JSON value.\<close>

datatype json_step = Key string | Item nat

fun json_at :: "json \<Rightarrow> json_step list \<Rightarrow> json option" where
  "json_at j [] = Some j"
| "json_at (JObj kvs) (Key k # p) = (case map_of kvs k of None \<Rightarrow> None | Some v \<Rightarrow> json_at v p)"
| "json_at (JArr xs) (Item i # p) = (if i < length xs then json_at (xs ! i) p else None)"
| "json_at _ _ = None"

text \<open>A place the masker visits: no array directly in an array on the way.\<close>

fun visited :: "json_step list \<Rightarrow> bool" where
  "visited (Item i # Item j # p) \<longleftrightarrow> False"
| "visited (s # p) \<longleftrightarrow> visited p"
| "visited [] \<longleftrightarrow> True"

fun scalar :: "json \<Rightarrow> bool" where
  "scalar (JObj _) \<longleftrightarrow> False"
| "scalar (JArr _) \<longleftrightarrow> False"
| "scalar _ \<longleftrightarrow> True"

definition clear_path :: "PIIMasker \<Rightarrow> json_step list \<Rightarrow> bool" where
  "clear_path p path \<longleftrightarrow> (\<forall>k. Key k \<in> set path \<longrightarrow> \<not> masked_key p k)"

lemma map_of_mask:
  "map_of (map (\<lambda>(k, v). (k, f k v)) kvs) k = map_option (f k) (map_of kvs k)"
  by (induction kvs) auto

definition mask_item :: "PIIMasker \<Rightarrow> json \<Rightarrow> json" where
  "mask_item p x = (case x of JObj _ \<Rightarrow> mask_value p x | _ \<Rightarrow> x)"

lemma mask_value_arr: "mask_value p (JArr xs) = JArr (map (mask_item p) xs)"
  by (auto simp: mask_item_def)

lemma mask_item_obj: "mask_item p (JObj kvs) = mask_value p (JObj kvs)"
  by (simp add: mask_item_def)

lemma mask_item_id: "\<forall>kvs. x \<noteq> JObj kvs \<Longrightarrow> mask_item p x = x"
  by (cases x) (simp_all add: mask_item_def)

lemma mask_value_scalar: "scalar (mask_value p j) \<Longrightarrow> mask_value p j = j"
  by (cases j) simp_all

text \<open>A scalar at a place whose keys do not match stays as it is, and nothing else appears there.\<close>

lemma mask_keeps:
  assumes "clear_path p path" "scalar v"
  shows "json_at (mask_value p j) path = Some v \<longleftrightarrow> json_at j path = Some v"
    "json_at (mask_item p j) path = Some v \<longleftrightarrow> json_at j path = Some v"
proof -
  have "(json_at (mask_value p j) path = Some v \<longleftrightarrow> json_at j path = Some v) \<and>
    (json_at (mask_item p j) path = Some v \<longleftrightarrow> json_at j path = Some v)"
    using assms
  proof (induction path arbitrary: j)
    case Nil
    then show ?case by (cases j) (auto simp: mask_item_def)
  next
    case (Cons s path)
    have path: "clear_path p path" using Cons.prems by (simp add: clear_path_def)
    have v: "json_at (mask_value p j) (s # path) = Some v \<longleftrightarrow> json_at j (s # path) = Some v"
    proof (cases j)
      case (JObj kvs)
      show ?thesis
      proof (cases s)
        case (Key k)
        then have "\<not> masked_key p k" using Cons.prems by (simp add: clear_path_def)
        then show ?thesis using Cons.IH [OF path Cons.prems(2)] JObj Key
          by (simp add: map_of_mask split: option.splits)
      qed (simp add: JObj)
    next
      case (JArr xs)
      then show ?thesis using Cons.IH [OF path Cons.prems(2)]
        by (cases s) (simp_all add: mask_value_arr del: mask_value.simps)
    qed simp_all
    then show ?case by (cases "\<exists>kvs. j = JObj kvs") (auto simp: mask_item_obj mask_item_id)
  qed
  then show "json_at (mask_value p j) path = Some v \<longleftrightarrow> json_at j path = Some v"
    "json_at (mask_item p j) path = Some v \<longleftrightarrow> json_at j path = Some v" by simp_all
qed

text \<open>The value of a key that matches is hidden at every place the masker visits.\<close>

lemma json_at_Key: "json_at j (Key k # path) = Some v \<Longrightarrow> \<exists>kvs. j = JObj kvs"
  by (cases j) simp_all

lemma visited_Item: "visited (Item i # path) \<Longrightarrow> (path = [] \<or> (\<exists>k q. path = Key k # q)) \<and> visited path"
proof (cases path)
  case (Cons s q)
  then show "visited (Item i # path) \<Longrightarrow> (path = [] \<or> (\<exists>k q. path = Key k # q)) \<and> visited path"
    by (cases s; cases q) simp_all
qed simp

lemma visited_Key: "visited (Key k # path) \<Longrightarrow> visited path"
  by (cases path) simp_all

lemma mask_hides:
  assumes "visited path" "masked_key p k" "json_at (mask_value p j) (path @ [Key k]) = Some v"
  shows "v = JStr (maskValue p)"
  using assms
proof (induction path arbitrary: j)
  case Nil
  then show ?case by (cases j) (auto simp: map_of_mask split: option.splits)
next
  case (Cons s path)
  show ?case
  proof (cases s)
    case (Key k')
    obtain kvs where j: "j = JObj kvs" using json_at_Key Cons.prems(3) Key by (cases j) auto
    obtain x where x: "map_of kvs k' = Some x" using Cons.prems(3) by (auto simp: j Key map_of_mask split: option.splits)
    have "json_at (JStr (maskValue p)) (path @ [Key k]) = None" by (cases path) simp_all
    have "visited path" using Cons.prems(1) visited_Key unfolding Key by blast
    moreover have "json_at (mask_value p x) (path @ [Key k]) = Some v"
      using Cons.prems(3) \<open>json_at (JStr (maskValue p)) (path @ [Key k]) = None\<close>
      by (simp add: j Key x map_of_mask split: if_splits)
    ultimately show ?thesis using Cons.IH Cons.prems(2) by blast
  next
    case (Item i)
    obtain xs where j: "j = JArr xs" using Cons.prems(3) Item by (cases j) simp_all
    have x: "json_at (mask_item p (xs ! i)) (path @ [Key k]) = Some v"
      using Cons.prems(3) by (simp add: j Item mask_value_arr del: mask_value.simps split: if_splits)
    have vi: "(path = [] \<or> (\<exists>k q. path = Key k # q)) \<and> visited path"
      by (rule visited_Item [OF Cons.prems(1) [unfolded Item]])
    then obtain k' q where q: "path @ [Key k] = Key k' # q" by (cases path) auto
    obtain kvs where "mask_item p (xs ! i) = JObj kvs" using json_at_Key x q by metis
    then have "mask_item p (xs ! i) = mask_value p (xs ! i)" by (cases "xs ! i") (simp_all add: mask_item_def)
    then show ?thesis using Cons.IH Cons.prems(2) x vi by metis
  qed
qed

lemma mask_value_ok:
  "numbers_ok j \<Longrightarrow> numbers_ok (mask_value p j)" "go_sorted j \<Longrightarrow> go_sorted (mask_value p j)"
proof -
  have "(numbers_ok j \<longrightarrow> numbers_ok (mask_value p j)) \<and> (go_sorted j \<longrightarrow> go_sorted (mask_value p j))"
  proof (induction p j rule: mask_value.induct)
    case (1 p kvs)
    have "map fst (map (\<lambda>(k, v). (k, if masked_key p k then JStr (maskValue p) else mask_value p v)) kvs) = map fst kvs"
      by (simp add: comp_def case_prod_beta)
    then show ?case using 1 by (fastforce simp: list_all_iff simp del: map_map)
  next
    case (2 p xs)
    have "(numbers_ok x \<longrightarrow> numbers_ok (mask_item p x)) \<and> (go_sorted x \<longrightarrow> go_sorted (mask_item p x))"
      if "x \<in> set xs" for x
      by (cases x) (use 2 that in \<open>simp_all add: mask_item_def del: mask_value.simps\<close>)
    then show ?case unfolding mask_value_arr by (auto simp: list_all_iff)
  qed simp_all
  then show "numbers_ok j \<Longrightarrow> numbers_ok (mask_value p j)" "go_sorted j \<Longrightarrow> go_sorted (mask_value p j)"
    by simp_all
qed


definition gateway_masker :: PIIMasker where
  "gateway_masker =
     NewPIIMasker [''password'', ''password_hash'', ''api_key'', ''secret'', ''token'', ''ssn'', ''credit_card''] ''***''"

lemma demo_body:
  "unmarshal_map ''{\"user\":{\"Password\":7}}'' = Some (JObj [(''user'', JObj [(''Password'', JInt 7)])])"
  by code_simp


text \<open>An array directly in an array keeps its secrets in the clear.\<close>

lemma nested_arrays_leak:
  "\<not> masked_key p k \<Longrightarrow> maskMap p [(k, JArr [JArr xs])] = [(k, JArr [JArr xs])]"
  by (simp add: maskMap_def)

section \<open>The chain\<close>

text \<open>
  Interceptors of which each keeps some view of the request: the chain keeps it, and it stops at
  the first error.
\<close>

locale request_chain =
  fixes ics :: "interceptor list" and view :: "request \<Rightarrow> 'v"
  assumes keeps_view: "i \<in> set ics \<Longrightarrow> ic_InterceptRequest i c r = Inr r' \<Longrightarrow> view r' = view r"
begin

lemma chain_keeps: "Chain_InterceptRequest ics c r = Inr r' \<Longrightarrow> view r' = view r"
proof -
  have "set js \<subseteq> set ics \<Longrightarrow> Chain_InterceptRequest js c r = Inr r' \<Longrightarrow> view r' = view r" for js
  proof (induction js arbitrary: r)
    case (Cons i js)
    then show ?case using keeps_view [of i c r] by (auto split: sum.splits)
  qed simp
  then show "Chain_InterceptRequest ics c r = Inr r' \<Longrightarrow> view r' = view r" by blast
qed

end

text \<open>The chain of the server (\<open>cmd/server/main.go\<close>): the schema first, then the masker.\<close>

definition gateway_chain :: "schema_check \<Rightarrow> interceptor list" where
  "gateway_chain check = [schema_validator check, pii_masker gateway_masker]"

definition request_line :: "request \<Rightarrow> string \<times> string \<times> (string \<Rightarrow> string) \<times> (string \<Rightarrow> string) \<times> (string \<Rightarrow> string option)" where
  "request_line r = (rq_method r, rq_path r, rq_header r, rq_query r, rq_cookie r)"

lemma read_all_line: "read_all n r = Inr (b, r') \<Longrightarrow> request_line r' = request_line r \<and> b = take n (rq_body r)"
  by (auto simp: read_all_def request_line_def split: option.splits if_splits)

lemma set_body_line [simp]: "request_line (set_body b r) = request_line r" "rq_body (set_body b r) = b"
  by (simp_all add: set_body_def request_line_def)

lemma SchemaValidator_effect:
  assumes "SchemaValidator_InterceptRequest check c r = Inr r'"
  shows "request_line r' = request_line r \<and>
    (body_method (rq_method r) \<and> rq_body r \<noteq> [] \<longrightarrow>
       rq_body r' \<noteq> [] \<and> take maxInterceptorBodySize (rq_body r') = take maxInterceptorBodySize (rq_body r) \<and>
       (\<forall>s. gw_EndpointSchema c = Some s \<and> s \<noteq> [] \<longrightarrow>
          (\<exists>schema. unmarshal_map s = Some schema \<and> check schema (take maxInterceptorBodySize (rq_body r)) = Inr [])))"
  using assms
  by (auto simp: SchemaValidator_InterceptRequest_def maxInterceptorBodySize_def read_all_line
      split: option.splits if_splits sum.splits prod.splits dest!: read_all_line)

lemma PIIMasker_effect:
  assumes "PIIMasker_InterceptRequest p c r = Inr r'"
  shows "request_line r' = request_line r \<and>
    (body_method (rq_method r) \<and> rq_body r \<noteq> [] \<and> gw_PIIMasking c = Some True \<longrightarrow>
       rq_body r' = maskBody p (take maxInterceptorBodySize (rq_body r)))"
  using assms
  by (auto simp: PIIMasker_InterceptRequest_def maxInterceptorBodySize_def
      split: option.splits if_splits sum.splits prod.splits dest!: read_all_line)

interpretation gw: request_chain "gateway_chain check" request_line for check
  by unfold_locales
    (auto simp: gateway_chain_def schema_validator_def pii_masker_def SchemaValidator_effect PIIMasker_effect)

text \<open>
  Where the chain of the server lets a request through, its method, path, headers, query and
  cookies are the client's; if it has a body and a method that takes one, the first MiB of it was
  valid for the schema of the endpoint, if it has one, and an endpoint with masking gets the
  masked body.
\<close>

theorem gateway_chain_effect:
  assumes "Chain_InterceptRequest (gateway_chain check) c r = Inr r'"
  shows "request_line r' = request_line r \<and>
    (body_method (rq_method r) \<and> rq_body r \<noteq> [] \<longrightarrow>
       (\<forall>s. gw_EndpointSchema c = Some s \<and> s \<noteq> [] \<longrightarrow>
          (\<exists>schema. unmarshal_map s = Some schema \<and> check schema (take maxInterceptorBodySize (rq_body r)) = Inr [])) \<and>
       (gw_PIIMasking c = Some True \<longrightarrow>
          rq_body r' = maskBody gateway_masker (take maxInterceptorBodySize (rq_body r))))"
proof -
  obtain r1 where r1: "SchemaValidator_InterceptRequest check c r = Inr r1"
    "PIIMasker_InterceptRequest gateway_masker c r1 = Inr r'"
    using assms by (auto simp: gateway_chain_def schema_validator_def pii_masker_def split: sum.splits)
  have "rq_method r1 = rq_method r" using SchemaValidator_effect [OF r1(1)] by (simp add: request_line_def)
  then show ?thesis
    using SchemaValidator_effect [OF r1(1)] PIIMasker_effect [OF r1(2)] gw.chain_keeps [OF assms] by simp
qed

theorem gateway_chain_effect_witness:
  "\<exists>r'. Chain_InterceptRequest (gateway_chain (\<lambda>_ _. Inr [])) (background\<lparr>gw_PIIMasking := Some True\<rparr>)
       (demo_request\<lparr>rq_body := ''[1]''\<rparr>) = Inr r' \<and>
     rq_body r' = maskBody gateway_masker (take maxInterceptorBodySize ''[1]'')"
proof -
  have "\<exists>r'. Chain_InterceptRequest (gateway_chain (\<lambda>_ _. Inr [])) (background\<lparr>gw_PIIMasking := Some True\<rparr>)
       (demo_request\<lparr>rq_body := ''[1]''\<rparr>) = Inr r'"
    by (simp add: gateway_chain_def schema_validator_def pii_masker_def SchemaValidator_InterceptRequest_def
        PIIMasker_InterceptRequest_def background_def demo_request_def body_method_def read_all_def)
  then obtain r' where r': "Chain_InterceptRequest (gateway_chain (\<lambda>_ _. Inr []))
      (background\<lparr>gw_PIIMasking := Some True\<rparr>) (demo_request\<lparr>rq_body := ''[1]''\<rparr>) = Inr r'" ..
  from gateway_chain_effect [OF this] show ?thesis
    using r' by (auto simp: demo_request_def background_def body_method_def)
qed

end
