(* ===== verification/Go_Url.thy ===== *)
theory Go_Url
  imports Json
begin

text \<open>
  What \<open>url.Parse\<close> of \<open>net/url\<close> says of a text: \<open>None\<close> where it is an error, otherwise the scheme
  and the host. User information, path, query and fragment are checked, as their errors count,
  and not kept.
\<close>

datatype encoding = EncPath | EncHost | EncZone | EncUser | EncFragment

definition alnum :: "char \<Rightarrow> bool" where
  "alnum c \<longleftrightarrow> is_upper c \<or> is_lower c \<or> is_digit c"

definition host_chars :: string where
  "host_chars = CHR 0x27 # CHR 0x22 # ''!$&()*+,;=:[]<>''"

definition shouldEscape :: "encoding \<Rightarrow> char \<Rightarrow> bool" where
  "shouldEscape m c \<longleftrightarrow>
     \<not> (alnum c \<or> ((m = EncHost \<or> m = EncZone) \<and> c \<in> set host_chars) \<or> c \<in> set ''-_.~'' \<or>
        (c \<in> set ''$&+,/:;=?@'' \<and>
          (m = EncPath \<and> c \<noteq> CHR ''?'' \<or> m = EncUser \<and> c \<notin> set ''@/?:'' \<or> m = EncFragment)) \<or>
        (m = EncFragment \<and> c \<in> set ''!()*''))"

text \<open>Whether \<open>unescape\<close> succeeds.\<close>

fun unescapes :: "encoding \<Rightarrow> string \<Rightarrow> bool" where
  "unescapes m [] \<longleftrightarrow> True"
| "unescapes m (c # cs) \<longleftrightarrow>
     (if c = CHR ''%''
      then (case cs of
              a # b # r \<Rightarrow>
                (case (hex_val a, hex_val b) of
                   (Some x, Some y) \<Rightarrow>
                     (m = EncHost \<longrightarrow> x \<ge> 8 \<or> (a = CHR ''2'' \<and> b = CHR ''5'')) \<and>
                     (m = EncZone \<longrightarrow> (a = CHR ''2'' \<and> b = CHR ''5'') \<or> 16 * x + y = 32 \<or>
                        \<not> shouldEscape EncHost (char_of (16 * x + y))) \<and>
                     unescapes m r
                 | _ \<Rightarrow> False)
            | _ \<Rightarrow> False)
      else (m = EncHost \<or> m = EncZone \<longrightarrow> (of_char c :: nat) < 128 \<longrightarrow> \<not> shouldEscape m c) \<and> unescapes m cs)"

definition cut :: "char \<Rightarrow> string \<Rightarrow> string \<times> string" where
  "cut c s = (takeWhile (\<lambda>x. x \<noteq> c) s, drop 1 (dropWhile (\<lambda>x. x \<noteq> c) s))"

text \<open>\<open>getScheme\<close>: the scheme, empty where there is none, and the rest.\<close>

definition scheme_char :: "char \<Rightarrow> bool" where
  "scheme_char c \<longleftrightarrow> alnum c \<or> c \<in> set ''+-.''"

definition getScheme :: "string \<Rightarrow> (string \<times> string) option" where
  "getScheme s =
     (let p = takeWhile scheme_char s; r = dropWhile scheme_char s
      in case s of
           [] \<Rightarrow> Some ([], s)
         | c # _ \<Rightarrow>
             if c = CHR '':'' then None
             else if is_digit c \<or> c \<in> set ''+-.'' then Some ([], s)
             else case r of
                 x # t \<Rightarrow> if x = CHR '':'' \<and> p \<noteq> [] then Some (p, t) else Some ([], s)
               | [] \<Rightarrow> Some ([], s))"

definition validOptionalPort :: "string \<Rightarrow> bool" where
  "validOptionalPort p \<longleftrightarrow>
     (case p of [] \<Rightarrow> True | c # ds \<Rightarrow> c = CHR '':'' \<and> list_all is_digit ds)"

definition after_last :: "char \<Rightarrow> string \<Rightarrow> string" where
  "after_last c s = rev (takeWhile (\<lambda>x. x \<noteq> c) (rev s))"

definition validUserinfo :: "string \<Rightarrow> bool" where
  "validUserinfo s \<longleftrightarrow>
     list_all (\<lambda>c. alnum c \<or> c = CHR 0x27 \<or> c \<in> set ''-._:~!$&()*+,;=%@'') s"

definition parseHost :: "string \<Rightarrow> string option" where
  "parseHost host =
     (case host of
        c # r \<Rightarrow>
          if c = CHR ''[''
          then if CHR '']'' \<notin> set r \<or> \<not> validOptionalPort (after_last (CHR '']'') r) then None
               else if unescapes EncHost host then Some host else None
          else if CHR '':'' \<in> set host \<and> \<not> list_all is_digit (after_last (CHR '':'') host) then None
          else if unescapes EncHost host then Some host else None
      | [] \<Rightarrow> Some [])"

definition parseAuthority :: "string \<Rightarrow> string option" where
  "parseAuthority authority =
     (if CHR ''@'' \<notin> set authority then parseHost authority
      else let user = the (before_last (CHR ''@'') authority)
           in case parseHost (after_last (CHR ''@'') authority) of
                None \<Rightarrow> None
              | Some h \<Rightarrow> if validUserinfo user \<and> unescapes EncUser user then Some h else None)"

definition url_Parse :: "string \<Rightarrow> (string \<times> string) option" where
  "url_Parse raw =
     (let (s, frag) = cut (CHR ''#'') raw
      in if list_ex (\<lambda>c. (of_char c :: nat) < 32 \<or> c = CHR 0x7F) s \<or> \<not> unescapes EncFragment frag then None
         else if s = ''*'' then Some ([], [])
         else case getScheme s of
             None \<Rightarrow> None
           | Some (scheme, rest) \<Rightarrow>
               (let (path, _) = cut (CHR ''?'') rest
                in if \<not> HasPrefix path ''/'' \<and> scheme \<noteq> [] then Some (ToLower scheme, [])
                   else if \<not> HasPrefix path ''/'' \<and> CHR '':'' \<in> set (fst (cut (CHR ''/'') path)) then None
                   else if HasPrefix path ''//'' \<and> (scheme \<noteq> [] \<or> \<not> HasPrefix path ''///'')
                   then (let authority = takeWhile (\<lambda>c. c \<noteq> CHR ''/'') (drop 2 path);
                             p = dropWhile (\<lambda>c. c \<noteq> CHR ''/'') (drop 2 path)
                         in case parseAuthority authority of
                              None \<Rightarrow> None
                            | Some h \<Rightarrow> if unescapes EncPath p then Some (ToLower scheme, h) else None)
                   else if unescapes EncPath path then Some (ToLower scheme, []) else None))"

end
