(* ===== verification/Proxy.thy ===== *)
theory Proxy
  imports Gateway Go_Url Decode
begin

text \<open>
  The proxy to a backend service, \<open>buildTargetURL\<close> and \<open>handleHTTPProxy\<close> of
  \<open>internal/gateway/dynamic_handler.go\<close>. The client of \<open>net/http\<close> and the text of a reference
  resolved against a base, of \<open>net/url\<close>, are parameters.
\<close>

record ServiceConfig =
  sc_BaseURL :: string
  sc_Headers :: "(string \<times> string) list"
  sc_Timeout :: int

record outgoing =
  og_Method :: string
  og_URL :: string
  og_Header :: "string \<Rightarrow> string"
  og_Body :: string
  og_max :: "nat option"

text \<open>A reply whose body ends, or breaks off with an error after its bytes.\<close>

record proxy_reply =
  py_StatusCode :: int
  py_Header :: "(string \<times> string list) list"
  py_Body :: string
  py_broken :: bool

record http_client =
  hc_RawQuery :: "request \<Rightarrow> string"
  hc_resolve :: "string \<Rightarrow> string \<Rightarrow> string \<Rightarrow> string"
  hc_valid :: "string \<Rightarrow> string \<Rightarrow> bool"
  hc_Do :: "outgoing \<Rightarrow> (goerr + proxy_reply) eff"

definition maxProxyResponseBytes :: nat where
  "maxProxyResponseBytes = 1048576"

definition target_path :: "Endpoint \<Rightarrow> request \<Rightarrow> string" where
  "target_path ep r = (if e_Path ep = [] then TrimPrefix (rq_path r) ''/api/v1'' else e_Path ep)"

definition buildTargetURL :: "http_client \<Rightarrow> string \<Rightarrow> Endpoint \<Rightarrow> request \<Rightarrow> goerr + string" where
  "buildTargetURL C baseURL ep r =
     (case url_Parse baseURL of
        None \<Rightarrow> Inl (Plain ''parse'')
      | Some _ \<Rightarrow> Inr (hc_resolve C baseURL (target_path ep r) (hc_RawQuery C r)))"

text \<open>
  The header of the request to the service: that of the client, with the values of the service's
  configuration, and without the two headers of the gateway. \<open>Header.Get\<close> of an absent header is empty.
\<close>

definition header_set :: "string \<times> string \<Rightarrow> (string \<Rightarrow> string) \<Rightarrow> string \<Rightarrow> string" where
  "header_set kv h n = (if same_header (fst kv) n then snd kv else h n)"

definition header_del :: "string \<Rightarrow> (string \<Rightarrow> string) \<Rightarrow> string \<Rightarrow> string" where
  "header_del name h n = (if same_header name n then [] else h n)"

definition proxy_header :: "(string \<times> string) list \<Rightarrow> (string \<Rightarrow> string) \<Rightarrow> string \<Rightarrow> string" where
  "proxy_header kvs h = header_del ''X-Organization-ID'' (header_del ''X-App-ID'' (fold header_set kvs h))"

text \<open>\<open>io.ReadAll\<close> of the reply, up to the limit.\<close>

definition read_reply :: "proxy_reply \<Rightarrow> goerr + backend_response" where
  "read_reply y =
     (if py_broken y \<and> length (py_Body y) < maxProxyResponseBytes
      then Inl (Wrapped ''failed to read proxy response'' (Plain ''read''))
      else Inr \<lparr>br_StatusCode = py_StatusCode y, br_Header = py_Header y,
             br_Body = take maxProxyResponseBytes (py_Body y)\<rparr>)"

definition handleHTTPProxy :: "http_client \<Rightarrow> ServiceConfig \<Rightarrow> backend_handler" where
  "handleHTTPProxy C cfg c ep r =
     (case buildTargetURL C (sc_BaseURL cfg) ep r of
        Inl e \<Rightarrow> fail (Wrapped ''failed to build target URL'' e)
      | Inr targetURL \<Rightarrow>
          if \<not> hc_valid C (rq_method r) targetURL
          then fail (Wrapped ''failed to create proxy request'' (Plain ''net/http''))
          else try_or (Wrapped ''proxy request failed'')
            (hc_Do C \<lparr>og_Method = rq_method r, og_URL = targetURL,
               og_Header = proxy_header (sc_Headers cfg) (rq_header r), og_Body = rq_body r, og_max = rq_max r\<rparr>)
            (\<lambda>y. State_Monad.return (map_sum id Some (read_reply y))))"

section \<open>What a service sees\<close>

text \<open>The service and its reply do not depend on the identifiers of the tenant in the header.\<close>

definition gateway_header :: "string \<Rightarrow> bool" where
  "gateway_header n \<longleftrightarrow> same_header ''X-App-ID'' n \<or> same_header ''X-Organization-ID'' n"

lemma fold_header_agree: "g n = h n \<Longrightarrow> fold header_set kvs g n = fold header_set kvs h n"
proof (induction kvs arbitrary: g h)
  case (Cons kv kvs)
  have "header_set kv g n = header_set kv h n" using Cons.prems by (simp add: header_set_def)
  then show ?case using Cons.IH [of "header_set kv g" "header_set kv h"] by simp
qed simp

lemma proxy_header_agree:
  assumes "\<And>n. \<not> gateway_header n \<Longrightarrow> g n = h n"
  shows "proxy_header kvs g = proxy_header kvs h"
proof
  fix n
  show "proxy_header kvs g n = proxy_header kvs h n"
    using fold_header_agree [of g n h kvs] assms by (auto simp: proxy_header_def header_del_def gateway_header_def)
qed

lemma proxy_hides_tenant:
  assumes "\<And>n. \<not> gateway_header n \<Longrightarrow> g n = rq_header r n"
    and "hc_RawQuery C (r\<lparr>rq_header := g\<rparr>) = hc_RawQuery C r"
  shows "handleHTTPProxy C cfg c ep (r\<lparr>rq_header := g\<rparr>) = handleHTTPProxy C cfg c ep r"
  using assms(2) proxy_header_agree [of g "rq_header r" "sc_Headers cfg", OF assms(1)]
  by (simp add: handleHTTPProxy_def buildTargetURL_def target_path_def cong: sum.case_cong option.case_cong if_cong)

text \<open>The token of the caller is sent on, unless the configuration of the service replaces it.\<close>

lemma proxy_forwards_token:
  assumes "\<forall>(k, v) \<in> set kvs. \<not> same_header k ''Authorization''"
  shows "proxy_header kvs h ''Authorization'' = h ''Authorization''"
proof -
  have "fold header_set kvs g ''Authorization'' = g ''Authorization''" for g
    using assms by (induction kvs arbitrary: g) (auto simp: header_set_def)
  moreover have "\<not> same_header ''X-App-ID'' ''Authorization''" "\<not> same_header ''X-Organization-ID'' ''Authorization''"
    by code_simp+
  ultimately show ?thesis by (simp add: proxy_header_def header_del_def)
qed

lemma read_reply_bound: "read_reply y = Inr x \<Longrightarrow> length (br_Body x) \<le> maxProxyResponseBytes"
  by (auto simp: read_reply_def split: if_splits)

end
