(* ===== verification/Dynamic.thy ===== *)
theory Dynamic
  imports Proxy
begin

text \<open>
  The dynamic handler of the gateway (\<open>internal/gateway/dynamic_handler.go\<close>): a request for an
  endpoint goes to a registered handler, to the proxy of \<open>Proxy\<close>, or becomes an SQL statement on a table named
  after the service. The tables are no part of the repository's schema: the database is a
  parameter, four functions from the text of a statement and its arguments to an effect.
  \<open>dr_order\<close> is the order in which a loop visits the decoded body, a Go map.
\<close>

section \<open>The database\<close>

datatype sql_arg = AUuid uuid | ATime time | AInt int | AJson json

record pool =
  pg_count :: "string \<Rightarrow> sql_arg list \<Rightarrow> (pg_error + int) eff"
  pg_rows :: "string \<Rightarrow> sql_arg list \<Rightarrow> (pg_error + string list) eff"
  pg_row :: "string \<Rightarrow> sql_arg list \<Rightarrow> (pg_error + string) eff"
  pg_exec :: "string \<Rightarrow> sql_arg list \<Rightarrow> (pg_error + int) eff"

record DynamicHandlerResolver =
  dr_registry :: BackendRegistry
  dr_db :: "pool option"
  dr_serviceConfig :: "(string \<times> ServiceConfig) list"
  dr_client :: http_client
  dr_order :: "(string \<times> json) list \<Rightarrow> (string \<times> json) list"

definition NewDynamicHandlerResolver ::
  "BackendRegistry option \<Rightarrow> pool option \<Rightarrow> http_client \<Rightarrow>
   ((string \<times> json) list \<Rightarrow> (string \<times> json) list) \<Rightarrow> DynamicHandlerResolver" where
  "NewDynamicHandlerResolver registry db client ord =
     \<lparr>dr_registry = (case registry of None \<Rightarrow> NewBackendRegistry | Some R \<Rightarrow> R), dr_db = db,
      dr_serviceConfig = [], dr_client = client, dr_order = ord\<rparr>"

definition RegisterServiceConfig ::
  "string \<Rightarrow> ServiceConfig \<Rightarrow> DynamicHandlerResolver \<Rightarrow> DynamicHandlerResolver" where
  "RegisterServiceConfig serviceName cfg d =
     d\<lparr>dr_serviceConfig := (serviceName, cfg) # filter (\<lambda>(k, _). k \<noteq> serviceName) (dr_serviceConfig d)\<rparr>"

definition isURL :: "string \<Rightarrow> bool" where
  "isURL s \<longleftrightarrow> (case url_Parse s of Some (scheme, host) \<Rightarrow> scheme \<noteq> [] \<and> host \<noteq> [] | None \<Rightarrow> False)"

definition dynamic_IsRegistered :: "DynamicHandlerResolver \<Rightarrow> string \<Rightarrow> bool" where
  "dynamic_IsRegistered d serviceName \<longleftrightarrow>
     registry_IsRegistered (dr_registry d) serviceName \<or> map_of (dr_serviceConfig d) serviceName \<noteq> None \<or>
     isURL serviceName"

section \<open>Table and record\<close>

definition deriveTableName :: "Endpoint \<Rightarrow> string" where
  "deriveTableName ep =
     (let named = (case e_Schema ep of
          None \<Rightarrow> None
        | Some schema \<Rightarrow>
            (case unmarshal_map schema of
               Some j \<Rightarrow> (case json_get ''table_name'' j of
                            Some (JStr t) \<Rightarrow> if t \<noteq> [] then Some t else None | _ \<Rightarrow> None)
             | None \<Rightarrow> None))
      in case named of
           Some t \<Rightarrow> t
         | None \<Rightarrow>
             (let s = TrimSuffix (TrimSuffix (TrimSuffix (e_BackendService ep) ''-service'') ''-api'') ''-handler''
              in if \<not> HasSuffix s ''s'' then s @ ''s'' else s))"

fun scan_id :: "uuid_api \<Rightarrow> string \<Rightarrow> string list \<Rightarrow> goerr + uuid" where
  "scan_id U singular (a # b # parts) =
     (if EqualFold a singular
      then (case uuid_parse U b of None \<Rightarrow> Inl (Plain ''invalid ID format'') | Some u \<Rightarrow> Inr u)
      else scan_id U singular (b # parts))"
| "scan_id U singular parts = Inl (Plain ''record ID required in path'')"

definition extractIDFromPath :: "uuid_api \<Rightarrow> string \<Rightarrow> string \<Rightarrow> goerr + uuid" where
  "extractIDFromPath U path tableName =
     scan_id U (TrimSuffix tableName ''s'') (Split (CHR ''/'') (Trim_char (CHR ''/'') path))"

section \<open>The statements\<close>

text \<open>The data of an answer with its status, or the error of the database.\<close>

type_synonym crud = "(goerr + json \<times> int) eff"

definition param :: "int \<Rightarrow> string" where
  "param n = CHR ''$'' # Itoa n"

definition handleList :: "pool \<Rightarrow> string \<Rightarrow> uuid \<Rightarrow> uuid \<Rightarrow> request \<Rightarrow> crud" where
  "handleList db tableName gid aid r =
     (let offset = fst (Atoi (rq_query r ''offset''));
          lmt = fst (Atoi (rq_query r ''limit''));
          lmt = (if lmt \<le> 0 \<or> lmt > 100 then 20 else lmt)
      in try_or (\<lambda>e. Wrapped ''failed to count records'' (pg_goerr e))
        (pg_count db (''SELECT COUNT(*) FROM '' @ tableName @ '' WHERE organization_id = $1 AND app_id = $2'')
           [AUuid gid, AUuid aid]) (\<lambda>total.
      try_or (\<lambda>e. Wrapped ''failed to query records'' (pg_goerr e))
        (pg_rows db (''SELECT row_to_json(t.*) FROM '' @ tableName @
           '' t WHERE organization_id = $1 AND app_id = $2 ORDER BY created_at DESC LIMIT $3 OFFSET $4'')
           [AUuid gid, AUuid aid, AInt lmt, AInt offset]) (\<lambda>records.
      ok (JObj [(''count'', JInt (int (length records))), (''data'', JArr (map raw_json records)),
            (''limit'', JInt lmt), (''offset'', JInt offset), (''total'', JInt total)], 200))))"

text \<open>The error of a look-up by identifier.\<close>

definition record_error :: "string \<Rightarrow> pg_error \<Rightarrow> goerr" where
  "record_error msg e = (if e = NoRows then Plain ''record not found'' else Wrapped msg (pg_goerr e))"

definition handleGet :: "uuid_api \<Rightarrow> pool \<Rightarrow> string \<Rightarrow> uuid \<Rightarrow> uuid \<Rightarrow> request \<Rightarrow> crud" where
  "handleGet U db tableName gid aid r =
     (case extractIDFromPath U (rq_path r) tableName of
        Inl e \<Rightarrow> fail e
      | Inr rid \<Rightarrow>
          try_or (record_error ''failed to get record'')
            (pg_row db (''SELECT row_to_json(t.*) FROM '' @ tableName @
               '' t WHERE id = $1 AND organization_id = $2 AND app_id = $3'') [AUuid rid, AUuid gid, AUuid aid])
            (\<lambda>raw. ok (JObj [(''data'', raw_json raw)], 200)))"

definition protected_column :: "string \<Rightarrow> bool" where
  "protected_column k \<longleftrightarrow>
     k \<in> {''id'', ''organization_id'', ''app_id'', ''created_at'', ''updated_at''}"

text \<open>The loop over the body: columns, values, placeholders and the index of the next parameter.\<close>

definition create_step ::
  "string \<times> json \<Rightarrow> string list \<times> sql_arg list \<times> string list \<times> int \<Rightarrow>
   string list \<times> sql_arg list \<times> string list \<times> int" where
  "create_step kv s =
     (let (key, value) = kv; (columns, values, placeholders, paramIndex) = s
      in if protected_column key then s
         else (columns @ [key], values @ [AJson value], placeholders @ [param paramIndex], paramIndex + 1))"

definition handleCreate :: "pool \<Rightarrow> string \<Rightarrow> uuid \<Rightarrow> uuid \<Rightarrow> (string \<times> json) list \<Rightarrow> crud" where
  "handleCreate db tableName gid aid input = do {
     rid \<leftarrow> uuid_New;
     now \<leftarrow> time_Now;
     let (columns, values, placeholders, paramIndex) =
       fold create_step input
         ([''id'', ''organization_id'', ''app_id'', ''created_at'', ''updated_at''],
          [AUuid rid, AUuid gid, AUuid aid, ATime now, ATime now], [''$1'', ''$2'', ''$3'', ''$4'', ''$5''], 6);
     try_or (\<lambda>e. Wrapped ''failed to create record'' (pg_goerr e))
       (pg_row db (''INSERT INTO '' @ tableName @ '' ('' @ Join '', '' columns @ '') VALUES ('' @
          Join '', '' placeholders @ '') RETURNING row_to_json('' @ tableName @ ''.*)'') values)
       (\<lambda>raw. ok (JObj [(''data'', raw_json raw)], 201))
   }"

definition update_step ::
  "string \<times> json \<Rightarrow> string list \<times> sql_arg list \<times> int \<Rightarrow> string list \<times> sql_arg list \<times> int" where
  "update_step kv s =
     (let (key, value) = kv; (setParts, values, paramIndex) = s
      in if protected_column key then s
         else (setParts @ [key @ '' = '' @ param paramIndex], values @ [AJson value], paramIndex + 1))"

definition update_text :: "string \<Rightarrow> string list \<Rightarrow> int \<Rightarrow> string" where
  "update_text tableName setParts paramIndex =
     ''UPDATE '' @ tableName @ '' SET '' @ Join '', '' setParts @ '' WHERE id = '' @ param paramIndex @
     '' AND organization_id = '' @ param (paramIndex + 1) @ '' AND app_id = '' @ param (paramIndex + 2) @
     '' RETURNING row_to_json('' @ tableName @ ''.*)''"

definition handleUpdate ::
  "uuid_api \<Rightarrow> pool \<Rightarrow> string \<Rightarrow> uuid \<Rightarrow> uuid \<Rightarrow> request \<Rightarrow> (string \<times> json) list \<Rightarrow> crud" where
  "handleUpdate U db tableName gid aid r input =
     (case extractIDFromPath U (rq_path r) tableName of
        Inl e \<Rightarrow> fail e
      | Inr rid \<Rightarrow> do {
          now \<leftarrow> time_Now;
          let (setParts, values, paramIndex) =
            fold update_step input ([''updated_at = $1''], [ATime now], 2);
          try_or (record_error ''failed to update record'')
            (pg_row db (update_text tableName setParts paramIndex)
               (values @ [AUuid rid, AUuid gid, AUuid aid]))
            (\<lambda>raw. ok (JObj [(''data'', raw_json raw)], 200))
        })"

definition handleDelete :: "uuid_api \<Rightarrow> pool \<Rightarrow> string \<Rightarrow> uuid \<Rightarrow> uuid \<Rightarrow> request \<Rightarrow> crud" where
  "handleDelete U db tableName gid aid r =
     (case extractIDFromPath U (rq_path r) tableName of
        Inl e \<Rightarrow> fail e
      | Inr rid \<Rightarrow>
          try_or (\<lambda>e. Wrapped ''failed to delete record'' (pg_goerr e))
            (pg_exec db (''DELETE FROM '' @ tableName @ '' WHERE id = $1 AND organization_id = $2 AND app_id = $3'')
               [AUuid rid, AUuid gid, AUuid aid])
            (\<lambda>n. if n = 0 then fail (Plain ''record not found'')
                 else ok (JObj [(''message'', JStr ''Record deleted successfully'')], 200)))"

section \<open>The handler\<close>

definition dynamic_response :: "int \<Rightarrow> json \<Rightarrow> backend_response" where
  "dynamic_response code j =
     \<lparr>br_StatusCode = code, br_Header = [(''Content-Type'', [''application/json''])], br_Body = Marshal j\<rparr>"

definition errorResponse :: "int \<Rightarrow> string \<Rightarrow> backend_response" where
  "errorResponse code message = dynamic_response code (error_body message)"

text \<open>The body as a map, empty where there is none or where it is no JSON object.\<close>

definition request_data :: "request \<Rightarrow> (string \<times> json) list" where
  "request_data r =
     (if rq_method r = ''GET'' \<or> rq_method r = ''DELETE'' then []
      else case read_all maxInterceptorBodySize r of
          Inl _ \<Rightarrow> []
        | Inr (body, _) \<Rightarrow> (case unmarshal_map body of Some (JObj kvs) \<Rightarrow> kvs | _ \<Rightarrow> []))"

definition dynamic_action ::
  "uuid_api \<Rightarrow> pool \<Rightarrow> string \<Rightarrow> string \<Rightarrow> uuid \<Rightarrow> uuid \<Rightarrow> request \<Rightarrow> (string \<times> json) list \<Rightarrow> crud option" where
  "dynamic_action U db action tableName gid aid r input =
     (if action = ''list'' then Some (handleList db tableName gid aid r)
      else if action = ''get'' then Some (handleGet U db tableName gid aid r)
      else if action = ''create'' then Some (handleCreate db tableName gid aid input)
      else if action = ''update'' \<or> action = ''patch'' then Some (handleUpdate U db tableName gid aid r input)
      else if action = ''delete'' then Some (handleDelete U db tableName gid aid r)
      else None)"

definition handleGeneric :: "uuid_api \<Rightarrow> DynamicHandlerResolver \<Rightarrow> backend_handler" where
  "handleGeneric U d c ep r =
     (case OrgIDFromContext c of
        None \<Rightarrow> ok (Some (errorResponse 400 ''organization context required''))
      | Some gid \<Rightarrow>
          if rq_header r ''X-App-ID'' = [] then ok (Some (errorResponse 400 ''app context required''))
          else case uuid_parse U (rq_header r ''X-App-ID'') of
              None \<Rightarrow> ok (Some (errorResponse 400 ''invalid app ID''))
            | Some aid \<Rightarrow>
                (let tableName = deriveTableName ep
                 in if tableName = []
                    then ok (Some (errorResponse 400 (''cannot determine table for service: '' @ e_BackendService ep)))
                    else case dr_db d of
                        None \<Rightarrow> ok (Some (errorResponse 500 ''database not available''))
                      | Some db \<Rightarrow>
                          (case dynamic_action U db (ToLower (e_BackendAction ep)) tableName gid aid r
                                  (dr_order d (request_data r)) of
                             None \<Rightarrow> ok (Some (errorResponse 400 (''unknown action: '' @ e_BackendAction ep)))
                           | Some m \<Rightarrow> do {
                               x \<leftarrow> m;
                               ok (Some (case x of
                                    Inl _ \<Rightarrow> errorResponse 500 ''an internal error occurred''
                                  | Inr (j, code) \<Rightarrow> dynamic_response code j))
                             })))"

definition ResolveHandler :: "uuid_api \<Rightarrow> DynamicHandlerResolver \<Rightarrow> backend_handler" where
  "ResolveHandler U d c ep r =
     (let serviceName = e_BackendService ep
      in if registry_IsRegistered (dr_registry d) serviceName then registry_Handle (dr_registry d) c ep r
         else case map_of (dr_serviceConfig d) serviceName of
             Some cfg \<Rightarrow>
               if sc_BaseURL cfg \<noteq> [] then handleHTTPProxy (dr_client d) cfg c ep r
               else if isURL serviceName
               then handleHTTPProxy (dr_client d) \<lparr>sc_BaseURL = serviceName, sc_Headers = [], sc_Timeout = 0\<rparr> c ep r
               else handleGeneric U d c ep r
           | None \<Rightarrow>
               if isURL serviceName
               then handleHTTPProxy (dr_client d) \<lparr>sc_BaseURL = serviceName, sc_Headers = [], sc_Timeout = 0\<rparr> c ep r
               else handleGeneric U d c ep r)"

definition dynamic_resolver :: "uuid_api \<Rightarrow> DynamicHandlerResolver \<Rightarrow> HandlerResolver" where
  "dynamic_resolver U d = \<lparr>hr_Handle = ResolveHandler U d, hr_IsRegistered = dynamic_IsRegistered d\<rparr>"

end
