(* ===== verification/Dynamic_Props.thy ===== *)
theory Dynamic_Props
  imports Dynamic Interceptor_Props
begin

text \<open>What the statements of the dynamic handler are bound to, and what they are not.\<close>

section \<open>The numbering of parameters\<close>

lemma Join_append: "xs \<noteq> [] \<Longrightarrow> ys \<noteq> [] \<Longrightarrow> Join sep (xs @ ys) = Join sep xs @ sep @ Join sep ys"
proof (induction xs rule: induct_list012)
  case (2 x)
  then show ?case by (cases ys) simp_all
qed auto

definition client_columns :: "(string \<times> json) list \<Rightarrow> (string \<times> json) list" where
  "client_columns input = filter (\<lambda>(k, v). \<not> protected_column k) input"

lemma client_columns_Cons:
  "client_columns ((k, v) # input) = (if protected_column k then client_columns input else (k, v) # client_columns input)"
  by (simp add: client_columns_def)

text \<open>The loops number the parameters without a gap, each after its value.\<close>

lemma fold_update_step:
  assumes "int (length vals) = n - 1"
  shows "fold update_step input (sets, vals, n) =
    (sets @ map (\<lambda>(i, k, v). k @ '' = '' @ param (n + int i)) (enumerate 0 (client_columns input)),
     vals @ map (\<lambda>(k, v). AJson v) (client_columns input), n + int (length (client_columns input)))"
  using assms
proof (induction input arbitrary: sets vals n)
  case (Cons kv input)
  obtain k v where kv: "kv = (k, v)" by (cases kv)
  show ?case
  proof (cases "protected_column k")
    case True
    then show ?thesis using Cons by (simp add: kv update_step_def client_columns_Cons)
  next
    case False
    have "map (\<lambda>(i, k, v). k @ '' = '' @ param (n + 1 + int i)) (enumerate 0 (client_columns input)) =
        map (\<lambda>(i, k, v). k @ '' = '' @ param (n + int i)) (enumerate 1 (client_columns input))"
      by (auto simp: enumerate_Suc_eq case_prod_beta add.assoc)
    then show ?thesis using False Cons.prems
        Cons.IH [of "vals @ [AJson v]" "n + 1" "sets @ [k @ '' = '' @ param n]"]
      by (simp add: kv update_step_def client_columns_Cons)
  qed
qed (simp add: client_columns_def)

lemma fold_create_step:
  "fold create_step input (cols, vals, phs, n) =
    (cols @ map fst (client_columns input), vals @ map (\<lambda>(k, v). AJson v) (client_columns input),
     phs @ map (\<lambda>i. param (n + int i)) [0..<length (client_columns input)],
     n + int (length (client_columns input)))"
proof (induction input arbitrary: cols vals phs n)
  case (Cons kv input)
  obtain k v where kv: "kv = (k, v)" by (cases kv)
  have "map (\<lambda>i. param (n + 1 + int i)) [0..<m] = map (\<lambda>i. param (n + int i)) [1..<Suc m]" for m
    by (simp add: map_Suc_upt [symmetric] add.assoc comp_def del: upt_Suc)
  moreover have "[0..<Suc m] = 0 # [1..<Suc m]" for m by (simp add: upt_conv_Cons del: upt_Suc)
  ultimately show ?case using Cons by (simp add: kv create_step_def client_columns_Cons del: upt_Suc)
qed (simp add: client_columns_def)

section \<open>The identifier in the path\<close>

text \<open>The path that the source gives as an example, \<open>/orders/{id}\<close>, has no identifier for the table \<open>orders\<close>.\<close>

lemma documented_path_rejected:
  "extractIDFromPath demo_uuid (''/orders/'' @ uuid_str demo_uuid 6) ''orders'' = Inl (Plain ''record ID required in path'')"
  by code_simp

section \<open>Scoped statements\<close>

text \<open>
  Characters that neither quote, nor end, nor comment out a part of a statement, and the column
  names made of lower-case letters, digits and underscores.
\<close>

definition plain_char :: "char \<Rightarrow> bool" where
  "plain_char c \<longleftrightarrow> alnum c \<or> c \<in> set '' _$=,().*''"

definition plain_key :: "string \<Rightarrow> bool" where
  "plain_key k \<longleftrightarrow> list_all (\<lambda>c. is_lower c \<or> is_digit c \<or> c = CHR ''_'') k"

definition insert_text :: "string \<Rightarrow> string list \<Rightarrow> string" where
  "insert_text t cols =
     ''INSERT INTO '' @ t @ '' ('' @ Join '', '' cols @ '') VALUES ('' @
     Join '', '' (map (\<lambda>i. param (1 + int i)) [0..<length cols]) @ '') RETURNING row_to_json('' @ t @ ''.*)''"

definition assignments :: "string list \<Rightarrow> string list" where
  "assignments ks = ''updated_at = $1'' # map (\<lambda>(i, k). k @ '' = '' @ param (2 + int i)) (enumerate 0 ks)"

text \<open>
  A statement of one tenant: it is plain, and it reads or deletes under a condition that binds the
  organization and the app to those of the tenant, or inserts a row with these two, or updates
  under that condition columns that are none of the handler's own, however they are spelt.
\<close>

definition scoped :: "uuid \<Rightarrow> uuid \<Rightarrow> string \<Rightarrow> sql_arg list \<Rightarrow> bool" where
  "scoped gid aid text args \<longleftrightarrow> list_all plain_char text \<and>
     ((\<exists>t post. (text = ''SELECT COUNT(*) FROM '' @ t @ '' WHERE organization_id = $1 AND app_id = $2'' \<or>
          text = ''SELECT row_to_json(t.*) FROM '' @ t @ '' t WHERE organization_id = $1 AND app_id = $2'' @ post) \<and>
        take 2 args = [AUuid gid, AUuid aid]) \<or>
      (\<exists>verb t rid. verb \<in> {''SELECT row_to_json(t.*) FROM '' @ t @ '' t'', ''DELETE FROM '' @ t} \<and>
        text = verb @ '' WHERE id = $1 AND organization_id = $2 AND app_id = $3'' \<and>
        args = [AUuid rid, AUuid gid, AUuid aid]) \<or>
      (\<exists>t rid now ks vs. text = insert_text t ([''id'', ''organization_id'', ''app_id'', ''created_at'', ''updated_at''] @ ks) \<and>
        args = [AUuid rid, AUuid gid, AUuid aid, ATime now, ATime now] @ vs \<and> length vs = length ks \<and>
        (\<forall>k \<in> set ks. \<not> protected_column (ToLower k))) \<or>
      (\<exists>t rid now ks vs. text = update_text t (assignments ks) (2 + int (length ks)) \<and>
        args = ATime now # vs @ [AUuid rid, AUuid gid, AUuid aid] \<and> length vs = length ks \<and>
        (\<forall>k \<in> set ks. \<not> protected_column (ToLower k))))"

lemma plain_append: "list_all plain_char (s @ t) \<longleftrightarrow> list_all plain_char s \<and> list_all plain_char t"
  by simp

lemma plain_param: "0 \<le> n \<Longrightarrow> list_all plain_char (param n)"
  using nat_digits_digits [of "nat n"] by (auto simp: param_def Itoa_def plain_char_def alnum_def list_all_iff)

lemma plain_Join: "list_all (list_all plain_char) ws \<Longrightarrow> list_all plain_char (Join '', '' ws)"
  by (induction ws rule: induct_list012) (auto simp: plain_char_def)

lemma plain_key_char: "plain_key k \<Longrightarrow> list_all plain_char k"
  by (auto simp: plain_key_def plain_char_def alnum_def list_all_iff)

lemma plain_key_lower: "plain_key k \<Longrightarrow> ToLower k = k"
proof -
  assume "plain_key k"
  then have "lower_char c = c" if "c \<in> set k" for c
    using that by (auto simp: plain_key_def list_all_iff lower_char_def is_upper_def is_lower_def is_digit_def Let_def)
  then show ?thesis by (simp add: ToLower_def map_idI)
qed

lemma plain_words:
  "list_all plain_char ''SELECT COUNT(*) FROM ''" "list_all plain_char ''SELECT row_to_json(t.*) FROM ''"
  "list_all plain_char '' WHERE organization_id = $1 AND app_id = $2''"
  "list_all plain_char '' t WHERE organization_id = $1 AND app_id = $2 ORDER BY created_at DESC LIMIT $3 OFFSET $4''"
  "list_all plain_char '' t WHERE id = $1 AND organization_id = $2 AND app_id = $3''"
  "list_all plain_char '' WHERE id = $1 AND organization_id = $2 AND app_id = $3''"
  "list_all plain_char ''DELETE FROM ''" "list_all plain_char ''INSERT INTO ''" "list_all plain_char '' (''"
  "list_all plain_char '') VALUES (''" "list_all plain_char '') RETURNING row_to_json(''"
  "list_all plain_char ''.*)''" "list_all plain_char ''UPDATE ''" "list_all plain_char '' SET ''"
  "list_all plain_char '' WHERE id = ''" "list_all plain_char '' AND organization_id = ''"
  "list_all plain_char '' AND app_id = ''" "list_all plain_char '' RETURNING row_to_json(''"
  "list_all plain_char ''updated_at = $1''" "list_all plain_char '' = ''"
  by (simp_all add: plain_char_def alnum_def is_upper_def is_lower_def is_digit_def)

definition agree :: "uuid \<Rightarrow> uuid \<Rightarrow> pool \<Rightarrow> pool \<Rightarrow> bool" where
  "agree gid aid D D' \<longleftrightarrow>
     (\<forall>text args. scoped gid aid text args \<longrightarrow>
        pg_count D text args = pg_count D' text args \<and> pg_rows D text args = pg_rows D' text args \<and>
        pg_row D text args = pg_row D' text args \<and> pg_exec D text args = pg_exec D' text args)"

lemma agreeD:
  assumes "agree gid aid D D'" "scoped gid aid text args"
  shows "pg_count D text args = pg_count D' text args" "pg_rows D text args = pg_rows D' text args"
    "pg_row D text args = pg_row D' text args" "pg_exec D text args = pg_exec D' text args"
  using assms unfolding agree_def by blast+

lemma scoped_list:
  assumes "list_all plain_char text" "take 2 args = [AUuid gid, AUuid aid]"
    "text = ''SELECT COUNT(*) FROM '' @ t @ '' WHERE organization_id = $1 AND app_id = $2'' \<or>
     text = ''SELECT row_to_json(t.*) FROM '' @ t @ '' t WHERE organization_id = $1 AND app_id = $2'' @ post"
  shows "scoped gid aid text args"
  using assms unfolding scoped_def by blast

lemma scoped_one:
  assumes "list_all plain_char text" "verb \<in> {''SELECT row_to_json(t.*) FROM '' @ t @ '' t'', ''DELETE FROM '' @ t}"
    "text = verb @ '' WHERE id = $1 AND organization_id = $2 AND app_id = $3''" "args = [AUuid rid, AUuid gid, AUuid aid]"
  shows "scoped gid aid text args"
  using assms unfolding scoped_def by blast

lemma scoped_read:
  assumes "list_all plain_char t"
  shows "scoped gid aid (''SELECT COUNT(*) FROM '' @ t @ '' WHERE organization_id = $1 AND app_id = $2'') [AUuid gid, AUuid aid]"
    "scoped gid aid (''SELECT row_to_json(t.*) FROM '' @ t @
       '' t WHERE organization_id = $1 AND app_id = $2 ORDER BY created_at DESC LIMIT $3 OFFSET $4'')
       [AUuid gid, AUuid aid, l, f]"
    "scoped gid aid (''SELECT row_to_json(t.*) FROM '' @ t @ '' t WHERE id = $1 AND organization_id = $2 AND app_id = $3'')
       [AUuid rid, AUuid gid, AUuid aid]"
    "scoped gid aid (''DELETE FROM '' @ t @ '' WHERE id = $1 AND organization_id = $2 AND app_id = $3'')
       [AUuid rid, AUuid gid, AUuid aid]"
proof -
  show "scoped gid aid (''SELECT COUNT(*) FROM '' @ t @ '' WHERE organization_id = $1 AND app_id = $2'') [AUuid gid, AUuid aid]"
    by (rule scoped_list [where t = t]) (use assms plain_words in simp_all)
  show "scoped gid aid (''SELECT row_to_json(t.*) FROM '' @ t @
       '' t WHERE organization_id = $1 AND app_id = $2 ORDER BY created_at DESC LIMIT $3 OFFSET $4'')
       [AUuid gid, AUuid aid, l, f]"
    by (rule scoped_list [where t = t and post = "'' ORDER BY created_at DESC LIMIT $3 OFFSET $4''"])
      (use assms plain_words in simp_all)
  show "scoped gid aid (''SELECT row_to_json(t.*) FROM '' @ t @ '' t WHERE id = $1 AND organization_id = $2 AND app_id = $3'')
       [AUuid rid, AUuid gid, AUuid aid]"
    by (rule scoped_one [where t = t and verb = "''SELECT row_to_json(t.*) FROM '' @ t @ '' t''"])
      (use assms plain_words in simp_all)
  show "scoped gid aid (''DELETE FROM '' @ t @ '' WHERE id = $1 AND organization_id = $2 AND app_id = $3'')
       [AUuid rid, AUuid gid, AUuid aid]"
    by (rule scoped_one [where t = t and verb = "''DELETE FROM '' @ t"]) (use assms plain_words in simp_all)
qed

definition plain_input :: "(string \<times> json) list \<Rightarrow> bool" where
  "plain_input input \<longleftrightarrow> (\<forall>(k, v) \<in> set input. plain_key k)"

lemma plain_columns:
  assumes "plain_input input" "k \<in> set (map fst (client_columns input))"
  shows "plain_key k" "\<not> protected_column (ToLower k)" "list_all plain_char k"
proof -
  show k: "plain_key k" using assms by (auto simp: plain_input_def client_columns_def)
  show "\<not> protected_column (ToLower k)"
    using assms(2) plain_key_lower [OF k] by (auto simp: client_columns_def)
  show "list_all plain_char k" by (rule plain_key_char [OF k])
qed

lemma shifted_params: "map (\<lambda>i. param (1 + int i)) [5..<5 + n] = map (\<lambda>i. param (6 + int i)) [0..<n]"
  by (rule nth_equalityI) (simp_all add: add.commute add.left_commute)

lemma first_params:
  "[''$1'', ''$2'', ''$3'', ''$4'', ''$5''] @ map (\<lambda>i. param (6 + int i)) [0..<n] =
     map (\<lambda>i. param (1 + int i)) [0..<5 + n]"
proof -
  have "map (\<lambda>i. param (1 + int i)) [0..<5 + n] =
      map (\<lambda>i. param (1 + int i)) [0..<5] @ map (\<lambda>i. param (1 + int i)) [5..<5 + n]"
    using upt_add_eq_append [of 0 5 n] by (simp only: map_append le0 add_0)
  note this [unfolded shifted_params]
  moreover have "map (\<lambda>i. param (1 + int i)) [0..<5] = [''$1'', ''$2'', ''$3'', ''$4'', ''$5'']"
    by code_simp
  ultimately show ?thesis by simp
qed

lemma scoped_insert:
  assumes "list_all plain_char t" "plain_input input"
  shows "scoped gid aid
    (insert_text t ([''id'', ''organization_id'', ''app_id'', ''created_at'', ''updated_at''] @ map fst (client_columns input)))
    ([AUuid rid, AUuid gid, AUuid aid, ATime now, ATime now] @ map (\<lambda>(k, v). AJson v) (client_columns input))"
    (is "scoped gid aid (insert_text t (?five @ ?ks)) _")
proof -
  have "list_all (list_all plain_char) (?five @ ?ks)"
    using plain_columns(3) [OF assms(2)] by (auto simp: list_all_iff plain_char_def alnum_def is_lower_def)
  moreover have "list_all (list_all plain_char) (map (\<lambda>i. param (1 + int i)) [0..<n])" for n
    by (simp add: list_all_iff [of "list_all plain_char"] plain_param)
  ultimately have "list_all plain_char (insert_text t (?five @ ?ks))"
    unfolding insert_text_def plain_append by (intro conjI assms(1) plain_words plain_Join)
  then show ?thesis using plain_columns(2) [OF assms(2)] unfolding scoped_def
    by (intro conjI disjI2 [OF disjI2 [OF disjI1]] exI [of _ t] exI [of _ rid] exI [of _ now] exI [of _ ?ks]
        exI [of _ "map (\<lambda>(k, v). AJson v) (client_columns input)"]) simp_all
qed

lemma assignments_columns:
  "assignments (map fst cs) =
     [''updated_at = $1''] @ map (\<lambda>(i, k, v). k @ '' = '' @ param (2 + int i)) (enumerate 0 cs)"
  by (simp add: assignments_def enumerate_eq_zip zip_map2 case_prod_beta comp_def)

lemma scoped_update:
  assumes "list_all plain_char t" "plain_input input"
  shows "scoped gid aid
    (update_text t (assignments (map fst (client_columns input))) (2 + int (length (client_columns input))))
    (ATime now # map (\<lambda>(k, v). AJson v) (client_columns input) @ [AUuid rid, AUuid gid, AUuid aid])"
proof -
  let ?ks = "map fst (client_columns input)"
  have "list_all (list_all plain_char) (assignments ?ks)"
  proof -
    have "list_all plain_char (k @ '' = '' @ param (2 + int i))" if "(i, k) \<in> set (enumerate 0 ?ks)" for i k
      unfolding plain_append using that plain_columns(3) [OF assms(2), of k]
      by (intro conjI plain_words plain_param) (auto simp: enumerate_eq_zip dest: set_zip_rightD)
    then show ?thesis unfolding assignments_def list_all_iff [of "list_all plain_char"]
      using plain_words by fastforce
  qed
  then have "list_all plain_char (update_text t (assignments ?ks) (2 + int (length ?ks)))"
    unfolding update_text_def plain_append by (intro conjI assms(1) plain_words plain_Join plain_param) simp_all
  then show ?thesis using plain_columns(2) [OF assms(2)] unfolding scoped_def
    by (intro conjI disjI2 [OF disjI2 [OF disjI2]] exI [of _ t] exI [of _ rid] exI [of _ now] exI [of _ ?ks]
        exI [of _ "map (\<lambda>(k, v). AJson v) (client_columns input)"]) simp_all
qed

section \<open>The statements of a request\<close>

lemma eff_eqI: "(\<And>w. run_state m w = run_state m' w) \<Longrightarrow> m = (m' :: 'a eff)"
  by (cases m; cases m') auto

lemma handleList_agree:
  assumes "agree gid aid D D'" "list_all plain_char t"
  shows "handleList D t gid aid r = handleList D' t gid aid r"
proof -
  note A = agreeD [OF assms(1)]
  show ?thesis unfolding handleList_def Let_def A(1) [OF scoped_read(1) [OF assms(2)]]
      A(2) [OF scoped_read(2) [OF assms(2)]] ..
qed

lemma handleGet_agree:
  assumes "agree gid aid D D'" "list_all plain_char t"
  shows "handleGet U D t gid aid r = handleGet U D' t gid aid r"
  unfolding handleGet_def agreeD(3) [OF assms(1) scoped_read(3) [OF assms(2)]] ..

lemma handleDelete_agree:
  assumes "agree gid aid D D'" "list_all plain_char t"
  shows "handleDelete U D t gid aid r = handleDelete U D' t gid aid r"
  unfolding handleDelete_def agreeD(4) [OF assms(1) scoped_read(4) [OF assms(2)]] ..

lemma create_columns:
  "fold create_step input
     ([''id'', ''organization_id'', ''app_id'', ''created_at'', ''updated_at''], vals, [''$1'', ''$2'', ''$3'', ''$4'', ''$5''], 6) =
   (let cols = [''id'', ''organization_id'', ''app_id'', ''created_at'', ''updated_at''] @ map fst (client_columns input)
    in (cols, vals @ map (\<lambda>(k, v). AJson v) (client_columns input), map (\<lambda>i. param (1 + int i)) [0..<length cols],
        6 + int (length (client_columns input))))"
proof -
  have len: "length ([''id'', ''organization_id'', ''app_id'', ''created_at'', ''updated_at''] @ map fst cs) = 5 + length cs"
    for cs :: "(string \<times> json) list" by simp
  show ?thesis by (simp only: fold_create_step Let_def len first_params)
qed

lemma handleCreate_text:
  "handleCreate D t gid aid input = do {
     rid \<leftarrow> uuid_New;
     now \<leftarrow> time_Now;
     try_or (\<lambda>e. Wrapped ''failed to create record'' (pg_goerr e))
       (pg_row D (insert_text t ([''id'', ''organization_id'', ''app_id'', ''created_at'', ''updated_at''] @
            map fst (client_columns input)))
          ([AUuid rid, AUuid gid, AUuid aid, ATime now, ATime now] @ map (\<lambda>(k, v). AJson v) (client_columns input)))
       (\<lambda>raw. ok (JObj [(''data'', raw_json raw)], 201))
   }"
  unfolding handleCreate_def create_columns Let_def prod.case insert_text_def ..

lemma handleCreate_agree:
  assumes "agree gid aid D D'" "list_all plain_char t" "plain_input input"
  shows "handleCreate D t gid aid input = handleCreate D' t gid aid input"
  unfolding handleCreate_text agreeD(3) [OF assms(1) scoped_insert [OF assms(2,3)]] ..

lemma handleUpdate_agree:
  assumes "agree gid aid D D'" "list_all plain_char t" "plain_input input"
  shows "handleUpdate U D t gid aid r input = handleUpdate U D' t gid aid r input"
proof (rule eff_eqI)
  fix w
  show "run_state (handleUpdate U D t gid aid r input) w = run_state (handleUpdate U D' t gid aid r input) w"
    using agreeD(3) [OF assms(1) scoped_update [OF assms(2,3)]]
    by (simp add: handleUpdate_def run_state_bind fold_update_step assignments_columns split: sum.split)
qed


text \<open>
  C26. The keys of the body are put into the statement as they are. Whatever text \<open>q\<close> a client sends
  as the key \<open>q --\<close> of its body, the update it causes starts with \<open>SET updated_at = $1,\<close> and \<open>q\<close>,
  and the rest, with the condition on organization and app, is a comment.
\<close>

theorem dynamic_update_injection:
  assumes "OrgIDFromContext c = Some gid" and "rq_header r ''X-App-ID'' \<noteq> []"
    and "uuid_parse U (rq_header r ''X-App-ID'') = Some aid" and "dr_db d = Some D"
    and "ToLower (e_BackendAction ep) = ''update''" and "deriveTableName ep = t" and "t \<noteq> []"
    and "CHR 0x0A \<notin> set t" and "extractIDFromPath U (rq_path r) t = Inr rid"
    and "dr_order d (request_data r) = [(q @ '' --'', v)]"
  shows "\<exists>rest. CHR 0x0A \<notin> set rest \<and> run_state (handleGeneric U d c ep r) w =
    (case run_state (pg_row D (''UPDATE '' @ t @ '' SET updated_at = $1, '' @ q @ '' --'' @ rest)
        [ATime (clock w), AJson v, AUuid rid, AUuid gid, AUuid aid]) (tick_world w) of
       (Inl _, w') \<Rightarrow> (Inr (Some (errorResponse 500 ''an internal error occurred'')), w')
     | (Inr raw, w') \<Rightarrow> (Inr (Some (dynamic_response 200 (JObj [(''data'', raw_json raw)]))), w'))"
proof -
  let ?rest = "'' = $2 WHERE id = $3 AND organization_id = $4 AND app_id = $5 RETURNING row_to_json('' @ t @ ''.*)''"
  have np: "\<not> protected_column (q @ '' --'')"
    by (auto simp: protected_column_def dest!: arg_cong [where f = last])
  have params: "param 2 = ''$2''" "param 3 = ''$3''" "param 4 = ''$4''" "param 5 = ''$5''" by code_simp+
  define stmt where "stmt = ''UPDATE '' @ t @ '' SET updated_at = $1, '' @ q @ '' --'' @ ?rest"
  have f: "fold update_step [(q @ '' --'', v)] ([''updated_at = $1''], [ATime now], 2) =
      ([''updated_at = $1'', q @ '' -- = $2''], [ATime now, AJson v], 3)" for now
    using np by (simp add: update_step_def params)
  have u: "update_text t [''updated_at = $1'', q @ '' -- = $2''] 3 = stmt"
    by (simp add: update_text_def params stmt_def)
  have run: "run_state (handleUpdate U D t gid aid r [(q @ '' --'', v)]) w =
      (case run_state (pg_row D stmt [ATime (clock w), AJson v, AUuid rid, AUuid gid, AUuid aid]) (tick_world w) of
       (Inl e, w') \<Rightarrow> (Inl (record_error ''failed to update record'' e), w')
     | (Inr raw, w') \<Rightarrow> (Inr (JObj [(''data'', raw_json raw)], 200), w'))"
    unfolding handleUpdate_def assms(9) sum.case run_state_bind run_time_Now prod.case Let_def f u run_try_or
      append.simps State_Monad.run_state_return ..
  have "dynamic_action U D ''update'' t gid aid r [(q @ '' --'', v)] =
      Some (handleUpdate U D t gid aid r [(q @ '' --'', v)])" by (simp add: dynamic_action_def)
  then have "run_state (handleGeneric U d c ep r) w =
    (case run_state (pg_row D stmt [ATime (clock w), AJson v, AUuid rid, AUuid gid, AUuid aid]) (tick_world w) of
       (Inl _, w') \<Rightarrow> (Inr (Some (errorResponse 500 ''an internal error occurred'')), w')
     | (Inr raw, w') \<Rightarrow> (Inr (Some (dynamic_response 200 (JObj [(''data'', raw_json raw)]))), w'))"
    using assms(1-7,10) by (simp add: handleGeneric_def run_state_bind run split: sum.split prod.split)
  moreover have "CHR 0x0A \<notin> set ?rest" using assms(8) by simp
  ultimately show ?thesis unfolding stmt_def by blast
qed

section \<open>Witnesses\<close>

definition demo_pool :: "string \<Rightarrow> pool" where
  "demo_pool row =
     \<lparr>pg_count = (\<lambda>_ _. State_Monad.return (Inr 1)), pg_rows = (\<lambda>_ _. State_Monad.return (Inr [row])),
      pg_row = (\<lambda>_ _. State_Monad.return (Inr row)), pg_exec = (\<lambda>_ _. State_Monad.return (Inr 1))\<rparr>"

text \<open>A database that leaks the rows of others, but only to statements that are not scoped.\<close>

definition leaky_pool :: "uuid \<Rightarrow> uuid \<Rightarrow> pool" where
  "leaky_pool gid aid =
     (demo_pool ''{}'')\<lparr>pg_row := (\<lambda>text args. State_Monad.return (Inr (if scoped gid aid text args then ''{}'' else ''[7]'')))\<rparr>"

definition demo_client :: http_client where
  "demo_client = \<lparr>hc_RawQuery = (\<lambda>r. []), hc_resolve = (\<lambda>b p q. b @ p), hc_valid = (\<lambda>m u. True),
     hc_Do = (\<lambda>x. ok \<lparr>py_StatusCode = 200, py_Header = [], py_Body = [], py_broken = False\<rparr>)\<rparr>"

definition demo_resolver :: "pool \<Rightarrow> DynamicHandlerResolver" where
  "demo_resolver D = NewDynamicHandlerResolver None (Some D) demo_client (\<lambda>m. m)"

definition order_endpoint :: "string \<Rightarrow> Endpoint" where
  "order_endpoint action =
     \<lparr>e_ID = 9, e_AppID = 5, e_Method = ''PUT'', e_Path = ''/order'', e_Version = ''v1'',
      e_BackendService = ''order-service'', e_BackendAction = action, e_Schema = None, e_AuditLevel = [],
      e_PIIMasking = False, e_EventAfter = [], e_Status = EndpointStatusActive, e_CreatedAt = 0, e_UpdatedAt = 0\<rparr>"

definition order_request :: "string \<Rightarrow> request" where
  "order_request body =
     demo_request\<lparr>rq_method := ''PUT'', rq_path := ''/order/'' @ uuid_str demo_uuid 6, rq_body := body,
       rq_header := (\<lambda>k. if k = ''X-App-ID'' then uuid_str demo_uuid 5 else [])\<rparr>"

lemma order_table: "deriveTableName (order_endpoint a) = ''orders''"
  by (simp add: deriveTableName_def order_endpoint_def TrimSuffix_def HasSuffix_def suffix_to_prefix Let_def)

lemma order_parse: "uuid_parse demo_uuid (rq_header (order_request b) ''X-App-ID'') = Some 5"
  by (simp add: order_request_def uuid_parse_str [OF demo_uuid_ok])


text \<open>A database that returns the text of the statement.\<close>

definition echo_pool :: pool where
  "echo_pool = (demo_pool [])\<lparr>pg_row := (\<lambda>text args. State_Monad.return (Inr (Marshal (JStr text))))\<rparr>"

theorem dynamic_update_injection_witness:
  "\<exists>rest. CHR 0x0A \<notin> set rest \<and>
     fst (run_state (handleGeneric demo_uuid (demo_resolver echo_pool) (background\<lparr>cx_OrganizationID := Some 3\<rparr>)
       (order_endpoint ''Update'') (order_request ''{\"organization_id = $2 --\":1}'')) (empty_world calm)) =
     Inr (Some (dynamic_response 200
       (JObj [(''data'', JStr (''UPDATE orders SET updated_at = $1, organization_id = $2 --'' @ rest))])))"
proof -
  let ?c = "background\<lparr>cx_OrganizationID := Some 3\<rparr>" and ?r = "order_request ''{\"organization_id = $2 --\":1}''"
  have c: "OrgIDFromContext ?c = Some 3" by (simp add: OrgIDFromContext_def)
  have h: "rq_header ?r ''X-App-ID'' \<noteq> []" using uuid_str_nonempty [OF demo_uuid_ok, of 5] by (simp add: order_request_def)
  have act: "ToLower (e_BackendAction (order_endpoint ''Update'')) = ''update''" by code_simp
  have path: "extractIDFromPath demo_uuid (rq_path ?r) ''orders'' = Inr 6" by code_simp
  have "unmarshal_map ''{\"organization_id = $2 --\":1}'' = Some (JObj [(''organization_id = $2 --'', JInt 1)])" by code_simp
  then have body: "request_data ?r = [(''organization_id = $2'' @ '' --'', JInt 1)]"
    by (simp add: request_data_def order_request_def demo_request_def read_all_def maxInterceptorBodySize_def)
  have nl: "CHR 0x0A \<notin> set ''orders''" by simp
  have db: "dr_db (demo_resolver echo_pool) = Some echo_pool" "dr_order (demo_resolver echo_pool) m = m" for m
    by (simp_all add: demo_resolver_def NewDynamicHandlerResolver_def)
  have raw: "raw_json (Marshal (JStr s)) = JStr s" for s
    using json_roundtrip [of "JStr s"] by (simp add: raw_json_def)
  have "t = ''orders'' \<Longrightarrow> t \<noteq> []" for t :: string by simp
  from dynamic_update_injection [OF c h order_parse db(1) act order_table this [OF refl] nl path, of "''organization_id = $2''"]
  obtain rest where "CHR 0x0A \<notin> set rest" "run_state (handleGeneric demo_uuid (demo_resolver echo_pool) ?c
      (order_endpoint ''Update'') ?r) (empty_world calm) =
    (case run_state (pg_row echo_pool (''UPDATE '' @ ''orders'' @ '' SET updated_at = $1, '' @ ''organization_id = $2'' @ '' --'' @ rest)
        [ATime (clock (empty_world calm)), AJson (JInt 1), AUuid 6, AUuid 3, AUuid 5]) (tick_world (empty_world calm)) of
       (Inl _, w') \<Rightarrow> (Inr (Some (errorResponse 500 ''an internal error occurred'')), w')
     | (Inr raw, w') \<Rightarrow> (Inr (Some (dynamic_response 200 (JObj [(''data'', raw_json raw)]))), w'))"
    unfolding db(2) body by blast
  then show ?thesis by (intro exI [of _ rest]) (simp add: echo_pool_def raw del: Marshal.simps)
qed

end
