(* ===== verification/Answers.thy ===== *)
theory Answers
  imports Gateway Pagination Decode Go_Time
begin

text \<open>
  What the HTTP handlers share: decoding and validating a body
  (\<open>internal/shared/validator/validator.go\<close>), the JSON of answers, errors, and identifiers in paths.
\<close>

section \<open>Decoding and validating a body\<close>

text \<open>
  \<open>json.NewDecoder(r.Body).Decode\<close> reads the first value of the body, and ignores what follows;
  a body that \<open>http.MaxBytesReader\<close> cuts off within that value is an error. The text of the error
  is not modelled.
\<close>

definition visible_body :: "request \<Rightarrow> string" where
  "visible_body r = (case rq_max r of None \<Rightarrow> rq_body r | Some l \<Rightarrow> take l (rq_body r))"

definition first_members :: "string \<Rightarrow> (string \<times> json) list option" where
  "first_members s =
     (case parse_value (2 * length s + 2) s of
        Some (JObj kvs, _) \<Rightarrow> Some kvs | Some (JNull, _) \<Rightarrow> Some [] | _ \<Rightarrow> None)"

text \<open>
  The checks of a struct's \<open>validate\<close> tags: a field, and each of its tags with its outcome. The
  package reports the first tag of a field that fails.
\<close>

type_synonym field_check = "string \<times> (string \<times> bool) list"

definition failed_tag :: "field_check \<Rightarrow> string option" where
  "failed_tag x =
     (case find (\<lambda>(_, passed). \<not> passed) (snd x) of
        None \<Rightarrow> None
      | Some (tag, _) \<Rightarrow> Some (''field '' @ [CHR 0x27] @ fst x @ [CHR 0x27] @ '' failed on '' @ [CHR 0x27] @ tag @
          [CHR 0x27] @ '' tag''))"

definition FormatValidationErrors :: "field_check list \<Rightarrow> string" where
  "FormatValidationErrors cs = Join ''; '' (List.map_filter failed_tag cs)"

definition ValidateStruct :: "field_check list \<Rightarrow> bool" where
  "ValidateStruct cs \<longleftrightarrow> (\<forall>c \<in> set cs. failed_tag c = None)"

definition DecodeAndValidate ::
  "((string \<times> json) list \<Rightarrow> 'a option) \<Rightarrow> ('a \<Rightarrow> field_check list) \<Rightarrow> request \<Rightarrow> goerr + 'a" where
  "DecodeAndValidate decode tags r =
     (case Option.bind (first_members (visible_body r)) decode of
        None \<Rightarrow> Inl (Wrapped ''invalid JSON'' (Plain ''json error''))
      | Some x \<Rightarrow> if ValidateStruct (tags x) then Inr x else Inl (Plain (FormatValidationErrors (tags x))))"

text \<open>The tags the program uses. The syntax of an address is the package's, a parameter where it is used.\<close>

definition required :: "string \<Rightarrow> string \<times> bool" where
  "required s = (''required'', s \<noteq> [])"

definition required_id :: "uuid \<Rightarrow> string \<times> bool" where
  "required_id u = (''required'', u \<noteq> uuid_nil)"

definition rune_count :: "string \<Rightarrow> nat" where
  "rune_count s = length (filter (\<lambda>c. \<not> (0x80 \<le> (of_char c :: nat) \<and> (of_char c :: nat) < 0xC0)) s)"

definition min_runes :: "nat \<Rightarrow> string \<Rightarrow> string \<times> bool" where
  "min_runes n s = (''min'', n \<le> rune_count s)"

definition alphanum :: "string \<Rightarrow> string \<times> bool" where
  "alphanum s = (''alphanum'', s \<noteq> [] \<and> list_all (\<lambda>c. is_upper c \<or> is_lower c \<or> is_digit c) s)"

definition oneof :: "string list \<Rightarrow> string \<Rightarrow> string \<times> bool" where
  "oneof vs s = (''oneof'', s \<in> set vs)"

text \<open>\<open>if err := validator.DecodeAndValidate(r, &req); err != nil\<close> of the handlers.\<close>

definition with_body :: "(goerr + 'a) \<Rightarrow> ('a \<Rightarrow> answer eff) \<Rightarrow> answer eff" where
  "with_body d f =
     (case d of Inl e \<Rightarrow> ret (Sent (response_JSON 400 (error_body (Error_string e)))) | Inr x \<Rightarrow> f x)"

section \<open>JSON of answers\<close>

definition id_json :: "uuid_api \<Rightarrow> uuid \<Rightarrow> json" where
  "id_json U u = JStr (uuid_str U u)"

definition time_json :: "time \<Rightarrow> json" where
  "time_json t = JStr (RFC3339Nano t)"

text \<open>\<open>omitempty\<close>.\<close>

definition omit_opt :: "string \<Rightarrow> ('a \<Rightarrow> json) \<Rightarrow> 'a option \<Rightarrow> (string \<times> json) list" where
  "omit_opt name f x = (case x of None \<Rightarrow> [] | Some y \<Rightarrow> [(name, f y)])"

definition omit_str :: "string \<Rightarrow> string \<Rightarrow> (string \<times> json) list" where
  "omit_str name s = (if s = [] then [] else [(name, JStr s)])"

section \<open>Paginated answers\<close>

text \<open>
  The JSON of a \<open>pagination.Result\<close>. A slice that no row was appended to is \<open>nil\<close> and is encoded as
  \<open>null\<close>; where \<open>NewResult\<close> divides by zero the handler panics, which no request can bring about.
\<close>

definition slice_json :: "('a \<Rightarrow> json) \<Rightarrow> 'a list \<Rightarrow> json" where
  "slice_json f xs = (if xs = [] then JNull else JArr (map f xs))"

definition Result_json :: "('a \<Rightarrow> json) \<Rightarrow> 'a Result \<Rightarrow> json" where
  "Result_json f x =
     JObj [(''data'', slice_json f (Data x)), (''page'', JInt (res_Page x)),
       (''per_page'', JInt (res_PerPage x)), (''total_count'', JInt (TotalCount x)),
       (''total_pages'', JInt (TotalPages x))]"

text \<open>What the client gets of a handler that panics: the answer of the middleware \<open>Recoverer\<close>.\<close>

definition panicked :: answer where
  "panicked = Sent (response_JSON 500 (error_body ''internal server error''))"

definition send_page :: "('a \<Rightarrow> json) \<Rightarrow> Params \<Rightarrow> 'a list \<Rightarrow> int \<Rightarrow> answer" where
  "send_page f p xs totalCount =
     (case NewResult xs p totalCount of
        Some x \<Rightarrow> Sent (response_JSON 200 (Result_json f x))
      | None \<Rightarrow> panicked)"

text \<open>\<open>if err != nil { response.Error(w, err); return }\<close>.\<close>

definition or_error :: "(goerr + 'a) eff \<Rightarrow> ('a \<Rightarrow> answer eff) \<Rightarrow> answer eff" where
  "or_error m f =
     State_Monad.bind m (\<lambda>x. case x of Inl e \<Rightarrow> ret (Sent (response_Error e)) | Inr y \<Rightarrow> f y)"

lemma run_or_error [simp]:
  "run_state (or_error m f) w =
     (case run_state m w of (Inl e, w') \<Rightarrow> (Sent (response_Error e), w') | (Inr y, w') \<Rightarrow> run_state (f y) w')"
  by (auto simp: or_error_def run_state_bind split: sum.splits prod.splits)

text \<open>The identifier in a parameter of the path, and the answer where it is none.\<close>

definition with_id :: "uuid_api \<Rightarrow> request \<Rightarrow> string \<Rightarrow> string \<Rightarrow> (uuid \<Rightarrow> answer eff) \<Rightarrow> answer eff" where
  "with_id U r name msg f =
     (case uuid_parse U (rq_param r name) of
        None \<Rightarrow> ret (Sent (response_JSON 400 (error_body msg)))
      | Some u \<Rightarrow> f u)"

end
