(* ===== verification/Audit_Trail.thy ===== *)
theory Audit_Trail
  imports Answers
begin

text \<open>
  The audit trail: the repository of \<open>audit_logs\<close> (\<open>internal/infrastructure/postgres/audit\<close>), whose
  table has no constraint but its primary key, and the handlers that list it
  (\<open>internal/infrastructure/http/handler/audit\<close>).
\<close>

section \<open>The repository\<close>

record AuditRepository =
  au_Create :: "AuditLog \<Rightarrow> (goerr + unit) eff"
  au_ListByOrg :: "uuid \<Rightarrow> int \<Rightarrow> int \<Rightarrow> (goerr + AuditLog list \<times> int) eff"
  au_ListByUser :: "uuid \<Rightarrow> int \<Rightarrow> int \<Rightarrow> (goerr + AuditLog list \<times> int) eff"
  au_ListByResource :: "string \<Rightarrow> string \<Rightarrow> int \<Rightarrow> int \<Rightarrow> (goerr + AuditLog list \<times> int) eff"

definition AuditRepo_Create :: "AuditLog \<Rightarrow> (goerr + unit) eff" where
  "AuditRepo_Create entry = do {
     lid \<leftarrow> (if l_ID entry = uuid_nil then uuid_New else ret (l_ID entry));
     now \<leftarrow> time_Now;
     let entry = entry\<lparr>l_ID := lid, l_CreatedAt := now\<rparr>;
     try_or (internal ''failed to create audit log'')
       (sql_exec (\<lambda>w. \<forall>x \<in> set (audit_logs w). l_ID x \<noteq> lid)
                 (\<lambda>w. w\<lparr>audit_logs := audit_logs w @ [entry]\<rparr>)) ok
   }"

definition audit_page :: "(AuditLog \<Rightarrow> bool) \<Rightarrow> int \<Rightarrow> int \<Rightarrow> (goerr + AuditLog list \<times> int) eff" where
  "audit_page P offset lmt =
     page_query ''failed to count audit logs'' ''failed to list audit logs''
       (\<lambda>w. filter P (audit_logs w)) l_CreatedAt offset lmt"

definition AuditRepo_ListByOrg :: "uuid \<Rightarrow> int \<Rightarrow> int \<Rightarrow> (goerr + AuditLog list \<times> int) eff" where
  "AuditRepo_ListByOrg gid offset lmt = audit_page (\<lambda>l. l_OrganizationID l = gid) offset lmt"

definition AuditRepo_ListByUser :: "uuid \<Rightarrow> int \<Rightarrow> int \<Rightarrow> (goerr + AuditLog list \<times> int) eff" where
  "AuditRepo_ListByUser uid offset lmt = audit_page (\<lambda>l. l_UserID l = Some uid) offset lmt"

definition AuditRepo_ListByResource ::
  "string \<Rightarrow> string \<Rightarrow> int \<Rightarrow> int \<Rightarrow> (goerr + AuditLog list \<times> int) eff" where
  "AuditRepo_ListByResource ty rid offset lmt =
     audit_page (\<lambda>l. l_ResourceType l = ty \<and> l_ResourceID l = rid) offset lmt"

definition AuditRepo :: AuditRepository where
  "AuditRepo =
     \<lparr>au_Create = AuditRepo_Create, au_ListByOrg = AuditRepo_ListByOrg,
      au_ListByUser = AuditRepo_ListByUser, au_ListByResource = AuditRepo_ListByResource\<rparr>"

section \<open>The handlers\<close>

text \<open>\<open>metadata\<close> is a \<open>[]byte\<close>: base64 with padding.\<close>

definition std_char :: "char \<Rightarrow> char" where
  "std_char c = (if c = CHR ''-'' then CHR ''+'' else if c = CHR ''_'' then CHR ''/'' else c)"

definition StdEncoding :: "string \<Rightarrow> string" where
  "StdEncoding s =
     (let e = map std_char (RawURLEncoding s) in e @ replicate ((4 - length e mod 4) mod 4) (CHR ''=''))"

definition AuditLog_json :: "uuid_api \<Rightarrow> AuditLog \<Rightarrow> json" where
  "AuditLog_json U l =
     JObj ([(''id'', id_json U (l_ID l)), (''organization_id'', id_json U (l_OrganizationID l))] @
       omit_opt ''app_id'' (id_json U) (l_AppID l) @ omit_opt ''endpoint_id'' (id_json U) (l_EndpointID l) @
       omit_opt ''user_id'' (id_json U) (l_UserID l) @
       [(''request_id'', JStr (l_RequestID l)), (''action'', JStr (l_Action l)),
        (''resource_type'', JStr (l_ResourceType l)), (''resource_id'', JStr (l_ResourceID l))] @
       omit_opt ''metadata'' (\<lambda>m. JStr (StdEncoding m))
         (case l_Metadata l of Some m \<Rightarrow> if m = [] then None else Some m | None \<Rightarrow> None) @
       [(''ip_address'', JStr (l_IPAddress l)), (''user_agent'', JStr (l_UserAgent l)),
        (''created_at'', time_json (l_CreatedAt l))])"

definition audit_ListByOrg :: "uuid_api \<Rightarrow> AuditRepository \<Rightarrow> http_handler" where
  "audit_ListByOrg U repo c r =
     with_id U r ''orgId'' ''invalid org id'' (\<lambda>gid.
       let params = FromRequest (rq_query r)
       in or_error (au_ListByOrg repo gid (Offset params) (Limit params)) (\<lambda>(logs, n).
            ret (send_page (AuditLog_json U) params logs n)))"

definition audit_ListByUser :: "uuid_api \<Rightarrow> AuditRepository \<Rightarrow> http_handler" where
  "audit_ListByUser U repo c r =
     with_id U r ''userId'' ''invalid user id'' (\<lambda>uid.
       let params = FromRequest (rq_query r)
       in or_error (au_ListByUser repo uid (Offset params) (Limit params)) (\<lambda>(logs, n).
            ret (send_page (AuditLog_json U) params logs n)))"

end
