(* ===== verification/Middleware.thy ===== *)
theory Middleware
  imports Audit_Trail
begin

text \<open>
  The middleware (\<open>internal/shared/middleware\<close>): authentication, permissions, the resolution of
  tenant and workspace, the audit log, and the small ones. A middleware takes the next handler.
\<close>

section \<open>Authentication and permissions\<close>

definition claims_context :: "TokenClaims \<Rightarrow> rctx \<Rightarrow> rctx" where
  "claims_context claims c =
     c\<lparr>cx_UserID := Some (c_UserID claims), cx_Email := Some (c_Email claims),
       cx_OrganizationID := Some (c_OrganizationID claims), cx_Permissions := c_Permissions claims\<rparr>"

definition reject :: "int \<Rightarrow> string \<Rightarrow> answer eff" where
  "reject code msg = ret (Sent (response_JSON code (error_body msg)))"

text \<open>The answer to a request that is turned away, or the context with the claims of its token.\<close>

definition authenticate :: "AuthService \<Rightarrow> rctx \<Rightarrow> request \<Rightarrow> (response + rctx) eff" where
  "authenticate auth c r =
     (let authHeader = rq_header r ''Authorization''
      in if authHeader = [] then ret (Inl (response_JSON 401 (error_body ''missing authorization header'')))
         else case SplitN2 '' '' authHeader of
             None \<Rightarrow> ret (Inl (response_JSON 401 (error_body ''invalid authorization format'')))
           | Some (scheme, token) \<Rightarrow>
               if \<not> EqualFold scheme ''bearer''
               then ret (Inl (response_JSON 401 (error_body ''invalid authorization format'')))
               else do {
                 v \<leftarrow> auth_ValidateToken auth token;
                 ret (case v of
                        Inl _ \<Rightarrow> Inl (response_JSON 401 (error_body ''invalid token''))
                      | Inr claims \<Rightarrow> Inr (claims_context claims c))
               })"

definition JWTAuth :: "AuthService \<Rightarrow> http_handler \<Rightarrow> http_handler" where
  "JWTAuth auth next c r = do {
     x \<leftarrow> authenticate auth c r;
     case x of Inl answered \<Rightarrow> ret (Sent answered) | Inr c \<Rightarrow> next c r
   }"

definition RequirePermission :: "RBACService \<Rightarrow> string \<Rightarrow> http_handler \<Rightarrow> http_handler" where
  "RequirePermission rbac permission next c r =
     (case UserIDFromContext c of
        None \<Rightarrow> reject 401 ''user not authenticated''
      | Some uid \<Rightarrow> do {
          has \<leftarrow> rb_HasPermission rbac uid (or_nil (OrgIDFromContext c)) permission;
          case has of
            Inl _ \<Rightarrow> reject 500 ''permission check failed''
          | Inr b \<Rightarrow> if \<not> b then reject 403 ''insufficient permissions'' else next c r
        })"

section \<open>Tenant and workspace\<close>

text \<open>
  The organization a request names: an explicit header, the claims of its token, or the first label
  of the host. The nil identifier stands for none; \<open>None\<close> is a header that cannot be parsed.
\<close>

definition header_org :: "uuid_api \<Rightarrow> request \<Rightarrow> uuid option" where
  "header_org U r =
     (let h = rq_header r ''X-Organization-ID'' in if h = [] then Some uuid_nil else uuid_parse U h)"

definition subdomain_org :: "OrgRepository option \<Rightarrow> request \<Rightarrow> uuid eff" where
  "subdomain_org orgRepo r =
     (let parts = Split (CHR ''.'') (rq_Host r)
      in case orgRepo of
           None \<Rightarrow> ret uuid_nil
         | Some repo \<Rightarrow>
             if length parts > 2 then do {
               x \<leftarrow> or_GetBySlug repo (hd parts);
               ret (case x of Inl _ \<Rightarrow> uuid_nil | Inr org \<Rightarrow> o_ID org)
             } else ret uuid_nil)"

definition resolve_org :: "uuid_api \<Rightarrow> OrgRepository option \<Rightarrow> rctx \<Rightarrow> request \<Rightarrow> uuid option eff" where
  "resolve_org U orgRepo c r =
     (case header_org U r of
        None \<Rightarrow> ret None
      | Some gid \<Rightarrow>
          let gid = (if gid = uuid_nil then or_nil (OrgIDFromContext c) else gid)
          in if gid = uuid_nil then do { g \<leftarrow> subdomain_org orgRepo r; ret (Some g) } else ret (Some gid))"

text \<open>
  The workspaces found by their slug are kept in a \<open>sync.Map\<close> for the life of the process; its
  entries never expire.
\<close>

type_synonym workspace_cache = "(string \<times> uuid) list"

definition workspace_key :: "uuid_api \<Rightarrow> uuid \<Rightarrow> string \<Rightarrow> string" where
  "workspace_key U gid slug = uuid_str U gid @ '':'' @ slug"

definition resolve_workspace ::
  "uuid_api \<Rightarrow> WorkspaceRepository option \<Rightarrow> uuid \<Rightarrow> request \<Rightarrow> workspace_cache \<Rightarrow> (uuid \<times> workspace_cache) eff"
where
  "resolve_workspace U workspaceRepo gid r cache =
     (case workspaceRepo of
        None \<Rightarrow> ret (uuid_nil, cache)
      | Some repo \<Rightarrow>
          (let h = rq_header r ''X-Workspace-ID'';
               wid = (if h = [] then uuid_nil
                      else case uuid_parse U h of Some u \<Rightarrow> u | None \<Rightarrow> uuid_nil);
               slug = rq_header r ''X-Workspace-Slug''
           in if wid \<noteq> uuid_nil \<or> slug = [] then ret (wid, cache)
              else case map_of cache (workspace_key U gid slug) of
                  Some u \<Rightarrow> ret (u, cache)
                | None \<Rightarrow> do {
                    x \<leftarrow> ws_GetBySlug repo gid slug;
                    ret (case x of
                           Inl _ \<Rightarrow> (uuid_nil, cache)
                         | Inr ws \<Rightarrow> (w_ID ws, (workspace_key U gid slug, w_ID ws) # cache))
                  }))"

definition tenant_context :: "uuid \<Rightarrow> uuid \<Rightarrow> rctx \<Rightarrow> rctx" where
  "tenant_context gid wid c =
     (let c = c\<lparr>cx_TenantID := Some gid\<rparr>
      in if wid \<noteq> uuid_nil then c\<lparr>cx_WorkspaceID := Some wid\<rparr> else c)"

definition TenantResolverWithWorkspace ::
  "uuid_api \<Rightarrow> OrgRepository option \<Rightarrow> WorkspaceRepository option \<Rightarrow> http_handler \<Rightarrow>
   workspace_cache \<Rightarrow> rctx \<Rightarrow> request \<Rightarrow> (answer \<times> workspace_cache) eff" where
  "TenantResolverWithWorkspace U orgRepo workspaceRepo next cache c r = do {
     org \<leftarrow> resolve_org U orgRepo c r;
     case org of
       None \<Rightarrow> do { a \<leftarrow> reject 400 ''invalid X-Organization-ID''; ret (a, cache) }
     | Some gid \<Rightarrow>
         if gid = uuid_nil then do { a \<leftarrow> next c r; ret (a, cache) }
         else do {
           (wid, cache) \<leftarrow> resolve_workspace U workspaceRepo gid r cache;
           a \<leftarrow> next (tenant_context gid wid c) r;
           ret (a, cache)
         }
   }"

definition TenantResolver ::
  "uuid_api \<Rightarrow> OrgRepository option \<Rightarrow> http_handler \<Rightarrow> workspace_cache \<Rightarrow> rctx \<Rightarrow> request \<Rightarrow> (answer \<times> workspace_cache) eff"
where
  "TenantResolver U orgRepo = TenantResolverWithWorkspace U orgRepo None"

definition RequireTenant :: "http_handler \<Rightarrow> http_handler" where
  "RequireTenant next c r =
     (case TenantIDFromContext c of
        None \<Rightarrow> reject 400 ''tenant (organization) not resolved''
      | Some _ \<Rightarrow> next c r)"

section \<open>Request identifiers, body limit, panics, origins\<close>

text \<open>The answer with the value of the response's \<open>X-Request-ID\<close> header.\<close>

definition request_id :: "uuid_api \<Rightarrow> request \<Rightarrow> string eff" where
  "request_id U r =
     (if rq_header r ''X-Request-ID'' = []
      then do { u \<leftarrow> uuid_New; ret (uuid_str U u) } else ret (rq_header r ''X-Request-ID''))"

definition RequestID :: "uuid_api \<Rightarrow> http_handler \<Rightarrow> rctx \<Rightarrow> request \<Rightarrow> (string \<times> answer) eff" where
  "RequestID U next c r = do {
     requestID \<leftarrow> request_id U r;
     a \<leftarrow> next (c\<lparr>cx_RequestID := requestID\<rparr>) r;
     ret (requestID, a)
   }"

definition limit_body :: "int \<Rightarrow> request \<Rightarrow> request" where
  "limit_body lmt r = (if lmt > 0 then r\<lparr>rq_max := Some (nat lmt)\<rparr> else r)"

definition MaxBodyBytes :: "int \<Rightarrow> http_handler \<Rightarrow> http_handler" where
  "MaxBodyBytes lmt next c r = next c (limit_body lmt r)"

text \<open>A handler that panics gives \<open>None\<close>.\<close>

definition Recoverer :: "(rctx \<Rightarrow> request \<Rightarrow> answer option eff) \<Rightarrow> http_handler" where
  "Recoverer next c r = do {
     a \<leftarrow> next c r;
     case a of None \<Rightarrow> reject 500 ''internal server error'' | Some a \<Rightarrow> ret a
   }"

record cors_Options =
  co_AllowedMethods :: "string list"
  co_AllowedHeaders :: "string list"
  co_ExposedHeaders :: "string list"
  co_MaxAge :: int
  co_AllowCredentials :: bool
  co_AllowOriginFunc :: "string \<Rightarrow> bool"

definition CORSOptions :: "string list \<Rightarrow> cors_Options" where
  "CORSOptions origins =
     \<lparr>co_AllowedMethods = [''GET'', ''POST'', ''PUT'', ''PATCH'', ''DELETE'', ''OPTIONS''],
      co_AllowedHeaders = [''Accept'', ''Authorization'', ''Content-Type'', ''X-Request-ID'',
        ''X-Organization-ID'', ''X-App-ID''],
      co_ExposedHeaders = [''X-Request-ID''], co_MaxAge = 300,
      co_AllowCredentials = (origins \<noteq> []),
      co_AllowOriginFunc =
        (if origins = [] then (\<lambda>_. False)
         else if ''*'' \<in> set origins then (\<lambda>orig. orig \<noteq> [])
         else (\<lambda>orig. orig \<in> set origins))\<rparr>"

section \<open>The audit log\<close>

definition audit_entry :: "rctx \<Rightarrow> request \<Rightarrow> AuditLog" where
  "audit_entry c r =
     \<lparr>l_ID = uuid_nil, l_OrganizationID = or_nil (OrgIDFromContext c), l_AppID = None, l_EndpointID = None,
      l_UserID = (case UserIDFromContext c of Some u \<Rightarrow> if u \<noteq> uuid_nil then Some u else None | None \<Rightarrow> None),
      l_RequestID = cx_RequestID c, l_Action = rq_method r @ '' '' @ rq_path r,
      l_ResourceType = ''http_request'', l_ResourceID = rq_path r, l_Metadata = None,
      l_IPAddress = rq_RemoteAddr r, l_UserAgent = UserAgent r, l_CreatedAt = 0\<rparr>"

text \<open>The entry is written by a goroutine of its own after the request; its error is dropped.\<close>

definition AuditLog_middleware :: "AuditRepository \<Rightarrow> http_handler \<Rightarrow> http_handler" where
  "AuditLog_middleware repo next c r = do {
     a \<leftarrow> next c r;
     au_Create repo (audit_entry c r);
     ret a
   }"

end
