(* ===== verification/Statistics.thy ===== *)
theory Statistics
  imports Answers Iam_Repo
begin

text \<open>
  Usage statistics: the requests and their validation (\<open>internal/application/statistics\<close>), the
  repository with its aggregates (\<open>internal/infrastructure/postgres/statistics\<close>) and the handlers.
  A rate is read as the decimal number its text denotes: the rounding to 53 bits is left out. How
  the encoder writes one is a parameter, a function from rationals to literals. The order of
  strings in the database is a parameter as well.
\<close>

section \<open>Requests\<close>

record RecordUsageRequest =
  ru_ModelID :: string
  ru_TokenCount :: int
  ru_FirstTokenTimeMs :: "int option"
  ru_InferenceTimeMs :: int
  ru_TokensPerSecond :: "rat option"

text \<open>\<open>Validate\<close>: the message of its error, if any.\<close>

definition RecordUsageRequest_Validate :: "RecordUsageRequest \<Rightarrow> string option" where
  "RecordUsageRequest_Validate req =
     (if ru_ModelID req = [] then Some ''model_id is required''
      else if ru_TokenCount req < 0 then Some ''token_count must be >= 0''
      else if ru_InferenceTimeMs req \<le> 0 then Some ''inference_time_ms must be > 0''
      else if (case ru_FirstTokenTimeMs req of Some n \<Rightarrow> n < 0 | None \<Rightarrow> False)
      then Some ''first_token_time_ms must be >= 0''
      else if (case ru_TokensPerSecond req of Some x \<Rightarrow> x < 0 | None \<Rightarrow> False)
      then Some ''tokens_per_second must be >= 0''
      else None)"

record UsageStatFilter =
  uf_ModelID :: "string option"
  uf_StartDate :: "time option"
  uf_EndDate :: "time option"
  uf_Page :: int
  uf_PerPage :: int

record UsageStatsQuery =
  uq_ModelID :: "string option"
  uq_StartDate :: "string option"
  uq_EndDate :: "string option"
  uq_Page :: int
  uq_PerPage :: int

definition ToFilter :: "UsageStatsQuery \<Rightarrow> UsageStatFilter" where
  "ToFilter q =
     \<lparr>uf_ModelID = uq_ModelID q, uf_StartDate = None, uf_EndDate = None, uf_Page = uq_Page q,
      uf_PerPage = uq_PerPage q\<rparr>"

record ModelBreakdown =
  mb_ModelID :: string
  mb_Count :: int
  mb_AvgTokensPerSec :: rat

record UsageSummary =
  sm_TotalGenerations :: int
  sm_TotalTokens :: int
  sm_AvgTokensPerSec :: rat
  sm_ModelsUsed :: "string list"
  sm_ModelBreakdown :: "ModelBreakdown list"

record UsageStatsResponse =
  sr_Data :: "UsageStat list"
  sr_Total :: int
  sr_Page :: int
  sr_PerPage :: int
  sr_Summary :: UsageSummary

section \<open>The repository\<close>

text \<open>The columns are INTEGER and NUMERIC(10,2), which rounds half away from zero.\<close>

definition int4 :: "int \<Rightarrow> bool" where
  "int4 n \<longleftrightarrow> - (2 ^ 31) \<le> n \<and> n < 2 ^ 31"

definition numeric_10_2 :: "rat \<Rightarrow> rat" where
  "numeric_10_2 x = (if x < 0 then - of_int \<lfloor>- x * 100 + 1 / 2\<rfloor> / 100 else of_int \<lfloor>x * 100 + 1 / 2\<rfloor> / 100)"

definition stat_fits :: "UsageStat \<Rightarrow> bool" where
  "stat_fits s \<longleftrightarrow>
     int4 (s_TokenCount s) \<and> int4 (s_InferenceTimeMs s) \<and>
     (case s_FirstTokenTimeMs s of Some n \<Rightarrow> int4 n | None \<Rightarrow> True) \<and>
     (case s_TokensPerSecond s of Some x \<Rightarrow> \<bar>numeric_10_2 x\<bar> < 10 ^ 8 | None \<Rightarrow> True)"

text \<open>\<open>created_at\<close> is set by the database; the caller's struct keeps the zero time.\<close>

definition stored_stat :: "world \<Rightarrow> UsageStat \<Rightarrow> UsageStat" where
  "stored_stat w s = s\<lparr>s_TokensPerSecond := map_option numeric_10_2 (s_TokensPerSecond s), s_CreatedAt := clock w\<rparr>"

definition UsageStatRepo_Create :: "UsageStat \<Rightarrow> (goerr + UsageStat) eff" where
  "UsageStatRepo_Create stat = do {
     sid \<leftarrow> (if s_ID stat = uuid_nil then uuid_New else ret (s_ID stat));
     let stat = stat\<lparr>s_ID := sid\<rparr>;
     try_or (internal ''failed to create usage stat'')
       (sql_exec
         (\<lambda>w. (\<forall>x \<in> set (model_usage_stats w). s_ID x \<noteq> sid) \<and>
              (\<exists>u \<in> set (users w). u_ID u = s_UserID stat) \<and> stat_fits stat)
         (\<lambda>w. w\<lparr>model_usage_stats := model_usage_stats w @ [stored_stat w stat]\<rparr>)) (\<lambda>_. ok stat)
   }"

definition buildWhereClause :: "uuid \<Rightarrow> UsageStatFilter \<Rightarrow> UsageStat \<Rightarrow> bool" where
  "buildWhereClause uid flt s \<longleftrightarrow>
     s_UserID s = uid \<and>
     (case uf_ModelID flt of Some m \<Rightarrow> s_ModelID s = m | None \<Rightarrow> True) \<and>
     (case uf_StartDate flt of Some t \<Rightarrow> s_CreatedAt s \<ge> t | None \<Rightarrow> True) \<and>
     (case uf_EndDate flt of Some t \<Rightarrow> s_CreatedAt s \<le> t | None \<Rightarrow> True)"

definition selected :: "uuid \<Rightarrow> UsageStatFilter \<Rightarrow> world \<Rightarrow> UsageStat list" where
  "selected uid flt w = filter (buildWhereClause uid flt) (model_usage_stats w)"

definition UsageStatRepo_ListByUser :: "uuid \<Rightarrow> UsageStatFilter \<Rightarrow> (goerr + UsageStat list \<times> int) eff" where
  "UsageStatRepo_ListByUser uid flt =
     (let page = (if uf_Page flt < 1 then 1 else uf_Page flt);
          perPage = (if uf_PerPage flt < 1 \<or> uf_PerPage flt > 100 then 50 else uf_PerPage flt);
          offset = wrap64 (wrap64 (page - 1) * perPage)
      in page_query ''failed to count usage stats'' ''failed to list usage stats''
           (selected uid flt) s_CreatedAt offset perPage)"

text \<open>\<open>COALESCE(AVG(tokens_per_second), 0)\<close>: rows without a rate do not count.\<close>

definition avg_rate :: "UsageStat list \<Rightarrow> rat" where
  "avg_rate ss =
     (let xs = List.map_filter s_TokensPerSecond ss
      in if xs = [] then 0 else sum_list xs / of_nat (length xs))"

text \<open>\<open>SELECT DISTINCT ... ORDER BY\<close> in the database's collation.\<close>

definition models_used :: "(string \<Rightarrow> string \<Rightarrow> bool) \<Rightarrow> UsageStat list \<Rightarrow> string list" where
  "models_used collate ss = sort_by collate (remdups (map s_ModelID ss))"

definition breakdown :: "UsageStat list \<Rightarrow> ModelBreakdown list" where
  "breakdown ss =
     sort_key (\<lambda>b. - mb_Count b)
       (map (\<lambda>m. let xs = filter (\<lambda>s. s_ModelID s = m) ss
                 in \<lparr>mb_ModelID = m, mb_Count = int (length xs), mb_AvgTokensPerSec = avg_rate xs\<rparr>)
         (remdups (map s_ModelID ss)))"

definition UsageStatRepo_GetSummaryByUser ::
  "(string \<Rightarrow> string \<Rightarrow> bool) \<Rightarrow> uuid \<Rightarrow> UsageStatFilter \<Rightarrow> (goerr + UsageSummary) eff" where
  "UsageStatRepo_GetSummaryByUser collate uid flt =
     try_or (internal ''failed to get usage summary'')
       (sql_query_row (\<lambda>w. let ss = selected uid flt w
          in Some (int (length ss), sum_list (map s_TokenCount ss), avg_rate ss))) (\<lambda>(n, tokens, avg).
     try_or (internal ''failed to list models used'')
       (sql_query (\<lambda>w. models_used collate (selected uid flt w))) (\<lambda>models.
     try_or (internal ''failed to get model breakdown'')
       (sql_query (\<lambda>w. breakdown (selected uid flt w))) (\<lambda>rows.
     ok \<lparr>sm_TotalGenerations = n, sm_TotalTokens = tokens, sm_AvgTokensPerSec = avg,
         sm_ModelsUsed = models, sm_ModelBreakdown = rows\<rparr>)))"

record UsageStatRepository =
  ur_Create :: "UsageStat \<Rightarrow> (goerr + UsageStat) eff"
  ur_ListByUser :: "uuid \<Rightarrow> UsageStatFilter \<Rightarrow> (goerr + UsageStat list \<times> int) eff"
  ur_GetSummaryByUser :: "uuid \<Rightarrow> UsageStatFilter \<Rightarrow> (goerr + UsageSummary) eff"

definition UsageStatRepo :: "(string \<Rightarrow> string \<Rightarrow> bool) \<Rightarrow> UsageStatRepository" where
  "UsageStatRepo collate =
     \<lparr>ur_Create = UsageStatRepo_Create, ur_ListByUser = UsageStatRepo_ListByUser,
      ur_GetSummaryByUser = UsageStatRepo_GetSummaryByUser collate\<rparr>"

section \<open>The use cases\<close>

definition RecordUsage :: "UsageStatRepository \<Rightarrow> uuid \<Rightarrow> RecordUsageRequest \<Rightarrow> (goerr + UsageStat) eff" where
  "RecordUsage repo uid req =
     (case RecordUsageRequest_Validate req of
        Some m \<Rightarrow> fail (New_error ErrValidation m None)
      | None \<Rightarrow> do {
          sid \<leftarrow> uuid_New;
          try_do (ur_Create repo
            \<lparr>s_ID = sid, s_UserID = uid, s_ModelID = ru_ModelID req, s_TokenCount = ru_TokenCount req,
             s_FirstTokenTimeMs = ru_FirstTokenTimeMs req, s_InferenceTimeMs = ru_InferenceTimeMs req,
             s_TokensPerSecond = ru_TokensPerSecond req, s_CreatedAt = 0\<rparr>) ok
        })"

definition GetUserStats ::
  "UsageStatRepository \<Rightarrow> uuid \<Rightarrow> UsageStatsQuery \<Rightarrow> (goerr + UsageStatsResponse) eff" where
  "GetUserStats repo uid q =
     (let q = (if uq_Page q < 1 then q\<lparr>uq_Page := 1\<rparr> else q);
          q = (if uq_PerPage q < 1 \<or> uq_PerPage q > 100 then q\<lparr>uq_PerPage := 50\<rparr> else q)
      in try_or (\<lambda>e. New_error ErrInternal ''failed to list usage stats'' (Some e))
           (ur_ListByUser repo uid (ToFilter q)) (\<lambda>(stats, n).
         try_or (\<lambda>e. New_error ErrInternal ''failed to get usage summary'' (Some e))
           (ur_GetSummaryByUser repo uid (ToFilter q)) (\<lambda>summary.
         ok \<lparr>sr_Data = stats, sr_Total = n, sr_Page = uq_Page q, sr_PerPage = uq_PerPage q,
             sr_Summary = summary\<rparr>)))"

section \<open>The handlers\<close>

text \<open>A number of a body as a rate: its decimal value, unless a \<open>float64\<close> cannot hold it.\<close>

definition ten_pow :: "int \<Rightarrow> rat" where
  "ten_pow e = (if e \<ge> 0 then 10 ^ nat e else 1 / 10 ^ nat (- e))"

definition literal_value :: "string \<Rightarrow> rat" where
  "literal_value s =
     (let u = (if HasPrefix s ''-'' then tl s else s);
          ds = takeWhile is_digit u; r = dropWhile is_digit u;
          frac = (if HasPrefix r ''.'' then takeWhile is_digit (tl r) else []);
          r = (if HasPrefix r ''.'' then dropWhile is_digit (tl r) else r);
          e = (if r = [] then 0 else fst (Atoi (tl r)));
          n = (case digits_val 0 (ds @ frac) of Some n \<Rightarrow> n | None \<Rightarrow> 0);
          x = of_int n * ten_pow (e - int (length frac))
      in if u = s then x else - x)"

definition rate_value :: "json \<Rightarrow> rat option" where
  "rate_value j =
     (let fit = (\<lambda>x. if \<bar>x\<bar> < 2 ^ 1024 - 2 ^ 970 then Some x else None)
      in case j of JInt n \<Rightarrow> fit (of_int n) | JLit s \<Rightarrow> fit (literal_value s) | _ \<Rightarrow> None)"

definition RecordUsageRequest_decode :: "(string \<times> json) list \<Rightarrow> RecordUsageRequest option" where
  "RecordUsageRequest_decode kvs = do {
     m \<leftarrow> field_str ''model_id'' kvs;
     n \<leftarrow> field_int ''token_count'' kvs;
     f \<leftarrow> decode_opt int_value ''first_token_time_ms'' None kvs;
     t \<leftarrow> field_int ''inference_time_ms'' kvs;
     x \<leftarrow> decode_opt rate_value ''tokens_per_second'' None kvs;
     Some \<lparr>ru_ModelID = m, ru_TokenCount = n, ru_FirstTokenTimeMs = f, ru_InferenceTimeMs = t,
           ru_TokensPerSecond = x\<rparr>
   }"

definition UsageStat_json :: "(rat \<Rightarrow> string) \<Rightarrow> uuid_api \<Rightarrow> UsageStat \<Rightarrow> json" where
  "UsageStat_json F U s =
     JObj ([(''id'', id_json U (s_ID s)), (''user_id'', id_json U (s_UserID s)), (''model_id'', JStr (s_ModelID s)),
        (''token_count'', JInt (s_TokenCount s))] @
       omit_opt ''first_token_time_ms'' JInt (s_FirstTokenTimeMs s) @
       [(''inference_time_ms'', JInt (s_InferenceTimeMs s))] @
       omit_opt ''tokens_per_second'' (\<lambda>x. JLit (F x)) (s_TokensPerSecond s) @
       [(''created_at'', time_json (s_CreatedAt s))])"

definition UsageSummary_json :: "(rat \<Rightarrow> string) \<Rightarrow> UsageSummary \<Rightarrow> json" where
  "UsageSummary_json F x =
     JObj [(''total_generations'', JInt (sm_TotalGenerations x)), (''total_tokens'', JInt (sm_TotalTokens x)),
       (''avg_tokens_per_second'', JLit (F (sm_AvgTokensPerSec x))),
       (''models_used'', slice_json JStr (sm_ModelsUsed x)),
       (''model_breakdown'', slice_json (\<lambda>b. JObj [(''model_id'', JStr (mb_ModelID b)), (''count'', JInt (mb_Count b)),
          (''avg_tokens_per_second'', JLit (F (mb_AvgTokensPerSec b)))]) (sm_ModelBreakdown x))]"

definition UsageStatsResponse_json :: "(rat \<Rightarrow> string) \<Rightarrow> uuid_api \<Rightarrow> UsageStatsResponse \<Rightarrow> json" where
  "UsageStatsResponse_json F U x =
     JObj [(''data'', JArr (map (UsageStat_json F U) (sr_Data x))), (''total'', JInt (sr_Total x)),
       (''page'', JInt (sr_Page x)), (''per_page'', JInt (sr_PerPage x)),
       (''summary'', UsageSummary_json F (sr_Summary x))]"

definition handler_RecordUsage :: "(rat \<Rightarrow> string) \<Rightarrow> uuid_api \<Rightarrow> UsageStatRepository \<Rightarrow> http_handler" where
  "handler_RecordUsage F U repo c r =
     (case UserIDFromContext c of
        None \<Rightarrow> ret (Sent (response_JSON 401 (error_body ''unauthorized'')))
      | Some uid \<Rightarrow>
          with_body (DecodeAndValidate RecordUsageRequest_decode (\<lambda>_. []) r) (\<lambda>req.
            or_error (RecordUsage repo uid req) (\<lambda>stat. ret (Sent (Created (UsageStat_json F U stat))))))"

definition non_empty :: "string \<Rightarrow> string option" where
  "non_empty s = (if s = [] then None else Some s)"

definition handler_GetUserStats :: "(rat \<Rightarrow> string) \<Rightarrow> uuid_api \<Rightarrow> UsageStatRepository \<Rightarrow> http_handler" where
  "handler_GetUserStats F U repo c r =
     (case UserIDFromContext c of
        None \<Rightarrow> ret (Sent (response_JSON 401 (error_body ''unauthorized'')))
      | Some uid \<Rightarrow>
          (let params = FromRequest (rq_query r);
               q = \<lparr>uq_ModelID = non_empty (rq_query r ''model_id''), uq_StartDate = non_empty (rq_query r ''start_date''),
                    uq_EndDate = non_empty (rq_query r ''end_date''), uq_Page = Page params, uq_PerPage = PerPage params\<rparr>
           in or_error (GetUserStats repo uid q) (\<lambda>x.
                ret (Sent (response_JSON 200 (UsageStatsResponse_json F U x))))))"

end
