(* ===== verification/Health.thy ===== *)
theory Health
  imports Answers
begin

text \<open>
  The probes (\<open>internal/infrastructure/http/handler/health\<close>). The constructor stores pointers in
  interface fields: a nil pointer makes an interface that is not nil, and calling its method
  panics.
\<close>

datatype pinger =
    NilInterface
  | NilPointer
  | Pinger "goerr option eff"

record health_Handler =
  hh_db :: pinger
  hh_redis :: pinger

text \<open>The arguments are the pool and the client, \<open>None\<close> for a nil pointer.\<close>

definition health_NewHandler :: "goerr option eff option \<Rightarrow> goerr option eff option \<Rightarrow> health_Handler" where
  "health_NewHandler db redis_client =
     \<lparr>hh_db = (case db of None \<Rightarrow> NilPointer | Some m \<Rightarrow> Pinger m),
      hh_redis = (case redis_client of None \<Rightarrow> NilPointer | Some m \<Rightarrow> Pinger m)\<rparr>"

definition Liveness :: "rctx \<Rightarrow> request \<Rightarrow> answer option eff" where
  "Liveness c r = ret (Some (Sent (response_JSON 200 (JObj [(''status'', JStr ''alive'')]))))"

text \<open>What a probe says of a service: nothing, its health, or \<open>None\<close>, a panic.\<close>

definition probe :: "pinger \<Rightarrow> bool option option eff" where
  "probe p =
     (case p of
        NilInterface \<Rightarrow> ret (Some None)
      | NilPointer \<Rightarrow> ret None
      | Pinger m \<Rightarrow> do { e \<leftarrow> m; ret (Some (Some (e = None))) })"

definition service_json :: "string \<Rightarrow> bool option \<Rightarrow> (string \<times> json) list" where
  "service_json name x = omit_opt name (\<lambda>b. JStr (if b then ''healthy'' else ''unhealthy'')) x"

definition Readiness :: "health_Handler \<Rightarrow> rctx \<Rightarrow> request \<Rightarrow> answer option eff" where
  "Readiness h c r = do {
     db \<leftarrow> probe (hh_db h);
     case db of
       None \<Rightarrow> ret None
     | Some db \<Rightarrow> do {
         rd \<leftarrow> probe (hh_redis h);
         ret (case rd of
                None \<Rightarrow> None
              | Some rd \<Rightarrow>
                  (let healthy = (db \<noteq> Some False \<and> rd \<noteq> Some False);
                       services = service_json ''postgres'' db @ service_json ''redis'' rd
                   in Some (Sent (response_JSON (if healthy then 200 else 503)
                        (JObj [(''status'', JStr (if healthy then ''ready'' else ''not ready'')),
                               (''services'', JObj services)])))))
       }
   }"

text \<open>Without a database the probe does not report that it is not ready: it panics.\<close>

lemma readiness_without_database_panics:
  "run_state (Readiness (health_NewHandler None rd) c r) w = (None, w)"
  by (simp add: Readiness_def health_NewHandler_def probe_def run_state_bind)

end
