(* ===== verification/Config.thy ===== *)
theory Config
  imports Auth_Service
begin

text \<open>
  The configuration (\<open>internal/shared/config/config.go\<close>), read from the environment: a function
  that gives the empty string for a variable that is not set. The decomposition of
  \<open>DATABASE_URL\<close> by \<open>net/url\<close>, and the number of processors, are parameters.
\<close>

type_synonym env = "string \<Rightarrow> string"

definition envOrDefault :: "env \<Rightarrow> string \<Rightarrow> string \<Rightarrow> string" where
  "envOrDefault E key d = (if E key \<noteq> [] then E key else d)"

definition envOrDefaultInt :: "env \<Rightarrow> string \<Rightarrow> int \<Rightarrow> int" where
  "envOrDefaultInt E key d = (if E key \<noteq> [] \<and> snd (Atoi (E key)) then fst (Atoi (E key)) else d)"

definition envOrDefaultInt32 :: "env \<Rightarrow> string \<Rightarrow> int \<Rightarrow> int" where
  "envOrDefaultInt32 E key d =
     (let (n, good) = Atoi (E key)
      in if E key \<noteq> [] \<and> good \<and> - (2 ^ 31) \<le> n \<and> n < 2 ^ 31 then n else d)"

definition envOrDefaultInt64 :: "env \<Rightarrow> string \<Rightarrow> int \<Rightarrow> int" where
  "envOrDefaultInt64 E key d = (if E key \<noteq> [] \<and> snd (Atoi (E key)) then fst (Atoi (E key)) else d)"

definition envOrDefaultSlice :: "env \<Rightarrow> string \<Rightarrow> string list \<Rightarrow> string list" where
  "envOrDefaultSlice E key d =
     (if E key = [] then d
      else let xs = filter (\<lambda>p. p \<noteq> []) (map TrimSpace (Split (CHR '','') (E key)))
           in if xs \<noteq> [] then xs else d)"

record ServerConfig =
  sc_Host :: string
  sc_Port :: int
  sc_ReadTimeout :: time
  sc_WriteTimeout :: time
  sc_IdleTimeout :: time
  sc_CORSAllowedOrigins :: "string list"
  sc_MaxBodyBytes :: int

record DatabaseConfig =
  dc_Host :: string
  dc_Port :: int
  dc_User :: string
  dc_Password :: string
  dc_DBName :: string
  dc_SSLMode :: string
  dc_MaxConns :: int
  dc_MinConns :: int
  dc_ConnMaxLifetime :: time
  dc_ConnMaxIdleTime :: time

record RedisConfig =
  rc_Host :: string
  rc_Port :: int
  rc_Password :: string
  rc_DB :: int
  rc_PoolSize :: int
  rc_MinIdleConns :: int
  rc_ConnMaxIdleTime :: time

record KafkaConfig =
  kc_Brokers :: "string list"
  kc_GroupID :: string
  kc_Enabled :: bool
  kc_NumPartitions :: int
  kc_ReplicationFactor :: int

record WebSocketConfig =
  wc_Enabled :: bool
  wc_MaxConnections :: int
  wc_PingIntervalSec :: int
  wc_ReadBufferSize :: int
  wc_WriteBufferSize :: int

record LogConfig =
  lc_Level :: string
  lc_Format :: string

record RefreshTokenConfig =
  tc_Duration :: time
  tc_CookieName :: string
  tc_CookiePath :: string
  tc_Secure :: bool
  tc_AccessTokenTTL :: int

record Config =
  cf_Server :: ServerConfig
  cf_Database :: DatabaseConfig
  cf_Redis :: RedisConfig
  cf_JWT :: JWTConfig
  cf_Kafka :: KafkaConfig
  cf_WebSocket :: WebSocketConfig
  cf_Log :: LogConfig
  cf_RefreshToken :: RefreshTokenConfig

text \<open>\<open>time.Duration(n) * time.Second\<close>, which wraps.\<close>

definition seconds :: "int \<Rightarrow> time" where
  "seconds n = wrap64 (n * second)"

text \<open>The parts of a URL that are used: user, password, host name, port, path and \<open>sslmode\<close>.\<close>

record url_parts =
  ul_User :: string
  ul_Password :: string
  ul_Hostname :: string
  ul_Port :: string
  ul_Path :: string
  ul_sslmode :: string

definition env_database :: "env \<Rightarrow> DatabaseConfig" where
  "env_database E =
     \<lparr>dc_Host = envOrDefault E ''DB_HOST'' ''localhost'', dc_Port = envOrDefaultInt E ''DB_PORT'' 5432,
      dc_User = envOrDefault E ''DB_USER'' ''masterfabric'',
      dc_Password = envOrDefault E ''DB_PASSWORD'' ''masterfabric'',
      dc_DBName = envOrDefault E ''DB_NAME'' ''masterfabric'',
      dc_SSLMode = envOrDefault E ''DB_SSLMODE'' ''disable'',
      dc_MaxConns = envOrDefaultInt32 E ''DB_MAX_CONNS'' 25, dc_MinConns = envOrDefaultInt32 E ''DB_MIN_CONNS'' 5,
      dc_ConnMaxLifetime = 0, dc_ConnMaxIdleTime = 0\<rparr>"

definition with_lifetimes :: "env \<Rightarrow> DatabaseConfig \<Rightarrow> DatabaseConfig" where
  "with_lifetimes E d =
     d\<lparr>dc_ConnMaxLifetime := seconds (envOrDefaultInt E ''DB_CONN_MAX_LIFETIME_SECONDS'' 3600),
       dc_ConnMaxIdleTime := seconds (envOrDefaultInt E ''DB_CONN_MAX_IDLE_TIME_SECONDS'' 1800)\<rparr>"

definition parseDatabaseURL :: "(string \<Rightarrow> url_parts option) \<Rightarrow> env \<Rightarrow> string \<Rightarrow> DatabaseConfig" where
  "parseDatabaseURL parse E dbURL =
     (case parse dbURL of
        None \<Rightarrow> env_database E
      | Some u \<Rightarrow>
          with_lifetimes E
            \<lparr>dc_Host = ul_Hostname u,
             dc_Port = (if ul_Port u \<noteq> [] \<and> snd (Atoi (ul_Port u)) then fst (Atoi (ul_Port u)) else 5432),
             dc_User = ul_User u, dc_Password = ul_Password u, dc_DBName = TrimPrefix (ul_Path u) ''/'',
             dc_SSLMode = (if ul_sslmode u = [] then ''require'' else ul_sslmode u),
             dc_MaxConns = envOrDefaultInt32 E ''DB_MAX_CONNS'' 25,
             dc_MinConns = envOrDefaultInt32 E ''DB_MIN_CONNS'' 5,
             dc_ConnMaxLifetime = 0, dc_ConnMaxIdleTime = 0\<rparr>)"

definition loadDatabaseConfig :: "(string \<Rightarrow> url_parts option) \<Rightarrow> env \<Rightarrow> DatabaseConfig" where
  "loadDatabaseConfig parse E =
     (if E ''DATABASE_URL'' \<noteq> [] then parseDatabaseURL parse E (E ''DATABASE_URL'')
      else with_lifetimes E (env_database E))"

definition Load :: "(string \<Rightarrow> url_parts option) \<Rightarrow> int \<Rightarrow> env \<Rightarrow> Config" where
  "Load parse procs E =
     \<lparr>cf_Server =
        \<lparr>sc_Host = envOrDefault E ''SERVER_HOST'' ''0.0.0.0'',
         sc_Port = envOrDefaultInt E ''PORT'' (envOrDefaultInt E ''SERVER_PORT'' 8080),
         sc_ReadTimeout = seconds (envOrDefaultInt E ''SERVER_READ_TIMEOUT_SECONDS'' 15),
         sc_WriteTimeout = seconds (envOrDefaultInt E ''SERVER_WRITE_TIMEOUT_SECONDS'' 15),
         sc_IdleTimeout = seconds (envOrDefaultInt E ''SERVER_IDLE_TIMEOUT_SECONDS'' 60),
         sc_CORSAllowedOrigins = envOrDefaultSlice E ''CORS_ALLOWED_ORIGINS'' [],
         sc_MaxBodyBytes = envOrDefaultInt64 E ''MAX_BODY_BYTES'' 1048576\<rparr>,
      cf_Database = loadDatabaseConfig parse E,
      cf_Redis =
        \<lparr>rc_Host = envOrDefault E ''REDIS_HOST'' ''localhost'', rc_Port = envOrDefaultInt E ''REDIS_PORT'' 6379,
         rc_Password = envOrDefault E ''REDIS_PASSWORD'' [], rc_DB = envOrDefaultInt E ''REDIS_DB'' 0,
         rc_PoolSize = envOrDefaultInt E ''REDIS_POOL_SIZE'' (10 * procs),
         rc_MinIdleConns = envOrDefaultInt E ''REDIS_MIN_IDLE_CONNS'' 5,
         rc_ConnMaxIdleTime = seconds (envOrDefaultInt E ''REDIS_CONN_MAX_IDLE_TIME_SECONDS'' 300)\<rparr>,
      cf_JWT =
        \<lparr>jc_Secret = envOrDefault E ''JWT_SECRET'' ''change-me-in-production'',
         jc_ExpirationHours = envOrDefaultInt E ''JWT_EXPIRATION_HOURS'' 24,
         jc_Issuer = envOrDefault E ''JWT_ISSUER'' ''masterfabric''\<rparr>,
      cf_Kafka =
        \<lparr>kc_Brokers = envOrDefaultSlice E ''KAFKA_BROKERS'' [''localhost:9092''],
         kc_GroupID = envOrDefault E ''KAFKA_GROUP_ID'' ''masterfabric-go'',
         kc_Enabled = (envOrDefault E ''KAFKA_ENABLED'' ''false'' = ''true''),
         kc_NumPartitions = envOrDefaultInt E ''KAFKA_NUM_PARTITIONS'' 3,
         kc_ReplicationFactor = envOrDefaultInt E ''KAFKA_REPLICATION_FACTOR'' 1\<rparr>,
      cf_WebSocket =
        \<lparr>wc_Enabled = (envOrDefault E ''WS_ENABLED'' ''true'' = ''true''),
         wc_MaxConnections = envOrDefaultInt E ''WS_MAX_CONNECTIONS'' 1000,
         wc_PingIntervalSec = envOrDefaultInt E ''WS_PING_INTERVAL_SECONDS'' 30,
         wc_ReadBufferSize = envOrDefaultInt E ''WS_READ_BUFFER_SIZE'' 1024,
         wc_WriteBufferSize = envOrDefaultInt E ''WS_WRITE_BUFFER_SIZE'' 1024\<rparr>,
      cf_Log = \<lparr>lc_Level = envOrDefault E ''LOG_LEVEL'' ''info'', lc_Format = envOrDefault E ''LOG_FORMAT'' ''json''\<rparr>,
      cf_RefreshToken =
        \<lparr>tc_Duration = 7 * 24 * hour, tc_CookieName = ''refresh_token'', tc_CookiePath = ''/api/v1/auth/refresh'',
         tc_Secure = (envOrDefault E ''ENVIRONMENT'' ''development'' = ''production''), tc_AccessTokenTTL = 15\<rparr>\<rparr>"

definition Addr :: "RedisConfig \<Rightarrow> string" where
  "Addr r = rc_Host r @ '':'' @ Itoa (rc_Port r)"

end
