(* ===== verification/Iam_Http.thy ===== *)
theory Iam_Http
  imports Answers Config Iam Rbac
begin

text \<open>
  The HTTP handlers of identity (\<open>internal/infrastructure/http/handler/iam\<close>): registration, login
  with its refresh cookie, the rotation and revocation of refresh tokens, users and roles. The
  syntax of an e-mail address is that of the validator package, a parameter.
\<close>

section \<open>Bodies\<close>

definition RegisterRequest_decode :: "(string \<times> json) list \<Rightarrow> RegisterRequest option" where
  "RegisterRequest_decode kvs = do {
     e \<leftarrow> field_str ''email'' kvs; p \<leftarrow> field_str ''password'' kvs;
     f \<leftarrow> field_str ''first_name'' kvs; l \<leftarrow> field_str ''last_name'' kvs;
     Some \<lparr>rg_Email = e, rg_Password = p, rg_FirstName = f, rg_LastName = l\<rparr>
   }"

definition RegisterRequest_tags :: "(string \<Rightarrow> bool) \<Rightarrow> RegisterRequest \<Rightarrow> field_check list" where
  "RegisterRequest_tags is_email q =
     [(''Email'', [required (rg_Email q), (''email'', is_email (rg_Email q))]),
      (''Password'', [required (rg_Password q), min_runes 8 (rg_Password q)]),
      (''FirstName'', [required (rg_FirstName q)]), (''LastName'', [required (rg_LastName q)])]"

definition LoginRequest_decode :: "(string \<times> json) list \<Rightarrow> LoginRequest option" where
  "LoginRequest_decode kvs = do {
     e \<leftarrow> field_str ''email'' kvs; p \<leftarrow> field_str ''password'' kvs;
     Some \<lparr>lg_Email = e, lg_Password = p\<rparr>
   }"

definition LoginRequest_tags :: "(string \<Rightarrow> bool) \<Rightarrow> LoginRequest \<Rightarrow> field_check list" where
  "LoginRequest_tags is_email q =
     [(''Email'', [required (lg_Email q), (''email'', is_email (lg_Email q))]),
      (''Password'', [required (lg_Password q)])]"

definition AssignRoleRequest_decode :: "uuid_api \<Rightarrow> (string \<times> json) list \<Rightarrow> AssignRoleRequest option" where
  "AssignRoleRequest_decode U kvs = do {
     u \<leftarrow> field_uuid U ''user_id'' kvs; r \<leftarrow> field_uuid U ''role_id'' kvs;
     g \<leftarrow> field_uuid U ''organization_id'' kvs; a \<leftarrow> decode_opt (uuid_value U) ''app_id'' None kvs;
     Some \<lparr>ar_UserID = u, ar_RoleID = r, ar_OrganizationID = g, ar_AppID = a\<rparr>
   }"

definition AssignRoleRequest_tags :: "AssignRoleRequest \<Rightarrow> field_check list" where
  "AssignRoleRequest_tags q =
     [(''UserID'', [required_id (ar_UserID q)]), (''RoleID'', [required_id (ar_RoleID q)]),
      (''OrganizationID'', [required_id (ar_OrganizationID q)])]"

definition UserInfo_json :: "uuid_api \<Rightarrow> UserInfo \<Rightarrow> json" where
  "UserInfo_json U u =
     JObj [(''id'', id_json U (ui_ID u)), (''email'', JStr (ui_Email u)), (''first_name'', JStr (ui_FirstName u)),
       (''last_name'', JStr (ui_LastName u)), (''status'', JStr (ui_Status u)), (''created_at'', time_json (ui_CreatedAt u))]"

text \<open>\<open>RefreshResponse\<close> keeps the refresh token out of its JSON.\<close>

definition RefreshResponse_json :: "RefreshResponse \<Rightarrow> json" where
  "RefreshResponse_json x =
     JObj [(''access_token'', JStr (rr_AccessToken x)), (''token_type'', JStr (rr_TokenType x)),
       (''expires_in'', JInt (rr_ExpiresIn x))]"

definition LoginResponseV2_json :: "uuid_api \<Rightarrow> RefreshTokenConfig \<Rightarrow> LoginResponse \<Rightarrow> json" where
  "LoginResponseV2_json U cfg x =
     JObj [(''access_token'', JStr (lr_Token x)), (''token_type'', JStr ''Bearer''),
       (''expires_in'', JInt (wrap64 (tc_AccessTokenTTL cfg * 60))), (''user'', UserInfo_json U (lr_User x))]"

definition SessionsResponse_json :: "uuid_api \<Rightarrow> SessionInfo list \<Rightarrow> json" where
  "SessionsResponse_json U xs =
     JObj [(''sessions'', JArr (map (\<lambda>s. JObj [(''id'', id_json U (si_ID s)), (''created_at'', time_json (si_CreatedAt s)),
        (''ip_address'', JStr (si_IPAddress s)), (''user_agent'', JStr (si_UserAgent s))]) xs))]"

section \<open>Cookies\<close>

definition refresh_cookie :: "RefreshTokenConfig \<Rightarrow> string \<Rightarrow> cookie" where
  "refresh_cookie cfg v =
     \<lparr>ck_Name = tc_CookieName cfg, ck_Value = v, ck_Path = tc_CookiePath cfg,
      ck_MaxAge = tc_Duration cfg sdiv second, ck_HttpOnly = True, ck_Secure = tc_Secure cfg,
      ck_SameSite = (if tc_Secure cfg then SameSiteNoneMode else SameSiteStrictMode)\<rparr>"

definition clear_cookie :: "RefreshTokenConfig \<Rightarrow> cookie" where
  "clear_cookie cfg =
     \<lparr>ck_Name = tc_CookieName cfg, ck_Value = [], ck_Path = tc_CookiePath cfg, ck_MaxAge = -1,
      ck_HttpOnly = True, ck_Secure = False, ck_SameSite = SameSiteUnset\<rparr>"

section \<open>The handlers\<close>

record iam_Handler =
  ih_userRepo :: UserRepository
  ih_auth :: AuthService
  ih_roleRepo :: RoleRepository
  ih_rbac :: RBACService
  ih_refreshTokenUC :: "RefreshTokenUseCase option"
  ih_refreshTokenCfg :: RefreshTokenConfig
  ih_is_email :: "string \<Rightarrow> bool"

definition iam_Register :: "uuid_api \<Rightarrow> iam_Handler \<Rightarrow> http_handler" where
  "iam_Register U h c r =
     with_body (DecodeAndValidate RegisterRequest_decode (RegisterRequest_tags (ih_is_email h)) r) (\<lambda>req.
       or_error (Register (ih_userRepo h) (ih_auth h) req) (\<lambda>user. ret (Sent (Created (UserInfo_json U user)))))"

definition iam_Login :: "uuid_api \<Rightarrow> iam_Handler \<Rightarrow> http_handler" where
  "iam_Login U h c r =
     with_body (DecodeAndValidate LoginRequest_decode (LoginRequest_tags (ih_is_email h)) r) (\<lambda>req.
       or_error (Login (ih_userRepo h) (ih_auth h) req) (\<lambda>result.
         let body = response_JSON 200 (LoginResponseV2_json U (ih_refreshTokenCfg h) result)
         in case ih_refreshTokenUC h of
              None \<Rightarrow> ret (Sent body)
            | Some uc \<Rightarrow>
                or_error (GenerateRefreshToken uc (ui_ID (lr_User result)) r) (\<lambda>(raw, _).
                  ret (SetCookie (refresh_cookie (ih_refreshTokenCfg h) raw) body))))"

definition iam_AssignRole :: "uuid_api \<Rightarrow> iam_Handler \<Rightarrow> http_handler" where
  "iam_AssignRole U h c r =
     with_body (DecodeAndValidate (AssignRoleRequest_decode U) AssignRoleRequest_tags r) (\<lambda>req.
       or_error (AssignRole (ih_roleRepo h) (ih_rbac h) req) (\<lambda>_. ret (Sent NoContent)))"

text \<open>The handlers for the authenticated user.\<close>

definition with_user :: "rctx \<Rightarrow> (uuid \<Rightarrow> answer eff) \<Rightarrow> answer eff" where
  "with_user c f =
     (case UserIDFromContext c of
        None \<Rightarrow> ret (Sent (response_JSON 401 (error_body ''not authenticated'')))
      | Some uid \<Rightarrow> f uid)"

definition iam_GetMe :: "uuid_api \<Rightarrow> iam_Handler \<Rightarrow> http_handler" where
  "iam_GetMe U h c r =
     with_user c (\<lambda>uid. or_error (us_GetByID (ih_userRepo h) uid) (\<lambda>user.
       ret (Sent (response_JSON 200 (UserInfo_json U (user_info user))))))"

definition iam_GetUser :: "uuid_api \<Rightarrow> iam_Handler \<Rightarrow> http_handler" where
  "iam_GetUser U h c r =
     with_id U r ''id'' ''invalid user id'' (\<lambda>uid. or_error (us_GetByID (ih_userRepo h) uid) (\<lambda>user.
       ret (Sent (response_JSON 200 (UserInfo_json U (user_info user))))))"

definition iam_ListUsers :: "uuid_api \<Rightarrow> iam_Handler \<Rightarrow> http_handler" where
  "iam_ListUsers U h c r =
     (let params = FromRequest (rq_query r)
      in or_error (us_List (ih_userRepo h) (Offset params) (Limit params)) (\<lambda>(rows, n).
           ret (send_page (\<lambda>u. UserInfo_json U (user_info u)) params rows n)))"

definition iam_Refresh :: "iam_Handler \<Rightarrow> http_handler" where
  "iam_Refresh h c r =
     (case rq_cookie r (tc_CookieName (ih_refreshTokenCfg h)) of
        None \<Rightarrow> ret (Sent (response_JSON 401 (error_body ''missing refresh token'')))
      | Some v \<Rightarrow>
          (case ih_refreshTokenUC h of
             None \<Rightarrow> ret panicked
           | Some uc \<Rightarrow> do {
               x \<leftarrow> Rotate uc v r;
               ret (case x of
                      Inl e \<Rightarrow> SetCookie (clear_cookie (ih_refreshTokenCfg h)) (response_Error e)
                    | Inr result \<Rightarrow> SetCookie (refresh_cookie (ih_refreshTokenCfg h) (rr_RefreshToken result))
                        (response_JSON 200 (RefreshResponse_json result)))
             }))"

definition iam_Logout :: "iam_Handler \<Rightarrow> http_handler" where
  "iam_Logout h c r =
     (case rq_cookie r (tc_CookieName (ih_refreshTokenCfg h)) of
        None \<Rightarrow> ret (Sent NoContent)
      | Some v \<Rightarrow>
          (case ih_refreshTokenUC h of
             None \<Rightarrow> ret panicked
           | Some uc \<Rightarrow> do {
               Logout uc v;
               ret (SetCookie (clear_cookie (ih_refreshTokenCfg h)) NoContent)
             }))"

definition iam_LogoutAll :: "iam_Handler \<Rightarrow> http_handler" where
  "iam_LogoutAll h c r =
     with_user c (\<lambda>uid.
       case ih_refreshTokenUC h of
         None \<Rightarrow> ret panicked
       | Some uc \<Rightarrow> or_error (LogoutAll uc uid) (\<lambda>_.
           ret (SetCookie (clear_cookie (ih_refreshTokenCfg h)) NoContent)))"

definition iam_Sessions :: "uuid_api \<Rightarrow> iam_Handler \<Rightarrow> http_handler" where
  "iam_Sessions U h c r =
     with_user c (\<lambda>uid.
       case ih_refreshTokenUC h of
         None \<Rightarrow> ret panicked
       | Some uc \<Rightarrow> or_error (ListSessions uc uid) (\<lambda>xs.
           ret (Sent (response_JSON 200 (SessionsResponse_json U xs)))))"

end
