(* ===== verification/Tenant_Http.thy ===== *)
theory Tenant_Http
  imports Answers Tenant
begin

text \<open>
  The HTTP handlers of organizations, apps, API keys and workspaces
  (\<open>internal/infrastructure/http/handler/tenant\<close>).
\<close>

section \<open>Bodies\<close>

definition CreateOrgRequest_decode :: "(string \<times> json) list \<Rightarrow> CreateOrgRequest option" where
  "CreateOrgRequest_decode kvs = do {
     n \<leftarrow> field_str ''name'' kvs; s \<leftarrow> field_str ''slug'' kvs;
     Some \<lparr>cor_Name = n, cor_Slug = s\<rparr>
   }"

definition CreateOrgRequest_tags :: "CreateOrgRequest \<Rightarrow> field_check list" where
  "CreateOrgRequest_tags q =
     [(''Name'', [required (cor_Name q), min_runes 2 (cor_Name q)]),
      (''Slug'', [required (cor_Slug q), min_runes 2 (cor_Slug q), alphanum (cor_Slug q)])]"

definition CreateAppRequest_decode :: "(string \<times> json) list \<Rightarrow> CreateAppRequest option" where
  "CreateAppRequest_decode kvs = do {
     n \<leftarrow> field_str ''name'' kvs; s \<leftarrow> field_str ''slug'' kvs; t \<leftarrow> field_str ''sla_tier'' kvs;
     Some \<lparr>car_Name = n, car_Slug = s, car_SLATier = t\<rparr>
   }"

definition CreateAppRequest_tags :: "CreateAppRequest \<Rightarrow> field_check list" where
  "CreateAppRequest_tags q =
     [(''Name'', [required (car_Name q), min_runes 2 (car_Name q)]),
      (''Slug'', [required (car_Slug q), min_runes 2 (car_Slug q), alphanum (car_Slug q)])]"

text \<open>\<open>CreateAPIKeyRequest\<close> has a name only.\<close>

definition CreateAPIKeyRequest_tags :: "string \<Rightarrow> field_check list" where
  "CreateAPIKeyRequest_tags n = [(''Name'', [required n])]"

definition CreateWorkspaceRequest_decode :: "(string \<times> json) list \<Rightarrow> CreateWorkspaceRequest option" where
  "CreateWorkspaceRequest_decode kvs = do {
     n \<leftarrow> field_str ''name'' kvs; s \<leftarrow> field_str ''slug'' kvs; d \<leftarrow> field_str ''description'' kvs;
     Some \<lparr>cwr_Name = n, cwr_Slug = s, cwr_Description = d\<rparr>
   }"

definition CreateWorkspaceRequest_tags :: "CreateWorkspaceRequest \<Rightarrow> field_check list" where
  "CreateWorkspaceRequest_tags q =
     [(''Name'', [required (cwr_Name q), min_runes 2 (cwr_Name q)]),
      (''Slug'', [required (cwr_Slug q), min_runes 2 (cwr_Slug q), alphanum (cwr_Slug q)])]"

definition UpdateWorkspaceRequest_decode :: "(string \<times> json) list \<Rightarrow> UpdateWorkspaceRequest option" where
  "UpdateWorkspaceRequest_decode kvs = do {
     n \<leftarrow> field_str ''name'' kvs; s \<leftarrow> field_str ''slug'' kvs; d \<leftarrow> field_str ''description'' kvs;
     t \<leftarrow> field_str ''status'' kvs;
     Some \<lparr>uwr_Name = n, uwr_Slug = s, uwr_Description = d, uwr_Status = t\<rparr>
   }"

definition OrgInfo_json :: "uuid_api \<Rightarrow> OrgInfo \<Rightarrow> json" where
  "OrgInfo_json U x =
     JObj [(''id'', id_json U (oi_ID x)), (''name'', JStr (oi_Name x)), (''slug'', JStr (oi_Slug x)),
       (''status'', JStr (oi_Status x)), (''created_at'', time_json (oi_CreatedAt x))]"

definition org_info :: "Organization \<Rightarrow> OrgInfo" where
  "org_info x =
     \<lparr>oi_ID = o_ID x, oi_Name = o_Name x, oi_Slug = o_Slug x, oi_Status = o_Status x, oi_CreatedAt = o_CreatedAt x\<rparr>"

definition AppInfo_json :: "uuid_api \<Rightarrow> AppInfo \<Rightarrow> json" where
  "AppInfo_json U x =
     JObj [(''id'', id_json U (ai_ID x)), (''organization_id'', id_json U (ai_OrganizationID x)),
       (''name'', JStr (ai_Name x)), (''slug'', JStr (ai_Slug x)), (''status'', JStr (ai_Status x)),
       (''sla_tier'', JStr (ai_SLATier x)), (''created_at'', time_json (ai_CreatedAt x))]"

definition app_info :: "App \<Rightarrow> AppInfo" where
  "app_info x =
     \<lparr>ai_ID = a_ID x, ai_OrganizationID = a_OrganizationID x, ai_Name = a_Name x, ai_Slug = a_Slug x,
      ai_Status = a_Status x, ai_SLATier = a_SLATier x, ai_CreatedAt = a_CreatedAt x\<rparr>"

definition APIKeyResponse_json :: "uuid_api \<Rightarrow> APIKeyResponse \<Rightarrow> json" where
  "APIKeyResponse_json U x =
     JObj ([(''id'', id_json U (kr_ID x)), (''app_id'', id_json U (kr_AppID x)), (''name'', JStr (kr_Name x))] @
       omit_str ''key'' (kr_Key x) @ omit_opt ''expires_at'' time_json (kr_ExpiresAt x) @
       [(''is_active'', JBool (kr_IsActive x)), (''created_at'', time_json (kr_CreatedAt x))])"

definition WorkspaceInfo_json :: "uuid_api \<Rightarrow> WorkspaceInfo \<Rightarrow> json" where
  "WorkspaceInfo_json U x =
     JObj ([(''id'', id_json U (w_ID x)), (''organization_id'', id_json U (w_OrganizationID x)),
        (''name'', JStr (w_Name x)), (''slug'', JStr (w_Slug x))] @ omit_str ''description'' (w_Description x) @
       [(''status'', JStr (w_Status x)), (''created_at'', time_json (w_CreatedAt x)),
        (''updated_at'', time_json (w_UpdatedAt x))])"

section \<open>The handlers\<close>

record tenant_Handler =
  th_orgRepo :: OrgRepository
  th_appRepo :: AppRepository
  th_keyRepo :: APIKeyRepository
  th_workspaceRepo :: WorkspaceRepository

definition tenant_CreateOrg :: "uuid_api \<Rightarrow> tenant_Handler \<Rightarrow> http_handler" where
  "tenant_CreateOrg U h c r =
     with_body (DecodeAndValidate CreateOrgRequest_decode CreateOrgRequest_tags r) (\<lambda>req.
       or_error (CreateOrg (th_orgRepo h) c req) (\<lambda>org. ret (Sent (Created (OrgInfo_json U org)))))"

definition tenant_GetOrg :: "uuid_api \<Rightarrow> tenant_Handler \<Rightarrow> http_handler" where
  "tenant_GetOrg U h c r =
     with_id U r ''orgId'' ''invalid org id'' (\<lambda>gid. or_error (or_GetByID (th_orgRepo h) gid) (\<lambda>org.
       ret (Sent (response_JSON 200 (OrgInfo_json U (org_info org))))))"

definition tenant_ListOrgs :: "uuid_api \<Rightarrow> tenant_Handler \<Rightarrow> http_handler" where
  "tenant_ListOrgs U h c r =
     (let params = FromRequest (rq_query r)
      in or_error (or_List (th_orgRepo h) (Offset params) (Limit params)) (\<lambda>(rows, n).
           ret (send_page (\<lambda>x. OrgInfo_json U (org_info x)) params rows n)))"

text \<open>The tenant of the context goes before the organization of the path.\<close>

definition tenant_CreateApp :: "uuid_api \<Rightarrow> tenant_Handler \<Rightarrow> http_handler" where
  "tenant_CreateApp U h c r =
     (case (case TenantIDFromContext c of Some g \<Rightarrow> Some g | None \<Rightarrow> uuid_parse U (rq_param r ''orgId'')) of
        None \<Rightarrow> ret (Sent (response_JSON 400 (error_body ''organization id required'')))
      | Some gid \<Rightarrow>
          with_body (DecodeAndValidate CreateAppRequest_decode CreateAppRequest_tags r) (\<lambda>req.
            or_error (CreateApp (th_appRepo h) (th_orgRepo h) gid req) (\<lambda>app.
              ret (Sent (Created (AppInfo_json U app))))))"

definition tenant_GetApp :: "uuid_api \<Rightarrow> tenant_Handler \<Rightarrow> http_handler" where
  "tenant_GetApp U h c r =
     with_id U r ''appId'' ''invalid app id'' (\<lambda>aid. or_error (ap_GetByID (th_appRepo h) aid) (\<lambda>app.
       ret (Sent (response_JSON 200 (AppInfo_json U (app_info app))))))"

definition tenant_ListApps :: "uuid_api \<Rightarrow> tenant_Handler \<Rightarrow> http_handler" where
  "tenant_ListApps U h c r =
     with_id U r ''orgId'' ''invalid org id'' (\<lambda>gid.
       let params = FromRequest (rq_query r)
       in or_error (ap_ListByOrg (th_appRepo h) gid (Offset params) (Limit params)) (\<lambda>(rows, n).
            ret (send_page (\<lambda>x. AppInfo_json U (app_info x)) params rows n)))"

definition tenant_CreateAPIKey :: "uuid_api \<Rightarrow> tenant_Handler \<Rightarrow> http_handler" where
  "tenant_CreateAPIKey U h c r =
     with_id U r ''appId'' ''invalid app id'' (\<lambda>aid.
       with_body (DecodeAndValidate (field_str ''name'') CreateAPIKeyRequest_tags r) (\<lambda>name.
         or_error (CreateKey (th_keyRepo h) aid name) (\<lambda>key.
           ret (Sent (Created (APIKeyResponse_json U key))))))"

definition tenant_RevokeAPIKey :: "uuid_api \<Rightarrow> tenant_Handler \<Rightarrow> http_handler" where
  "tenant_RevokeAPIKey U h c r =
     with_id U r ''keyId'' ''invalid key id'' (\<lambda>kid.
       or_error (RevokeKey (th_keyRepo h) kid) (\<lambda>_. ret (Sent NoContent)))"

definition tenant_ListAPIKeys :: "uuid_api \<Rightarrow> tenant_Handler \<Rightarrow> http_handler" where
  "tenant_ListAPIKeys U h c r =
     with_id U r ''appId'' ''invalid app id'' (\<lambda>aid. or_error (ListKeys (th_keyRepo h) aid) (\<lambda>keys.
       ret (Sent (response_JSON 200 (slice_json (APIKeyResponse_json U) keys)))))"

definition tenant_CreateWorkspace :: "uuid_api \<Rightarrow> tenant_Handler \<Rightarrow> http_handler" where
  "tenant_CreateWorkspace U h c r =
     with_body (DecodeAndValidate CreateWorkspaceRequest_decode CreateWorkspaceRequest_tags r) (\<lambda>req.
       or_error (CreateWorkspace (th_workspaceRepo h) (th_orgRepo h) c req) (\<lambda>ws.
         ret (Sent (Created (WorkspaceInfo_json U ws)))))"

text \<open>This list is made with \<open>make\<close> and is never \<open>nil\<close>.\<close>

definition tenant_ListWorkspaces :: "uuid_api \<Rightarrow> tenant_Handler \<Rightarrow> http_handler" where
  "tenant_ListWorkspaces U h c r =
     or_error (ListWorkspaces (th_workspaceRepo h) c) (\<lambda>xs.
       ret (Sent (response_JSON 200 (JArr (map (WorkspaceInfo_json U) xs)))))"

definition tenant_UpdateWorkspace :: "uuid_api \<Rightarrow> tenant_Handler \<Rightarrow> http_handler" where
  "tenant_UpdateWorkspace U h c r =
     with_id U r ''workspaceId'' ''invalid workspace id'' (\<lambda>wid.
       with_body (DecodeAndValidate UpdateWorkspaceRequest_decode (\<lambda>_. []) r) (\<lambda>req.
         or_error (UpdateWorkspace (th_workspaceRepo h) c wid req) (\<lambda>ws.
           ret (Sent (response_JSON 200 (WorkspaceInfo_json U ws))))))"

end
