(* ===== verification/Api_Http.thy ===== *)
theory Api_Http
  imports Answers
begin

text \<open>
  The HTTP handlers of managed endpoints and their policies
  (\<open>internal/infrastructure/http/handler/apimanagement\<close>).
\<close>

definition DefineEndpointRequest_decode :: "(string \<times> json) list \<Rightarrow> DefineEndpointRequest option" where
  "DefineEndpointRequest_decode kvs = do {
     m \<leftarrow> field_str ''method'' kvs; p \<leftarrow> field_str ''path'' kvs; v \<leftarrow> field_str ''version'' kvs;
     s \<leftarrow> field_str ''backend_service'' kvs; a \<leftarrow> field_str ''backend_action'' kvs;
     l \<leftarrow> field_str ''audit_level'' kvs; pii \<leftarrow> field_bool ''pii_masking'' kvs; e \<leftarrow> field_str ''event_after'' kvs;
     Some \<lparr>de_Method = m, de_Path = p, de_Version = v, de_BackendService = s, de_BackendAction = a,
           de_Schema = decode_raw ''schema'' None kvs, de_AuditLevel = l, de_PIIMasking = pii, de_EventAfter = e\<rparr>
   }"

definition DefineEndpointRequest_tags :: "DefineEndpointRequest \<Rightarrow> field_check list" where
  "DefineEndpointRequest_tags q =
     [(''Method'', [required (de_Method q), oneof [''GET'', ''POST'', ''PUT'', ''PATCH'', ''DELETE''] (de_Method q)]),
      (''Path'', [required (de_Path q)]), (''BackendService'', [required (de_BackendService q)]),
      (''BackendAction'', [required (de_BackendAction q)])]"

definition UpdatePolicyRequest_decode :: "(string \<times> json) list \<Rightarrow> UpdatePolicyRequest option" where
  "UpdatePolicyRequest_decode kvs = do {
     p \<leftarrow> field_str ''required_permission'' kvs; n \<leftarrow> field_int ''rate_limit'' kvs; a \<leftarrow> field_str ''auth_policy'' kvs;
     Some \<lparr>upr_RequiredPermission = p, upr_RateLimit = n, upr_AuthPolicy = a,
           upr_ValidationPolicy = decode_raw ''validation_policy'' None kvs,
           upr_ExtraPolicies = decode_raw ''extra_policies'' None kvs\<rparr>
   }"

text \<open>\<open>omitempty\<close> for a raw message.\<close>

definition omit_raw :: "string \<Rightarrow> string option \<Rightarrow> (string \<times> json) list" where
  "omit_raw name s = (case s of None \<Rightarrow> [] | Some x \<Rightarrow> if x = [] then [] else [(name, raw_json x)])"

definition EndpointInfo_json :: "uuid_api \<Rightarrow> Endpoint \<Rightarrow> json" where
  "EndpointInfo_json U x =
     JObj ([(''id'', id_json U (e_ID x)), (''app_id'', id_json U (e_AppID x)), (''method'', JStr (e_Method x)),
        (''path'', JStr (e_Path x)), (''version'', JStr (e_Version x)), (''backend_service'', JStr (e_BackendService x)),
        (''backend_action'', JStr (e_BackendAction x))] @ omit_raw ''schema'' (e_Schema x) @
       [(''audit_level'', JStr (e_AuditLevel x)), (''pii_masking'', JBool (e_PIIMasking x))] @
       omit_str ''event_after'' (e_EventAfter x) @
       [(''status'', JStr (e_Status x)), (''created_at'', time_json (e_CreatedAt x))])"

definition PolicyInfo_json :: "uuid_api \<Rightarrow> EndpointPolicy \<Rightarrow> json" where
  "PolicyInfo_json U x =
     JObj ([(''id'', id_json U (ep_ID x)), (''endpoint_id'', id_json U (ep_EndpointID x)),
        (''required_permission'', JStr (ep_RequiredPermission x)), (''rate_limit'', JInt (ep_RateLimit x)),
        (''auth_policy'', JStr (ep_AuthPolicy x))] @
       omit_raw ''validation_policy'' (ep_ValidationPolicy x) @ omit_raw ''extra_policies'' (ep_ExtraPolicies x))"

record apimgmt_Handler =
  mh_endpointRepo :: EndpointRepository
  mh_policyRepo :: PolicyRepository

definition api_DefineEndpoint :: "uuid_api \<Rightarrow> apimgmt_Handler \<Rightarrow> http_handler" where
  "api_DefineEndpoint U h c r =
     with_id U r ''appId'' ''invalid app id'' (\<lambda>aid.
       with_body (DecodeAndValidate DefineEndpointRequest_decode DefineEndpointRequest_tags r) (\<lambda>req.
         or_error (DefineEndpoint (mh_endpointRepo h) aid req) (\<lambda>ep.
           ret (Sent (Created (EndpointInfo_json U ep))))))"

definition api_GetEndpoint :: "uuid_api \<Rightarrow> apimgmt_Handler \<Rightarrow> http_handler" where
  "api_GetEndpoint U h c r =
     with_id U r ''endpointId'' ''invalid endpoint id'' (\<lambda>eid.
       or_error (en_GetByID (mh_endpointRepo h) eid) (\<lambda>ep.
         ret (Sent (response_JSON 200 (EndpointInfo_json U ep)))))"

text \<open>The listing leaves out the schema and the event.\<close>

definition api_ListEndpoints :: "uuid_api \<Rightarrow> apimgmt_Handler \<Rightarrow> http_handler" where
  "api_ListEndpoints U h c r =
     with_id U r ''appId'' ''invalid app id'' (\<lambda>aid.
       let params = FromRequest (rq_query r)
       in or_error (en_ListByApp (mh_endpointRepo h) aid (Offset params) (Limit params)) (\<lambda>(rows, n).
            ret (send_page (\<lambda>ep. EndpointInfo_json U (ep\<lparr>e_Schema := None, e_EventAfter := []\<rparr>)) params rows n)))"

definition api_RetireEndpoint :: "uuid_api \<Rightarrow> apimgmt_Handler \<Rightarrow> http_handler" where
  "api_RetireEndpoint U h c r =
     with_id U r ''endpointId'' ''invalid endpoint id'' (\<lambda>eid.
       or_error (RetireEndpoint (mh_endpointRepo h) eid) (\<lambda>_. ret (Sent NoContent)))"

definition api_ActivateEndpoint :: "uuid_api \<Rightarrow> apimgmt_Handler \<Rightarrow> http_handler" where
  "api_ActivateEndpoint U h c r =
     with_id U r ''endpointId'' ''invalid endpoint id'' (\<lambda>eid.
       or_error (ActivateEndpoint (mh_endpointRepo h) eid) (\<lambda>_. ret (Sent NoContent)))"

definition api_UpdatePolicy :: "uuid_api \<Rightarrow> apimgmt_Handler \<Rightarrow> http_handler" where
  "api_UpdatePolicy U h c r =
     with_id U r ''endpointId'' ''invalid endpoint id'' (\<lambda>eid.
       with_body (DecodeAndValidate UpdatePolicyRequest_decode (\<lambda>_. []) r) (\<lambda>req.
         or_error (UpdatePolicy (mh_policyRepo h) eid req) (\<lambda>p.
           ret (Sent (response_JSON 200 (PolicyInfo_json U p))))))"

definition api_GetPolicy :: "uuid_api \<Rightarrow> apimgmt_Handler \<Rightarrow> http_handler" where
  "api_GetPolicy U h c r =
     with_id U r ''endpointId'' ''invalid endpoint id'' (\<lambda>eid.
       or_error (po_GetByEndpointID (mh_policyRepo h) eid) (\<lambda>p.
         ret (Sent (response_JSON 200 (PolicyInfo_json U p)))))"

end
