(* ===== verification/Router.thy ===== *)
theory Router
  imports Middleware Statistics Health Iam_Http Tenant_Http Api_Http
begin

text \<open>
  The routes and the order of the middleware (\<open>internal/infrastructure/http/router/router.go\<close>).
  chi is not part of the repository: a route is a method, the segments of its path below
  \<open>/api/v1\<close>, and whether it is the root of a mounted router, where a trailing slash matches as well;
  no two routes match the same request. What chi answers inside a mounted router where nothing
  matches, the metrics, and the WebSocket endpoint, which works on the hub, are parameters.
\<close>

section \<open>Routes\<close>

datatype segment = Seg string | Par string

record route =
  ro_method :: string
  ro_pattern :: "segment list"
  ro_root :: bool
  ro_permission :: "string option"
  ro_handler :: http_handler

text \<open>
  The values of the parameters, where the segments of a path match. A parameter may be empty,
  except at the end.
\<close>

fun match_path :: "segment list \<Rightarrow> bool \<Rightarrow> string list \<Rightarrow> (string \<times> string) list option" where
  "match_path [] mnt xs = (if xs = [] \<or> (mnt \<and> xs = [[]]) then Some [] else None)"
| "match_path (p # ps) mnt [] = None"
| "match_path (Seg s # ps) mnt (x # xs) = (if x = s then match_path ps mnt xs else None)"
| "match_path (Par n # ps) mnt (x # xs) =
     (if x = [] \<and> xs = [] then None else map_option ((#) (n, x)) (match_path ps mnt xs))"

definition route_params :: "route \<Rightarrow> string \<Rightarrow> string list \<Rightarrow> (string \<times> string) list option" where
  "route_params t m xs = (if ro_method t = m then match_path (ro_pattern t) (ro_root t) xs else None)"

text \<open>The segments below \<open>/api/v1\<close>, if the path is there.\<close>

definition api_segments :: "string \<Rightarrow> string list option" where
  "api_segments path =
     (if HasPrefix path ''/api/v1/'' then Some (Split (CHR ''/'') (TrimPrefix path ''/api/v1/'')) else None)"

section \<open>Dependencies\<close>

record Dependencies =
  dp_MaxBodyBytes :: int
  dp_AuthService :: "AuthService option"
  dp_RBACService :: "RBACService option"
  dp_IAMHandler :: "iam_Handler option"
  dp_TenantHandler :: "tenant_Handler option"
  dp_APIMgmtHandler :: "apimgmt_Handler option"
  dp_AuditHandler :: "AuditRepository option"
  dp_StatisticsHandler :: "UsageStatRepository option"
  dp_RealtimeHandler :: "http_handler option"
  dp_GatewayPipeline :: "Pipeline option"
  dp_OrgRepo :: "OrgRepository option"
  dp_WorkspaceRepo :: "WorkspaceRepository option"
  dp_unmatched :: http_handler
  dp_metrics :: http_handler
  dp_health :: health_Handler
  dp_rate_text :: "rat \<Rightarrow> string"

definition maybeRequirePermission :: "RBACService option \<Rightarrow> string option \<Rightarrow> http_handler \<Rightarrow> http_handler" where
  "maybeRequirePermission rbac permission next =
     (case (rbac, permission) of (Some S, Some p) \<Rightarrow> RequirePermission S p next | _ \<Rightarrow> next)"

definition on_get :: "segment list \<Rightarrow> bool \<Rightarrow> string option \<Rightarrow> http_handler \<Rightarrow> route" where
  "on_get ps mnt p h =
     \<lparr>ro_method = ''GET'', ro_pattern = ps, ro_root = mnt, ro_permission = p, ro_handler = h\<rparr>"

definition on_post :: "segment list \<Rightarrow> bool \<Rightarrow> string option \<Rightarrow> http_handler \<Rightarrow> route" where
  "on_post ps mnt p h =
     \<lparr>ro_method = ''POST'', ro_pattern = ps, ro_root = mnt, ro_permission = p, ro_handler = h\<rparr>"

definition on_put :: "segment list \<Rightarrow> bool \<Rightarrow> string option \<Rightarrow> http_handler \<Rightarrow> route" where
  "on_put ps mnt p h =
     \<lparr>ro_method = ''PUT'', ro_pattern = ps, ro_root = mnt, ro_permission = p, ro_handler = h\<rparr>"

definition on_delete :: "segment list \<Rightarrow> bool \<Rightarrow> string option \<Rightarrow> http_handler \<Rightarrow> route" where
  "on_delete ps mnt p h =
     \<lparr>ro_method = ''DELETE'', ro_pattern = ps, ro_root = mnt, ro_permission = p, ro_handler = h\<rparr>"

section \<open>The tables\<close>

definition public_routes :: "uuid_api \<Rightarrow> Dependencies \<Rightarrow> route list" where
  "public_routes U D =
     (case dp_IAMHandler D of
        None \<Rightarrow> []
      | Some h \<Rightarrow>
          [on_post [Seg ''auth'', Seg ''register''] False None (iam_Register U h),
           on_post [Seg ''auth'', Seg ''login''] False None (iam_Login U h),
           on_post [Seg ''auth'', Seg ''refresh''] False None (iam_Refresh h)])"

definition iam_routes :: "uuid_api \<Rightarrow> Dependencies \<Rightarrow> route list" where
  "iam_routes U D =
     (case dp_IAMHandler D of
        None \<Rightarrow> []
      | Some h \<Rightarrow>
          [on_get [Seg ''me''] False None (iam_GetMe U h),
           on_get [Seg ''users''] True (Some ''user:read'') (iam_ListUsers U h),
           on_get [Seg ''users'', Par ''id''] False (Some ''user:read'') (iam_GetUser U h),
           on_post [Seg ''roles'', Seg ''assign''] False (Some ''user:write'') (iam_AssignRole U h),
           on_post [Seg ''auth'', Seg ''logout''] False None (iam_Logout h),
           on_post [Seg ''auth'', Seg ''logout-all''] False None (iam_LogoutAll h),
           on_get [Seg ''auth'', Seg ''sessions''] False None (iam_Sessions U h)])"

definition endpoint_routes :: "uuid_api \<Rightarrow> Dependencies \<Rightarrow> segment list \<Rightarrow> route list" where
  "endpoint_routes U D app =
     (case dp_APIMgmtHandler D of
        None \<Rightarrow> []
      | Some h \<Rightarrow>
          (let ps = app @ [Seg ''endpoints'']; p = ps @ [Par ''endpointId'']
           in [on_post ps True (Some ''endpoint:write'') (api_DefineEndpoint U h),
               on_get ps True (Some ''endpoint:read'') (api_ListEndpoints U h),
               on_get p True (Some ''endpoint:read'') (api_GetEndpoint U h),
               on_post (p @ [Seg ''retire'']) False (Some ''endpoint:write'') (api_RetireEndpoint U h),
               on_post (p @ [Seg ''activate'']) False (Some ''endpoint:write'') (api_ActivateEndpoint U h),
               on_put (p @ [Seg ''policy'']) False (Some ''endpoint:write'') (api_UpdatePolicy U h),
               on_get (p @ [Seg ''policy'']) False (Some ''endpoint:read'') (api_GetPolicy U h)]))"

definition tenant_routes :: "uuid_api \<Rightarrow> Dependencies \<Rightarrow> route list" where
  "tenant_routes U D =
     (case dp_TenantHandler D of
        None \<Rightarrow> []
      | Some h \<Rightarrow>
          (let orgs = [Seg ''organizations'']; org = orgs @ [Par ''orgId'']; apps = org @ [Seg ''apps''];
               app = apps @ [Par ''appId'']; keys = app @ [Seg ''keys'']; wss = org @ [Seg ''workspaces'']
           in [on_post orgs True (Some ''org:write'') (tenant_CreateOrg U h),
               on_get orgs True (Some ''org:read'') (tenant_ListOrgs U h),
               on_get org True (Some ''org:read'') (tenant_GetOrg U h),
               on_post apps True (Some ''app:write'') (tenant_CreateApp U h),
               on_get apps True (Some ''app:read'') (tenant_ListApps U h),
               on_get app True (Some ''app:read'') (tenant_GetApp U h),
               on_post keys True (Some ''app:write'') (tenant_CreateAPIKey U h),
               on_get keys True (Some ''app:read'') (tenant_ListAPIKeys U h),
               on_delete (keys @ [Par ''keyId'']) False (Some ''app:write'') (tenant_RevokeAPIKey U h)] @
              endpoint_routes U D app @
              [on_post wss True (Some ''org:write'') (tenant_CreateWorkspace U h),
               on_get wss True (Some ''org:read'') (tenant_ListWorkspaces U h),
               on_put (wss @ [Par ''workspaceId'']) True (Some ''org:write'') (tenant_UpdateWorkspace U h)] @
              (case dp_AuditHandler D of
                 None \<Rightarrow> []
               | Some a \<Rightarrow> [on_get (org @ [Seg ''audit-logs'']) False (Some ''org:read'') (audit_ListByOrg U a)])))"

definition other_routes :: "uuid_api \<Rightarrow> Dependencies \<Rightarrow> route list" where
  "other_routes U D =
     (case dp_RealtimeHandler D of None \<Rightarrow> [] | Some h \<Rightarrow> [on_get [Seg ''ws''] False None h]) @
     (case dp_AuditHandler D of
        None \<Rightarrow> []
      | Some a \<Rightarrow>
          [on_get [Seg ''users'', Par ''userId'', Seg ''audit-logs''] False (Some ''org:read'') (audit_ListByUser U a)]) @
     (case dp_StatisticsHandler D of
        None \<Rightarrow> []
      | Some s \<Rightarrow>
          [on_post [Seg ''statistics'', Seg ''usage''] False None (handler_RecordUsage (dp_rate_text D) U s),
           on_get [Seg ''statistics'', Seg ''usage''] False None (handler_GetUserStats (dp_rate_text D) U s)])"

definition protected_routes :: "uuid_api \<Rightarrow> Dependencies \<Rightarrow> route list" where
  "protected_routes U D = iam_routes U D @ tenant_routes U D @ other_routes U D"

section \<open>Dispatch\<close>

text \<open>The catch-all of the protected group.\<close>

definition endpoint_not_found :: http_handler where
  "endpoint_not_found c r =
     ret (Sent (response_JSON 404 (JObj [(''error'', JStr ''endpoint not found''), (''code'', JInt 404),
       (''message'', JStr (''No endpoint registered for this path. Define the endpoint first using '' @
          ''POST /api/v1/organizations/{orgId}/apps/{appId}/endpoints''))])))"

definition not_found :: http_handler where
  "not_found c r =
     ret (Sent (response_JSON 404 (JObj [(''error'', JStr ''not found''), (''code'', JInt 404)])))"

fun find_route :: "route list \<Rightarrow> string \<Rightarrow> string list \<Rightarrow> (route \<times> (string \<times> string) list) option" where
  "find_route [] m xs = None"
| "find_route (t # ts) m xs =
     (case route_params t m xs of Some ps \<Rightarrow> Some (t, ps) | None \<Rightarrow> find_route ts m xs)"

definition set_params :: "(string \<times> string) list \<Rightarrow> request \<Rightarrow> request" where
  "set_params ps r = r\<lparr>rq_param := (\<lambda>n. case map_of ps n of Some v \<Rightarrow> v | None \<Rightarrow> [])\<rparr>"

text \<open>
  The chain of the protected group around a handler: token, tenant, gateway, permission. Each part
  is there if its dependency is.
\<close>

definition protected_chain ::
  "uuid_api \<Rightarrow> Dependencies \<Rightarrow> string option \<Rightarrow> http_handler \<Rightarrow> workspace_cache \<Rightarrow> rctx \<Rightarrow> request \<Rightarrow>
   (answer \<times> workspace_cache) eff" where
  "protected_chain U D permission h cache c r =
     (let next = (case dp_GatewayPipeline D of None \<Rightarrow> (\<lambda>n. n) | Some P \<Rightarrow> Enforce U P)
                   (maybeRequirePermission (dp_RBACService D) permission h)
      in do {
        x \<leftarrow> (case dp_AuthService D of None \<Rightarrow> ret (Inr c) | Some auth \<Rightarrow> authenticate auth c r);
        case x of
          Inl answered \<Rightarrow> ret (Sent answered, cache)
        | Inr c \<Rightarrow>
            (case dp_OrgRepo D of
               None \<Rightarrow> do { a \<leftarrow> next c r; ret (a, cache) }
             | Some orgs \<Rightarrow> TenantResolverWithWorkspace U (Some orgs) (dp_WorkspaceRepo D) next cache c r)
      })"

text \<open>
  The routers mounted in the group: inside them chi answers what matches no route, for the users
  after the permission.
\<close>

definition unmatched_permission :: "string list \<Rightarrow> string option" where
  "unmatched_permission xs = (if take 1 xs = [''users''] then Some ''user:read'' else None)"

definition dispatch_protected ::
  "uuid_api \<Rightarrow> Dependencies \<Rightarrow> string list \<Rightarrow> workspace_cache \<Rightarrow> rctx \<Rightarrow> request \<Rightarrow> (answer \<times> workspace_cache) eff"
where
  "dispatch_protected U D xs cache c r =
     (case find_route (protected_routes U D) (rq_method r) xs of
        Some (t, ps) \<Rightarrow> protected_chain U D (ro_permission t) (ro_handler t) cache c (set_params ps r)
      | None \<Rightarrow>
          if take 1 xs = [''users''] \<and> dp_IAMHandler D \<noteq> None \<or>
             take 1 xs = [''organizations''] \<and> dp_TenantHandler D \<noteq> None
          then protected_chain U D (unmatched_permission xs) (dp_unmatched D) cache c r
          else protected_chain U D None endpoint_not_found cache c r)"

text \<open>Outside \<open>/api/v1\<close>: the probes, the metrics, which are a package's handler, and nothing else.\<close>

definition serve_root :: "Dependencies \<Rightarrow> http_handler" where
  "serve_root D c r =
     (if rq_method r = ''GET'' \<and> rq_path r = ''/health/live'' then Recoverer Liveness c r
      else if rq_method r = ''GET'' \<and> rq_path r = ''/health/ready'' then Recoverer (Readiness (dp_health D)) c r
      else if rq_path r = ''/metrics'' then dp_metrics D c r
      else if HasPrefix (rq_path r) ''/api/v1'' then dp_unmatched D c r
      else not_found c r)"

definition serve ::
  "uuid_api \<Rightarrow> Dependencies \<Rightarrow> workspace_cache \<Rightarrow> rctx \<Rightarrow> request \<Rightarrow> (answer \<times> workspace_cache) eff" where
  "serve U D cache c r =
     (case api_segments (rq_path r) of
        None \<Rightarrow> do { a \<leftarrow> serve_root D c r; ret (a, cache) }
      | Some xs \<Rightarrow>
          (case find_route (public_routes U D) (rq_method r) xs of
             Some (t, ps) \<Rightarrow> do { a \<leftarrow> ro_handler t c (set_params ps r); ret (a, cache) }
           | None \<Rightarrow>
               if take 1 xs = [''auth''] \<and> find_route (protected_routes U D) (rq_method r) xs = None
               then do { a \<leftarrow> dp_unmatched D c r; ret (a, cache) }
               else dispatch_protected U D xs cache c r))"

text \<open>The request identifier goes into the context and the response, the limit of the body into the request.\<close>

definition New ::
  "uuid_api \<Rightarrow> Dependencies \<Rightarrow> workspace_cache \<Rightarrow> request \<Rightarrow> (string \<times> answer \<times> workspace_cache) eff" where
  "New U D cache r = do {
     requestID \<leftarrow> request_id U r;
     x \<leftarrow> serve U D cache (background\<lparr>cx_RequestID := requestID\<rparr>) (limit_body (dp_MaxBodyBytes D) r);
     ret (requestID, x)
   }"

end
