(* ===== verification/Server.thy ===== *)
theory Server
  imports Router Dynamic Interceptor_Props
begin

text \<open>
  The wiring of the server, \<open>buildDependencies\<close> of \<open>cmd/server/main.go\<close>: which implementations the
  router's dependencies are. The packages the program is linked with, and the handlers that work on
  other state, are the fields of \<open>packages\<close>.
\<close>

record packages =
  pk_uuid :: uuid_api
  pk_bcrypt :: bcrypt_api
  pk_jwt :: jwt_api
  pk_schema :: schema_check
  pk_email :: "string \<Rightarrow> bool"
  pk_collate :: "string \<Rightarrow> string \<Rightarrow> bool"
  pk_rate_text :: "rat \<Rightarrow> string"
  pk_pool :: pool
  pk_client :: http_client
  pk_order :: "(string \<times> json) list \<Rightarrow> (string \<times> json) list"
  pk_db_ping :: "goerr option eff"
  pk_redis_ping :: "goerr option eff"
  pk_unmatched :: http_handler
  pk_metrics :: http_handler
  pk_realtime :: http_handler

definition server_auth :: "packages \<Rightarrow> Config \<Rightarrow> AuthService" where
  "server_auth K cfg = JWT_auth (pk_uuid K) (pk_bcrypt K) (pk_jwt K) (NewJWTService (cf_JWT cfg))"

definition server_rbac :: "packages \<Rightarrow> bool \<Rightarrow> RBACService" where
  "server_rbac K rd = NewRBACService (pk_uuid K) \<lparr>sv_roleRepo = RoleRepo (pk_collate K), sv_redis = rd\<rparr>"

definition server_refresh :: "packages \<Rightarrow> Config \<Rightarrow> RefreshTokenUseCase" where
  "server_refresh K cfg =
     \<lparr>uc_refreshTokenRepo = RefreshTokenRepo, uc_userRepo = UserRepo, uc_auth = server_auth K cfg,
      uc_Duration = tc_Duration (cf_RefreshToken cfg), uc_AccessTokenTTL = tc_AccessTokenTTL (cf_RefreshToken cfg)\<rparr>"

definition server_pipeline :: "packages \<Rightarrow> bool \<Rightarrow> Pipeline" where
  "server_pipeline K rd =
     NewPipeline EndpointRepo PolicyRepo (server_rbac K rd) rd
       (Some (dynamic_resolver (pk_uuid K)
         (NewDynamicHandlerResolver (Some NewBackendRegistry) (Some (pk_pool K)) (pk_client K) (pk_order K))))
       (gateway_chain (pk_schema K))"

text \<open>The flags say whether the database and the cache could be reached at the start.\<close>

definition no_dependencies :: "packages \<Rightarrow> Config \<Rightarrow> bool \<Rightarrow> bool \<Rightarrow> Dependencies" where
  "no_dependencies K cfg db rd =
     \<lparr>dp_MaxBodyBytes = sc_MaxBodyBytes (cf_Server cfg), dp_AuthService = None, dp_RBACService = None,
      dp_IAMHandler = None, dp_TenantHandler = None, dp_APIMgmtHandler = None, dp_AuditHandler = None,
      dp_StatisticsHandler = None, dp_RealtimeHandler = None, dp_GatewayPipeline = None, dp_OrgRepo = None,
      dp_WorkspaceRepo = None, dp_unmatched = pk_unmatched K, dp_metrics = pk_metrics K,
      dp_health = health_NewHandler (if db then Some (pk_db_ping K) else None) (if rd then Some (pk_redis_ping K) else None),
      dp_rate_text = pk_rate_text K\<rparr>"

definition buildDependencies :: "packages \<Rightarrow> Config \<Rightarrow> bool \<Rightarrow> bool \<Rightarrow> Dependencies" where
  "buildDependencies K cfg db rd =
     (if \<not> db then no_dependencies K cfg db rd
      else (no_dependencies K cfg db rd)
        \<lparr>dp_AuthService := Some (server_auth K cfg), dp_RBACService := Some (server_rbac K rd),
         dp_OrgRepo := Some OrgRepo, dp_WorkspaceRepo := Some WorkspaceRepo,
         dp_IAMHandler := Some
           \<lparr>ih_userRepo = UserRepo, ih_auth = server_auth K cfg, ih_roleRepo = RoleRepo (pk_collate K),
            ih_rbac = server_rbac K rd, ih_refreshTokenUC = Some (server_refresh K cfg),
            ih_refreshTokenCfg = cf_RefreshToken cfg, ih_is_email = pk_email K\<rparr>,
         dp_TenantHandler := Some
           \<lparr>th_orgRepo = OrgRepo, th_appRepo = AppRepo, th_keyRepo = APIKeyRepo, th_workspaceRepo = WorkspaceRepo\<rparr>,
         dp_APIMgmtHandler := Some \<lparr>mh_endpointRepo = EndpointRepo, mh_policyRepo = PolicyRepo\<rparr>,
         dp_AuditHandler := Some AuditRepo, dp_StatisticsHandler := Some (UsageStatRepo (pk_collate K)),
         dp_RealtimeHandler := Some (pk_realtime K), dp_GatewayPipeline := Some (server_pipeline K rd)\<rparr>)"

end
