(* ===== verification/Router_Props.thy ===== *)
theory Router_Props
  imports Server Iam_Props Rbac_Props Dynamic_Props
begin

text \<open>
  What stands before a handler: the token, the tenant, the gateway and the permission. A handler is
  reached where the answer depends on it.
\<close>

section \<open>Where two handlers differ\<close>

lemma bind_diff:
  assumes "run_state (State_Monad.bind m f) w \<noteq> run_state (State_Monad.bind m g) w" "keeps I m" "I w"
  shows "\<exists>x w1. run_state m w = (x, w1) \<and> I w1 \<and> run_state (f x) w1 \<noteq> run_state (g x) w1"
proof -
  obtain x w1 where m: "run_state m w = (x, w1)" by fastforce
  then show ?thesis using assms(1) keepsD2 [OF assms(2,3) m] by (auto simp: run_state_bind)
qed

lemma bind_diff_tail:
  "run_state (State_Monad.bind m f) w \<noteq> run_state (State_Monad.bind m' f) w \<Longrightarrow> run_state m w \<noteq> run_state m' w"
  by (auto simp: run_state_bind)

lemma Enforce_diff:
  assumes "run_state (Enforce U P n c r) w \<noteq> run_state (Enforce U P n' c r) w" "keeps I (admit U P c r)" "I w"
  shows "\<exists>w1. I w1 \<and> run_state (n c r) w1 \<noteq> run_state (n' c r) w1"
proof -
  from bind_diff [OF assms(1) [unfolded Enforce_def] assms(2,3)] obtain a w1 where
    "I w1" "run_state (case a of Pass \<Rightarrow> n c r | Reject x \<Rightarrow> ret (Sent x) | Admit aid ep \<Rightarrow> forward U P aid ep c r) w1 \<noteq>
      run_state (case a of Pass \<Rightarrow> n' c r | Reject x \<Rightarrow> ret (Sent x) | Admit aid ep \<Rightarrow> forward U P aid ep c r) w1"
    by blast
  then show ?thesis by (cases a) auto
qed

text \<open>What the resolver of tenants leaves of the token.\<close>

definition same_claims :: "rctx \<Rightarrow> rctx \<Rightarrow> bool" where
  "same_claims c c' \<longleftrightarrow> UserIDFromContext c' = UserIDFromContext c \<and> OrgIDFromContext c' = OrgIDFromContext c"

lemma same_claims_tenant [simp]: "same_claims c c" "same_claims c (tenant_context g u c)"
  by (simp_all add: same_claims_def tenant_context_def Let_def UserIDFromContext_def OrgIDFromContext_def)

lemma Tenant_diff:
  assumes d: "run_state (TenantResolverWithWorkspace U os ws n cache c r) w \<noteq>
      run_state (TenantResolverWithWorkspace U os ws n' cache c r) w"
    and k: "keeps I (resolve_org U os c r)" "\<And>g. keeps I (resolve_workspace U ws g r cache)" and I: "I w"
  shows "\<exists>c1 w1. same_claims c c1 \<and> I w1 \<and> run_state (n c1 r) w1 \<noteq> run_state (n' c1 r) w1"
proof -
  from bind_diff [OF d [unfolded TenantResolverWithWorkspace_def] k(1) I] obtain org w1 where I1: "I w1" and
    d1: "run_state (case org of None \<Rightarrow> State_Monad.bind (reject 400 ''invalid X-Organization-ID'') (\<lambda>a. ret (a, cache))
        | Some gid \<Rightarrow> if gid = uuid_nil then State_Monad.bind (n c r) (\<lambda>a. ret (a, cache))
            else State_Monad.bind (resolve_workspace U ws gid r cache) (\<lambda>(wid, cache).
              State_Monad.bind (n (tenant_context gid wid c) r) (\<lambda>a. ret (a, cache)))) w1 \<noteq>
      run_state (case org of None \<Rightarrow> State_Monad.bind (reject 400 ''invalid X-Organization-ID'') (\<lambda>a. ret (a, cache))
        | Some gid \<Rightarrow> if gid = uuid_nil then State_Monad.bind (n' c r) (\<lambda>a. ret (a, cache))
            else State_Monad.bind (resolve_workspace U ws gid r cache) (\<lambda>(wid, cache).
              State_Monad.bind (n' (tenant_context gid wid c) r) (\<lambda>a. ret (a, cache)))) w1" by blast
  then obtain gid where gid: "org = Some gid" by (cases org) auto
  show ?thesis
  proof (cases "gid = uuid_nil")
    case True
    have "run_state (n c r) w1 \<noteq> run_state (n' c r) w1"
    proof
      assume "run_state (n c r) w1 = run_state (n' c r) w1"
      then show False using d1 gid True by simp
    qed
    then show ?thesis using I1 same_claims_tenant(1) by blast
  next
    case False
    with d1 gid have "run_state (State_Monad.bind (resolve_workspace U ws gid r cache) (\<lambda>(wid, cache).
        State_Monad.bind (n (tenant_context gid wid c) r) (\<lambda>a. ret (a, cache)))) w1 \<noteq>
      run_state (State_Monad.bind (resolve_workspace U ws gid r cache) (\<lambda>(wid, cache).
        State_Monad.bind (n' (tenant_context gid wid c) r) (\<lambda>a. ret (a, cache)))) w1" by simp
    from bind_diff [OF this k(2) I1] obtain wid w2 and cache' :: workspace_cache where "I w2" and
      d2: "run_state (State_Monad.bind (n (tenant_context gid wid c) r) (\<lambda>a. ret (a, cache'))) w2 \<noteq>
       run_state (State_Monad.bind (n' (tenant_context gid wid c) r) (\<lambda>a. ret (a, cache'))) w2"
      unfolding split_paired_Ex prod.case by (elim exE conjE)
    then show ?thesis using bind_diff_tail [OF d2] same_claims_tenant(2) by blast
  qed
qed

lemma Permission_diff:
  assumes "run_state (RequirePermission S p h c r) w \<noteq> run_state (RequirePermission S p h' c r) w"
  shows "\<exists>uid w1. UserIDFromContext c = Some uid \<and>
    run_state (rb_HasPermission S uid (or_nil (OrgIDFromContext c)) p) w = (Inr True, w1)"
proof -
  obtain uid where uid: "UserIDFromContext c = Some uid"
    using assms by (cases "UserIDFromContext c") (auto simp: RequirePermission_def)
  obtain x w1 where x: "run_state (rb_HasPermission S uid (or_nil (OrgIDFromContext c)) p) w = (x, w1)" by fastforce
  then have "x = Inr True"
    using assms uid by (cases x; cases "x = Inr True") (auto simp: RequirePermission_def run_state_bind)
  then show ?thesis using uid x by blast
qed

section \<open>What the checks leave of the state\<close>

text \<open>
  An invariant that looks at neither the clock nor the counters of the rate limit: every check
  before the permission keeps it.
\<close>

definition check_stable :: "uuid_api \<Rightarrow> (world \<Rightarrow> bool) \<Rightarrow> bool" where
  "check_stable U I \<longleftrightarrow> tick_stable I \<and>
     (\<forall>w aid eid v. I w \<longrightarrow> I (w\<lparr>redis := (redis w)(rate_key U aid eid \<mapsto> v)\<rparr>))"

lemma rateLimitScript_store:
  "snd (rateLimitScript k l win w) = redis w \<or> (\<exists>v. snd (rateLimitScript k l win w) = (redis w)(k \<mapsto> v))"
  unfolding rateLimitScript_def Let_def by (auto split: option.splits redis_value.splits)

lemma redis_same [simp]: "w\<lparr>redis := redis w\<rparr> = (w :: world)"
  by simp

lemma keeps_checkRateLimit:
  assumes "check_stable U I"
  shows "keeps I (checkRateLimit U aid eid l)"
  unfolding keeps_def
proof (intro allI impI)
  fix w
  assume w: "I w"
  define store where "store = snd (rateLimitScript (rate_key U aid eid) l (60 * second) w)"
  have "I (w\<lparr>redis := store\<rparr>)"
    using rateLimitScript_store [of "rate_key U aid eid" l "60 * second" w] assms w
    by (auto simp: store_def check_stable_def)
  then have "I (tick_world (if next_fault w \<noteq> Refused then w\<lparr>redis := store\<rparr> else w))"
    using assms w by (simp add: check_stable_def tick_stable_def)
  then show "I (snd (run_state (checkRateLimit U aid eid l) w))"
    by (cases "next_fault w = Refused") (simp_all add: checkRateLimit_def store_def case_prod_beta)
qed

lemma keeps_check_rate: "check_stable U I \<Longrightarrow> keeps I (check_rate U P aid ep policy)"
  unfolding check_rate_def by (intro keeps_intros keeps_checkRateLimit)

lemma keeps_check_permission:
  assumes "\<And>uid p. keeps I (rb_HasPermission (pl_rbac P) uid (or_nil (OrgIDFromContext c)) p)"
  shows "keeps I (check_permission P c policy)"
  unfolding check_permission_def by (intro keeps_intros assms)

lemma keeps_reads:
  assumes "check_stable U I"
  shows "keeps I (en_GetByMethodPath EndpointRepo a m p v)" "keeps I (po_GetByEndpointID PolicyRepo e)"
    "keeps I (or_GetBySlug OrgRepo s)" "keeps I (ws_GetBySlug WorkspaceRepo g s)"
  using assms unfolding check_stable_def
  by (auto simp: EndpointRepo_def EndpointRepo_GetByMethodPath_def PolicyRepo_def PolicyRepo_GetByEndpointID_def
      OrgRepo_def OrgRepo_GetBySlug_def WorkspaceRepo_def WorkspaceRepository_GetBySlug_def
      intro!: keeps_intros keeps_effects)

lemma keeps_admit:
  assumes "check_stable U I" "pl_endpointRepo P = EndpointRepo" "pl_policyRepo P = PolicyRepo"
    and "\<And>uid p. keeps I (rb_HasPermission (pl_rbac P) uid (or_nil (OrgIDFromContext c)) p)"
  shows "keeps I (admit U P c r)"
  unfolding admit_def Let_def assms(2,3)
  by (intro keeps_intros keeps_reads [OF assms(1)] keeps_check_permission keeps_check_rate assms)

lemma keeps_resolve:
  assumes "check_stable U I"
  shows "keeps I (resolve_org U (Some OrgRepo) c r)" "keeps I (resolve_workspace U (Some WorkspaceRepo) g r cache)"
  unfolding resolve_org_def subdomain_org_def resolve_workspace_def Let_def option.case
  by (intro keeps_intros keeps_reads [OF assms])+

section \<open>The server's chain\<close>

lemma server_deps:
  fixes K cfg rd
  defines "D \<equiv> buildDependencies K cfg True rd"
  shows "dp_AuthService D = Some (server_auth K cfg)" "dp_RBACService D = Some (server_rbac K rd)"
    "dp_OrgRepo D = Some OrgRepo" "dp_WorkspaceRepo D = Some WorkspaceRepo"
    "dp_GatewayPipeline D = Some (server_pipeline K rd)"
  by (simp_all add: D_def buildDependencies_def)

lemma server_pipeline_fields:
  "pl_endpointRepo (server_pipeline K rd) = EndpointRepo" "pl_policyRepo (server_pipeline K rd) = PolicyRepo"
  "pl_rbac (server_pipeline K rd) = server_rbac K rd"
  by (simp_all add: server_pipeline_def NewPipeline_def)

lemma run_server_validate:
  "run_state (auth_ValidateToken (server_auth K cfg) tok) w = (x, w') \<Longrightarrow> w' = tick_world w"
  by (auto simp: server_auth_def JWT_auth_def dest: ValidateToken_frame)

text \<open>The bearer token of a request and its claims, as the server accepts them.\<close>

definition accepted :: "packages \<Rightarrow> Config \<Rightarrow> request \<Rightarrow> world \<Rightarrow> TokenClaims \<Rightarrow> bool" where
  "accepted K cfg r w claims \<longleftrightarrow>
     (\<exists>scheme token. SplitN2 '' '' (rq_header r ''Authorization'') = Some (scheme, token) \<and>
        EqualFold scheme ''bearer'' \<and>
        fst (run_state (auth_ValidateToken (server_auth K cfg) token) w) = Inr claims)"

lemma run_authenticate:
  assumes "run_state (authenticate (server_auth K cfg) c r) w = (Inr c1, w1)"
  shows "w1 = tick_world w \<and> (\<exists>claims. accepted K cfg r w claims \<and> c1 = claims_context claims c)"
proof -
  obtain scheme token where st: "rq_header r ''Authorization'' \<noteq> []"
    "SplitN2 '' '' (rq_header r ''Authorization'') = Some (scheme, token)" "EqualFold scheme ''bearer''"
    using assms by (auto simp: authenticate_def Let_def split: if_splits option.splits)
  obtain v w2 where v: "run_state (auth_ValidateToken (server_auth K cfg) token) w = (v, w2)" by fastforce
  obtain claims where "v = Inr claims" "c1 = claims_context claims c" "w1 = w2"
    using assms st v by (auto simp: authenticate_def Let_def run_state_bind split: sum.splits)
  then show ?thesis using v st run_server_validate [OF v] by (auto simp: accepted_def)
qed

text \<open>
  Where the answer depends on the handler: a token was accepted, and the handler is called, after
  the permission if there is one, in a state that still has the invariant.
\<close>

lemma chain_diff:
  fixes K cfg rd
  defines "D \<equiv> buildDependencies K cfg True rd" and "U \<equiv> pk_uuid K"
  assumes d: "run_state (protected_chain U D perm h cache c r) w \<noteq> run_state (protected_chain U D perm h' cache c r) w"
    and st: "check_stable U I" "I w"
    and k: "\<And>claims uid p. accepted K cfg r w claims \<Longrightarrow>
      keeps I (rb_HasPermission (server_rbac K rd) uid (c_OrganizationID claims) p)"
  shows "\<exists>claims. accepted K cfg r w claims \<and> (\<forall>p. perm = Some p \<longrightarrow> (\<exists>w1 w2. I w1 \<and>
    run_state (rb_HasPermission (server_rbac K rd) (c_UserID claims) (c_OrganizationID claims) p) w1 = (Inr True, w2)))"
proof -
  let ?n = "\<lambda>h. Enforce U (server_pipeline K rd) (maybeRequirePermission (Some (server_rbac K rd)) perm h)"
  have eq: "protected_chain U D perm h cache c r =
      State_Monad.bind (authenticate (server_auth K cfg) c r) (\<lambda>x. case x of
        Inl answered \<Rightarrow> ret (Sent answered, cache)
      | Inr c \<Rightarrow> TenantResolverWithWorkspace U (Some OrgRepo) (Some WorkspaceRepo) (?n h) cache c r)" for h
    unfolding protected_chain_def D_def server_deps Let_def by simp
  obtain x w1 where a: "run_state (authenticate (server_auth K cfg) c r) w = (x, w1)" by fastforce
  with d obtain c1 where x: "x = Inr c1" unfolding eq by (cases x) (auto simp: run_state_bind)
  from run_authenticate [OF a [unfolded x]] obtain claims where
    cl: "accepted K cfg r w claims" "c1 = claims_context claims c" and w1: "w1 = tick_world w" by blast
  have ids: "UserIDFromContext c1 = Some (c_UserID claims)" "OrgIDFromContext c1 = Some (c_OrganizationID claims)"
    by (simp_all add: cl(2) claims_context_def UserIDFromContext_def OrgIDFromContext_def)
  have I1: "I w1" using st w1 by (simp add: check_stable_def tick_stable_def)
  have "run_state (TenantResolverWithWorkspace U (Some OrgRepo) (Some WorkspaceRepo) (?n h) cache c1 r) w1 \<noteq>
      run_state (TenantResolverWithWorkspace U (Some OrgRepo) (Some WorkspaceRepo) (?n h') cache c1 r) w1"
    using d unfolding eq using a x by (simp add: run_state_bind)
  from Tenant_diff [OF this keeps_resolve [OF st(1)] I1] obtain c2 w2 where
    c2: "same_claims c1 c2" "I w2" "run_state (?n h c2 r) w2 \<noteq> run_state (?n h' c2 r) w2" by blast
  have ids2: "UserIDFromContext c2 = Some (c_UserID claims)" "OrgIDFromContext c2 = Some (c_OrganizationID claims)"
    using c2(1) ids by (simp_all add: same_claims_def)
  have "keeps I (admit U (server_pipeline K rd) c2 r)"
    using k [OF cl(1)] by (intro keeps_admit [OF st(1)]) (simp_all add: server_pipeline_fields ids2 or_nil_def)
  from Enforce_diff [OF c2(3) this c2(2)] obtain w3 where w3: "I w3"
    "run_state (maybeRequirePermission (Some (server_rbac K rd)) perm h c2 r) w3 \<noteq>
     run_state (maybeRequirePermission (Some (server_rbac K rd)) perm h' c2 r) w3" by blast
  have "\<exists>w1 w2. I w1 \<and>
    run_state (rb_HasPermission (server_rbac K rd) (c_UserID claims) (c_OrganizationID claims) p) w1 = (Inr True, w2)"
    if "perm = Some p" for p
    using Permission_diff [of "server_rbac K rd" p h c2 r w3 h'] w3 ids2 that
    by (auto simp: maybeRequirePermission_def or_nil_def)
  then show ?thesis using cl(1) by blast
qed

section \<open>The table\<close>

text \<open>The routes without a permission: those on the caller's own account.\<close>

definition own_account :: "segment list list" where
  "own_account =
     [[Seg ''me''], [Seg ''auth'', Seg ''logout''], [Seg ''auth'', Seg ''logout-all''], [Seg ''auth'', Seg ''sessions''],
      [Seg ''ws''], [Seg ''statistics'', Seg ''usage'']]"

definition guarded_route :: "route \<Rightarrow> bool" where
  "guarded_route t \<longleftrightarrow>
     (case ro_permission t of
        None \<Rightarrow> ro_pattern t \<in> set own_account
      | Some p \<Rightarrow> ro_method t = ''GET'' \<or> HasSuffix p '':write'')"

lemma write_permissions:
  "HasSuffix ''user:write'' '':write''" "HasSuffix ''org:write'' '':write''" "HasSuffix ''app:write'' '':write''"
  "HasSuffix ''endpoint:write'' '':write''"
  by code_simp+

lemma guarded_on:
  "guarded_route (on_get ps m None h) \<longleftrightarrow> ps \<in> set own_account"
  "guarded_route (on_post ps m None h) \<longleftrightarrow> ps \<in> set own_account"
  "guarded_route (on_get ps m (Some p) h)"
  "guarded_route (on_post ps m (Some p) h) \<longleftrightarrow> HasSuffix p '':write''"
  "guarded_route (on_put ps m (Some p) h) \<longleftrightarrow> HasSuffix p '':write''"
  "guarded_route (on_delete ps m (Some p) h) \<longleftrightarrow> HasSuffix p '':write''"
  by (simp_all add: guarded_route_def on_get_def on_post_def on_put_def on_delete_def)

lemma guarded_table: "list_all guarded_route (protected_routes U D)"
proof -
  have "list_all guarded_route (endpoint_routes U D app)" for app
    unfolding endpoint_routes_def Let_def by (simp add: guarded_on write_permissions split: option.split)
  then have "list_all guarded_route (tenant_routes U D)"
    unfolding tenant_routes_def Let_def by (simp add: guarded_on write_permissions split: option.split)
  moreover have "list_all guarded_route (iam_routes U D)" "list_all guarded_route (other_routes U D)"
    unfolding iam_routes_def other_routes_def
    by (simp_all add: guarded_on write_permissions own_account_def split: option.split)
  ultimately show ?thesis by (simp add: protected_routes_def)
qed

lemma find_route_in: "find_route ts m xs = Some (t, ps) \<Longrightarrow> t \<in> set ts \<and> ro_method t = m"
  by (induction ts) (auto simp: route_params_def split: option.splits if_splits)

section \<open>Permissions\<close>

text \<open>Where the service says yes, a grant of the tables or of the cache says so.\<close>

definition grants :: "packages \<Rightarrow> bool \<Rightarrow> world \<Rightarrow> uuid \<Rightarrow> uuid \<Rightarrow> string list \<Rightarrow> bool" where
  "grants K rd w uid gid perms \<longleftrightarrow>
     (rd \<and> redis_live w (cacheKey (pk_uuid K) uid gid) = Some (PermsValue perms)) \<or>
     set perms \<subseteq> set (granted w uid gid)"

lemma has_grants:
  assumes "run_state (rb_HasPermission (server_rbac K rd) uid gid p) w = (Inr True, w')"
  shows "\<exists>perms. grants K rd w uid gid perms \<and> (\<exists>q \<in> set perms. matchesPermission q p)"
proof -
  obtain perms where p: "run_state (GetUserPermissions (pk_uuid K) \<lparr>sv_roleRepo = RoleRepo (pk_collate K), sv_redis = rd\<rparr>
      uid gid) w = (Inr perms, w')" "\<exists>q \<in> set perms. matchesPermission q p"
    using rbac.has_law [OF assms [unfolded server_rbac_def]] by (auto simp: NewRBACService_def)
  have "ro_GetUserPermissions (RoleRepo (pk_collate K)) = RoleRepo_GetUserPermissions" by (simp add: RoleRepo_def)
  from GetUserPermissions_spec [OF this p(1)] p(2) show ?thesis unfolding grants_def by blast
qed

lemma keeps_HasPermission:
  assumes "tick_stable I" "\<And>w perms e. I w \<Longrightarrow> perms \<noteq> [] \<Longrightarrow> set perms \<subseteq> set (granted w uid gid) \<Longrightarrow>
    I (w\<lparr>redis := (redis w)(cacheKey (pk_uuid K) uid gid \<mapsto> (PermsValue perms, e))\<rparr>)"
  shows "keeps I (rb_HasPermission (server_rbac K rd) uid gid p)"
proof -
  have t: "I (tick_world v) = I v" for v using assms(1) by (simp add: tick_stable_def)
  have put: "I (v\<lparr>redis := R(cacheKey (pk_uuid K) uid gid \<mapsto> (PermsValue perms, e))\<rparr>)"
    if "I v" "redis v = R" "perms \<noteq> []" "set perms \<subseteq> set (granted v uid gid)" for v R perms e
    using assms(2) [OF that(1,3,4)] that(2) by simp
  show ?thesis
    by (auto simp: keeps_def server_rbac_def NewRBACService_def HasPermission_def GetUserPermissions_def
        RoleRepo_def RoleRepo_GetUserPermissions_def t split: option.splits redis_value.splits fault.splits if_splits
        dest: in_set_takeD intro!: put)
qed

section \<open>Who reaches a route\<close>

text \<open>The tables that say who may do what.\<close>

definition role_tables :: "world \<Rightarrow> UserRole list \<times> Permission list" where
  "role_tables w = (user_roles w, role_permissions w)"

lemma role_tables_stable: "check_stable U (\<lambda>v. role_tables v = x)" "tick_stable (\<lambda>v. role_tables v = x)"
  by (simp_all add: check_stable_def tick_stable_def role_tables_def)

lemma granted_role_tables: "role_tables v = role_tables w \<Longrightarrow> granted v u g = granted w u g"
  by (simp add: role_tables_def granted_def)

lemma accepted_params [simp]: "accepted K cfg (set_params ps r) w claims \<longleftrightarrow> accepted K cfg r w claims"
  by (simp add: accepted_def set_params_def)

lemma serve_protected:
  assumes "api_segments (rq_path r) = Some xs" "find_route (public_routes U D) (rq_method r) xs = None"
    and "find_route (protected_routes U D) (rq_method r) xs = Some (t, ps)"
  shows "serve U D cache c r = protected_chain U D (ro_permission t) (ro_handler t) cache c (set_params ps r)"
  using assms by (simp add: serve_def dispatch_protected_def)


section \<open>The tokens the program issues\<close>

text \<open>A token of a login or of a rotation.\<close>

definition issued :: "packages \<Rightarrow> Config \<Rightarrow> string \<Rightarrow> bool" where
  "issued K cfg tok \<longleftrightarrow>
     (\<exists>req x w w'. run_state (Login UserRepo (server_auth K cfg) req) w = (Inr x, w') \<and> tok = lr_Token x) \<or>
     (\<exists>raw q x w w'. run_state (Rotate (server_refresh K cfg) raw q) w = (Inr x, w') \<and> tok = rr_AccessToken x)"

text \<open>
  What golang-jwt promises of the organization: the claim of a token it accepts, under the key it
  was signed with, is the claim that was signed.
\<close>

definition jwt_org :: "jwt_api \<Rightarrow> bool" where
  "jwt_org J \<longleftrightarrow>
     (\<forall>secret c tok kf now c' valid. jwt_sign J secret c = Some tok \<longrightarrow> kf HS256 = Some secret \<longrightarrow>
        jwt_parse J kf now tok = Inr (c', valid) \<longrightarrow> cc_OrganizationID c' = cc_OrganizationID c)"

text \<open>No role is held in the nil organization, and no permissions are cached for it.\<close>

definition no_nil_roles :: "uuid_api \<Rightarrow> world \<Rightarrow> bool" where
  "no_nil_roles U w \<longleftrightarrow>
     (\<forall>x \<in> set (user_roles w). ur_OrganizationID x \<noteq> uuid_nil) \<and> (\<forall>u. redis w (cacheKey U u uuid_nil) = None)"

lemma no_nil_granted: "no_nil_roles U w \<Longrightarrow> granted w u uuid_nil = []"
  by (auto simp: no_nil_roles_def granted_def filter_empty_conv)

lemma no_nil_stable: "check_stable U (no_nil_roles U)"
  by (auto simp: check_stable_def tick_stable_def no_nil_roles_def rate_key_def cacheKey_def)

lemma no_nil_denied:
  assumes "no_nil_roles (pk_uuid K) w"
  shows "run_state (rb_HasPermission (server_rbac K rd) u uuid_nil p) w \<noteq> (Inr True, w')"
proof
  assume "run_state (rb_HasPermission (server_rbac K rd) u uuid_nil p) w = (Inr True, w')"
  from has_grants [OF this] obtain perms q where "grants K rd w u uuid_nil perms" "q \<in> set perms" by blast
  then show False
    using assms no_nil_granted [OF assms, of u] by (auto simp: grants_def no_nil_roles_def redis_live_def)
qed

lemma Login_generated:
  assumes "run_state (Login R A req) w = (Inr x, w')"
  shows "\<exists>c v v'. c_OrganizationID c = uuid_nil \<and> run_state (auth_GenerateToken A c) v = (Inr (lr_Token x), v')"
proof -
  from assms obtain u :: User and v v' where "run_state (auth_GenerateToken A
      \<lparr>c_UserID = u_ID u, c_Email = u_Email u, c_OrganizationID = uuid_nil, c_Roles = [], c_Permissions = []\<rparr>) v =
        (Inr (lr_Token x), v')"
    by (auto simp: Login_def try_or_def run_state_bind split: sum.splits prod.splits if_splits option.splits)
  then show ?thesis by (intro exI conjI) simp_all
qed

lemma Rotate_issue_generated:
  assumes "run_state (Rotate_issue uc s r) w = (Inr x, w')"
  shows "\<exists>c v v'. c_OrganizationID c = uuid_nil \<and>
    run_state (auth_GenerateToken (uc_auth uc) c) v = (Inr (rr_AccessToken x), v')"
proof -
  from assms obtain u :: User and v v' where "run_state (auth_GenerateToken (uc_auth uc)
      \<lparr>c_UserID = u_ID u, c_Email = u_Email u, c_OrganizationID = uuid_nil, c_Roles = [], c_Permissions = []\<rparr>) v =
        (Inr (rr_AccessToken x), v')"
    by (auto simp: Rotate_issue_def try_or_def try_do_def run_state_bind split: sum.splits prod.splits)
  then show ?thesis by (intro exI conjI) simp_all
qed

lemma issued_generated:
  assumes "issued K cfg tok"
  shows "\<exists>c w w'. c_OrganizationID c = uuid_nil \<and>
    run_state (GenerateToken (pk_uuid K) (pk_jwt K) (NewJWTService (cf_JWT cfg)) c) w = (Inr tok, w')"
proof -
  have gen: "auth_GenerateToken (server_auth K cfg) = GenerateToken (pk_uuid K) (pk_jwt K) (NewJWTService (cf_JWT cfg))"
    "uc_auth (server_refresh K cfg) = server_auth K cfg"
    by (simp_all add: server_auth_def JWT_auth_def server_refresh_def)
  from assms show ?thesis unfolding issued_def
  proof (elim disjE exE conjE)
    fix req x w w'
    assume "run_state (Login UserRepo (server_auth K cfg) req) w = (Inr x, w')" "tok = lr_Token x"
    then show ?thesis using Login_generated gen by metis
  next
    fix raw q x w w'
    assume r: "run_state (Rotate (server_refresh K cfg) raw q) w = (Inr x, w')" "tok = rr_AccessToken x"
    then obtain s w1 where "run_state (Rotate_issue (server_refresh K cfg) s q) w1 = (Inr x, w')"
      by (auto simp: Rotate_def split: sum.splits prod.splits)
    then show ?thesis using Rotate_issue_generated gen r(2) by metis
  qed
qed

lemma issued_no_organization:
  assumes "issued K cfg tok" "jwt_org (pk_jwt K)" "uuid_api_ok (pk_uuid K)"
    and "run_state (auth_ValidateToken (server_auth K cfg) tok) w = (Inr claims, w')"
  shows "c_OrganizationID claims = uuid_nil"
proof -
  let ?s = "NewJWTService (cf_JWT cfg)"
  from issued_generated [OF assms(1)] obtain c v v' where c: "c_OrganizationID c = uuid_nil"
    "run_state (GenerateToken (pk_uuid K) (pk_jwt K) ?s c) v = (Inr tok, v')" by blast
  then obtain cc where cc: "jwt_sign (pk_jwt K) (js_secret ?s) cc = Some tok"
    "cc_OrganizationID cc = uuid_str (pk_uuid K) uuid_nil"
    by (auto simp: GenerateToken_def make_claims_def split: option.splits)
  obtain c' valid where p: "jwt_parse (pk_jwt K) (keyfunc ?s) (clock w) tok = Inr (c', valid)"
    "c_OrganizationID claims = Parse_or_nil (pk_uuid K) (cc_OrganizationID c')"
    using assms(4) by (auto simp: server_auth_def JWT_auth_def ValidateToken_def split: sum.splits prod.splits if_splits)
  have key: "keyfunc ?s HS256 = Some (js_secret ?s)" by (simp add: keyfunc_def)
  have "cc_OrganizationID c' = uuid_str (pk_uuid K) uuid_nil"
    using assms(2) cc key p(1) unfolding jwt_org_def by metis
  then show ?thesis using p(2) assms(3) by (simp add: Parse_or_nil_def)
qed

text \<open>
  C23. The tokens that the program issues, at login and at a rotation, open no route that needs a
  permission: they name no organization, and no role can be held in none. As long as no role is
  stored for the nil organization, the handler of such a route has no influence on the answer.
\<close>

theorem issued_token_locked_out:
  fixes K cfg rd
  defines "D \<equiv> buildDependencies K cfg True rd" and "U \<equiv> pk_uuid K"
  assumes "api_segments (rq_path r) = Some xs" and "find_route (public_routes U D) (rq_method r) xs = None"
    and "find_route (protected_routes U D) (rq_method r) xs = Some (t, ps)" and "ro_permission t = Some p"
    and tok: "issued K cfg tok" "rq_header r ''Authorization'' = ''Bearer '' @ tok"
    and "uuid_api_ok U" "jwt_org (pk_jwt K)" "no_nil_roles U w"
  shows "run_state (serve U D cache c r) w = run_state (protected_chain U D (Some p) h cache c (set_params ps r)) w"
proof (rule ccontr)
  assume d: "run_state (serve U D cache c r) w \<noteq> run_state (protected_chain U D (Some p) h cache c (set_params ps r)) w"
  have split: "SplitN2 '' '' (''Bearer '' @ tok) = Some (''Bearer'', tok)"
    using SplitN2_first [of "CHR '' ''" "''Bearer''" "[]" tok] by simp
  have org: "c_OrganizationID claims = uuid_nil" if "accepted K cfg r w claims" for claims
  proof -
    from that tok(2) split have "fst (run_state (auth_ValidateToken (server_auth K cfg) tok) w) = Inr claims"
      by (auto simp: accepted_def)
    then have "run_state (auth_ValidateToken (server_auth K cfg) tok) w =
        (Inr claims, snd (run_state (auth_ValidateToken (server_auth K cfg) tok) w))" by (metis prod.collapse)
    then show ?thesis using issued_no_organization tok(1) assms(9,10) U_def by blast
  qed
  have keep: "keeps (no_nil_roles U) (rb_HasPermission (server_rbac K rd) uid uuid_nil q)" for uid q
    using no_nil_granted by (intro keeps_HasPermission) (use no_nil_stable [of U] in \<open>auto simp: check_stable_def\<close>)
  note reached = d [unfolded serve_protected [OF assms(3-5)] assms(6)]
  from chain_diff [OF reached [unfolded D_def U_def] no_nil_stable assms(11) [unfolded U_def]] org keep
  obtain claims v v' where "accepted K cfg r w claims" "no_nil_roles U v"
    "run_state (rb_HasPermission (server_rbac K rd) (c_UserID claims) (c_OrganizationID claims) p) v = (Inr True, v')"
    unfolding U_def by auto
  then show False using no_nil_denied org U_def by metis
qed

section \<open>Witnesses\<close>

text \<open>A server whose tokens are all those of the same user, or those of the demonstration service.\<close>

definition visitor_jwt :: jwt_api where
  "visitor_jwt = \<lparr>jwt_sign = (\<lambda>_ _. None),
     jwt_parse = (\<lambda>_ _ _. Inr ((demo_claims [])\<lparr>cc_OrganizationID := uuid_str demo_uuid 5\<rparr>, True))\<rparr>"

definition demo_packages :: "jwt_api \<Rightarrow> packages" where
  "demo_packages J =
     \<lparr>pk_uuid = demo_uuid, pk_bcrypt = demo_bcrypt, pk_jwt = J, pk_schema = (\<lambda>_ _. Inr []), pk_email = (\<lambda>_. True),
      pk_collate = (\<lambda>_ _. True), pk_rate_text = (\<lambda>_. []), pk_pool = demo_pool [], pk_client = demo_client,
      pk_order = (\<lambda>m. m), pk_db_ping = ret None, pk_redis_ping = ret None, pk_unmatched = not_found,
      pk_metrics = not_found, pk_realtime = not_found\<rparr>"

lemma demo_packages_uuid: "pk_uuid (demo_packages J) = demo_uuid"
  by (simp add: demo_packages_def)

definition demo_config :: Config where
  "demo_config = (Load (\<lambda>_. None) 1 (\<lambda>_. []))\<lparr>cf_JWT := \<lparr>jc_Secret = ''s3cret'', jc_ExpirationHours = 1, jc_Issuer = ''masterfabric''\<rparr>\<rparr>"

definition org_request :: "string \<Rightarrow> request" where
  "org_request tok =
     demo_request\<lparr>rq_method := ''GET'', rq_path := ''/api/v1/organizations'',
       rq_header := (\<lambda>k. if k = ''Authorization'' then ''Bearer '' @ tok else [])\<rparr>"

lemma org_route:
  fixes K cfg rd
  defines "D \<equiv> buildDependencies K cfg True rd"
  shows "api_segments (rq_path (org_request tok)) = Some [''organizations'']"
    "find_route (public_routes U D) (rq_method (org_request tok)) [''organizations''] = None"
    "\<exists>t. find_route (protected_routes U D) (rq_method (org_request tok)) [''organizations''] = Some (t, []) \<and>
       ro_permission t = Some ''org:read''"
proof -
  have m: "rq_method (org_request tok) = ''GET''" "rq_path (org_request tok) = ''/api/v1/organizations''"
    by (simp_all add: org_request_def)
  show "api_segments (rq_path (org_request tok)) = Some [''organizations'']"
    unfolding m by code_simp
  show "find_route (public_routes U D) (rq_method (org_request tok)) [''organizations''] = None"
    unfolding m D_def by (simp add: buildDependencies_def public_routes_def on_post_def route_params_def)
  show "\<exists>t. find_route (protected_routes U D) (rq_method (org_request tok)) [''organizations''] = Some (t, []) \<and>
       ro_permission t = Some ''org:read''"
    unfolding m D_def
    by (simp add: buildDependencies_def protected_routes_def iam_routes_def tenant_routes_def Let_def on_get_def
        on_post_def route_params_def)
qed

lemma bearer_split: "SplitN2 '' '' (''Bearer '' @ tok) = Some (''Bearer'', tok)"
  using SplitN2_first [of "CHR '' ''" "''Bearer''" "[]" tok] by simp

lemma plain_request:
  "rq_header r ''X-Organization-ID'' = [] \<Longrightarrow> OrgIDFromContext c = Some g \<Longrightarrow> g \<noteq> uuid_nil \<Longrightarrow>
     resolve_org U os c r = ret (Some g)"
  "rq_header r ''X-Workspace-ID'' = [] \<Longrightarrow> rq_header r ''X-Workspace-Slug'' = [] \<Longrightarrow>
     resolve_workspace U ws g r cache = ret (uuid_nil, cache)"
  "rq_header r ''X-App-ID'' = [] \<Longrightarrow> Enforce U P n c r = n c r"
  by (simp_all add: resolve_org_def header_org_def or_nil_def resolve_workspace_def Enforce_def admit_def
      split: option.split)

lemma visitor_token:
  "run_state (auth_ValidateToken (server_auth (demo_packages visitor_jwt) cfg) tok) w =
     (Inr (demo_login\<lparr>c_OrganizationID := 5\<rparr>), tick_world w)"
  by (simp add: server_auth_def JWT_auth_def demo_packages_def ValidateToken_def visitor_jwt_def demo_claims_def
      Parse_or_nil_def uuid_parse_str [OF demo_uuid_ok] demo_login_def)

lemma visitor_authenticate:
  assumes "rq_header r ''Authorization'' = ''Bearer '' @ tok"
  shows "run_state (authenticate (server_auth (demo_packages visitor_jwt) cfg) c r) w =
    (Inr (claims_context (demo_login\<lparr>c_OrganizationID := 5\<rparr>) c), tick_world w)"
proof -
  have e: "EqualFold ''Bearer'' ''bearer''" by code_simp
  show ?thesis
    by (simp only: authenticate_def Let_def assms bearer_split e run_state_bind visitor_token option.case prod.case) (simp add: visitor_token)
qed

lemma demo_authenticate:
  "run_state (authenticate (server_auth (demo_packages visitor_jwt) cfg) background (set_params ps (org_request tok))) w =
     (Inr (claims_context (demo_login\<lparr>c_OrganizationID := 5\<rparr>) background), tick_world w)"
  by (rule visitor_authenticate) (simp add: org_request_def set_params_def)

lemma demo_chain:
  "\<exists>w'. run_state (protected_chain demo_uuid (buildDependencies (demo_packages visitor_jwt) cfg True True)
    (Some ''org:read'') (\<lambda>c r. ret a) [] background (set_params [] (org_request tok))) rbac_world = ((a, []), w')"
proof -
  let ?r = "set_params [] (org_request tok)" and ?c = "claims_context (demo_login\<lparr>c_OrganizationID := 5\<rparr>) background"
  have h: "rq_header ?r ''X-Organization-ID'' = []" "rq_header ?r ''X-Workspace-ID'' = []"
    "rq_header ?r ''X-Workspace-Slug'' = []" "rq_header ?r ''X-App-ID'' = []"
    by (simp_all add: org_request_def set_params_def demo_request_def)
  have c: "OrgIDFromContext ?c = Some 5" "(5 :: uuid) \<noteq> uuid_nil"
    by (simp_all add: claims_context_def OrgIDFromContext_def)
  have "matchesPermission ''org:*'' ''org:read''"
    using matches_wild(2) [of "''org''" "''read''"] by simp
  then have "\<exists>w'. run_state (RequirePermission (server_rbac (demo_packages visitor_jwt) True) ''org:read'' (\<lambda>c r. ret a)
      (tenant_context 5 uuid_nil ?c) ?r) (tick_world rbac_world) = (a, w')"
    by (simp add: RequirePermission_def server_rbac_def NewRBACService_def demo_packages_def tenant_context_def
        claims_context_def UserIDFromContext_def OrgIDFromContext_def or_nil_def demo_login_def run_state_bind
        HasPermission_def GetUserPermissions_def RoleRepo_def RoleRepo_GetUserPermissions_def redis_live_def next_fault_def)
  then show ?thesis
    unfolding protected_chain_def server_deps Let_def option.case run_state_bind demo_authenticate prod.case sum.case
      TenantResolverWithWorkspace_def plain_request(1) [OF h(1) c] plain_request(2) [OF h(2,3)] plain_request(3) [OF h(4)]
      maybeRequirePermission_def
    by (auto simp: run_state_bind)
qed


lemma demo_jwt_org: "jwt_org demo_jwt"
  by (auto simp: jwt_org_def demo_jwt_def demo_claims_def split: if_splits dest!: arg_cong [of _ _ cc_OrganizationID])

lemma demo_server_auth: "server_auth (demo_packages demo_jwt) demo_config = demo_auth"
  by (simp add: server_auth_def demo_packages_def demo_config_def NewJWTService_def demo_service_def
      wrap64_def hour_def minute_def second_def)

theorem issued_token_locked_out_witness:
  "\<exists>tok. issued (demo_packages demo_jwt) demo_config tok \<and>
     run_state (serve demo_uuid (buildDependencies (demo_packages demo_jwt) demo_config True True) [] background
       (org_request tok)) rbac_world =
     run_state (protected_chain demo_uuid (buildDependencies (demo_packages demo_jwt) demo_config True True)
       (Some ''org:read'') (\<lambda>c r. ret (Sent NoContent)) [] background (set_params [] (org_request tok))) rbac_world"
proof -
  let ?K = "demo_packages demo_jwt"
  have U: "pk_uuid ?K = demo_uuid" "pk_jwt ?K = demo_jwt" by (simp_all add: demo_packages_def)
  obtain resp w' where "run_state (Login UserRepo demo_auth demo_credentials) (demo_world []) = (Inr resp, w')"
    using demo_login_runs by blast
  then have i: "issued ?K demo_config (lr_Token resp)" unfolding issued_def demo_server_auth by blast
  have h: "rq_header (org_request (lr_Token resp)) ''Authorization'' = ''Bearer '' @ lr_Token resp"
    by (simp add: org_request_def)
  have n: "no_nil_roles demo_uuid rbac_world"
    by (simp add: no_nil_roles_def) (simp add: rbac_world_def demo_role_def)
  obtain t where t: "find_route (protected_routes demo_uuid (buildDependencies ?K demo_config True True))
      (rq_method (org_request (lr_Token resp))) [''organizations''] = Some (t, [])" "ro_permission t = Some ''org:read''"
    using org_route(3) by blast
  from issued_token_locked_out [OF org_route(1,2) t(1) [folded U(1)] t(2) i h, unfolded U, OF demo_uuid_ok demo_jwt_org n] i
  show ?thesis by blast
qed

end
