(* ===== verification/Tenant_Props.thy ===== *)
theory Tenant_Props
  imports Middleware Auth_Service
begin

text \<open>
  Which organization and which workspace a request works in, as \<open>TenantResolverWithWorkspace\<close> says.
\<close>

text \<open>A header goes first, then the organization of the token, then the first label of the host.\<close>

definition names_org :: "uuid_api \<Rightarrow> world \<Rightarrow> rctx \<Rightarrow> request \<Rightarrow> uuid \<Rightarrow> bool" where
  "names_org U w c r gid \<longleftrightarrow>
     (if header_org U r \<noteq> Some uuid_nil then header_org U r = Some gid
      else if or_nil (OrgIDFromContext c) \<noteq> uuid_nil then OrgIDFromContext c = Some gid
      else gid = uuid_nil \<or>
        length (Split (CHR ''.'') (rq_Host r)) > 2 \<and>
        (\<exists>org \<in> set (organizations w). o_ID org = gid \<and> o_Slug org = hd (Split (CHR ''.'') (rq_Host r))))"

text \<open>Everything in the cache is a workspace of the organization in its key.\<close>

definition cache_sound :: "uuid_api \<Rightarrow> world \<Rightarrow> workspace_cache \<Rightarrow> bool" where
  "cache_sound U w cache \<longleftrightarrow>
     (\<forall>(k, u) \<in> set cache. \<exists>x \<in> set (workspaces w). k = workspace_key U (w_OrganizationID x) (w_Slug x) \<and> w_ID x = u)"

definition header_workspace :: "uuid_api \<Rightarrow> request \<Rightarrow> uuid" where
  "header_workspace U r =
     (let h = rq_header r ''X-Workspace-ID''
      in if h = [] then uuid_nil else case uuid_parse U h of Some u \<Rightarrow> u | None \<Rightarrow> uuid_nil)"

definition names_workspace :: "uuid_api \<Rightarrow> world \<Rightarrow> request \<Rightarrow> uuid \<Rightarrow> uuid \<Rightarrow> bool" where
  "names_workspace U w r gid wid \<longleftrightarrow>
     (if header_workspace U r \<noteq> uuid_nil then wid = header_workspace U r
      else wid = uuid_nil \<or> rq_header r ''X-Workspace-Slug'' \<noteq> [] \<and>
        (\<exists>x \<in> set (workspaces w). w_ID x = wid \<and> w_OrganizationID x = gid \<and>
           w_Slug x = rq_header r ''X-Workspace-Slug''))"

lemma workspace_key_inject:
  "uuid_api_ok U \<Longrightarrow> workspace_key U g s = workspace_key U g' s' \<longleftrightarrow> g = g' \<and> s = s'"
  unfolding workspace_key_def using sep_inject [of "uuid_str U g" "CHR '':''" s "uuid_str U g'" s'] by auto

lemma cache_sound_put:
  "cache_sound U w cache \<Longrightarrow> x \<in> set (workspaces w) \<Longrightarrow>
   cache_sound U w ((workspace_key U (w_OrganizationID x) (w_Slug x), w_ID x) # cache)"
  by (auto simp: cache_sound_def)

lemma cache_sound_same: "same_tables w w' \<Longrightarrow> cache_sound U w' cache \<longleftrightarrow> cache_sound U w cache"
  by (simp add: cache_sound_def same_tables_fields)

lemma cache_sound_tick: "cache_sound U (tick_world w) cache \<longleftrightarrow> cache_sound U w cache"
  by (rule cache_sound_same) simp

lemma run_subdomain_org:
  assumes "run_state (subdomain_org (Some OrgRepo) r) w = (g, w')"
  shows "same_tables w w' \<and>
    (g = uuid_nil \<or> length (Split (CHR ''.'') (rq_Host r)) > 2 \<and>
      (\<exists>org \<in> set (organizations w). o_ID org = g \<and> o_Slug org = hd (Split (CHR ''.'') (rq_Host r))))"
  using assms
  by (auto simp: subdomain_org_def Let_def OrgRepo_def OrgRepo_GetBySlug_def run_state_bind
      split: if_splits option.splits dest!: find_Some_in)

lemma run_resolve_org:
  assumes "run_state (resolve_org U (Some OrgRepo) c r) w = (x, w')"
  shows "same_tables w w' \<and> (case x of None \<Rightarrow> header_org U r = None | Some gid \<Rightarrow> names_org U w c r gid)"
proof (cases "header_org U r = Some uuid_nil \<and> or_nil (OrgIDFromContext c) = uuid_nil")
  case True
  obtain g w1 where s: "run_state (subdomain_org (Some OrgRepo) r) w = (g, w1)" by fastforce
  then have "x = Some g" "w' = w1"
    using assms True by (simp_all add: resolve_org_def Let_def run_state_bind)
  then show ?thesis using run_subdomain_org [OF s] True by (auto simp: names_org_def)
next
  case False
  show ?thesis
  proof (cases "header_org U r")
    case None
    then show ?thesis using assms by (auto simp: resolve_org_def)
  next
    case (Some g)
    let ?gid = "if g = uuid_nil then or_nil (OrgIDFromContext c) else g"
    have "?gid \<noteq> uuid_nil" using False Some by auto
    then have "x = Some ?gid" "w' = w" using assms Some by (simp_all add: resolve_org_def Let_def)
    then show ?thesis using Some False
      by (cases "OrgIDFromContext c") (simp_all add: names_org_def or_nil_def)
  qed
qed

lemma run_resolve_workspace:
  assumes "uuid_api_ok U" and s: "cache_sound U w cache"
    and run: "run_state (resolve_workspace U (Some WorkspaceRepo) gid r cache) w = ((wid, cache'), w')"
  shows "same_tables w w' \<and> cache_sound U w' cache' \<and> names_workspace U w r gid wid"
proof (cases "header_workspace U r \<noteq> uuid_nil \<or> rq_header r ''X-Workspace-Slug'' = []")
  case True
  then show ?thesis using run s
    by (auto simp: resolve_workspace_def header_workspace_def names_workspace_def Let_def split: if_splits option.splits)
next
  case False
  let ?slug = "rq_header r ''X-Workspace-Slug''"
  have eq: "resolve_workspace U (Some WorkspaceRepo) gid r cache =
    (case map_of cache (workspace_key U gid ?slug) of
       Some u \<Rightarrow> ret (u, cache)
     | None \<Rightarrow> State_Monad.bind (WorkspaceRepository_GetBySlug gid ?slug) (\<lambda>x.
         ret (case x of Inl _ \<Rightarrow> (uuid_nil, cache)
                | Inr ws \<Rightarrow> (w_ID ws, (workspace_key U gid ?slug, w_ID ws) # cache))))"
    using False unfolding resolve_workspace_def header_workspace_def [symmetric, unfolded Let_def] Let_def option.case
    by (auto simp: WorkspaceRepo_def header_workspace_def [symmetric, unfolded Let_def] split: option.split)
  show ?thesis
  proof (cases "map_of cache (workspace_key U gid ?slug)")
    case (Some u)
    from map_of_SomeD [OF this] s obtain x where "x \<in> set (workspaces w)"
      "workspace_key U gid ?slug = workspace_key U (w_OrganizationID x) (w_Slug x)" "w_ID x = u"
      unfolding cache_sound_def by fastforce
    then show ?thesis using Some run s False unfolding eq
      by (auto simp: names_workspace_def workspace_key_inject [OF assms(1)])
  next
    case None
    then have eq: "resolve_workspace U (Some WorkspaceRepo) gid r cache =
      State_Monad.bind (WorkspaceRepository_GetBySlug gid ?slug) (\<lambda>x.
         ret (case x of Inl _ \<Rightarrow> (uuid_nil, cache)
                | Inr ws \<Rightarrow> (w_ID ws, (workspace_key U gid ?slug, w_ID ws) # cache)))" by (simp add: eq)
    obtain x w2 where x: "run_state (WorkspaceRepository_GetBySlug gid ?slug) w = (x, w2)" by fastforce
    then have [simp]: "w2 = tick_world w"
      by (auto simp: WorkspaceRepository_GetBySlug_def split: option.splits if_splits)
    show ?thesis
    proof (cases x)
      case (Inl e)
      then show ?thesis using run s x False unfolding eq
        by (auto simp: run_state_bind names_workspace_def cache_sound_tick)
    next
      case (Inr ws)
      then have "ws \<in> set (workspaces w)" "w_OrganizationID ws = gid" "w_Slug ws = ?slug"
        using x by (auto simp: WorkspaceRepository_GetBySlug_def split: if_splits option.splits dest!: find_Some_in)
      then show ?thesis using run s x Inr False cache_sound_put [OF s, of ws] unfolding eq
        by (auto simp: run_state_bind names_workspace_def cache_sound_tick)
    qed
  qed
qed



end
