(* ===== verification/Stats_Props.thy ===== *)
theory Stats_Props
  imports Statistics Auth_Service Sort_By
begin

text \<open>What the usage report says of the rows of a user.\<close>

lemma models_used_set: "set (models_used collate ss) = s_ModelID ` set ss" "distinct (models_used collate ss)"
proof -
  have m: "mset (models_used collate ss) = mset (remdups (map s_ModelID ss))" by (simp add: models_used_def)
  show "set (models_used collate ss) = s_ModelID ` set ss" using mset_eq_setD [OF m] by simp
  show "distinct (models_used collate ss)" using mset_eq_imp_distinct_iff [OF m] by simp
qed

lemma sum_one_hit: "distinct ms \<Longrightarrow> x \<in> set ms \<Longrightarrow> sum_list (map (\<lambda>m. if x = m then 1 else 0) ms) = (1 :: nat)"
proof (induction ms)
  case (Cons m ms)
  then show ?case by (cases "x = m") (auto simp: sum_list_eq_0_iff)
qed simp

lemma count_models: "sum_list (map (\<lambda>m. length (filter (\<lambda>s. f s = m) ss)) ms) = length ss"
  if "distinct ms" "f ` set ss \<subseteq> set ms"
  using that
proof (induction ss)
  case (Cons s ss)
  have "sum_list (map (\<lambda>m. length (filter (\<lambda>x. f x = m) (s # ss))) ms) =
      sum_list (map (\<lambda>m. if f s = m then 1 else 0) ms) + sum_list (map (\<lambda>m. length (filter (\<lambda>x. f x = m) ss)) ms)"
    by (induction ms) auto
  also have "sum_list (map (\<lambda>m. if f s = m then 1 else 0) ms) = (1 :: nat)"
    using Cons.prems by (intro sum_one_hit) auto
  finally show ?case using Cons by simp
qed (simp add: sum_list_triv)

lemma int_sum_list: "sum_list (map (\<lambda>m. int (f m)) ms) = int (sum_list (map f ms))"
  by (induction ms) simp_all

lemma breakdown_counts:
  "sum_list (map mb_Count (breakdown ss)) = int (length ss)"
  "b \<in> set (breakdown ss) \<Longrightarrow> mb_Count b = int (length (filter (\<lambda>s. s_ModelID s = mb_ModelID b) ss))"
  "mb_ModelID ` set (breakdown ss) = s_ModelID ` set ss"
  "sorted_wrt (\<lambda>a b. mb_Count b \<le> mb_Count a) (breakdown ss)"
proof -
  show "b \<in> set (breakdown ss) \<Longrightarrow> mb_Count b = int (length (filter (\<lambda>s. s_ModelID s = mb_ModelID b) ss))"
    by (auto simp: breakdown_def Let_def)
  show "mb_ModelID ` set (breakdown ss) = s_ModelID ` set ss"
    by (force simp: breakdown_def Let_def)
  have "sorted (map (\<lambda>b. - mb_Count b) (breakdown ss))" by (simp add: breakdown_def)
  then show "sorted_wrt (\<lambda>a b. mb_Count b \<le> mb_Count a) (breakdown ss)" unfolding sorted_map by simp
  have "mset (map mb_Count (breakdown ss)) =
      mset (map (\<lambda>m. int (length (filter (\<lambda>s. s_ModelID s = m) ss))) (remdups (map s_ModelID ss)))"
    by (simp add: breakdown_def Let_def multiset.map_comp comp_def)
  then have "sum_list (map mb_Count (breakdown ss)) =
      sum_list (map (\<lambda>m. int (length (filter (\<lambda>s. s_ModelID s = m) ss))) (remdups (map s_ModelID ss)))"
    using sum_mset_sum_list by metis
  also have "\<dots> = int (sum_list (map (\<lambda>m. length (filter (\<lambda>s. s_ModelID s = m) ss)) (remdups (map s_ModelID ss))))"
    by (rule int_sum_list)
  finally show "sum_list (map mb_Count (breakdown ss)) = int (length ss)"
    by (simp add: count_models)
qed

text \<open>The rows that the report of a user is about.\<close>

definition own_rows :: "uuid \<Rightarrow> UsageStatsQuery \<Rightarrow> world \<Rightarrow> UsageStat list" where
  "own_rows uid q w =
     filter (\<lambda>s. s_UserID s = uid \<and> (case uq_ModelID q of Some m \<Rightarrow> s_ModelID s = m | None \<Rightarrow> True)) (model_usage_stats w)"

lemma selected_own [simp]: "selected uid (ToFilter q) w = own_rows uid q w"
  unfolding selected_def own_rows_def by (rule filter_cong) (simp_all add: buildWhereClause_def ToFilter_def)

lemma own_rows_same [simp]:
  "own_rows uid q (tick_world w) = own_rows uid q w" "own_rows uid (q\<lparr>uq_Page := i\<rparr>) w = own_rows uid q w"
  "own_rows uid (q\<lparr>uq_PerPage := i\<rparr>) w = own_rows uid q w"
  by (simp_all add: own_rows_def)

lemma run_page_query:
  assumes "run_state (page_query m1 m2 f created offset lmt) w = (Inr (rows, n), w')" "\<And>w. f (tick_world w) = f w"
  shows "n = int (length (f w)) \<and> w' = tick_world (tick_world w) \<and>
    prefix rows (sql_window lmt offset (newest_first created (f w))) \<and>
    ((\<forall>i k. env_fault (environ w) i \<noteq> Cut k) \<longrightarrow> rows = sql_window lmt offset (newest_first created (f w)))"
  using assms by (auto simp: page_query_def next_fault_def take_is_prefix split: if_splits fault.splits)

lemma run_summary:
  assumes "run_state (UsageStatRepo_GetSummaryByUser collate uid (ToFilter q)) w = (Inr x, w')"
  shows "sm_TotalGenerations x = int (length (own_rows uid q w)) \<and>
    sm_TotalTokens x = sum_list (map s_TokenCount (own_rows uid q w)) \<and>
    sm_AvgTokensPerSec x = avg_rate (own_rows uid q w) \<and>
    ((\<forall>i k. env_fault (environ w) i \<noteq> Cut k) \<longrightarrow>
       sm_ModelsUsed x = models_used collate (own_rows uid q w) \<and> sm_ModelBreakdown x = breakdown (own_rows uid q w))"
  using assms by (auto simp: UsageStatRepo_GetSummaryByUser_def next_fault_def Let_def split: if_splits fault.splits)


definition usage_row :: "uuid \<Rightarrow> string \<Rightarrow> UsageStat" where
  "usage_row uid m =
     \<lparr>s_ID = 1, s_UserID = uid, s_ModelID = m, s_TokenCount = 12, s_FirstTokenTimeMs = None, s_InferenceTimeMs = 3,
      s_TokensPerSecond = None, s_CreatedAt = 0\<rparr>"

definition usage_world :: world where
  "usage_world = (empty_world calm)\<lparr>model_usage_stats := [usage_row 7 ''a'', usage_row 8 ''b'', usage_row 7 ''c'']\<rparr>"


end
