(* ===== verification/Kafka.thy ===== *)
theory Kafka
  imports Event_Bridge Decode
begin

text \<open>
  The Kafka event bus (\<open>internal/infrastructure/kafka\<close>): the types of events, the producer, and the
  consumer with its loops. The client library kafka-go is not part of the repository: its writer
  is a function from messages to effects and its reader a record of functions on a state of its
  own, with what the documentation promises of them as \<open>reader_ok\<close>.
\<close>

section \<open>The types of events\<close>

text \<open>The handlers get a domain event from the in-process bus, and from Kafka the envelope it came in.\<close>

datatype bus_event = Typed event | Enveloped Envelope

fun struct_name :: "event \<Rightarrow> string" where
  "struct_name (UserRegistered _ _ _) = ''UserRegistered''"
| "struct_name (UserInvited _ _ _ _) = ''UserInvited''"
| "struct_name (RoleAssigned _ _ _ _) = ''RoleAssigned''"
| "struct_name (RoleRevoked _ _ _ _) = ''RoleRevoked''"
| "struct_name (OrganizationCreated _ _ _ _) = ''OrganizationCreated''"
| "struct_name (AppCreated _ _ _ _) = ''AppCreated''"
| "struct_name (AppUpdated _ _ _) = ''AppUpdated''"
| "struct_name (WorkspaceCreated _ _ _ _ _) = ''WorkspaceCreated''"
| "struct_name (EndpointCreated _ _ _ _ _) = ''EndpointCreated''"
| "struct_name (EndpointUpdated _ _ _) = ''EndpointUpdated''"
| "struct_name (EndpointRetired _ _ _) = ''EndpointRetired''"
| "struct_name (EndpointActivated _ _ _) = ''EndpointActivated''"

text \<open>The part of the name since the last capital letter, and the rest. A name is in ASCII.\<close>

fun camel_parts :: "string \<Rightarrow> string \<Rightarrow> string list" where
  "camel_parts part [] = [ToLower part]"
| "camel_parts part (c # cs) =
     (if is_upper c then ToLower part # camel_parts [c] cs else camel_parts (part @ [c]) cs)"

definition camelToDotCase :: "string \<Rightarrow> string" where
  "camelToDotCase s = Join ''.'' (case s of [] \<Rightarrow> [[]] | c # cs \<Rightarrow> camel_parts [c] cs)"

text \<open>No event of the program names its type itself.\<close>

definition deriveEventType :: "bus_event \<Rightarrow> string" where
  "deriveEventType ev = (case ev of Enveloped e \<Rightarrow> env_Type e | Typed e \<Rightarrow> camelToDotCase (struct_name e))"

section \<open>Producer\<close>

record kafka_message =
  km_Topic :: string
  km_Key :: string
  km_Value :: string
  km_Headers :: "(string \<times> string) list"
  km_Time :: time

definition Envelope_json :: "Envelope \<Rightarrow> json" where
  "Envelope_json e =
     JObj ([(''id'', JStr (env_ID e)), (''type'', JStr (env_Type e)), (''source'', JStr (env_Source e))] @
       omit ''organization_id'' (env_OrganizationID e) @ omit ''app_id'' (env_AppID e) @
       [(''timestamp'', jtime (env_Timestamp e)), (''data'', raw_json (env_Data e))])"

definition bus_event_json :: "uuid_api \<Rightarrow> bus_event \<Rightarrow> json" where
  "bus_event_json U ev = (case ev of Typed e \<Rightarrow> event_json U e | Enveloped e \<Rightarrow> Envelope_json e)"

definition Producer_Publish ::
  "uuid_api \<Rightarrow> (kafka_message \<Rightarrow> goerr option eff) \<Rightarrow> string \<Rightarrow> string \<Rightarrow> json \<Rightarrow> (goerr + unit) eff" where
  "Producer_Publish U write topic eventType data = do {
     envelope \<leftarrow> NewEnvelope U eventType ''masterfabric-go'' data;
     key \<leftarrow> uuid_New;
     now \<leftarrow> time_Now;
     e \<leftarrow> write \<lparr>km_Topic = topic, km_Key = uuid_str U key, km_Value = Marshal (Envelope_json envelope),
       km_Headers = [(''event-type'', eventType), (''event-id'', env_ID envelope)], km_Time = now\<rparr>;
     case e of Some e \<Rightarrow> fail (Wrapped ''kafka write'' e) | None \<Rightarrow> ok ()
   }"

definition DefaultTopics :: "string list" where
  "DefaultTopics = [TopicIAM, TopicTenant, TopicAPIManagement, TopicAudit]"

section \<open>Consumer\<close>

text \<open>\<open>json.Unmarshal\<close> into an envelope. The parser of times of the library is a parameter.\<close>

definition time_value :: "(string \<Rightarrow> time option) \<Rightarrow> json \<Rightarrow> time option" where
  "time_value T j = (case j of JStr s \<Rightarrow> T s | _ \<Rightarrow> None)"

definition Envelope_decode :: "(string \<Rightarrow> time option) \<Rightarrow> string \<Rightarrow> Envelope option" where
  "Envelope_decode T s = do {
     kvs \<leftarrow> struct_members s;
     i \<leftarrow> field_str ''id'' kvs;
     t \<leftarrow> field_str ''type'' kvs;
     src \<leftarrow> field_str ''source'' kvs;
     g \<leftarrow> field_str ''organization_id'' kvs;
     a \<leftarrow> field_str ''app_id'' kvs;
     ts \<leftarrow> decode_field (time_value T) ''timestamp'' 0 kvs;
     Some \<lparr>env_ID = i, env_Type = t, env_Source = src, env_OrganizationID = g, env_AppID = a,
           env_Timestamp = ts, env_Data = the_or_nil (decode_raw ''data'' None kvs)\<rparr>
   }"

text \<open>A handler gives its error and the new state of the program, or panics.\<close>

type_synonym 's consumer_handler = "Envelope \<Rightarrow> 's \<Rightarrow> (goerr option \<times> 's) option"

text \<open>
  The handlers by topic, and the loops that were started, each with the handlers its topic had
  then.
\<close>

record 's Consumer =
  cs_handlers :: "(string \<times> 's consumer_handler list) list"
  cs_loops :: "(string \<times> 's consumer_handler list) list"

definition NewConsumer :: "'s Consumer" where
  "NewConsumer = \<lparr>cs_handlers = [], cs_loops = []\<rparr>"

definition Consumer_Subscribe :: "string \<Rightarrow> 's consumer_handler \<Rightarrow> 's Consumer \<Rightarrow> 's Consumer" where
  "Consumer_Subscribe topic f c =
     c\<lparr>cs_handlers := AList.update topic
        ((case map_of (cs_handlers c) topic of None \<Rightarrow> [] | Some fs \<Rightarrow> fs) @ [f]) (cs_handlers c)\<rparr>"

definition Consumer_Start :: "'s Consumer \<Rightarrow> 's Consumer" where
  "Consumer_Start c = c\<lparr>cs_loops := cs_loops c @ cs_handlers c\<rparr>"

text \<open>
  The reader of a topic. A message has its offset in the partition; \<open>cancelled\<close> says whether the
  consumer was closed.
\<close>

record 'k reader =
  FetchMessage :: "'k \<Rightarrow> (goerr + nat \<times> kafka_message) \<times> 'k"
  CommitMessages :: "nat \<Rightarrow> 'k \<Rightarrow> goerr option \<times> 'k"
  cancelled :: "'k \<Rightarrow> bool"

text \<open>All handlers get the envelope, whatever those before them say.\<close>

fun dispatch_all :: "'s consumer_handler list \<Rightarrow> Envelope \<Rightarrow> 's \<Rightarrow> (bool \<times> 's) option" where
  "dispatch_all [] e s = Some (True, s)"
| "dispatch_all (f # fs) e s =
     (case f e s of
        None \<Rightarrow> None
      | Some (err, s) \<Rightarrow> map_option (\<lambda>(good, s). (err = None \<and> good, s)) (dispatch_all fs e s))"

datatype 'x looped = Next 'x | Stopped 'x | Crashed

definition consume_step ::
  "(string \<Rightarrow> Envelope option) \<Rightarrow> 'k reader \<Rightarrow> 's consumer_handler list \<Rightarrow> 'k \<times> 's \<Rightarrow> ('k \<times> 's) looped" where
  "consume_step decode R hs x =
     (let (fetched, k) = FetchMessage R (fst x); s = snd x
      in case fetched of
           Inl e \<Rightarrow> if cancelled R k then Stopped (k, s) else Next (k, s)
         | Inr (offset, msg) \<Rightarrow>
             (case decode (km_Value msg) of
                None \<Rightarrow> Next (snd (CommitMessages R offset k), s)
              | Some envelope \<Rightarrow>
                  (case dispatch_all hs envelope s of
                     None \<Rightarrow> Crashed
                   | Some (good, s) \<Rightarrow> Next (if good then snd (CommitMessages R offset k) else k, s))))"

text \<open>The loop, for as many iterations as there is fuel.\<close>

fun consumeLoop ::
  "(string \<Rightarrow> Envelope option) \<Rightarrow> 'k reader \<Rightarrow> 's consumer_handler list \<Rightarrow> nat \<Rightarrow> 'k \<times> 's \<Rightarrow> ('k \<times> 's) looped" where
  "consumeLoop decode R hs 0 x = Next x"
| "consumeLoop decode R hs (Suc n) x =
     (case consume_step decode R hs x of Next x \<Rightarrow> consumeLoop decode R hs n x | y \<Rightarrow> y)"

section \<open>The bus\<close>

record 's Bus =
  kb_write :: "kafka_message \<Rightarrow> goerr option eff"
  kb_consumer :: "'s Consumer"

definition NewBus :: "(kafka_message \<Rightarrow> goerr option eff) \<Rightarrow> 's Bus" where
  "NewBus write = \<lparr>kb_write = write, kb_consumer = NewConsumer\<rparr>"

definition Bus_Publish :: "uuid_api \<Rightarrow> 's Bus \<Rightarrow> string \<Rightarrow> bus_event \<Rightarrow> (goerr + unit) eff" where
  "Bus_Publish U b topic ev =
     Producer_Publish U (kb_write b) topic (deriveEventType ev) (bus_event_json U ev)"

definition Bus_Subscribe ::
  "string \<Rightarrow> (bus_event \<Rightarrow> 's \<Rightarrow> (goerr option \<times> 's) option) \<Rightarrow> 's Bus \<Rightarrow> 's Bus" where
  "Bus_Subscribe topic f b =
     b\<lparr>kb_consumer := Consumer_Subscribe topic (\<lambda>e. f (Enveloped e)) (kb_consumer b)\<rparr>"

definition Bus_Start :: "'s Bus \<Rightarrow> 's Bus" where
  "Bus_Start b = b\<lparr>kb_consumer := Consumer_Start (kb_consumer b)\<rparr>"

end
