(* ===== verification/Kafka_Props.thy ===== *)
theory Kafka_Props
  imports Kafka Realtime_Props
begin

text \<open>
  What the Kafka bus delivers: the types of events, the envelope on the wire, and which messages a
  loop dispatches and commits.
\<close>

section \<open>Types of events\<close>

text \<open>The types the bridge gives to clients are those the producer derives from the names.\<close>

lemma dotted_names:
  "camelToDotCase ''RoleAssigned'' = ''role.assigned''" "camelToDotCase ''OrganizationCreated'' = ''organization.created''"
  "camelToDotCase ''AppCreated'' = ''app.created''" "camelToDotCase ''AppUpdated'' = ''app.updated''"
  "camelToDotCase ''WorkspaceCreated'' = ''workspace.created''" "camelToDotCase ''EndpointCreated'' = ''endpoint.created''"
  "camelToDotCase ''EndpointUpdated'' = ''endpoint.updated''" "camelToDotCase ''EndpointRetired'' = ''endpoint.retired''"
  "camelToDotCase ''EndpointActivated'' = ''endpoint.activated''"
  by (simp_all add: camelToDotCase_def is_upper_def ToLower_def lower_char_def) (code_simp+)

lemma route_types: "rt \<in> set (extractRoutes ev) \<Longrightarrow> rt_eventType rt = deriveEventType (Typed ev)"
  unfolding deriveEventType_def bus_event.case
  by (cases ev; simp only: struct_name.simps dotted_names extractRoutes.simps) (auto simp: route_def split: if_splits)

section \<open>The wire\<close>

lemma lower_names:
  "ToLower ''id'' = ''id''" "ToLower ''type'' = ''type''" "ToLower ''source'' = ''source''"
  "ToLower ''organization_id'' = ''organization_id''" "ToLower ''app_id'' = ''app_id''"
  "ToLower ''timestamp'' = ''timestamp''" "ToLower ''data'' = ''data''"
  by (simp_all add: ToLower_def lower_char_def is_upper_def)

lemma envelope_roundtrip:
  assumes "\<And>t. T (RFC3339Nano t) = Some t" "env_Data e = Marshal d" "numbers_ok d"
  shows "Envelope_decode T (Marshal (Envelope_json e)) = Some e"
proof -
  have d: "raw_json (Marshal d) = d" using json_roundtrip [OF assms(3)] by (simp add: raw_json_def)
  have "numbers_ok (Envelope_json e)" using assms(2,3) by (simp add: Envelope_json_def omit_def jtime_def d)
  from json_roundtrip [OF this] have p: "parse_json (Marshal (Envelope_json e)) = Some (Envelope_json e)" by simp
  show ?thesis
    unfolding Envelope_decode_def struct_members_def p
    using assms(1,2) by (cases e) (auto simp: Envelope_json_def d field_str_def omit_def jtime_def
      string_value_def time_value_def the_or_nil_def EqualFold_def lower_names)
qed

section \<open>A loop\<close>

text \<open>
  What kafka-go promises of a reader with a consumer group: it fetches the messages of its
  partition one after the other, and a commit of a message makes the group go on behind it. \<open>msgs\<close>
  are the messages of the partition, \<open>P\<close> gives the offset of the next message and the offset the
  group has committed.
\<close>

definition reader_ok :: "'k reader \<Rightarrow> (nat \<Rightarrow> kafka_message) \<Rightarrow> ('k \<Rightarrow> nat \<times> nat) \<Rightarrow> bool" where
  "reader_ok R msgs P \<longleftrightarrow>
     (\<forall>k x k'. FetchMessage R k = (x, k') \<longrightarrow>
        (case x of Inl e \<Rightarrow> P k' = P k
         | Inr (offset, m) \<Rightarrow> offset = fst (P k) \<and> m = msgs offset \<and> P k' = (offset + 1, snd (P k)))) \<and>
     (\<forall>k n e k'. CommitMessages R n k = (e, k') \<longrightarrow> P k' = (fst (P k), if e = None then n + 1 else snd (P k)))"

text \<open>All handlers on one message after the other, with whether they succeeded.\<close>

fun dispatch_msgs ::
  "(string \<Rightarrow> Envelope option) \<Rightarrow> 's consumer_handler list \<Rightarrow> kafka_message list \<Rightarrow> 's \<Rightarrow> (bool list \<times> 's) option" where
  "dispatch_msgs decode hs [] s = Some ([], s)"
| "dispatch_msgs decode hs (m # ms) s =
     (case (case decode (km_Value m) of None \<Rightarrow> Some (True, s) | Some e \<Rightarrow> dispatch_all hs e s) of
        None \<Rightarrow> None
      | Some (good, s) \<Rightarrow> map_option (\<lambda>(gs, s). (good # gs, s)) (dispatch_msgs decode hs ms s))"

fun commit_point :: "nat \<Rightarrow> nat \<Rightarrow> bool list \<Rightarrow> nat" where
  "commit_point c p [] = c"
| "commit_point c p (g # gs) = commit_point (if g then p + 1 else c) (p + 1) gs"

lemma commit_point_last: "commit_point c p (gs @ [True]) = p + length gs + 1"
  by (induction gs arbitrary: c p) auto

lemma consume_step_next:
  assumes "reader_ok R msgs P" "consume_step decode R hs (k, s) = Next (k1, s1)"
    and "\<forall>n k. fst (CommitMessages R n k) = None"
  shows "P k1 = P k \<and> s1 = s \<or>
    (\<exists>good. dispatch_msgs decode hs [msgs (fst (P k))] s = Some ([good], s1) \<and>
       P k1 = (fst (P k) + 1, if good then fst (P k) + 1 else snd (P k)))"
proof -
  obtain x k0 where f: "FetchMessage R k = (x, k0)" by fastforce
  note fetched = assms(1) [unfolded reader_ok_def, THEN conjunct1, rule_format, OF f]
  have commit: "P (snd (CommitMessages R n v)) = (fst (P v), n + 1)" for n v
  proof -
    have "CommitMessages R n v = (None, snd (CommitMessages R n v))" using assms(3) by (simp add: prod_eq_iff)
    from assms(1) [unfolded reader_ok_def, THEN conjunct2, rule_format, OF this] show ?thesis by simp
  qed
  show ?thesis
  proof (cases x)
    case (Inl e)
    then show ?thesis using assms(2) f fetched by (auto simp: consume_step_def split: if_splits)
  next
    case (Inr y)
    obtain m where y: "y = (fst (P k), m)" "m = msgs (fst (P k))" "P k0 = (fst (P k) + 1, snd (P k))"
      using fetched Inr by (cases y) auto
    have step: "consume_step decode R hs (k, s) =
      (case decode (km_Value m) of
         None \<Rightarrow> Next (snd (CommitMessages R (fst (P k)) k0), s)
       | Some e \<Rightarrow> (case dispatch_all hs e s of None \<Rightarrow> Crashed
          | Some (good, s) \<Rightarrow> Next (if good then snd (CommitMessages R (fst (P k)) k0) else k0, s)))"
      by (simp add: consume_step_def f Inr y(1))
    show ?thesis
    proof (cases "decode (km_Value m)")
      case None
      then have "k1 = snd (CommitMessages R (fst (P k)) k0)" "s1 = s" using assms(2) unfolding step by simp_all
      moreover from this have "P k1 = (fst (P k) + 1, fst (P k) + 1)" using y(3) by (simp add: commit)
      moreover have "dispatch_msgs decode hs [msgs (fst (P k))] s = Some ([True], s)"
        using None unfolding y(2) [symmetric] by simp
      ultimately show ?thesis by auto
    next
      case (Some e)
      then obtain good s2 where d: "dispatch_all hs e s = Some (good, s2)"
        using assms(2) unfolding step by (cases "dispatch_all hs e s") auto
      then have k1: "k1 = (if good then snd (CommitMessages R (fst (P k)) k0) else k0)" "s1 = s2"
        using assms(2) Some unfolding step by simp_all
      have "dispatch_msgs decode hs [msgs (fst (P k))] s = Some ([good], s1)"
        using d Some k1(2) unfolding y(2) [symmetric] by simp
      moreover have "P k1 = (fst (P k) + 1, if good then fst (P k) + 1 else snd (P k))"
        using y(3) by (simp add: k1(1) commit)
      ultimately show ?thesis by blast
    qed
  qed
qed


text \<open>A reader over a fixed partition, and a handler that fails on the first message: it is lost.\<close>

definition list_reader :: "(nat \<Rightarrow> kafka_message) \<Rightarrow> (nat \<times> nat) reader" where
  "list_reader msgs =
     \<lparr>FetchMessage = (\<lambda>(p, c). (Inr (p, msgs p), (p + 1, c))), CommitMessages = (\<lambda>n (p, c). (None, (p, n + 1))),
      cancelled = (\<lambda>_. False)\<rparr>"

lemma list_reader_ok: "reader_ok (list_reader msgs) msgs (\<lambda>k. k)"
  by (auto simp: reader_ok_def list_reader_def)

definition wire_message :: "nat \<Rightarrow> kafka_message" where
  "wire_message i = \<lparr>km_Topic = TopicIAM, km_Key = [], km_Value = (if i = 0 then ''a'' else ''b''), km_Headers = [], km_Time = 0\<rparr>"

definition wire_decode :: "string \<Rightarrow> Envelope option" where
  "wire_decode s = Some \<lparr>env_ID = s, env_Type = [], env_Source = [], env_OrganizationID = [], env_AppID = [],
     env_Timestamp = 0, env_Data = []\<rparr>"

definition flaky :: "string list consumer_handler" where
  "flaky e s = Some (if env_ID e = ''a'' then (Some (Plain ''down''), s) else (None, s @ [env_ID e]))"


section \<open>The server\<close>

text \<open>
  The server starts its consumer before any handler subscribes: the loops stay those there were, none,
  whatever subscribes later.
\<close>

lemma server_consumes_nothing:
  "cs_loops (kb_consumer (fold (\<lambda>(topic, f). Bus_Subscribe topic f) fs (Bus_Start (NewBus write)))) = []"
proof -
  have "cs_loops (kb_consumer (fold (\<lambda>(topic, f). Bus_Subscribe topic f) fs b)) = cs_loops (kb_consumer b)" for b
    by (induction fs arbitrary: b) (auto simp: Bus_Subscribe_def Consumer_Subscribe_def)
  then show ?thesis by (simp add: Bus_Start_def Consumer_Start_def NewBus_def NewConsumer_def)
qed

end
