(* ===== verification/Migrate.thy ===== *)
theory Migrate
  imports Sort_By
begin

text \<open>
  The migration runner (\<open>internal/infrastructure/postgres/migrate.go\<close>) on a database with the table
  of the applied files, which may not exist yet, and the rest of its content, on which the text of
  a migration acts by a parameter, \<open>None\<close> where it fails. A statement of several commands is a
  transaction of its own. The embedded directory is a list of names and contents.
\<close>

record 'd schema_db =
  sd_applied :: "string list option"
  sd_data :: 'd
  sd_faults :: "nat \<Rightarrow> fault"
  sd_tick :: nat

type_synonym ('d, 'a) mig = "'d schema_db \<Rightarrow> (goerr + 'a) \<times> 'd schema_db"

definition mig_then :: "('d, 'a) mig \<Rightarrow> ('a \<Rightarrow> ('d, 'b) mig) \<Rightarrow> ('d, 'b) mig" where
  "mig_then m f db = (case m db of (Inl e, db) \<Rightarrow> (Inl e, db) | (Inr x, db) \<Rightarrow> f x db)"

definition sd_step :: "'d schema_db \<Rightarrow> 'd schema_db" where
  "sd_step db = db\<lparr>sd_tick := Suc (sd_tick db)\<rparr>"

text \<open>\<open>pool.Exec\<close>, with the text its error is wrapped in.\<close>

definition mig_exec :: "string \<Rightarrow> ('d schema_db \<Rightarrow> 'd schema_db option) \<Rightarrow> ('d, unit) mig" where
  "mig_exec msg f db =
     (let done = (case f db of Some db \<Rightarrow> db | None \<Rightarrow> db); failed = Inl (Wrapped msg (Plain ''pg''))
      in case sd_faults db (sd_tick db) of
           NoFault \<Rightarrow> (if f db = None then failed else Inr (), sd_step done)
         | Refused \<Rightarrow> (failed, sd_step db)
         | _ \<Rightarrow> (failed, sd_step done))"

text \<open>\<open>SELECT filename\<close> and the loop over its rows, which does not look at \<open>rows.Err()\<close>.\<close>

definition mig_applied :: "('d, string list) mig" where
  "mig_applied db =
     (case (sd_applied db, sd_faults db (sd_tick db)) of
        (Some names, NoFault) \<Rightarrow> (Inr names, sd_step db)
      | (Some names, Cut n) \<Rightarrow> (Inr (take n names), sd_step db)
      | _ \<Rightarrow> (Inl (Wrapped ''query schema_migrations'' (Plain ''pg'')), sd_step db))"

section \<open>The text of a migration\<close>

fun goose_up :: "bool \<Rightarrow> string list \<Rightarrow> string list" where
  "goose_up inUp [] = []"
| "goose_up inUp (line # ls) =
     (if TrimSpace line = ''-- +goose Up'' then goose_up True ls
      else if TrimSpace line = ''-- +goose Down'' then goose_up False ls
      else if inUp then line # goose_up inUp ls else goose_up inUp ls)"

definition stripGooseDirectives :: "string \<Rightarrow> string" where
  "stripGooseDirectives sql = Join [CHR 0x0A] (goose_up False (Split (CHR 0x0A) sql))"

section \<open>The runner\<close>

text \<open>The order of \<open>sort.Strings\<close>.\<close>

fun bytes_le :: "string \<Rightarrow> string \<Rightarrow> bool" where
  "bytes_le [] t \<longleftrightarrow> True"
| "bytes_le (c # s) [] \<longleftrightarrow> False"
| "bytes_le (c # s) (d # t) \<longleftrightarrow> (of_char c :: nat) < of_char d \<or> (c = d \<and> bytes_le s t)"

definition migration_files :: "(string \<times> string) list \<Rightarrow> (string \<times> string) list" where
  "migration_files dir =
     sort_by (\<lambda>a b. bytes_le (fst a) (fst b)) (filter (\<lambda>(name, _). HasSuffix name ''.sql'') dir)"

definition mig_apply :: "(string \<Rightarrow> 'd \<Rightarrow> 'd option) \<Rightarrow> string \<times> string \<Rightarrow> ('d, unit) mig" where
  "mig_apply sql f =
     mig_exec (''apply migration '' @ fst f)
       (\<lambda>db. map_option (\<lambda>d. db\<lparr>sd_data := d\<rparr>) (sql (stripGooseDirectives (snd f)) (sd_data db)))"

definition mig_record :: "string \<Rightarrow> ('d, unit) mig" where
  "mig_record name =
     mig_exec (''record migration '' @ name)
       (\<lambda>db. case sd_applied db of
               None \<Rightarrow> None
             | Some names \<Rightarrow>
                 if name \<in> set names \<or> length name > 255 then None
                 else Some (db\<lparr>sd_applied := Some (names @ [name])\<rparr>))"

fun apply_files ::
  "(string \<Rightarrow> 'd \<Rightarrow> 'd option) \<Rightarrow> string list \<Rightarrow> (string \<times> string) list \<Rightarrow> ('d, unit) mig" where
  "apply_files sql applied [] db = (Inr (), db)"
| "apply_files sql applied (f # fs) db =
     (if fst f \<in> set applied then apply_files sql applied fs db
      else mig_then (mig_apply sql f) (\<lambda>_. mig_then (mig_record (fst f)) (\<lambda>_. apply_files sql applied fs)) db)"

definition RunMigrations ::
  "(string \<Rightarrow> 'd \<Rightarrow> 'd option) \<Rightarrow> (string \<times> string) list \<Rightarrow> bool \<Rightarrow> ('d, unit) mig" where
  "RunMigrations sql dir force =
     mig_then (if force then mig_exec ''drop schema_migrations'' (\<lambda>db. Some (db\<lparr>sd_applied := None\<rparr>)) else (\<lambda>db. (Inr (), db)))
     (\<lambda>_. mig_then
       (mig_exec ''create schema_migrations table''
         (\<lambda>db. Some (db\<lparr>sd_applied := (case sd_applied db of None \<Rightarrow> Some [] | x \<Rightarrow> x)\<rparr>)))
       (\<lambda>_. mig_then mig_applied (\<lambda>applied. apply_files sql applied (migration_files dir))))"

section \<open>What a run does\<close>

definition recorded :: "'d schema_db \<Rightarrow> string list" where
  "recorded db = (case sd_applied db of None \<Rightarrow> [] | Some names \<Rightarrow> names)"

definition pending :: "(string \<times> string) list \<Rightarrow> string list \<Rightarrow> (string \<times> string) list" where
  "pending fs names = filter (\<lambda>f. fst f \<notin> set names) fs"

definition apply_all :: "(string \<Rightarrow> 'd \<Rightarrow> 'd option) \<Rightarrow> (string \<times> string) list \<Rightarrow> 'd \<Rightarrow> 'd option" where
  "apply_all sql fs = fold_opt (\<lambda>f. sql (stripGooseDirectives (snd f))) fs"

text \<open>The files of a prefix are applied and recorded, but for the last one perhaps, which may only be applied.\<close>

definition progress ::
  "(string \<Rightarrow> 'd \<Rightarrow> 'd option) \<Rightarrow> (string \<times> string) list \<Rightarrow> 'd schema_db \<Rightarrow> (goerr + unit) \<times> 'd schema_db \<Rightarrow> bool" where
  "progress sql fs db x \<longleftrightarrow>
     (\<exists>k. k \<le> length fs \<and> apply_all sql (take k fs) (sd_data db) = Some (sd_data (snd x)) \<and>
        (recorded (snd x) = recorded db @ map fst (take k fs) \<or>
         k > 0 \<and> recorded (snd x) = recorded db @ map fst (take (k - 1) fs)) \<and>
        (fst x = Inr () \<longrightarrow> k = length fs \<and> recorded (snd x) = recorded db @ map fst fs))"

lemma progress_none: "recorded db' = recorded db \<Longrightarrow> sd_data db' = sd_data db \<Longrightarrow> progress sql fs db (Inl e, db')"
  unfolding progress_def by (rule exI [of _ 0]) (simp add: apply_all_def)

lemma progress_one:
  assumes "sql (stripGooseDirectives (snd f)) (sd_data db) = Some (sd_data db')"
    and "recorded db' = recorded db \<or> recorded db' = recorded db @ [fst f]"
  shows "progress sql (f # fs) db (Inl e, db')"
  unfolding progress_def using assms by (intro exI [of _ 1]) (auto simp: apply_all_def)

lemma progress_cons:
  assumes "sql (stripGooseDirectives (snd f)) (sd_data db) = Some (sd_data db1)"
    and r: "recorded db1 = recorded db @ [fst f]" and "progress sql fs db1 x"
  shows "progress sql (f # fs) db x"
proof -
  obtain k where k: "k \<le> length fs" "apply_all sql (take k fs) (sd_data db1) = Some (sd_data (snd x))"
    "recorded (snd x) = recorded db1 @ map fst (take k fs) \<or>
       k > 0 \<and> recorded (snd x) = recorded db1 @ map fst (take (k - 1) fs)"
    "fst x = Inr () \<longrightarrow> k = length fs \<and> recorded (snd x) = recorded db1 @ map fst fs"
    using assms(3) unfolding progress_def by blast
  have "apply_all sql (take (Suc k) (f # fs)) (sd_data db) = Some (sd_data (snd x))"
    using assms(1) k(2) by (simp add: apply_all_def)
  moreover have "k > 0 \<Longrightarrow> take k (f # fs) = f # take (k - 1) fs" by (cases k) simp_all
  ultimately show ?thesis unfolding progress_def using k r by (intro exI [of _ "Suc k"]) auto
qed

lemma sd_step_fields [simp]:
  "sd_applied (sd_step db) = sd_applied db" "sd_data (sd_step db) = sd_data db" "recorded (sd_step db) = recorded db"
  "sd_faults (sd_step db) = sd_faults db"
  by (simp_all add: sd_step_def recorded_def)

lemma mig_exec_cases:
  obtains (succeeded) db1 where "mig_exec msg f db = (Inr (), sd_step db1)" "f db = Some db1"
  | (lost) e db1 where "mig_exec msg f db = (Inl e, sd_step db1)" "f db = Some db1"
  | (failed) e where "mig_exec msg f db = (Inl e, sd_step db)"
proof (cases "f db")
  case None
  then show ?thesis using failed by (cases "sd_faults db (sd_tick db)") (auto simp: mig_exec_def)
next
  case (Some db1)
  then show ?thesis using succeeded lost failed by (cases "sd_faults db (sd_tick db)") (auto simp: mig_exec_def)
qed

lemma mig_apply_cases:
  obtains (ran) r db1 where "mig_apply sql f db = (r, db1)" "recorded db1 = recorded db"
      "sql (stripGooseDirectives (snd f)) (sd_data db) = Some (sd_data db1)"
  | (failed) e db1 where "mig_apply sql f db = (Inl e, db1)" "recorded db1 = recorded db" "sd_data db1 = sd_data db"
proof (cases rule: mig_exec_cases [of "''apply migration '' @ fst f"
    "\<lambda>db. map_option (\<lambda>d. db\<lparr>sd_data := d\<rparr>) (sql (stripGooseDirectives (snd f)) (sd_data db))" db])
  case (succeeded db1)
  then show ?thesis by (intro ran [of "Inr ()" "sd_step db1"]) (auto simp: mig_apply_def recorded_def)
next
  case (lost e db1)
  then show ?thesis by (intro ran [of "Inl e" "sd_step db1"]) (auto simp: mig_apply_def recorded_def)
next
  case (failed e)
  then show ?thesis using that(2) by (simp add: mig_apply_def)
qed

lemma mig_record_cases:
  obtains (recorded) r db1 where "mig_record name db = (r, db1)" "recorded db1 = recorded db @ [name]" "sd_data db1 = sd_data db"
  | (failed) e db1 where "mig_record name db = (Inl e, db1)" "recorded db1 = recorded db" "sd_data db1 = sd_data db"
proof (cases rule: mig_exec_cases [of "''record migration '' @ name" "\<lambda>db. case sd_applied db of
    None \<Rightarrow> None
  | Some names \<Rightarrow> if name \<in> set names \<or> length name > 255 then None
      else Some (db\<lparr>sd_applied := Some (names @ [name])\<rparr>)" db])
  case (succeeded db1)
  then show ?thesis
    by (intro that(1) [of "Inr ()" "sd_step db1"]) (auto simp: mig_record_def recorded_def split: option.splits if_splits)
next
  case (lost e db1)
  then show ?thesis
    by (intro that(1) [of "Inl e" "sd_step db1"]) (auto simp: mig_record_def recorded_def split: option.splits if_splits)
next
  case (failed e)
  then show ?thesis using that(2) by (simp add: mig_record_def)
qed

lemma apply_files_progress: "progress sql (pending fs applied) db (apply_files sql applied fs db)"
proof (induction fs arbitrary: db)
  case Nil
  show ?case by (simp add: progress_def pending_def apply_all_def)
next
  case (Cons f fs)
  show ?case
  proof (cases "fst f \<in> set applied")
    case True
    then show ?thesis using Cons by (simp add: pending_def)
  next
    case False
    then have p: "pending (f # fs) applied = f # pending fs applied" by (simp add: pending_def)
    show ?thesis
    proof (cases rule: mig_apply_cases [of sql f db])
      case (failed e db1)
      then show ?thesis using False by (auto simp: mig_then_def p intro!: progress_none)
    next
      case (ran r db1)
      show ?thesis
      proof (cases rule: mig_record_cases [of "fst f" db1])
        case (failed e db2)
        then show ?thesis using ran False by (cases r) (auto simp: mig_then_def p intro!: progress_one)
      next
        case (recorded r2 db2)
        have "progress sql (f # pending fs applied) db (apply_files sql applied fs db2)"
          by (rule progress_cons [OF _ _ Cons.IH]) (use ran recorded in simp_all)
        then show ?thesis using ran recorded False
          by (cases r; cases r2) (auto simp: mig_then_def p intro!: progress_one)
      qed
    qed
  qed
qed

section \<open>The order of the files\<close>

lemma bytes_le_total: "bytes_le s t \<or> bytes_le t s"
proof (induction s t rule: bytes_le.induct)
  case (3 c s d t)
  consider "c = d" | "(of_char c :: nat) < of_char d" | "(of_char d :: nat) < of_char c"
    by (metis linorder_less_linear of_char_eq_iff)
  then show ?case using 3 by cases auto
qed simp_all

lemma bytes_le_trans: "bytes_le r s \<Longrightarrow> bytes_le s t \<Longrightarrow> bytes_le r t"
proof (induction r arbitrary: s t)
  case (Cons c r)
  then show ?case by (cases s; cases t) auto
qed simp

lemma migration_files_facts:
  "set (migration_files dir) = {f \<in> set dir. HasSuffix (fst f) ''.sql''}"
  "sorted_wrt (\<lambda>a b. bytes_le (fst a) (fst b)) (migration_files dir)"
proof -
  show "set (migration_files dir) = {f \<in> set dir. HasSuffix (fst f) ''.sql''}"
    by (auto simp: migration_files_def)
  show "sorted_wrt (\<lambda>a b. bytes_le (fst a) (fst b)) (migration_files dir)"
    unfolding migration_files_def
    by (rule sorted_sort_by) (use bytes_le_total bytes_le_trans in blast)+
qed

section \<open>The runner\<close>

lemma mig_exec_faults: "sd_faults (snd (mig_exec msg f db)) = sd_faults db"
  if "\<And>db db1. f db = Some db1 \<Longrightarrow> sd_faults db1 = sd_faults db"
  using that by (cases rule: mig_exec_cases [of msg f db]) (auto dest: that)

lemma apply_files_faults: "sd_faults (snd (apply_files sql applied fs db)) = sd_faults db"
proof (induction fs arbitrary: db)
  case (Cons f fs)
  have "sd_faults (snd (mig_apply sql f db)) = sd_faults db" for db
    unfolding mig_apply_def by (rule mig_exec_faults) auto
  moreover have "sd_faults (snd (mig_record (fst f) db)) = sd_faults db" for db :: "'a schema_db"
    unfolding mig_record_def by (rule mig_exec_faults) (auto split: option.splits if_splits)
  ultimately show ?case using Cons
    by (auto simp: mig_then_def split: prod.splits sum.splits) (metis snd_conv)+
qed simp

lemma run_migrations:
  assumes "\<forall>n k. sd_faults db n \<noteq> Cut k"
  shows "progress sql (pending (migration_files dir) (recorded db)) db (RunMigrations sql dir False db) \<and>
    sd_faults (snd (RunMigrations sql dir False db)) = sd_faults db"
proof -
  let ?f = "\<lambda>db. Some (db\<lparr>sd_applied := (case sd_applied db of None \<Rightarrow> Some [] | x \<Rightarrow> x)\<rparr>)"
  let ?create = "mig_exec ''create schema_migrations table'' ?f"
  have eq: "RunMigrations sql dir False db =
      mig_then ?create (\<lambda>_. mig_then mig_applied (\<lambda>applied. apply_files sql applied (migration_files dir))) db"
    by (simp add: RunMigrations_def mig_then_def)
  have created: "recorded db1 = recorded db \<and> sd_data db1 = sd_data db \<and> sd_faults db1 = sd_faults db \<and>
      sd_applied db1 = Some (recorded db)" if "?f db = Some db1" for db1
    using that by (auto simp: recorded_def split: option.splits)
  show ?thesis
  proof (cases rule: mig_exec_cases [of "''create schema_migrations table''" ?f db])
    case (succeeded db1)
    note c = created [OF succeeded(2)]
    have "mig_applied (sd_step db1) = (Inr (recorded db), sd_step (sd_step db1)) \<or>
        (\<exists>e. mig_applied (sd_step db1) = (Inl e, sd_step (sd_step db1)))"
      using c assms by (auto simp: mig_applied_def split: fault.splits)
    then show ?thesis
    proof (elim disjE exE)
      assume q: "mig_applied (sd_step db1) = (Inr (recorded db), sd_step (sd_step db1))"
      have "progress sql (pending (migration_files dir) (recorded db)) (sd_step (sd_step db1))
          (apply_files sql (recorded db) (migration_files dir) (sd_step (sd_step db1)))"
        by (rule apply_files_progress)
      then have "progress sql (pending (migration_files dir) (recorded db)) db
          (apply_files sql (recorded db) (migration_files dir) (sd_step (sd_step db1)))"
        using c by (simp add: progress_def)
      then show ?thesis using succeeded(1) q c unfolding eq by (simp add: mig_then_def apply_files_faults)
    next
      fix e assume "mig_applied (sd_step db1) = (Inl e, sd_step (sd_step db1))"
      then show ?thesis using succeeded(1) c unfolding eq by (simp add: mig_then_def progress_none)
    qed
  next
    case (lost e db1)
    then show ?thesis using created [OF lost(2)] unfolding eq by (simp add: mig_then_def progress_none)
  next
    case (failed e)
    then show ?thesis unfolding eq by (simp add: mig_then_def progress_none)
  qed
qed

lemma pending_done: "pending fs (names @ map fst (pending fs names)) = []"
  by (auto simp: pending_def filter_empty_conv)

text \<open>
  C29. As long as no result is cut off, a run of the migrations applies the pending files in the order
  of their names, each once, and stops at the first error; what it applied is recorded, but for the
  last file perhaps. After a run that succeeded nothing is pending: running again changes nothing.
\<close>

theorem migrations_once:
  assumes "\<forall>n k. sd_faults db n \<noteq> Cut k" and run: "RunMigrations sql dir False db = (r, db1)"
  shows "set (migration_files dir) = {f \<in> set dir. HasSuffix (fst f) ''.sql''} \<and>
    sorted_wrt (\<lambda>a b. bytes_le (fst a) (fst b)) (migration_files dir) \<and>
    progress sql (pending (migration_files dir) (recorded db)) db (r, db1) \<and>
    (r = Inr () \<longrightarrow> pending (migration_files dir) (recorded db1) = [] \<and>
       (\<forall>r2 db2. RunMigrations sql dir False db1 = (r2, db2) \<longrightarrow>
          sd_data db2 = sd_data db1 \<and> recorded db2 = recorded db1))"
proof (intro conjI impI allI migration_files_facts)
  note p = run_migrations [OF assms(1), of sql dir, unfolded run]
  show "progress sql (pending (migration_files dir) (recorded db)) db (r, db1)" using p by simp
  assume ok: "r = Inr ()"
  then have "recorded db1 = recorded db @ map fst (pending (migration_files dir) (recorded db))"
    using p by (auto simp: progress_def)
  then show none: "pending (migration_files dir) (recorded db1) = []" by (simp add: pending_done)
  fix r2 db2 assume second: "RunMigrations sql dir False db1 = (r2, db2)"
  have "\<forall>n k. sd_faults db1 n \<noteq> Cut k" using assms(1) p by simp
  from run_migrations [OF this, of sql dir] have "progress sql [] db1 (r2, db2)" unfolding second none by simp
  then show "sd_data db2 = sd_data db1" "recorded db2 = recorded db1" by (auto simp: progress_def apply_all_def)
qed

text \<open>A crash between a migration and its record: the next run applies the migration again.\<close>

definition demo_dir :: "(string \<times> string) list" where
  "demo_dir = [(''002.sql'', ''-- +goose Up'' @ [CHR 0x0A] @ ''b''), (''001.sql'', ''-- +goose Up'' @ [CHR 0x0A] @ ''a''),
     (''README'', [])]"

definition demo_sql :: "string \<Rightarrow> string list \<Rightarrow> string list option" where
  "demo_sql stmt texts = Some (texts @ [stmt])"

definition demo_schema :: "(nat \<Rightarrow> fault) \<Rightarrow> string list schema_db" where
  "demo_schema faults = \<lparr>sd_applied = None, sd_data = [], sd_faults = faults, sd_tick = 0\<rparr>"

lemma demo_pending: "map (\<lambda>f. (fst f, stripGooseDirectives (snd f))) (migration_files demo_dir) = [(''001.sql'', ''a''), (''002.sql'', ''b'')]"
  by code_simp

theorem migrations_once_witness:
  "\<exists>db1. RunMigrations demo_sql demo_dir False (demo_schema (\<lambda>_. NoFault)) = (Inr (), db1) \<and>
     sd_data db1 = [''a'', ''b''] \<and>
     (\<forall>r2 db2. RunMigrations demo_sql demo_dir False db1 = (r2, db2) \<longrightarrow> sd_data db2 = [''a'', ''b''])"
proof -
  obtain f1 f2 where f: "migration_files demo_dir = [f1, f2]" "fst f1 = ''001.sql''" "stripGooseDirectives (snd f1) = ''a''"
    "fst f2 = ''002.sql''" "stripGooseDirectives (snd f2) = ''b''"
    using demo_pending by auto
  have "\<exists>db1. RunMigrations demo_sql demo_dir False (demo_schema (\<lambda>_. NoFault)) = (Inr (), db1) \<and> sd_data db1 = [''a'', ''b'']"
    by (simp add: RunMigrations_def mig_then_def mig_exec_def demo_schema_def mig_applied_def f mig_apply_def
        mig_record_def sd_step_def demo_sql_def)
  then obtain db1 where run: "RunMigrations demo_sql demo_dir False (demo_schema (\<lambda>_. NoFault)) = (Inr (), db1)"
    "sd_data db1 = [''a'', ''b'']" by blast
  have "\<forall>n k. sd_faults (demo_schema (\<lambda>_. NoFault)) n \<noteq> Cut k" by (simp add: demo_schema_def)
  from migrations_once [OF this run(1)] show ?thesis using run by auto
qed

lemma migration_applied_twice:
  "\<exists>e db1. RunMigrations demo_sql [hd (migration_files demo_dir)] False
       (demo_schema (\<lambda>n. if n = 3 then Refused else NoFault)) = (Inl e, db1) \<and>
     sd_data (snd (RunMigrations demo_sql [hd (migration_files demo_dir)] False db1)) = [''a'', ''a'']"
proof -
  obtain f1 f2 where f: "migration_files demo_dir = [f1, f2]" "fst f1 = ''001.sql''" "stripGooseDirectives (snd f1) = ''a''"
    using demo_pending by auto
  have "HasSuffix ''001.sql'' ''.sql''" by code_simp
  then have "migration_files [f1] = [f1]" using f(2) by (simp add: migration_files_def sort_by_def case_prod_beta)
  then show ?thesis
    by (simp add: RunMigrations_def mig_then_def mig_exec_def demo_schema_def mig_applied_def f mig_apply_def
        mig_record_def sd_step_def demo_sql_def)
qed

end
