(* ===== verification/Route_Table.thy ===== *)
theory Route_Table
  imports Router_Props
begin

text \<open>No two routes match the same request, so their order does not matter.\<close>

section \<open>Patterns that overlap\<close>

text \<open>Whether some path may match both patterns.\<close>

fun overlap :: "segment list \<Rightarrow> segment list \<Rightarrow> bool" where
  "overlap [] [] \<longleftrightarrow> True"
| "overlap [] (Seg s # qs) \<longleftrightarrow> s = []"
| "overlap (Seg s # ps) [] \<longleftrightarrow> s = []"
| "overlap [] (Par n # qs) \<longleftrightarrow> False"
| "overlap (Par n # ps) [] \<longleftrightarrow> False"
| "overlap (Seg s # ps) (Seg t # qs) \<longleftrightarrow> s = t \<and> overlap ps qs"
| "overlap (Seg s # ps) (Par n # qs) \<longleftrightarrow> overlap ps qs"
| "overlap (Par n # ps) (Seg s # qs) \<longleftrightarrow> overlap ps qs"
| "overlap (Par n # ps) (Par k # qs) \<longleftrightarrow> overlap ps qs"

lemma match_overlap:
  "match_path ps b xs = Some u \<Longrightarrow> match_path qs d xs = Some v \<Longrightarrow> overlap ps qs"
proof (induction ps qs arbitrary: xs u v rule: overlap.induct)
  case (2 s qs)
  then show ?case by (auto split: if_splits)
next
  case (3 s ps)
  then show ?case by (auto split: if_splits)
next
  case (6 s ps t qs)
  then show ?case by (cases xs) (auto split: if_splits)
next
  case (7 s ps n qs)
  then show ?case by (cases xs) (auto split: if_splits)
next
  case (8 n ps s qs)
  then show ?case by (cases xs) (auto split: if_splits)
next
  case (9 n ps k qs)
  then show ?case by (cases xs) (auto split: if_splits)
qed (auto split: if_splits)

definition clash :: "string \<times> segment list \<Rightarrow> string \<times> segment list \<Rightarrow> bool" where
  "clash a b \<longleftrightarrow> fst a = fst b \<and> overlap (snd a) (snd b)"

definition route_key :: "route \<Rightarrow> string \<times> segment list" where
  "route_key t = (ro_method t, ro_pattern t)"

section \<open>The table of the server\<close>

definition org_path :: "segment list \<Rightarrow> segment list" where
  "org_path ps = Seg ''organizations'' # Par ''orgId'' # ps"

definition app_path :: "segment list \<Rightarrow> segment list" where
  "app_path ps = org_path (Seg ''apps'' # Par ''appId'' # ps)"

definition endpoint_path :: "segment list \<Rightarrow> segment list" where
  "endpoint_path ps = app_path (Seg ''endpoints'' # Par ''endpointId'' # ps)"

definition server_keys :: "(string \<times> segment list) list" where
  "server_keys =
     [(''POST'', [Seg ''auth'', Seg ''register'']), (''POST'', [Seg ''auth'', Seg ''login'']),
      (''POST'', [Seg ''auth'', Seg ''refresh'']), (''GET'', [Seg ''me'']), (''GET'', [Seg ''users'']),
      (''GET'', [Seg ''users'', Par ''id'']), (''POST'', [Seg ''roles'', Seg ''assign'']),
      (''POST'', [Seg ''auth'', Seg ''logout'']), (''POST'', [Seg ''auth'', Seg ''logout-all'']),
      (''GET'', [Seg ''auth'', Seg ''sessions'']), (''POST'', [Seg ''organizations'']),
      (''GET'', [Seg ''organizations'']), (''GET'', org_path []), (''POST'', org_path [Seg ''apps'']),
      (''GET'', org_path [Seg ''apps'']), (''GET'', app_path []), (''POST'', app_path [Seg ''keys'']),
      (''GET'', app_path [Seg ''keys'']), (''DELETE'', app_path [Seg ''keys'', Par ''keyId'']),
      (''POST'', app_path [Seg ''endpoints'']), (''GET'', app_path [Seg ''endpoints'']),
      (''GET'', endpoint_path []), (''POST'', endpoint_path [Seg ''retire'']),
      (''POST'', endpoint_path [Seg ''activate'']), (''PUT'', endpoint_path [Seg ''policy'']),
      (''GET'', endpoint_path [Seg ''policy'']), (''POST'', org_path [Seg ''workspaces'']),
      (''GET'', org_path [Seg ''workspaces'']), (''PUT'', org_path [Seg ''workspaces'', Par ''workspaceId'']),
      (''GET'', org_path [Seg ''audit-logs'']), (''GET'', [Seg ''ws'']),
      (''GET'', [Seg ''users'', Par ''userId'', Seg ''audit-logs'']),
      (''POST'', [Seg ''statistics'', Seg ''usage'']), (''GET'', [Seg ''statistics'', Seg ''usage''])]"

lemma server_keys_apart: "sorted_wrt (\<lambda>a b. \<not> clash a b) server_keys"
  by code_simp

lemma server_table:
  assumes "D = buildDependencies K cfg True rd"
  shows "map route_key (public_routes U D @ protected_routes U D) = server_keys"
  unfolding assms
  by (simp add: server_keys_def public_routes_def protected_routes_def iam_routes_def tenant_routes_def
      endpoint_routes_def other_routes_def buildDependencies_def Let_def route_key_def on_get_def on_post_def
      on_put_def on_delete_def endpoint_path_def app_path_def org_path_def)

section \<open>Search\<close>

lemma find_route_None: "find_route ts m xs = None \<longleftrightarrow> (\<forall>t\<in>set ts. route_params t m xs = None)"
  by (induction ts) (auto split: option.splits)

lemma find_route_Some: "find_route ts m xs = Some (t, ps) \<Longrightarrow> t \<in> set ts \<and> route_params t m xs = Some ps"
  by (induction ts) (auto split: option.splits)

lemma params_clash:
  "route_params t m xs = Some u \<Longrightarrow> route_params v m xs = Some w \<Longrightarrow> clash (route_key t) (route_key v)"
  by (auto simp: route_params_def clash_def route_key_def intro: match_overlap split: if_splits)

lemma apart_unique:
  assumes "sorted_wrt (\<lambda>a b. \<not> clash a b) (map route_key ts)"
    and "t \<in> set ts" "v \<in> set ts" "route_params t m xs = Some u" "route_params v m xs = Some w"
  shows "t = v"
proof -
  obtain i where i: "i < length ts" "ts ! i = t" using assms(2) by (auto simp: in_set_conv_nth)
  obtain j where j: "j < length ts" "ts ! j = v" using assms(3) by (auto simp: in_set_conv_nth)
  have apart: "\<not> clash (route_key (ts ! a)) (route_key (ts ! b))" if "a < b" "b < length ts" for a b
    using assms(1) that by (auto simp: sorted_wrt_map sorted_wrt_iff_nth_less)
  have "clash (route_key t) (route_key v)" "clash (route_key v) (route_key t)"
    using assms(4,5) by (auto intro: params_clash)
  then show ?thesis using apart [of i j] apart [of j i] i j by (cases i j rule: linorder_cases) auto
qed

lemma find_route_order:
  assumes "sorted_wrt (\<lambda>a b. \<not> clash a b) (map route_key ts)" and "set vs = set ts"
  shows "find_route vs m xs = find_route ts m xs"
proof (cases "find_route vs m xs")
  case None
  then show ?thesis using assms(2) find_route_None [of vs m xs] find_route_None [of ts m xs] by simp
next
  case (Some r)
  obtain t u where r: "r = (t, u)" by (cases r)
  have t: "t \<in> set ts" "route_params t m xs = Some u"
    using find_route_Some [of vs m xs t u] Some r assms(2) by simp_all
  then have "find_route ts m xs \<noteq> None" using find_route_None [of ts m xs] by auto
  then obtain v w where v: "find_route ts m xs = Some (v, w)" by auto
  have "t = v" using apart_unique [OF assms(1) t(1) _ t(2)] find_route_Some [OF v] by auto
  then show ?thesis using t(2) find_route_Some [OF v] Some r v by simp
qed



end
