(* ===== verification/Startup.thy ===== *)
theory Startup
  imports Kafka_Props Server
begin

text \<open>
  The event bus of a server: \<open>initEventBus\<close> of \<open>cmd/server/main.go\<close>, the topics it makes sure of
  (\<open>admin.go\<close>), and how the Kafka bus is closed (\<open>bus.go\<close>, \<open>consumer.go\<close>). The connections of the
  client library are parameters.
\<close>

section \<open>Topics\<close>

record kafka_admin =
  ka_Dial :: "string \<Rightarrow> (goerr + unit) eff"
  ka_Controller :: "string \<Rightarrow> (goerr + string \<times> int) eff"
  ka_CreateTopics :: "string \<Rightarrow> (string \<times> int \<times> int) list \<Rightarrow> goerr option eff"

definition JoinHostPort :: "string \<Rightarrow> string \<Rightarrow> string" where
  "JoinHostPort host port =
     (if CHR '':'' \<in> set host then ''['' @ host @ '']:'' @ port else host @ '':'' @ port)"

text \<open>The error of \<open>CreateTopics\<close> is logged and forgotten.\<close>

definition EnsureTopics :: "kafka_admin \<Rightarrow> string \<Rightarrow> string list \<Rightarrow> int \<Rightarrow> int \<Rightarrow> (goerr + unit) eff" where
  "EnsureTopics A brokerAddr topics numPartitions replicationFactor =
     try_or (Wrapped ''kafka dial'') (ka_Dial A brokerAddr) (\<lambda>_.
     try_or (Wrapped ''kafka controller'') (ka_Controller A brokerAddr) (\<lambda>(host, port).
     let ctrl = JoinHostPort host (Itoa port)
     in try_or (Wrapped ''kafka controller dial'') (ka_Dial A ctrl) (\<lambda>_. do {
       _ \<leftarrow> ka_CreateTopics A ctrl (map (\<lambda>t. (t, numPartitions, replicationFactor)) topics);
       ok ()
     })))"

section \<open>The bus of the server\<close>

datatype 's event_bus = InProcess "'s InProcessBus" | OverKafka "'s Bus"

definition initEventBus ::
  "kafka_admin \<Rightarrow> (kafka_message \<Rightarrow> goerr option eff) \<Rightarrow> Config \<Rightarrow> 's event_bus eff" where
  "initEventBus A write cfg =
     (let K = cf_Kafka cfg
      in if \<not> kc_Enabled K then ret (InProcess (NewInProcessBus 256))
         else do {
           x \<leftarrow> (case kc_Brokers K of
                  [] \<Rightarrow> ok ()
                | b # _ \<Rightarrow> EnsureTopics A b DefaultTopics (kc_NumPartitions K) (kc_ReplicationFactor K));
           case x of
             Inl _ \<Rightarrow> ret (InProcess (NewInProcessBus 256))
           | Inr _ \<Rightarrow> ret (OverKafka (Bus_Start (NewBus write)))
         })"

text \<open>
  \<open>buildDependencies\<close> subscribes its handlers to the bus it is given. One that is typed for both
  buses: over Kafka it gets the envelope.
\<close>

definition event_bus_Subscribe ::
  "string \<Rightarrow> (bus_event \<Rightarrow> 's \<Rightarrow> (goerr option \<times> 's) option) \<Rightarrow> 's event_bus \<Rightarrow> 's event_bus" where
  "event_bus_Subscribe topic f b =
     (case b of
        InProcess b \<Rightarrow> InProcess (bus_Subscribe topic (\<lambda>ev s. map_option snd (f (Typed ev) s)) b)
      | OverKafka b \<Rightarrow> OverKafka (Bus_Subscribe topic f b))"

text \<open>The loops that hand events to handlers.\<close>

fun kafka_loops :: "'s event_bus \<Rightarrow> (string \<times> 's consumer_handler list) list" where
  "kafka_loops (InProcess b) = []"
| "kafka_loops (OverKafka b) = cs_loops (kb_consumer b)"

lemma loops_fixed: "kafka_loops (fold (\<lambda>(topic, f). event_bus_Subscribe topic f) fs b) = kafka_loops b"
proof (induction fs arbitrary: b)
  case (Cons tf fs)
  have "kafka_loops (event_bus_Subscribe (fst tf) (snd tf) b) = kafka_loops b"
    by (cases b) (simp_all add: event_bus_Subscribe_def Bus_Subscribe_def Consumer_Subscribe_def)
  then show ?case using Cons by (simp add: case_prod_beta)
qed simp

text \<open>Whatever the server subscribes after its start, no event ever reaches a handler over Kafka.\<close>

lemma server_bus_consumes_nothing:
  assumes "run_state (initEventBus A write cfg) w = (b, w')"
  shows "kafka_loops (fold (\<lambda>(topic, f). event_bus_Subscribe topic f) fs b) = []"
proof -
  have "kafka_loops b = []"
    using assms
    by (auto simp: initEventBus_def Let_def run_state_bind Bus_Start_def Consumer_Start_def NewBus_def
        NewConsumer_def split: if_splits prod.splits sum.splits)
  then show ?thesis by (simp add: loops_fixed)
qed

section \<open>The end\<close>

text \<open>\<open>Close\<close> cancels the loops, waits for them and closes the readers; the argument gives what closing one reports.\<close>

definition Consumer_Close :: "(string \<Rightarrow> goerr option) \<Rightarrow> 's Consumer \<Rightarrow> goerr option" where
  "Consumer_Close close c =
     (let errs = List.map_filter (\<lambda>(topic, _). close topic) (cs_loops c)
      in if errs = [] then None
         else Some (Plain (''kafka consumer close errors: ['' @ Join '' '' (map Error_string errs) @ '']'')))"

definition Bus_Close :: "(string \<Rightarrow> goerr option) \<Rightarrow> goerr option \<Rightarrow> 's Bus \<Rightarrow> goerr option" where
  "Bus_Close close producer b =
     (case Consumer_Close close (kb_consumer b) of Some e \<Rightarrow> Some e | None \<Rightarrow> producer)"

text \<open>A loop whose reader is closed ends with its next fetch, whatever it did before.\<close>

lemma closed_loop_ends:
  assumes "\<And>k. cancelled R k \<Longrightarrow> \<exists>e k'. FetchMessage R k = (Inl e, k') \<and> cancelled R k'"
    and "consumeLoop decode R hs n x = Next (k, s)" and "cancelled R k"
  shows "\<exists>y. consumeLoop decode R hs (Suc n) x = Stopped y"
  using assms(2)
proof (induction n arbitrary: x)
  case 0
  then have "x = (k, s)" by simp
  then show ?case using assms(1) [OF assms(3)] assms(1) by (auto simp: consume_step_def)
next
  case (Suc n)
  then obtain x1 where x1: "consume_step decode R hs x = Next x1" by (auto split: looped.splits)
  then have "consumeLoop decode R hs n x1 = Next (k, s)" using Suc.prems by simp
  from Suc.IH [OF this] show ?case using x1 by simp
qed

end
