(* ===== verification/Example.thy ===== *)
theory Example
  imports Dynamic Answers
begin

text \<open>
  The example backend (\<open>internal/gateway/handlers/example_handler.go\<close>), with its canned products. A
  price is written as \<open>encoding/json\<close> writes the number.
\<close>

definition product :: "string \<Rightarrow> string \<Rightarrow> string \<Rightarrow> json" where
  "product i n p = JObj [(''id'', JStr i), (''name'', JStr n), (''price'', JLit p)]"

definition example_handleList :: backend_response where
  "example_handleList =
     dynamic_response 200 (JObj [(''count'', JInt 2), (''data'',
       JArr [product ''1'' ''Product 1'' ''99.99'', product ''2'' ''Product 2'' ''149.99''])])"

definition example_handleGet :: backend_response where
  "example_handleGet = dynamic_response 200 (JObj [(''data'', product ''1'' ''Product 1'' ''99.99'')])"

definition example_handleCreate :: "request \<Rightarrow> backend_response" where
  "example_handleCreate r =
     (case first_members (visible_body r) of
        None \<Rightarrow> errorResponse 400 ''invalid request body''
      | Some kvs \<Rightarrow>
          (let input = (\<lambda>k. case go_map (JObj kvs) of
                 JObj kvs \<Rightarrow> (case map_of kvs k of Some v \<Rightarrow> v | None \<Rightarrow> JNull) | _ \<Rightarrow> JNull)
           in dynamic_response 201 (JObj [(''data'',
                JObj [(''id'', JStr ''new-id''), (''name'', input ''name''), (''price'', input ''price'')])])))"

definition example_handleUpdate :: backend_response where
  "example_handleUpdate = dynamic_response 200 (JObj [(''message'', JStr ''Product updated successfully'')])"

definition example_handleDelete :: backend_response where
  "example_handleDelete = dynamic_response 200 (JObj [(''message'', JStr ''Product deleted successfully'')])"

definition example_handleDefault :: "Endpoint \<Rightarrow> backend_response" where
  "example_handleDefault ep = errorResponse 400 (''Unknown backend action: '' @ e_BackendAction ep)"

definition example_Handle :: backend_handler where
  "example_Handle c ep r =
     ok (Some (if e_BackendAction ep = ''list'' then example_handleList
       else if e_BackendAction ep = ''get'' then example_handleGet
       else if e_BackendAction ep = ''create'' then example_handleCreate r
       else if e_BackendAction ep = ''update'' then example_handleUpdate
       else if e_BackendAction ep = ''delete'' then example_handleDelete
       else example_handleDefault ep))"

end
