(* ===== verification/Dsn.thy ===== *)
theory Dsn
  imports Config Go_Url Json_Props
begin

text \<open>
  \<open>DSN\<close> of \<open>internal/shared/config/config.go\<close>, the URL of the database, with the escapes of
  \<open>net/url\<close>. Whatever the credentials, the URL names the configured host.
\<close>

definition hex_upper :: "nat \<Rightarrow> char" where
  "hex_upper n = ''0123456789ABCDEF'' ! n"

definition percent :: "char \<Rightarrow> string" where
  "percent c = [CHR ''%'', hex_upper (of_char c div 16), hex_upper (of_char c mod 16)]"

definition escape :: "encoding \<Rightarrow> string \<Rightarrow> string" where
  "escape m s = concat (map (\<lambda>c. if shouldEscape m c then percent c else [c]) s)"

definition query_char :: "char \<Rightarrow> string" where
  "query_char c =
     (if c = CHR '' '' then ''+'' else if alnum c \<or> c \<in> set ''-_.~'' then [c] else percent c)"

definition QueryEscape :: "string \<Rightarrow> string" where
  "QueryEscape s = concat (map query_char s)"

definition DSN :: "DatabaseConfig \<Rightarrow> string" where
  "DSN d =
     ''postgres://'' @ escape EncUser (dc_User d) @ '':'' @ escape EncUser (dc_Password d) @ ''@'' @
     escape EncHost (dc_Host d @ '':'' @ Itoa (dc_Port d)) @
     escape EncPath (''/'' @ dc_DBName d) @ ''?sslmode='' @ QueryEscape (dc_SSLMode d)"

section \<open>Escaped texts\<close>

definition plain_char :: "encoding \<Rightarrow> char \<Rightarrow> bool" where
  "plain_char m c \<longleftrightarrow> c = CHR ''%'' \<or> \<not> shouldEscape m c"

lemma hex_upper_facts:
  assumes "n < 16"
  shows "hex_val (hex_upper n) = Some n" "alnum (hex_upper n)"
proof -
  let ?hex = "''0123456789ABCDEF''" and ?ns = "[0,1,2,3,4,5,6,7,8,9,10,11,12,13,14,15] :: nat list"
  have vals: "map hex_val ?hex = map Some ?ns" by code_simp
  have "hex_val (?hex ! n) = map hex_val ?hex ! n" using assms by (subst nth_map) simp_all
  also have "\<dots> = map Some ?ns ! n" by (simp only: vals)
  also have "\<dots> = Some (?ns ! n)" using assms by (subst nth_map) simp_all
  also have "?ns ! n = n"
  proof -
    have "?ns = [0..<16]" by (simp add: upt_rec)
    then show ?thesis using assms by (metis add_0 nth_upt)
  qed
  finally show "hex_val (hex_upper n) = Some n" by (simp add: hex_upper_def)
  have "list_all alnum ''0123456789ABCDEF''" by code_simp
  moreover have "hex_upper n \<in> set ''0123456789ABCDEF''"
    unfolding hex_upper_def using assms by (intro nth_mem) simp
  ultimately show "alnum (hex_upper n)" unfolding list_all_iff by blast
qed

lemma of_char_digits: "(of_char c :: nat) div 16 < 16" "(of_char c :: nat) mod 16 < 16"
  using nat_of_char_less_256 [of c] less_mult_imp_div_less [of "of_char c :: nat" 16 16] by simp_all

lemma plain_percent: "x \<in> set (percent c) \<Longrightarrow> x = CHR ''%'' \<or> alnum x"
  using hex_upper_facts of_char_digits by (auto simp: percent_def)

lemma alnum_plain: "alnum c \<Longrightarrow> \<not> shouldEscape m c"
  by (simp add: shouldEscape_def)

lemma plain_escape: "x \<in> set (escape m s) \<Longrightarrow> plain_char m x"
  by (auto simp: escape_def plain_char_def split: if_splits dest: plain_percent alnum_plain)

lemma escape_Cons: "escape m (c # s) = (if shouldEscape m c then percent c else [c]) @ escape m s"
  by (simp add: escape_def)

lemma shouldEscape_percent: "shouldEscape m CHR ''%''"
  by (cases m) (simp_all, code_simp+)

lemma unescapes_percent: "m = EncUser \<or> m = EncPath \<Longrightarrow> unescapes m (percent c @ s) = unescapes m s"
  using hex_upper_facts of_char_digits [of c] by (auto simp: percent_def)

lemma unescapes_plain: "m = EncUser \<or> m = EncPath \<Longrightarrow> c \<noteq> CHR ''%'' \<Longrightarrow> unescapes m (c # s) = unescapes m s"
  by auto

lemma unescapes_escape:
  assumes "m = EncUser \<or> m = EncPath"
  shows "unescapes m (escape m s @ t) = unescapes m t"
proof (induction s)
  case (Cons c s)
  show ?case
  proof (cases "shouldEscape m c")
    case True
    then show ?thesis using Cons unescapes_percent [OF assms] by (simp add: escape_Cons)
  next
    case False
    then have "c \<noteq> CHR ''%''" using shouldEscape_percent by auto
    then show ?thesis using Cons False unescapes_plain [OF assms] by (simp add: escape_Cons)
  qed
qed (simp add: escape_def)

text \<open>What an escaped text does not contain.\<close>

definition marks :: string where
  "marks = host_chars @ ''-_.~$&+,/:;=?@!()*%''"

lemma plain_marks: "plain_char m c \<Longrightarrow> alnum c \<or> c \<in> set marks"
  unfolding plain_char_def shouldEscape_def marks_def set_append by auto

lemma marks_visible: "c \<in> set marks \<Longrightarrow> 32 < (of_char c :: nat) \<and> (of_char c :: nat) < 127"
proof -
  have "list_all (\<lambda>c. 32 < (of_char c :: nat) \<and> (of_char c :: nat) < 127) marks" by code_simp
  then show "c \<in> set marks \<Longrightarrow> ?thesis" by (simp add: list_all_iff)
qed

lemma visible: "plain_char m c \<Longrightarrow> 32 < (of_char c :: nat) \<and> (of_char c :: nat) < 127"
  using plain_marks [of m c] marks_visible [of c]
  by (auto simp: alnum_def is_upper_def is_lower_def is_digit_def Let_def)

lemma hash_escaped: "plain_char m c \<Longrightarrow> c \<noteq> CHR ''#''"
proof -
  have "shouldEscape m CHR ''#''" by (cases m) (simp_all, code_simp+)
  then show "plain_char m c \<Longrightarrow> ?thesis" by (auto simp: plain_char_def)
qed

lemma user_escaped: "plain_char EncUser c \<Longrightarrow> c \<notin> set ''/?@:''"
proof -
  have "list_all (shouldEscape EncUser) ''/?@:''" by code_simp
  then show "plain_char EncUser c \<Longrightarrow> ?thesis" by (auto simp: plain_char_def)
qed

lemma user_valid: "plain_char EncUser c \<Longrightarrow> validUserinfo [c]"
  unfolding plain_char_def shouldEscape_def validUserinfo_def by auto

lemma validUserinfo_all: "validUserinfo s = list_all (\<lambda>c. validUserinfo [c]) s"
  by (simp only: validUserinfo_def list_all_iff list.set ball_simps simp_thms)

lemma validUserinfo_append: "validUserinfo (s @ t) = (validUserinfo s \<and> validUserinfo t)"
  by (simp only: validUserinfo_def list_all_append)

lemma path_escaped: "plain_char EncPath c \<Longrightarrow> c \<noteq> CHR ''?''"
proof -
  have "shouldEscape EncPath CHR ''?''" by code_simp
  then show "plain_char EncPath c \<Longrightarrow> ?thesis" by (auto simp: plain_char_def)
qed

lemma query_plain: "alnum c \<or> c \<in> set ''-_.~'' \<or> c = CHR ''+'' \<Longrightarrow> plain_char EncFragment c"
  unfolding plain_char_def shouldEscape_def by auto

lemma query_chars: "x \<in> set (QueryEscape s) \<Longrightarrow> plain_char EncFragment x"
proof -
  assume "x \<in> set (QueryEscape s)"
  then obtain c where "x \<in> set (query_char c)" unfolding QueryEscape_def set_concat set_map by blast
  then have "x = CHR ''%'' \<or> alnum x \<or> x \<in> set ''-_.~'' \<or> x = CHR ''+''"
    by (auto simp: query_char_def split: if_splits dest: plain_percent)
  then show ?thesis using query_plain unfolding plain_char_def by blast
qed

section \<open>The host of the URL\<close>

definition plain_host :: "string \<Rightarrow> bool" where
  "plain_host h \<longleftrightarrow> list_all (\<lambda>c. alnum c \<or> c \<in> set ''-.'') h"

definition host_char :: "char \<Rightarrow> bool" where
  "host_char c \<longleftrightarrow> alnum c \<or> c \<in> set ''-.:''"

lemma host_char_plain: "host_char c \<Longrightarrow> \<not> shouldEscape EncHost c"
proof -
  have "list_all (\<lambda>c. \<not> shouldEscape EncHost c) ''-.:''" by code_simp
  then show "host_char c \<Longrightarrow> ?thesis" by (auto simp: host_char_def alnum_plain)
qed

lemma host_char_not: "list_all (\<lambda>c. \<not> host_char c) ''%/?@[''"
  by code_simp

lemma unescapes_host: "list_all host_char h \<Longrightarrow> unescapes EncHost h"
proof (induction h)
  case (Cons c h)
  then have "c \<noteq> CHR ''%''" "\<not> shouldEscape EncHost c" using host_char_not host_char_plain by auto
  then show ?case using Cons by simp
qed simp

lemma escape_host: "list_all host_char h \<Longrightarrow> escape EncHost h = h"
  by (induction h) (auto simp: escape_def dest: host_char_plain)

lemma after_last_append: "c \<notin> set t \<Longrightarrow> after_last c (s @ c # t) = t"
  by (simp add: after_last_def takeWhile_append)

lemma before_last_append: "c \<notin> set t \<Longrightarrow> before_last c (s @ c # t) = Some s"
  by (simp add: before_last_def dropWhile_append)

lemma digits_host: "list_all is_digit ds \<Longrightarrow> list_all host_char ds \<and> CHR '':'' \<notin> set ds"
  by (induction ds) (auto simp: host_char_def alnum_def is_digit_def)

lemma plain_host_char: "plain_host h \<Longrightarrow> list_all host_char h"
  by (auto simp: plain_host_def host_char_def list_all_iff)

lemma port_digits: "n \<ge> 0 \<Longrightarrow> list_all is_digit (Itoa n)"
  by (simp add: Itoa_def list_all_iff nat_digits_digits [unfolded list_all_iff])

lemma parseAuthority_dsn:
  assumes "plain_host h" "h \<noteq> []" "n \<ge> 0"
  shows "parseAuthority (escape EncUser u @ '':'' @ escape EncUser p @ ''@'' @ h @ '':'' @ Itoa n) = Some (h @ '':'' @ Itoa n)"
proof -
  let ?h = "h @ '':'' @ Itoa n" and ?u = "escape EncUser u @ '':'' @ escape EncUser p"
  have ds: "list_all is_digit (Itoa n)" "list_all host_char (Itoa n)" "CHR '':'' \<notin> set (Itoa n)"
    using port_digits [OF assms(3)] digits_host by auto
  have hc: "list_all host_char ?h"
    using plain_host_char [OF assms(1)] ds by (auto simp: host_char_def)
  then have at: "CHR ''@'' \<notin> set ?h" and br: "CHR ''['' \<notin> set ?h"
    using host_char_not unfolding list_all_iff by auto
  obtain c r where c: "h = c # r" using assms(2) by (cases h) auto
  have "parseHost ?h = Some ?h"
    using ds unescapes_host [OF hc] br after_last_append [of "CHR '':''" "Itoa n" h] by (auto simp: parseHost_def c)
  moreover have "validUserinfo ?u"
  proof -
    have "validUserinfo (escape EncUser t)" for t
      by (subst validUserinfo_all) (use user_valid plain_escape in \<open>unfold list_all_iff, blast\<close>)
    moreover have "validUserinfo '':''" by code_simp
    ultimately show ?thesis unfolding validUserinfo_append by simp
  qed
  moreover have "unescapes EncUser ?u" 
    using unescapes_escape [of EncUser p "[]"] by (simp add: unescapes_escape)
  moreover have "after_last CHR ''@'' (?u @ ''@'' @ ?h) = ?h" "before_last CHR ''@'' (?u @ ''@'' @ ?h) = Some ?u"
    using after_last_append [OF at, of ?u] before_last_append [OF at, of ?u] by simp_all
  ultimately show ?thesis by (simp add: parseAuthority_def)
qed

lemma getScheme_postgres: "getScheme (''postgres:'' @ t) = Some (''postgres'', t)"
proof -
  have "list_all scheme_char ''postgres''" "\<not> scheme_char CHR '':''" "\<not> is_digit CHR ''p''" by code_simp+
  then show ?thesis by (simp add: getScheme_def)
qed

lemma cut_append: "c \<notin> set s \<Longrightarrow> cut c (s @ c # t) = (s, t)" 
  by (simp add: cut_def takeWhile_append dropWhile_append)

lemma cut_none: "c \<notin> set s \<Longrightarrow> cut c s = (s, [])"
  unfolding cut_def by (subst dropWhile_eq_Nil_conv [THEN iffD2]) (auto simp: takeWhile_eq_all_conv)

text \<open>
  The host of the URL is the configured one, whatever the user, the password, the name of the
  database and the mode are.
\<close>

theorem dsn_host:
  assumes "plain_host (dc_Host d)" "dc_Host d \<noteq> []" "dc_Port d \<ge> 0"
  shows "url_Parse (DSN d) = Some (''postgres'', dc_Host d @ '':'' @ Itoa (dc_Port d))"
proof -
  let ?h = "dc_Host d @ '':'' @ Itoa (dc_Port d)"
  let ?auth = "escape EncUser (dc_User d) @ '':'' @ escape EncUser (dc_Password d) @ ''@'' @ ?h"
  let ?path = "escape EncPath (dc_DBName d)" and ?q = "''sslmode='' @ QueryEscape (dc_SSLMode d)"
  have hc: "list_all host_char ?h"
    using plain_host_char [OF assms(1)] digits_host [OF port_digits [OF assms(3)]] by (simp add: host_char_def)
  have dsn: "DSN d = ''postgres:'' @ ''//'' @ ?auth @ ''/'' @ ?path @ ''?'' @ ?q"
  proof -
    have "\<not> shouldEscape EncPath CHR ''/''" by code_simp
    then show ?thesis using escape_host [OF hc] by (simp add: DSN_def escape_Cons)
  qed
  have hp: "plain_char EncHost c" if "c \<in> set ?h" for c
    using that hc host_char_plain unfolding list_all_iff plain_char_def by blast
  have plain: "\<exists>m. plain_char m c" if "c \<in> set (DSN d)" for c
  proof -
    let ?P = "\<lambda>c. \<exists>m. plain_char m c"
    have lit: "list_all (\<lambda>c. \<not> shouldEscape EncFragment c) l \<Longrightarrow> list_all ?P l" for l
      unfolding list_all_iff plain_char_def by blast
    have "list_all ?P (escape m t)" "list_all ?P (QueryEscape t)" "list_all ?P ?h" for m t
      unfolding list_all_iff using plain_escape query_chars hp by blast+
    moreover have "list_all ?P ''postgres:''" "list_all ?P ''//''" "list_all ?P '':''" "list_all ?P ''@''"
      "list_all ?P ''/''" "list_all ?P ''?''" "list_all ?P ''sslmode=''"
      by (rule lit, code_simp)+
    ultimately have "list_all ?P (DSN d)" unfolding dsn list_all_append by blast
    then show ?thesis using that unfolding list_all_iff by blast
  qed
  have vis: "list_ex (\<lambda>c. (of_char c :: nat) < 32 \<or> c = CHR 0x7F) (DSN d) = False"
    using plain visible by (fastforce simp: list_ex_iff)
  have "CHR ''#'' \<notin> set (DSN d)" using plain hash_escaped by blast
  then have c1: "cut (CHR ''#'') (DSN d) = (DSN d, [])" by (rule cut_none)
  have "CHR ''?'' \<notin> set (''//'' @ ?auth @ ''/'' @ ?path)"
    using plain_escape [of "CHR ''?''"] user_escaped [of "CHR ''?''"] path_escaped hc host_char_not
    by (auto simp: list_all_iff)
  from cut_append [OF this, of ?q]
  have c2: "cut (CHR ''?'') (''//'' @ ?auth @ ''/'' @ ?path @ ''?'' @ ?q) = (''//'' @ ?auth @ ''/'' @ ?path, ?q)"
    by simp
  have "CHR ''/'' \<notin> set ?auth"
    using plain_escape [of "CHR ''/''"] user_escaped [of "CHR ''/''"] hc host_char_not by (auto simp: list_all_iff)
  then have tw: "takeWhile (\<lambda>c. c \<noteq> CHR ''/'') (?auth @ CHR ''/'' # ?path) = ?auth"
    "dropWhile (\<lambda>c. c \<noteq> CHR ''/'') (?auth @ CHR ''/'' # ?path) = CHR ''/'' # ?path"
    by (simp_all add: takeWhile_append dropWhile_append)
  have "unescapes EncPath (CHR ''/'' # ?path)" using unescapes_escape [of EncPath _ "[]"] by simp
  moreover have "ToLower ''postgres'' = ''postgres''" by code_simp
  ultimately show ?thesis
    using parseAuthority_dsn [OF assms, of "dc_User d" "dc_Password d"] vis c1 c2 tw
      getScheme_postgres [of "''//'' @ ?auth @ ''/'' @ ?path @ ''?'' @ ?q"]
    unfolding url_Parse_def by (simp add: dsn HasPrefix_def)
qed

end
