(* ===== verification/Pumps.thy ===== *)
theory Pumps
  imports Hub_Claims
begin

text \<open>
  The two loops of a WebSocket session, \<open>writePump\<close> and \<open>readPump\<close> of
  \<open>internal/infrastructure/websocket/client.go\<close>, started by \<open>Session.Start\<close>. They run at the same
  time, and beside them whatever the program does to the hub: a run of the session is a sequence of
  labelled steps. Whether a write or a read fails is part of the label.
\<close>

section \<open>Channels only grow\<close>

text \<open>What the operations of the hub can do to a channel: append to it while it is open, and close it.\<close>

definition chan_grows :: "channel \<Rightarrow> channel \<Rightarrow> bool" where
  "chan_grows c d \<longleftrightarrow>
     prefix (ch_buf c) (ch_buf d) \<and> (ch_closed c \<longrightarrow> ch_closed d \<and> ch_buf d = ch_buf c)"

definition chans_grow :: "Hub \<Rightarrow> Hub \<Rightarrow> bool" where
  "chans_grow h h' \<longleftrightarrow>
     length (h_chans h) \<le> length (h_chans h') \<and>
     (\<forall>i < length (h_chans h). chan_grows (h_chans h ! i) (h_chans h' ! i))"

lemma chan_grows_refl [simp]: "chan_grows c c"
  by (simp add: chan_grows_def)

lemma chan_grows_trans: "chan_grows c d \<Longrightarrow> chan_grows d e \<Longrightarrow> chan_grows c e"
  by (auto simp: chan_grows_def intro: prefix_order.trans)

lemma chans_grow_same: "h_chans h' = h_chans h \<Longrightarrow> chans_grow h h'"
  by (simp add: chans_grow_def)

lemma chans_grow_trans: "chans_grow h g \<Longrightarrow> chans_grow g k \<Longrightarrow> chans_grow h k"
  unfolding chans_grow_def by (meson chan_grows_trans le_trans less_le_trans)

lemma chans_grow_update:
  assumes "chan_grows (h_chans h ! i) c"
  shows "chans_grow h (h\<lparr>h_chans := (h_chans h)[i := c]\<rparr>)"
proof -
  have "chan_grows (h_chans h ! k) ((h_chans h)[i := c] ! k)" if "k < length (h_chans h)" for k
    using assms that by (cases "k = i") simp_all
  then show ?thesis by (simp add: chans_grow_def)
qed

lemma chans_grow_try_send: "try_send i p h = Some h' \<Longrightarrow> chans_grow h h'"
proof -
  assume send: "try_send i p h = Some h'"
  show ?thesis
  proof (cases "length (ch_buf (h_chans h ! i)) < ch_cap (h_chans h ! i)")
    case True
    have "chans_grow h (h\<lparr>h_chans := (h_chans h)[i := (h_chans h ! i)\<lparr>ch_buf := ch_buf (h_chans h ! i) @ [p]\<rparr>]\<rparr>)"
      if "\<not> ch_closed (h_chans h ! i)"
      using that by (intro chans_grow_update) (simp add: chan_grows_def)
    then show ?thesis using send True by (auto simp: try_send_def Let_def split: if_splits)
  next
    case False
    then have "h' = h" using send by (auto simp: try_send_def Let_def split: if_splits)
    then show ?thesis by (simp add: chans_grow_same)
  qed
qed

lemma chans_grow_close_chan: "close_chan i h = Some h' \<Longrightarrow> chans_grow h h'"
  by (auto simp: close_chan_def chan_grows_def split: if_splits intro!: chans_grow_update)

lemma chans_grow_closeSend:
  assumes "closeSend r h = Some h'"
  shows "chans_grow h h'"
proof (cases "c_closed (h_objs h ! r)")
  case True
  then have "h' = h" using assms by (simp add: closeSend_def)
  then show ?thesis by (simp add: chans_grow_same)
next
  case False
  then have "chans_grow (set_obj r (\<lambda>c. c\<lparr>c_closed := True\<rparr>) h) h'"
    using assms by (intro chans_grow_close_chan [of "c_send (h_objs h ! r)"]) (simp add: closeSend_def Let_def)
  then show ?thesis by (simp add: chans_grow_def)
qed

lemma chans_grow_fold:
  assumes "\<And>x h h'. f x h = Some h' \<Longrightarrow> chans_grow h h'"
  shows "fold_opt f xs h = Some h' \<Longrightarrow> chans_grow h h'"
proof (induction xs arbitrary: h)
  case (Cons x xs)
  then obtain g where "f x h = Some g" "fold_opt f xs g = Some h'" by (auto simp: Option.bind_eq_Some_conv)
  then show ?case using assms Cons.IH chans_grow_trans by blast
qed (simp add: chans_grow_same)

lemma chans_grow_broadcast: "broadcastLocked room p h = Some h' \<Longrightarrow> chans_grow h h'"
  unfolding broadcastLocked_def
  by (auto split: if_splits option.splits intro: chans_grow_same
      elim!: chans_grow_fold [rotated] dest: chans_grow_try_send)

lemma chans_grow_removeClient: "removeClient U r h = Some h' \<Longrightarrow> chans_grow h h'"
  using chans_grow_closeSend [of r "fold (leave_room U (h_objs h ! r)) (c_rooms (h_objs h ! r))
      (h\<lparr>h_clients := AList.delete (c_id (h_objs h ! r)) (h_clients h)\<rparr>)" h']
    chans_grow_trans [OF chans_grow_same]
  by (auto simp: removeClient_def Let_def chans_grow_def split: if_splits)

lemma chans_grow_session_end: "session_end U r unreg h = Some h' \<Longrightarrow> chans_grow h h'"
  by (auto simp: session_end_def unregister_def Option.bind_eq_Some_conv split: option.splits
      intro: chans_grow_removeClient chans_grow_trans)

lemma chans_grow_Register:
  assumes "Hub_Register U info k h = Some (u, h')"
  shows "chans_grow h h'"
proof -
  consider "h' = h" | "close_chan k h = Some h'" | "h_chans h' = h_chans h"
    using assms by (auto simp: Hub_Register_def Let_def split: if_splits sum.splits)
  then show ?thesis by cases (simp_all add: chans_grow_same chans_grow_close_chan)
qed

text \<open>All operations of the hub but the receipt of a message.\<close>

lemma chans_grow_op:
  assumes "run_hub_op U opn h = Some h'" and "\<forall>cid. opn \<noteq> OpReceive cid"
  shows "chans_grow h h'"
proof (cases opn)
  case (OpConnect info)
  let ?g = "snd (make_chan 64 h)"
  obtain u where "Hub_Register U info (length (h_chans h)) ?g = Some (u, h')"
    using assms(1) OpConnect by (auto simp: make_chan_def)
  then have "chans_grow ?g h'" by (rule chans_grow_Register)
  moreover have "chans_grow h ?g" by (simp add: chans_grow_def make_chan_def nth_append)
  ultimately show ?thesis using chans_grow_trans by blast
next
  case (OpUnregister cid)
  then show ?thesis using assms(1)
    by (auto simp: unregister_def split: option.splits intro: chans_grow_same chans_grow_removeClient)
next
  case (OpSubscribe cid chan)
  then show ?thesis using assms(1)
    by (auto simp: Subscribe_def Let_def split: option.splits sum.splits intro!: chans_grow_same)
next
  case (OpUnsubscribe cid chan)
  then show ?thesis using assms(1)
    by (auto simp: Unsubscribe_def removeFromRoomLocked_def client_unsubscribe_def Let_def
        split: option.splits sum.splits intro!: chans_grow_same)
next
  case (OpSend cid p)
  then show ?thesis using assms(1)
    by (auto simp: SendToClient_def split: option.splits if_splits intro: chans_grow_same chans_grow_try_send)
next
  case (OpBroadcast room p)
  then show ?thesis using assms(1) by (auto simp: Broadcast_def intro: chans_grow_broadcast)
next
  case (OpBroadcastOrg g chan p)
  then show ?thesis using assms(1)
    by (auto simp: BroadcastToOrganization_def elim!: chans_grow_fold [rotated] dest: chans_grow_broadcast)
next
  case (OpReceive cid)
  then show ?thesis using assms(2) by simp
next
  case OpClose
  then obtain g where "fold_opt (\<lambda>(_, r). closeSend r) (h_clients h) (h\<lparr>h_closed := True\<rparr>) = Some g"
    "h_chans h' = h_chans g"
    using assms(1) by (auto simp: Close_def)
  moreover from this have "chans_grow (h\<lparr>h_closed := True\<rparr>) g"
    by (elim chans_grow_fold [rotated]) (auto intro: chans_grow_closeSend)
  ultimately show ?thesis by (simp add: chans_grow_def)
qed

section \<open>A session\<close>

datatype frame = Text string | Ping | CloseFrame

text \<open>
  The state of a session on the channel \<open>i\<close>: the hub, whether the connection is open, which loops
  run, what was written to the connection and what its client sent. \<open>cn_accepted\<close> collects the
  messages the channel has taken, for the theorems only.
\<close>

record connection =
  cn_hub :: Hub
  cn_open :: bool
  cn_writer :: bool
  cn_reader :: bool
  cn_wire :: "frame list"
  cn_actions :: "string list"
  cn_accepted :: "string list"

text \<open>
  The steps: an operation of the hub, another session's write loop, a turn of \<open>writePump\<close> for a
  message (or for the end of the channel), its ping, a message read, and the end of \<open>readPump\<close>. The
  flag says whether the write succeeds.
\<close>

datatype conn_label = ByHub hub_op | ByOther nat | Turn bool | PingTurn bool | ReadMessage string | ReadFails

definition chan_of :: "nat \<Rightarrow> connection \<Rightarrow> channel" where
  "chan_of i s = h_chans (cn_hub s) ! i"

definition stop_writer :: "connection \<Rightarrow> connection" where
  "stop_writer s = s\<lparr>cn_writer := False, cn_open := False\<rparr>"

definition wrote :: "bool \<Rightarrow> frame \<Rightarrow> connection \<Rightarrow> connection" where
  "wrote good f s = (if good \<and> cn_open s then s\<lparr>cn_wire := cn_wire s @ [f]\<rparr> else stop_writer s)"

text \<open>One turn of the loop of \<open>writePump\<close> in the case of the channel, if it is ready.\<close>

definition write_turn :: "nat \<Rightarrow> bool \<Rightarrow> connection \<Rightarrow> connection option" where
  "write_turn i good s =
     (case receive i (cn_hub s) of
        (Some p, h) \<Rightarrow> Some (wrote good (Text p) (s\<lparr>cn_hub := h\<rparr>))
      | (None, _) \<Rightarrow> if ch_closed (chan_of i s) then Some (stop_writer (wrote good CloseFrame s)) else None)"

definition with_hub :: "nat \<Rightarrow> Hub \<Rightarrow> connection \<Rightarrow> connection" where
  "with_hub i h s =
     s\<lparr>cn_hub := h, cn_accepted := cn_accepted s @ drop (length (ch_buf (chan_of i s))) (ch_buf (h_chans h ! i))\<rparr>"

inductive conn_step :: "uuid_api \<Rightarrow> nat \<Rightarrow> nat \<Rightarrow> nat option \<Rightarrow> connection \<Rightarrow> conn_label \<Rightarrow> connection \<Rightarrow> bool"
  for U :: uuid_api and i :: nat and r :: nat and unreg :: "nat option"
where
  hub: "run_hub_op U opn (cn_hub s) = Some h \<Longrightarrow> \<forall>cid. opn \<noteq> OpReceive cid \<Longrightarrow>
    conn_step U i r unreg s (ByHub opn) (with_hub i h s)"
| other: "j \<noteq> i \<Longrightarrow> conn_step U i r unreg s (ByOther j) (s\<lparr>cn_hub := snd (receive j (cn_hub s))\<rparr>)"
| turn: "cn_writer s \<Longrightarrow> write_turn i good s = Some t \<Longrightarrow> conn_step U i r unreg s (Turn good) t"
| ping: "cn_writer s \<Longrightarrow> conn_step U i r unreg s (PingTurn good) (wrote good Ping s)"
| read: "cn_reader s \<Longrightarrow> cn_open s \<Longrightarrow>
    conn_step U i r unreg s (ReadMessage m) (s\<lparr>cn_actions := cn_actions s @ [m]\<rparr>)"
| read_fails: "cn_reader s \<Longrightarrow> session_end U r unreg (cn_hub s) = Some h \<Longrightarrow>
    conn_step U i r unreg s ReadFails (with_hub i h (s\<lparr>cn_reader := False\<rparr>))"

inductive_cases conn_stepE: "conn_step U i r unreg s l t"

inductive conn_run :: "uuid_api \<Rightarrow> nat \<Rightarrow> nat \<Rightarrow> nat option \<Rightarrow> connection \<Rightarrow> conn_label list \<Rightarrow> connection \<Rightarrow> bool"
  for U :: uuid_api and i :: nat and r :: nat and unreg :: "nat option" and s :: connection
where
  start: "conn_run U i r unreg s [] s"
| step: "conn_run U i r unreg s ls t \<Longrightarrow> conn_step U i r unreg t l v \<Longrightarrow> conn_run U i r unreg s (ls @ [l]) v"

text \<open>\<open>Session.Start\<close>: both loops run, on a fresh connection.\<close>

definition session_start :: "Hub \<Rightarrow> nat \<Rightarrow> connection" where
  "session_start h i =
     \<lparr>cn_hub = h, cn_open = True, cn_writer = True, cn_reader = True, cn_wire = [], cn_actions = [],
      cn_accepted = ch_buf (h_chans h ! i)\<rparr>"

section \<open>What reaches the client\<close>

definition texts :: "frame list \<Rightarrow> string list" where
  "texts fs = List.map_filter (\<lambda>f. case f of Text p \<Rightarrow> Some p | _ \<Rightarrow> None) fs"

lemma texts_simps [simp]:
  "texts [] = []" "texts (fs @ [Text p]) = texts fs @ [p]" "texts (fs @ [Ping]) = texts fs"
  "texts (fs @ [CloseFrame]) = texts fs"
  by (simp_all add: texts_def map_filter_def)

text \<open>
  The invariant: what was written, a message lost with the end of the loop, and what is still
  in the channel are together the messages the channel took, in their order.
\<close>

definition delivered :: "nat \<Rightarrow> connection \<Rightarrow> bool" where
  "delivered i s \<longleftrightarrow>
     i < length (h_chans (cn_hub s)) \<and> (cn_writer s \<longrightarrow> CloseFrame \<notin> set (cn_wire s)) \<and>
     (\<exists>lost. cn_accepted s = texts (cn_wire s) @ lost @ ch_buf (chan_of i s) \<and> length lost \<le> 1 \<and>
        (cn_writer s \<longrightarrow> lost = []))"

lemma delivered_start: "i < length (h_chans h) \<Longrightarrow> delivered i (session_start h i)"
  by (simp add: delivered_def session_start_def chan_of_def)

lemma delivered_grow:
  assumes "delivered i s" "chans_grow (cn_hub s) h"
  shows "delivered i (with_hub i h s)"
proof -
  have i: "i < length (h_chans (cn_hub s))" using assms(1) by (simp add: delivered_def)
  then have "chan_grows (chan_of i s) (h_chans h ! i)" "i < length (h_chans h)"
    using assms(2) by (auto simp: chans_grow_def chan_of_def)
  moreover from this obtain zs where "ch_buf (h_chans h ! i) = ch_buf (chan_of i s) @ zs"
    by (auto simp: chan_grows_def prefix_def)
  ultimately show ?thesis using assms(1) by (auto simp: delivered_def with_hub_def chan_of_def)
qed

lemma delivered_wrote: "f \<noteq> CloseFrame \<Longrightarrow> texts [f] = [] \<Longrightarrow> delivered i s \<Longrightarrow> delivered i (wrote good f s)"
  by (cases f) (auto simp: delivered_def wrote_def stop_writer_def chan_of_def texts_def map_filter_def)

lemma receive_cases:
  assumes "i < length (h_chans h)"
  obtains "ch_buf (h_chans h ! i) = []" "receive i h = (None, h)"
  | p ps where "ch_buf (h_chans h ! i) = p # ps" "fst (receive i h) = Some p"
      "h_chans (snd (receive i h)) = (h_chans h)[i := (h_chans h ! i)\<lparr>ch_buf := ps\<rparr>]"
  using that by (cases "ch_buf (h_chans h ! i)") (auto simp: receive_def)

lemma delivered_turn:
  assumes "delivered i s" "cn_writer s" "write_turn i good s = Some t"
  shows "delivered i t"
proof -
  have i: "i < length (h_chans (cn_hub s))" using assms(1) by (simp add: delivered_def)
  show ?thesis
  proof (cases rule: receive_cases [OF i])
    case 1
    then have "t = stop_writer (wrote good CloseFrame s)"
      using assms(3) by (simp add: write_turn_def split: if_splits)
    then show ?thesis using assms(1,2) by (auto simp: delivered_def wrote_def stop_writer_def chan_of_def)
  next
    case (2 p ps)
    then have "t = wrote good (Text p) (s\<lparr>cn_hub := snd (receive i (cn_hub s))\<rparr>)"
      using assms(3) by (simp add: write_turn_def split: prod.splits)
    then show ?thesis using assms(1,2) 2 i
      by (auto simp: delivered_def wrote_def stop_writer_def chan_of_def)
  qed
qed

lemma receive_other: "j \<noteq> i \<Longrightarrow> h_chans (snd (receive j h)) ! i = h_chans h ! i"
  "length (h_chans (snd (receive j h))) = length (h_chans h)"
  by (auto simp: receive_def split: list.splits)

lemma delivered_step: "conn_step U i r unreg s l t \<Longrightarrow> delivered i s \<Longrightarrow> delivered i t"
proof (induction rule: conn_step.induct)
  case (hub opn s h)
  then show ?case using delivered_grow chans_grow_op by blast
next
  case (other j s)
  then show ?case by (simp add: delivered_def chan_of_def receive_other)
next
  case (turn s good t)
  then show ?case using delivered_turn by blast
next
  case (ping s good)
  then show ?case by (simp add: delivered_wrote texts_def map_filter_def)
next
  case (read s m)
  then show ?case by (simp add: delivered_def chan_of_def)
next
  case (read_fails s h)
  have "delivered i (s\<lparr>cn_reader := False\<rparr>)" using read_fails by (simp add: delivered_def chan_of_def)
  then show ?case using delivered_grow chans_grow_session_end [OF read_fails(2)] by simp
qed

lemma delivered_run: "conn_run U i r unreg s ls t \<Longrightarrow> delivered i s \<Longrightarrow> delivered i t"
  by (induction rule: conn_run.induct) (auto intro: delivered_step)

section \<open>The end of a session\<close>

text \<open>
  A turn for every message that is left, and one for the end: pings apart, a write loop on a closed
  channel has no more than that to do.
\<close>

definition turns :: "conn_label list \<Rightarrow> nat" where
  "turns ls = length (filter (\<lambda>l. case l of Turn _ \<Rightarrow> True | _ \<Rightarrow> False) ls)"

definition work :: "nat \<Rightarrow> connection \<Rightarrow> nat" where
  "work i s = (if cn_writer s then Suc (length (ch_buf (chan_of i s))) else 0)"

lemma closed_grow:
  assumes "chans_grow (cn_hub s) h" "ch_closed (chan_of i s)" "i < length (h_chans (cn_hub s))"
  shows "ch_closed (h_chans h ! i) \<and> i < length (h_chans h) \<and> ch_buf (h_chans h ! i) = ch_buf (chan_of i s)"
  using assms by (auto simp: chans_grow_def chan_grows_def chan_of_def)

lemmas pump_defs = with_hub_def wrote_def stop_writer_def chan_of_def work_def turns_def

lemma closed_turn:
  assumes "cn_writer s" "write_turn i good s = Some t" "ch_closed (chan_of i s)" "i < length (h_chans (cn_hub s))"
  shows "ch_closed (chan_of i t) \<and> i < length (h_chans (cn_hub t)) \<and> Suc (work i t) \<le> work i s"
proof (cases rule: receive_cases [OF assms(4)])
  case 1
  then have "t = stop_writer (wrote good CloseFrame s)"
    using assms(2) by (simp add: write_turn_def split: if_splits)
  then show ?thesis using assms by (simp add: pump_defs)
next
  case (2 p ps)
  then have "t = wrote good (Text p) (s\<lparr>cn_hub := snd (receive i (cn_hub s))\<rparr>)"
    using assms(2) by (simp add: write_turn_def split: prod.splits)
  then show ?thesis using assms 2 by (simp add: pump_defs)
qed

lemma closed_step:
  "conn_step U i r unreg s l t \<Longrightarrow> ch_closed (chan_of i s) \<Longrightarrow> i < length (h_chans (cn_hub s)) \<Longrightarrow>
   ch_closed (chan_of i t) \<and> i < length (h_chans (cn_hub t)) \<and> work i t + turns [l] \<le> work i s"
proof (induction rule: conn_step.induct)
  case (hub opn s h)
  then show ?case using closed_grow [OF chans_grow_op [OF hub(1,2)]] by (simp add: pump_defs)
next
  case (other j s)
  then show ?case by (simp add: pump_defs receive_other)
next
  case (turn s good t)
  then show ?case using closed_turn by (simp add: turns_def)
next
  case (ping s good)
  then show ?case by (simp add: pump_defs)
next
  case (read s m)
  then show ?case by (simp add: pump_defs)
next
  case (read_fails s h)
  then show ?case using closed_grow [OF chans_grow_session_end [OF read_fails(2)]] by (simp add: pump_defs)
qed

lemma closed_run:
  assumes "conn_run U i r unreg s ls t" "ch_closed (chan_of i s)" "i < length (h_chans (cn_hub s))"
  shows "ch_closed (chan_of i t) \<and> i < length (h_chans (cn_hub t)) \<and> work i t + turns ls \<le> work i s"
  using assms(1)
proof (induction rule: conn_run.induct)
  case start
  then show ?case using assms(2,3) by (simp add: turns_def)
next
  case (step ls t l v)
  have "turns (ls @ [l]) = turns ls + turns [l]" by (simp add: turns_def)
  then show ?case using step.IH closed_step [OF step.hyps(2)] by fastforce
qed

lemma writer_stops: "conn_step U i r unreg s l t \<Longrightarrow> cn_writer s \<or> \<not> cn_open s \<Longrightarrow> cn_writer t \<or> \<not> cn_open t"
  by (induction rule: conn_step.induct)
    (auto simp: with_hub_def wrote_def stop_writer_def write_turn_def split: prod.splits option.splits if_splits)

lemma writer_stops_run:
  "conn_run U i r unreg s ls t \<Longrightarrow> cn_writer s \<or> \<not> cn_open s \<Longrightarrow> cn_writer t \<or> \<not> cn_open t"
  by (induction rule: conn_run.induct) (auto dest: writer_stops)

lemma session_end_closes:
  assumes "session_end U r unreg h = Some h'" "c = h_objs h ! r" "r < length (h_objs h)"
    and "map_of (h_clients h) (c_id c) \<noteq> None" "\<not> c_closed c" "c_send c < length (h_chans h)"
  shows "ch_closed (h_chans h' ! c_send c)"
proof -
  let ?g = "fold (leave_room U c) (c_rooms c) (h\<lparr>h_clients := AList.delete (c_id c) (h_clients h)\<rparr>)"
  obtain g where g: "closeSend r ?g = Some g" "unregister U unreg g = Some h'"
    using assms(1,2,4) by (auto simp: session_end_def removeClient_def Let_def Option.bind_eq_Some_conv)
  then have "ch_closed (h_chans g ! c_send c)" "length (h_chans g) = length (h_chans h)"
    using assms(2,3,5,6) by (auto simp: closeSend_def close_chan_def set_obj_def Let_def split: if_splits)
  moreover have "chans_grow g h'"
    using g(2) by (auto simp: unregister_def split: option.splits intro: chans_grow_same chans_grow_removeClient)
  ultimately show ?thesis using assms(6) by (simp add: chans_grow_def chan_grows_def)
qed

text \<open>
  C19. Whatever happens to a session and in whatever order, its client gets the messages the channel
  took, in their order and each once: what was written is a prefix of them, and while the write
  loop runs the rest is in the channel. A failed write loses one message and ends the loop.
\<close>

theorem session_delivers:
  assumes "i < length (h_chans h)" and "conn_run U i r unreg (session_start h i) ls t"
  shows "\<exists>lost. cn_accepted t = texts (cn_wire t) @ lost @ ch_buf (chan_of i t) \<and> length lost \<le> 1 \<and>
    (cn_writer t \<longrightarrow> lost = [] \<and> CloseFrame \<notin> set (cn_wire t))"
  using delivered_run [OF assms(2) delivered_start [OF assms(1)]] unfolding delivered_def by blast

text \<open>
  C20. A session ends: after the read loop ended, the write loop has at most one turn for each message
  in the channel and one more, whatever the rest of the program does; until it has ended a turn is
  always possible, and when it has ended the connection is closed.
\<close>

theorem session_ends:
  assumes "conn_step U i r unreg s ReadFails s1" and "conn_run U i r unreg s1 ls t"
    and "c = h_objs (cn_hub s) ! r" "r < length (h_objs (cn_hub s))" "c_send c = i"
    and "i < length (h_chans (cn_hub s))" "map_of (h_clients (cn_hub s)) (c_id c) \<noteq> None" "\<not> c_closed c"
    and "cn_writer s \<or> \<not> cn_open s"
  shows "turns ls \<le> Suc (length (ch_buf (chan_of i s1))) \<and>
    (cn_writer t \<longrightarrow> turns ls \<le> length (ch_buf (chan_of i s1)) \<and> (\<forall>good. \<exists>v. conn_step U i r unreg t (Turn good) v)) \<and>
    (\<not> cn_writer t \<longrightarrow> \<not> cn_open t)"
proof -
  obtain h where h: "session_end U r unreg (cn_hub s) = Some h" "s1 = with_hub i h (s\<lparr>cn_reader := False\<rparr>)"
    using assms(1) by (auto elim: conn_stepE)
  have "ch_closed (chan_of i s1)" "i < length (h_chans (cn_hub s1))"
    using session_end_closes [OF h(1) assms(3,4,7,8)] chans_grow_session_end [OF h(1)] assms(5,6)
    by (auto simp: h(2) with_hub_def chan_of_def chans_grow_def)
  note C = closed_run [OF assms(2) this]
  have "\<exists>v. write_turn i good t = Some v" for good
    using C by (cases "receive i (cn_hub t)"; cases "fst (receive i (cn_hub t))") (auto simp: write_turn_def)
  then have "\<exists>v. conn_step U i r unreg t (Turn good) v" if "cn_writer t" for good
    using that by (meson conn_step.turn)
  moreover have "cn_writer t \<or> \<not> cn_open t"
    using writer_stops_run [OF assms(2)] assms(9) by (simp add: h(2) with_hub_def)
  ultimately show ?thesis using C by (auto simp: work_def split: if_splits)
qed

section \<open>Examples\<close>

text \<open>A hub with one client, its session, and messages in its channel.\<close>

definition pump_hub :: "string list \<Rightarrow> Hub" where
  "pump_hub msgs =
     \<lparr>h_max = 2, h_clients = [(''c1'', 0)], h_rooms = [], h_orgChannels = [], h_closed = False,
      h_objs = [\<lparr>c_id = ''c1'', c_info = demo_info, c_send = 0, c_rooms = [], c_closed = False\<rparr>,
        \<lparr>c_id = ''c1'', c_info = demo_info, c_send = 0, c_rooms = [], c_closed = False\<rparr>],
      h_chans = [\<lparr>ch_buf = msgs, ch_cap = 64, ch_closed = False\<rparr>]\<rparr>"

lemma pump_turn:
  "conn_step U 0 r unreg (session_start (pump_hub (p # msgs)) 0) (Turn True)
     ((session_start (pump_hub msgs) 0)\<lparr>cn_wire := [Text p], cn_accepted := p # msgs\<rparr>)"
  by (rule conn_step.turn) (simp_all add: write_turn_def receive_def wrote_def session_start_def pump_hub_def)

theorem session_delivers_witness:
  "\<exists>t. conn_run demo_uuid 0 1 (Some 0) (session_start (pump_hub [''a'', ''b'']) 0) [Turn True] t \<and>
     texts (cn_wire t) = [''a''] \<and> (\<exists>lost. [''a'', ''b''] = [''a''] @ lost @ [''b''])"
proof -
  let ?t = "(session_start (pump_hub [''b'']) 0)\<lparr>cn_wire := [Text ''a''], cn_accepted := [''a'', ''b'']\<rparr>"
  have run: "conn_run demo_uuid 0 1 (Some 0) (session_start (pump_hub [''a'', ''b'']) 0) ([] @ [Turn True]) ?t"
    by (rule conn_run.step [OF conn_run.start pump_turn])
  have "0 < length (h_chans (pump_hub [''a'', ''b'']))" by (simp add: pump_hub_def)
  from session_delivers [OF this run] run show ?thesis
    by (auto simp: texts_def map_filter_def session_start_def chan_of_def pump_hub_def)
qed

theorem session_ends_witness:
  "\<exists>s1. conn_step demo_uuid 0 1 (Some 0) (session_start (pump_hub [''a'']) 0) ReadFails s1 \<and>
     (\<forall>ls t. conn_run demo_uuid 0 1 (Some 0) s1 ls t \<longrightarrow> turns ls \<le> 2 \<and> (\<not> cn_writer t \<longrightarrow> \<not> cn_open t))"
proof -
  let ?s = "session_start (pump_hub [''a'']) 0"
  have "\<exists>h. session_end demo_uuid 1 (Some 0) (pump_hub [''a'']) = Some h \<and> ch_buf (h_chans h ! 0) = [''a'']"
    by (simp add: session_end_def removeClient_def pump_hub_def closeSend_def close_chan_def set_obj_def unregister_def)
  then obtain h where h: "session_end demo_uuid 1 (Some 0) (pump_hub [''a'']) = Some h" "ch_buf (h_chans h ! 0) = [''a'']"
    by blast
  let ?s1 = "with_hub 0 h (?s\<lparr>cn_reader := False\<rparr>)"
  have step: "conn_step demo_uuid 0 1 (Some 0) ?s ReadFails ?s1"
    by (rule conn_step.read_fails) (use h in \<open>simp_all add: session_start_def\<close>)
  have "turns ls \<le> 2 \<and> (\<not> cn_writer t \<longrightarrow> \<not> cn_open t)" if "conn_run demo_uuid 0 1 (Some 0) ?s1 ls t" for ls t
    using session_ends [OF step that refl] h(2)
    by (simp add: session_start_def pump_hub_def with_hub_def chan_of_def)
  then show ?thesis using step by blast
qed

end
