(* ===== verification/Table_Inv.thy ===== *)
theory Table_Inv
  imports Router_Props
begin

text \<open>
  Invariants of the tables, through the whole server. \<open>table_invariant\<close> is the contract of a
  predicate that survives what the checks before a handler do: time passes, events are queued, the
  counters of rate limits move, and permissions are cached that the tables grant. Under it every
  query and every handler that only reads keeps the predicate. \<open>server_writes\<close> adds that the statements the
  API can reach keep it: then every request does.
\<close>

section \<open>The parts of a handler\<close>

lemma keeps_with_body [keeps_intros]: "(\<And>x. keeps I (f x)) \<Longrightarrow> keeps I (with_body d f)"
  unfolding with_body_def by (intro keeps_intros)

lemma keeps_or_error [keeps_intros]: "keeps I m \<Longrightarrow> (\<And>x. keeps I (f x)) \<Longrightarrow> keeps I (or_error m f)"
  unfolding or_error_def by (intro keeps_intros)

lemma keeps_with_id [keeps_intros]: "(\<And>x. keeps I (f x)) \<Longrightarrow> keeps I (with_id U r n m f)"
  unfolding with_id_def by (intro keeps_intros)

lemma keeps_with_user [keeps_intros]: "(\<And>x. keeps I (f x)) \<Longrightarrow> keeps I (with_user c f)"
  unfolding with_user_def by (intro keeps_intros)

lemma keeps_reject [keeps_intros]: "keeps I (reject n m)"
  unfolding reject_def by (intro keeps_intros)

section \<open>What the server's interfaces stand for\<close>

lemma user_repo_ops:
  "us_Create UserRepo = UserRepo_Create" "us_GetByID UserRepo = UserRepo_GetByID"
  "us_GetByEmail UserRepo = UserRepo_GetByEmail" "us_List UserRepo = UserRepo_List"
  by (simp_all add: UserRepo_def)

lemma refresh_repo_ops:
  "rt_Create RefreshTokenRepo = RefreshTokenRepo_Create" "rt_Revoke RefreshTokenRepo = RefreshTokenRepo_Revoke"
  "rt_GetByTokenHash RefreshTokenRepo = RefreshTokenRepo_GetByTokenHash"
  "rt_RevokeAllByUserID RefreshTokenRepo = RefreshTokenRepo_RevokeAllByUserID"
  "rt_RevokeFamily RefreshTokenRepo = RefreshTokenRepo_RevokeFamily"
  "rt_ListActiveByUserID RefreshTokenRepo = RefreshTokenRepo_ListActiveByUserID"
  by (simp_all add: RefreshTokenRepo_def)

lemma role_repo_ops: "ro_AssignRoleToUser (RoleRepo collate) = RoleRepo_AssignRoleToUser"
  "ro_GetUserPermissions (RoleRepo collate) = RoleRepo_GetUserPermissions"
  by (simp_all add: RoleRepo_def)

lemma org_repo_ops:
  "or_Create OrgRepo = OrgRepo_Create" "or_GetByID OrgRepo = OrgRepo_GetByID"
  "or_GetBySlug OrgRepo = OrgRepo_GetBySlug" "or_List OrgRepo = OrgRepo_List"
  by (simp_all add: OrgRepo_def)

lemma app_repo_ops:
  "ap_Create AppRepo = AppRepo_Create" "ap_GetByID AppRepo = AppRepo_GetByID"
  "ap_GetBySlug AppRepo = AppRepo_GetBySlug" "ap_ListByOrg AppRepo = AppRepo_ListByOrg"
  "ak_Create APIKeyRepo = APIKeyRepo_Create" "ak_Revoke APIKeyRepo = APIKeyRepo_Revoke"
  "ak_ListByApp APIKeyRepo = APIKeyRepo_ListByApp"
  by (simp_all add: AppRepo_def APIKeyRepo_def)

lemma workspace_repo_ops:
  "ws_Create WorkspaceRepo = WorkspaceRepository_Create" "ws_GetByID WorkspaceRepo = WorkspaceRepository_GetByID"
  "ws_GetBySlug WorkspaceRepo = WorkspaceRepository_GetBySlug"
  "ws_ListByOrganization WorkspaceRepo = WorkspaceRepository_ListByOrganization"
  "ws_Update WorkspaceRepo = WorkspaceRepository_Update"
  by (simp_all add: WorkspaceRepo_def)

lemma endpoint_repo_ops:
  "en_Create EndpointRepo = EndpointRepo_Create" "en_GetByID EndpointRepo = EndpointRepo_GetByID"
  "en_GetByMethodPath EndpointRepo = EndpointRepo_GetByMethodPath" "en_Update EndpointRepo = EndpointRepo_Update"
  "en_ListByApp EndpointRepo = EndpointRepo_ListByApp"
  "po_Create PolicyRepo = PolicyRepo_Create" "po_GetByEndpointID PolicyRepo = PolicyRepo_GetByEndpointID"
  "po_Update PolicyRepo = PolicyRepo_Update"
  by (simp_all add: EndpointRepo_def PolicyRepo_def)

lemma report_repo_ops:
  "au_ListByOrg AuditRepo = AuditRepo_ListByOrg" "au_ListByUser AuditRepo = AuditRepo_ListByUser"
  "ur_Create (UsageStatRepo collate) = UsageStatRepo_Create"
  "ur_ListByUser (UsageStatRepo collate) = UsageStatRepo_ListByUser"
  "ur_GetSummaryByUser (UsageStatRepo collate) = UsageStatRepo_GetSummaryByUser collate"
  by (simp_all add: AuditRepo_def UsageStatRepo_def)

lemma auth_ops:
  "auth_HashPassword (server_auth K cfg) = HashPassword (pk_bcrypt K)"
  "auth_GenerateToken (server_auth K cfg) = GenerateToken (pk_uuid K) (pk_jwt K) (NewJWTService (cf_JWT cfg))"
  "auth_ValidateToken (server_auth K cfg) = ValidateToken (pk_uuid K) (pk_jwt K) (NewJWTService (cf_JWT cfg))"
  by (simp_all add: server_auth_def JWT_auth_def)

lemma rbac_ops:
  "rb_InvalidateCache (server_rbac K rd) = InvalidateCache (pk_uuid K) \<lparr>sv_roleRepo = RoleRepo (pk_collate K), sv_redis = rd\<rparr>"
  by (simp_all add: server_rbac_def NewRBACService_def)

lemma refresh_ops:
  "uc_refreshTokenRepo (server_refresh K cfg) = RefreshTokenRepo" "uc_userRepo (server_refresh K cfg) = UserRepo"
  "uc_auth (server_refresh K cfg) = server_auth K cfg"
  by (simp_all add: server_refresh_def)

lemmas server_ops =
  user_repo_ops refresh_repo_ops role_repo_ops org_repo_ops app_repo_ops workspace_repo_ops endpoint_repo_ops
  report_repo_ops auth_ops rbac_ops refresh_ops

lemmas query_defs =
  UserRepo_GetByID_def UserRepo_GetByEmail_def UserRepo_List_def RoleRepo_GetUserPermissions_def
  RefreshTokenRepo_GetByTokenHash_def RefreshTokenRepo_ListActiveByUserID_def
  OrgRepo_GetByID_def OrgRepo_GetBySlug_def OrgRepo_List_def AppRepo_GetByID_def AppRepo_GetBySlug_def
  AppRepo_ListByOrg_def APIKeyRepo_ListByApp_def WorkspaceRepository_GetByID_def WorkspaceRepository_GetBySlug_def
  WorkspaceRepository_ListByOrganization_def EndpointRepo_GetByID_def EndpointRepo_GetByMethodPath_def
  EndpointRepo_ListByApp_def PolicyRepo_GetByEndpointID_def AuditRepo_ListByOrg_def AuditRepo_ListByUser_def
  audit_page_def UsageStatRepo_ListByUser_def UsageStatRepo_GetSummaryByUser_def page_query_def

section \<open>Predicates on the tables\<close>

locale table_invariant =
  fixes U :: uuid_api and I :: "world \<Rightarrow> bool"
  assumes tick_law: "I (tick_world w) = I w"
    and bus_law: "I (w\<lparr>bus_ch := b\<rparr>) = I w"
    and rate_law: "I w \<Longrightarrow> I (w\<lparr>redis := (redis w)(rate_key U aid eid \<mapsto> v)\<rparr>)"
    and perms_law: "I w \<Longrightarrow> perms \<noteq> [] \<Longrightarrow> set perms \<subseteq> set (granted w uid gid) \<Longrightarrow>
      I (w\<lparr>redis := (redis w)(cacheKey U uid gid \<mapsto> (PermsValue perms, e))\<rparr>)"
    and invalidate_law: "I w \<Longrightarrow> I (w\<lparr>redis := (redis w)(cacheKey U uid gid := None)\<rparr>)"
begin

lemma stable: "tick_stable I"
  by (simp add: tick_stable_def tick_law)

lemma checks_stable: "check_stable U I"
  by (simp add: check_stable_def stable rate_law)

lemmas effects = keeps_effects [OF stable]

lemma keeps_Publish: "keeps I (Publish topic ev)"
  by (simp add: keeps_def bus_law)

lemma keeps_redis_get: "keeps I (redis_get k)"
  by (simp add: keeps_def tick_law)

lemmas steps = keeps_intros effects keeps_Publish keeps_redis_get

lemma queries:
  "keeps I (UserRepo_GetByID uid)" "keeps I (UserRepo_GetByEmail em)" "keeps I (UserRepo_List m n)"
  "keeps I (RoleRepo_GetUserPermissions uid gid)" "keeps I (RefreshTokenRepo_GetByTokenHash h)"
  "keeps I (RefreshTokenRepo_ListActiveByUserID uid)" "keeps I (OrgRepo_GetByID gid)"
  "keeps I (OrgRepo_GetBySlug slug)" "keeps I (OrgRepo_List m n)" "keeps I (AppRepo_GetByID aid)"
  "keeps I (AppRepo_GetBySlug gid slug)" "keeps I (AppRepo_ListByOrg gid m n)" "keeps I (APIKeyRepo_ListByApp aid)"
  "keeps I (WorkspaceRepository_GetByID wid)" "keeps I (WorkspaceRepository_GetBySlug gid slug)"
  "keeps I (WorkspaceRepository_ListByOrganization gid)" "keeps I (EndpointRepo_GetByID eid)"
  "keeps I (EndpointRepo_GetByMethodPath aid me p v)" "keeps I (EndpointRepo_ListByApp aid m n)"
  "keeps I (PolicyRepo_GetByEndpointID eid)" "keeps I (AuditRepo_ListByOrg gid m n)"
  "keeps I (AuditRepo_ListByUser uid m n)" "keeps I (UsageStatRepo_ListByUser uid flt)"
  "keeps I (UsageStatRepo_GetSummaryByUser collate uid flt)"
  unfolding query_defs Let_def by (intro steps)+

lemma services:
  "keeps I (HashPassword B p)" "keeps I (GenerateToken V J s claims)" "keeps I (ValidateToken V J s tok)"
  "keeps I (generateOpaqueToken n)" "keeps I generateAPIKey"
  unfolding HashPassword_def GenerateToken_def ValidateToken_def generateOpaqueToken_def generateAPIKey_def
  by (intro steps)+

lemma permission_check: "pk_uuid K = U \<Longrightarrow> keeps I (rb_HasPermission (server_rbac K rd) uid gid p)"
  by (intro keeps_HasPermission stable) (simp add: perms_law)

lemma invalidation: "keeps I (InvalidateCache U sv uid gid)"
  unfolding InvalidateCache_def keeps_def by (simp add: tick_law invalidate_law keeps_return)

text \<open>The handlers that answer GET requests, over the server's repositories.\<close>

lemma iam_reads:
  assumes "ih_userRepo h = UserRepo" "ih_refreshTokenUC h = Some (server_refresh K cfg)"
  shows "keeps I (iam_GetMe V h c r)" "keeps I (iam_GetUser V h c r)" "keeps I (iam_ListUsers V h c r)"
    "keeps I (iam_Sessions V h c r)"
  unfolding iam_GetMe_def iam_GetUser_def iam_ListUsers_def iam_Sessions_def ListSessions_def Let_def assms option.case
    server_ops
  by (intro steps queries)+

lemma tenant_reads:
  assumes "th_orgRepo h = OrgRepo" "th_appRepo h = AppRepo" "th_keyRepo h = APIKeyRepo" "th_workspaceRepo h = WorkspaceRepo"
  shows "keeps I (tenant_ListOrgs V h c r)" "keeps I (tenant_GetOrg V h c r)" "keeps I (tenant_ListApps V h c r)"
    "keeps I (tenant_GetApp V h c r)" "keeps I (tenant_ListAPIKeys V h c r)" "keeps I (tenant_ListWorkspaces V h c r)"
  unfolding tenant_ListOrgs_def tenant_GetOrg_def tenant_ListApps_def tenant_GetApp_def tenant_ListAPIKeys_def
    tenant_ListWorkspaces_def ListKeys_def ListWorkspaces_def Let_def assms server_ops
  by (intro steps queries)+

lemma endpoint_reads:
  assumes "mh_endpointRepo h = EndpointRepo" "mh_policyRepo h = PolicyRepo"
  shows "keeps I (api_ListEndpoints V h c r)" "keeps I (api_GetEndpoint V h c r)" "keeps I (api_GetPolicy V h c r)"
  unfolding api_ListEndpoints_def api_GetEndpoint_def api_GetPolicy_def Let_def assms server_ops
  by (intro steps queries)+

lemma report_reads:
  "keeps I (audit_ListByOrg V AuditRepo c r)" "keeps I (audit_ListByUser V AuditRepo c r)"
  "keeps I (handler_GetUserStats F V (UsageStatRepo collate) c r)"
  unfolding audit_ListByOrg_def audit_ListByUser_def handler_GetUserStats_def GetUserStats_def Let_def server_ops
  by (intro steps queries)+

end

end
