(* ===== verification/Server_Inv.thy ===== *)
theory Server_Inv
  imports Table_Inv
begin

text \<open>
  An invariant of the tables through \<open>New\<close>, the handler the server listens with: first for the
  requests that reach handlers of GET routes only, then, with the statements of \<open>server_writes\<close>, for
  every request. What the program is linked with acts on the same database and the same cache; that
  it keeps the predicate is a hypothesis on \<open>packages\<close>.
\<close>

text \<open>The probes, chi's own answers, the metrics, and the WebSocket endpoint.\<close>

definition probes_keep :: "(world \<Rightarrow> bool) \<Rightarrow> packages \<Rightarrow> bool" where
  "probes_keep I K \<longleftrightarrow>
     keeps I (pk_db_ping K) \<and> keeps I (pk_redis_ping K) \<and>
     (\<forall>c r. keeps I (pk_unmatched K c r) \<and> keeps I (pk_metrics K c r) \<and> keeps I (pk_realtime K c r))"

text \<open>The statements of the dynamic handler, and the services behind the proxy.\<close>

definition backends_keep :: "(world \<Rightarrow> bool) \<Rightarrow> packages \<Rightarrow> bool" where
  "backends_keep I K \<longleftrightarrow>
     (\<forall>s vs. keeps I (pg_count (pk_pool K) s vs) \<and> keeps I (pg_rows (pk_pool K) s vs) \<and>
             keeps I (pg_row (pk_pool K) s vs) \<and> keeps I (pg_exec (pk_pool K) s vs)) \<and>
     (\<forall>q. keeps I (hc_Do (pk_client K) q))"

definition route_keeps :: "(world \<Rightarrow> bool) \<Rightarrow> route \<Rightarrow> bool" where
  "route_keeps I t \<longleftrightarrow> (\<forall>c r. keeps I (ro_handler t c r))"

definition get_keeps :: "(world \<Rightarrow> bool) \<Rightarrow> route \<Rightarrow> bool" where
  "get_keeps I t \<longleftrightarrow> (ro_method t = ''GET'' \<longrightarrow> route_keeps I t)"

lemma route_keeps_on [simp]:
  "route_keeps I (on_get ps m p h) \<longleftrightarrow> (\<forall>c r. keeps I (h c r))" "route_keeps I (on_post ps m p h) \<longleftrightarrow> (\<forall>c r. keeps I (h c r))"
  "route_keeps I (on_put ps m p h) \<longleftrightarrow> (\<forall>c r. keeps I (h c r))"
  "route_keeps I (on_delete ps m p h) \<longleftrightarrow> (\<forall>c r. keeps I (h c r))"
  by (simp_all add: route_keeps_def on_get_def on_post_def on_put_def on_delete_def)

lemma get_keeps_on [simp]:
  "get_keeps I (on_get ps m p h) \<longleftrightarrow> (\<forall>c r. keeps I (h c r))" "get_keeps I (on_post ps m p h)"
  "get_keeps I (on_put ps m p h)" "get_keeps I (on_delete ps m p h)"
  by (simp_all add: get_keeps_def route_keeps_def on_get_def on_post_def on_put_def on_delete_def)

section \<open>The chain of the server\<close>

lemma server_handlers:
  fixes K cfg rd
  defines "D \<equiv> buildDependencies K cfg True rd"
  shows "dp_IAMHandler D = Some \<lparr>ih_userRepo = UserRepo, ih_auth = server_auth K cfg, ih_roleRepo = RoleRepo (pk_collate K),
      ih_rbac = server_rbac K rd, ih_refreshTokenUC = Some (server_refresh K cfg),
      ih_refreshTokenCfg = cf_RefreshToken cfg, ih_is_email = pk_email K\<rparr>"
    "dp_TenantHandler D = Some \<lparr>th_orgRepo = OrgRepo, th_appRepo = AppRepo, th_keyRepo = APIKeyRepo, th_workspaceRepo = WorkspaceRepo\<rparr>"
    "dp_APIMgmtHandler D = Some \<lparr>mh_endpointRepo = EndpointRepo, mh_policyRepo = PolicyRepo\<rparr>"
    "dp_AuditHandler D = Some AuditRepo" "dp_StatisticsHandler D = Some (UsageStatRepo (pk_collate K))"
    "dp_RealtimeHandler D = Some (pk_realtime K)"
  by (simp_all add: D_def buildDependencies_def)

context table_invariant
begin

lemma keeps_authenticate: "keeps I (authenticate (server_auth K cfg) c r)"
  unfolding authenticate_def Let_def server_ops by (intro steps services)

lemma keeps_tenant:
  assumes "\<And>c. keeps I (h c r)"
  shows "keeps I (TenantResolverWithWorkspace U (Some OrgRepo) (Some WorkspaceRepo) h cache c r)"
  unfolding TenantResolverWithWorkspace_def
  by (intro steps keeps_resolve [OF checks_stable] assms)

lemma keeps_permission:
  assumes "pk_uuid K = U" "\<And>c. keeps I (h c r)"
  shows "keeps I (maybeRequirePermission (Some (server_rbac K rd)) p h c r)"
proof (cases p)
  case (Some q)
  show ?thesis
    unfolding maybeRequirePermission_def Some option.case prod.case RequirePermission_def server_ops
    by (intro steps permission_check assms)
qed (simp add: maybeRequirePermission_def assms)

lemma keeps_backend:
  assumes "backends_keep I K"
  shows "keeps I (hr_Handle (pl_backend (server_pipeline K rd)) c ep r)"
proof -
  have db: "keeps I (pg_count (pk_pool K) s vs)" "keeps I (pg_rows (pk_pool K) s vs)" "keeps I (pg_row (pk_pool K) s vs)"
    "keeps I (pg_exec (pk_pool K) s vs)" "keeps I (hc_Do (pk_client K) q)" for s vs q
    using assms by (simp_all add: backends_keep_def)
  have crud: "keeps I (handleList (pk_pool K) tb gid aid r)" "keeps I (handleGet U (pk_pool K) tb gid aid r)"
    "keeps I (handleCreate (pk_pool K) tb gid aid input)" "keeps I (handleUpdate U (pk_pool K) tb gid aid r input)"
    "keeps I (handleDelete U (pk_pool K) tb gid aid r)" for U tb gid aid r input
    unfolding handleList_def handleGet_def handleCreate_def handleUpdate_def handleDelete_def Let_def
    by (intro steps keeps_sum db)+
  have act: "keeps I m" if "dynamic_action U (pk_pool K) action tb gid aid r input = Some m" for U action tb gid aid r input m
  proof -
    from that have "m = handleList (pk_pool K) tb gid aid r \<or> m = handleGet U (pk_pool K) tb gid aid r \<or>
        m = handleCreate (pk_pool K) tb gid aid input \<or> m = handleUpdate U (pk_pool K) tb gid aid r input \<or>
        m = handleDelete U (pk_pool K) tb gid aid r"
      unfolding dynamic_action_def by (metis option.distinct(1) option.inject)
    then show ?thesis using crud by (elim disjE) simp_all
  qed
  have dyn: "keeps I (case dynamic_action U (pk_pool K) action tb gid aid r input of None \<Rightarrow> m
      | Some a \<Rightarrow> State_Monad.bind a f)" if "keeps I m" "\<And>x. keeps I (f x)" for U action tb gid aid r input m
      and f :: "goerr + json \<times> int \<Rightarrow> (goerr + backend_response option) eff"
    using that act by (cases "dynamic_action U (pk_pool K) action tb gid aid r input") (auto intro: keeps_bind)
  have gen: "keeps I (handleGeneric (pk_uuid K)
      (NewDynamicHandlerResolver (Some NewBackendRegistry) (Some (pk_pool K)) (pk_client K) (pk_order K)) c ep r)"
    unfolding handleGeneric_def NewDynamicHandlerResolver_def DynamicHandlerResolver.simps option.case Let_def
    by (intro dyn steps)
  have proxy: "keeps I (handleHTTPProxy (pk_client K) cfg c ep r)" for cfg
    unfolding handleHTTPProxy_def by (intro steps db)
  have "hr_Handle (pl_backend (server_pipeline K rd)) = ResolveHandler (pk_uuid K)
      (NewDynamicHandlerResolver (Some NewBackendRegistry) (Some (pk_pool K)) (pk_client K) (pk_order K))"
    by (simp add: server_pipeline_def NewPipeline_def dynamic_resolver_def)
  then show ?thesis
    by (simp add: ResolveHandler_def Let_def registry_IsRegistered_def NewBackendRegistry_def gen proxy
        NewDynamicHandlerResolver_def [of "Some []"] gen [unfolded NewDynamicHandlerResolver_def NewBackendRegistry_def option.case])
qed

lemma keeps_gateway:
  assumes K: "pk_uuid K = U" and h: "\<And>c. keeps I (h c r)" and b: "rq_header r ''X-App-ID'' = [] \<or> backends_keep I K"
  shows "keeps I (Enforce U (server_pipeline K rd) h c r)"
proof (cases "rq_header r ''X-App-ID'' = []")
  case True
  then show ?thesis using h by (simp add: plain_request(3))
next
  case False
  have "keeps I (admit U (server_pipeline K rd) c r)"
    by (rule keeps_admit [OF checks_stable]) (simp_all add: server_pipeline_fields permission_check K)
  then show ?thesis
    using False b h keeps_backend unfolding Enforce_def
    by (auto simp: forward_def Let_def split: admission.split intro!: steps)
qed

lemma keeps_chain:
  assumes "pk_uuid K = U" "\<And>c. keeps I (h c r)" "rq_header r ''X-App-ID'' = [] \<or> backends_keep I K"
  shows "keeps I (protected_chain U (buildDependencies K cfg db rd) p h cache c r)"
proof (cases db)
  case True
  then have t: "db = True" by simp
  show ?thesis
    unfolding protected_chain_def t server_deps option.case Let_def
    by (intro steps keeps_authenticate keeps_tenant keeps_gateway keeps_permission assms)
next
  case False
  then show ?thesis
    unfolding protected_chain_def Let_def
    by (auto simp: buildDependencies_def no_dependencies_def maybeRequirePermission_def intro!: steps assms)
qed

lemma keeps_root:
  assumes "probes_keep I K"
  shows "keeps I (serve_root (buildDependencies K cfg db rd) c r)"
proof -
  let ?D = "buildDependencies K cfg db rd"
  have p: "keeps I (pk_db_ping K)" "keeps I (pk_redis_ping K)" "keeps I (pk_unmatched K c r)" "keeps I (pk_metrics K c r)"
    using assms by (simp_all add: probes_keep_def)
  have d: "dp_unmatched ?D = pk_unmatched K" "dp_metrics ?D = pk_metrics K"
    "dp_health ?D = health_NewHandler (if db then Some (pk_db_ping K) else None) (if rd then Some (pk_redis_ping K) else None)"
    by (simp_all add: buildDependencies_def no_dependencies_def)
  have probe: "keeps I (probe (hh_db (dp_health ?D)))" "keeps I (probe (hh_redis (dp_health ?D)))"
    unfolding d health_NewHandler_def probe_def using p by (auto intro: keeps_intros)
  show ?thesis
    unfolding serve_root_def Recoverer_def Liveness_def Readiness_def not_found_def
    by (intro steps probe) (simp_all add: d p)
qed

lemma keeps_dispatch:
  assumes K: "pk_uuid K = U" and p: "probes_keep I K" and b: "rq_header r ''X-App-ID'' = [] \<or> backends_keep I K"
    and t: "\<And>t ps. find_route (protected_routes U (buildDependencies K cfg db rd)) (rq_method r) xs = Some (t, ps) \<Longrightarrow> route_keeps I t"
  shows "keeps I (dispatch_protected U (buildDependencies K cfg db rd) xs cache c r)"
proof -
  let ?D = "buildDependencies K cfg db rd"
  have u: "keeps I (dp_unmatched ?D c r)" for c r
    using p by (simp add: probes_keep_def buildDependencies_def no_dependencies_def)
  have n: "keeps I (endpoint_not_found c r)" for c r
    unfolding endpoint_not_found_def by (intro steps)
  have h: "rq_header (set_params ps r) = rq_header r" for ps by (simp add: set_params_def)
  show ?thesis
  proof (cases "find_route (protected_routes U ?D) (rq_method r) xs")
    case None
    then show ?thesis using b by (auto simp: dispatch_protected_def intro!: keeps_chain K u n)
  next
    case (Some a)
    obtain t ps where a: "a = (t, ps)" by fastforce
    have "keeps I (ro_handler t c (set_params ps r))" for c
      using t Some a by (simp add: route_keeps_def)
    then show ?thesis using Some a b h by (auto simp: dispatch_protected_def intro!: keeps_chain K)
  qed
qed

lemma keeps_serve:
  assumes "pk_uuid K = U" "probes_keep I K" "rq_header r ''X-App-ID'' = [] \<or> backends_keep I K"
    and t: "\<And>t. t \<in> set (public_routes U (buildDependencies K cfg db rd) @ protected_routes U (buildDependencies K cfg db rd)) \<Longrightarrow>
      ro_method t = rq_method r \<Longrightarrow> route_keeps I t"
  shows "keeps I (serve U (buildDependencies K cfg db rd) cache c r)"
proof (cases "api_segments (rq_path r)")
  case None
  show ?thesis
    unfolding serve_def None option.case by (intro steps keeps_root assms(2))
next
  case (Some xs)
  let ?D = "buildDependencies K cfg db rd"
  have u: "keeps I (dp_unmatched ?D c r)"
    using assms(2) by (simp add: probes_keep_def buildDependencies_def no_dependencies_def)
  have d: "keeps I (dispatch_protected U ?D xs cache c r)"
    using find_route_in by (intro keeps_dispatch assms(1-3) t) fastforce+
  show ?thesis
  proof (cases "find_route (public_routes U ?D) (rq_method r) xs")
    case None
    then show ?thesis using u d Some by (auto simp: serve_def intro!: keeps_bind keeps_return)
  next
    case f: (Some a)
    obtain q ps where a: "a = (q, ps)" by fastforce
    have "route_keeps I q" using find_route_in [OF f [unfolded a]] by (intro t) simp_all
    then show ?thesis using f a Some by (auto simp: serve_def route_keeps_def intro!: keeps_bind keeps_return)
  qed
qed

lemma keeps_New:
  assumes "pk_uuid K = U" "probes_keep I K" "rq_header r ''X-App-ID'' = [] \<or> backends_keep I K"
    and "\<And>t. t \<in> set (public_routes U (buildDependencies K cfg db rd) @ protected_routes U (buildDependencies K cfg db rd)) \<Longrightarrow>
      ro_method t = rq_method r \<Longrightarrow> route_keeps I t"
  shows "keeps I (New U (buildDependencies K cfg db rd) cache r)"
proof -
  have l: "rq_header (limit_body n r) = rq_header r" "rq_method (limit_body n r) = rq_method r" for n
    by (simp_all add: limit_body_def)
  have "keeps I (serve U (buildDependencies K cfg db rd) cache c (limit_body n r))" for c n
    using assms by (intro keeps_serve) (simp_all add: l)
  then show ?thesis
    unfolding New_def request_id_def by (intro steps) simp_all
qed

section \<open>Requests with the method GET\<close>

lemma get_routes_keep:
  assumes "probes_keep I K"
  shows "list_all (get_keeps I) (public_routes U (buildDependencies K cfg db rd) @ protected_routes U (buildDependencies K cfg db rd))"
proof (cases db)
  case True
  then have t: "db = True" by simp
  have w: "keeps I (pk_realtime K c r)" for c r using assms by (simp add: probes_keep_def)
  show ?thesis
    unfolding protected_routes_def iam_routes_def tenant_routes_def endpoint_routes_def other_routes_def public_routes_def
      t server_handlers option.case Let_def list_all_append append.simps list.pred_inject
    by (simp add: iam_reads tenant_reads endpoint_reads report_reads w)
next
  case False
  then show ?thesis
    by (simp add: buildDependencies_def no_dependencies_def protected_routes_def iam_routes_def tenant_routes_def
        other_routes_def public_routes_def)
qed

lemma keeps_get:
  assumes "pk_uuid K = U" "probes_keep I K" "rq_method r = ''GET''" "rq_header r ''X-App-ID'' = []"
  shows "keeps I (New U (buildDependencies K cfg db rd) cache r)"
proof (rule keeps_New)
  fix t :: route
  assume t: "t \<in> set (public_routes U (buildDependencies K cfg db rd) @ protected_routes U (buildDependencies K cfg db rd))"
    "ro_method t = rq_method r"
  have "get_keeps I t" using get_routes_keep [OF assms(2), of cfg db rd] t(1) unfolding list_all_iff by (rule bspec)
  then show "route_keeps I t" using t(2) assms(3) by (simp add: get_keeps_def)
qed (use assms in simp_all)

end

section \<open>Every request\<close>

text \<open>A statement on a table keeps every predicate that does not look at it.\<close>

lemma writes_untouched:
  assumes t: "tick_stable I"
  shows "(\<And>w x. I (w\<lparr>users := x\<rparr>) = I w) \<Longrightarrow> keeps I (UserRepo_Create u)"
    "(\<And>w x. I (w\<lparr>user_roles := x\<rparr>) = I w) \<Longrightarrow> keeps I (RoleRepo_AssignRoleToUser ur)"
    "(\<And>w x. I (w\<lparr>organizations := x\<rparr>) = I w) \<Longrightarrow> keeps I (OrgRepo_Create g)"
    "(\<And>w x. I (w\<lparr>apps := x\<rparr>) = I w) \<Longrightarrow> keeps I (AppRepo_Create a)"
    "(\<And>w x. I (w\<lparr>app_api_keys := x\<rparr>) = I w) \<Longrightarrow> keeps I (APIKeyRepo_Create k)"
    "(\<And>w x. I (w\<lparr>app_api_keys := x\<rparr>) = I w) \<Longrightarrow> keeps I (APIKeyRepo_Revoke kid)"
    "(\<And>w x. I (w\<lparr>workspaces := x\<rparr>) = I w) \<Longrightarrow> keeps I (WorkspaceRepository_Create ws)"
    "(\<And>w x. I (w\<lparr>workspaces := x\<rparr>) = I w) \<Longrightarrow> keeps I (WorkspaceRepository_Update ws)"
    "(\<And>w x. I (w\<lparr>app_endpoints := x\<rparr>) = I w) \<Longrightarrow> keeps I (EndpointRepo_Create e)"
    "(\<And>w x. I (w\<lparr>app_endpoints := x\<rparr>) = I w) \<Longrightarrow> keeps I (EndpointRepo_Update e)"
    "(\<And>w x. I (w\<lparr>app_endpoint_policies := x\<rparr>) = I w) \<Longrightarrow> keeps I (PolicyRepo_Create p)"
    "(\<And>w x. I (w\<lparr>app_endpoint_policies := x\<rparr>) = I w) \<Longrightarrow> keeps I (PolicyRepo_Update p)"
    "(\<And>w x. I (w\<lparr>model_usage_stats := x\<rparr>) = I w) \<Longrightarrow> keeps I (UsageStatRepo_Create s)"
    "(\<And>w x. I (w\<lparr>refresh_tokens := x\<rparr>) = I w) \<Longrightarrow> keeps I (RefreshTokenRepo_Create t')"
    "(\<And>w x. I (w\<lparr>refresh_tokens := x\<rparr>) = I w) \<Longrightarrow> keeps I (RefreshTokenRepo_Revoke tid)"
    "(\<And>w x. I (w\<lparr>refresh_tokens := x\<rparr>) = I w) \<Longrightarrow> keeps I (RefreshTokenRepo_RevokeAllByUserID uid)"
    "(\<And>w x. I (w\<lparr>refresh_tokens := x\<rparr>) = I w) \<Longrightarrow> keeps I (RefreshTokenRepo_RevokeFamily fid)"
  unfolding UserRepo_Create_def RoleRepo_AssignRoleToUser_def OrgRepo_Create_def AppRepo_Create_def APIKeyRepo_Create_def
    APIKeyRepo_Revoke_def WorkspaceRepository_Create_def WorkspaceRepository_Update_def EndpointRepo_Create_def
    EndpointRepo_Update_def PolicyRepo_Create_def PolicyRepo_Update_def UsageStatRepo_Create_def
    RefreshTokenRepo_Create_def RefreshTokenRepo_Revoke_def RefreshTokenRepo_RevokeAllByUserID_def
    RefreshTokenRepo_RevokeFamily_def Let_def
  by (intro keeps_intros keeps_effects keeps_sql_exec t; simp)+

text \<open>The statements that requests can make the repositories execute.\<close>

locale server_writes = table_invariant +
  assumes users_law: "keeps I (UserRepo_Create u)" "keeps I (RoleRepo_AssignRoleToUser x)"
    and tokens_law: "keeps I (RefreshTokenRepo_Create t)" "keeps I (RefreshTokenRepo_Revoke tid)"
      "keeps I (RefreshTokenRepo_RevokeAllByUserID uid)" "keeps I (RefreshTokenRepo_RevokeFamily fid)"
    and tenants_law: "keeps I (OrgRepo_Create g)" "keeps I (AppRepo_Create a)" "keeps I (APIKeyRepo_Create k)"
      "keeps I (APIKeyRepo_Revoke kid)" "keeps I (WorkspaceRepository_Create ws)" "keeps I (WorkspaceRepository_Update ws)"
    and endpoints_law: "keeps I (EndpointRepo_Create e)" "keeps I (EndpointRepo_Update e)" "keeps I (PolicyRepo_Create p)"
      "keeps I (PolicyRepo_Update p)"
    and stats_law: "keeps I (UsageStatRepo_Create s)"
begin

lemmas writes = users_law tokens_law tenants_law endpoints_law stats_law

lemma rotate_keeps: "keeps I (Rotate (server_refresh K cfg) raw r)"
  unfolding Rotate_def Rotate_load_def Rotate_issue_def server_ops by (intro steps queries services writes)

lemma iam_handlers:
  assumes "ih_userRepo h = UserRepo" "ih_auth h = server_auth K cfg" "ih_refreshTokenUC h = Some (server_refresh K cfg)"
    "ih_roleRepo h = RoleRepo (pk_collate K)" "ih_rbac h = server_rbac K rd" and K: "pk_uuid K = U"
  shows "keeps I (iam_Register U h c r)" "keeps I (iam_Login U h c r)" "keeps I (iam_Refresh h c r)"
    "keeps I (iam_AssignRole U h c r)" "keeps I (iam_Logout h c r)" "keeps I (iam_LogoutAll h c r)"
  unfolding iam_Register_def iam_Login_def iam_Refresh_def iam_AssignRole_def iam_Logout_def iam_LogoutAll_def
    Register_def Login_def GenerateRefreshToken_def AssignRole_def Logout_def LogoutAll_def Let_def assms option.case server_ops
  by (intro steps queries services invalidation writes rotate_keeps)+

lemma tenant_handlers:
  assumes "th_orgRepo h = OrgRepo" "th_appRepo h = AppRepo" "th_keyRepo h = APIKeyRepo" "th_workspaceRepo h = WorkspaceRepo"
  shows "keeps I (tenant_CreateOrg U h c r)" "keeps I (tenant_CreateApp U h c r)" "keeps I (tenant_CreateAPIKey U h c r)"
    "keeps I (tenant_RevokeAPIKey U h c r)" "keeps I (tenant_CreateWorkspace U h c r)" "keeps I (tenant_UpdateWorkspace U h c r)"
  unfolding tenant_CreateOrg_def tenant_CreateApp_def tenant_CreateAPIKey_def tenant_RevokeAPIKey_def
    tenant_CreateWorkspace_def tenant_UpdateWorkspace_def CreateOrg_def CreateApp_def CreateKey_def RevokeKey_def
    CreateWorkspace_def UpdateWorkspace_def Let_def assms server_ops
  by (intro steps queries services writes)+

lemma endpoint_handlers:
  assumes "mh_endpointRepo h = EndpointRepo" "mh_policyRepo h = PolicyRepo"
  shows "keeps I (api_DefineEndpoint U h c r)" "keeps I (api_RetireEndpoint U h c r)"
    "keeps I (api_ActivateEndpoint U h c r)" "keeps I (api_UpdatePolicy U h c r)"
  unfolding api_DefineEndpoint_def api_RetireEndpoint_def api_ActivateEndpoint_def api_UpdatePolicy_def
    DefineEndpoint_def RetireEndpoint_def ActivateEndpoint_def UpdatePolicy_def Let_def assms server_ops
  by (intro steps queries writes)+

lemma usage_handler: "keeps I (handler_RecordUsage F U (UsageStatRepo collate) c r)"
  unfolding handler_RecordUsage_def RecordUsage_def server_ops by (intro steps writes)

lemma routes_keep:
  assumes "pk_uuid K = U" "probes_keep I K"
  shows "list_all (route_keeps I) (public_routes U (buildDependencies K cfg db rd) @ protected_routes U (buildDependencies K cfg db rd))"
proof (cases db)
  case True
  then have t: "db = True" by simp
  have w: "keeps I (pk_realtime K c r)" for c r using assms by (simp add: probes_keep_def)
  show ?thesis
    unfolding protected_routes_def iam_routes_def tenant_routes_def endpoint_routes_def other_routes_def public_routes_def
      t server_handlers option.case Let_def list_all_append append.simps list.pred_inject
    by (simp add: iam_reads tenant_reads endpoint_reads report_reads iam_handlers [where K = K and cfg = cfg and rd = rd] assms(1)
        tenant_handlers endpoint_handlers usage_handler w)
next
  case False
  then show ?thesis
    by (simp add: buildDependencies_def no_dependencies_def protected_routes_def iam_routes_def tenant_routes_def
        other_routes_def public_routes_def)
qed

lemma keeps_request:
  assumes "pk_uuid K = U" "probes_keep I K" "backends_keep I K"
  shows "keeps I (New U (buildDependencies K cfg db rd) cache r)"
  using routes_keep [OF assms(1,2), of cfg db rd] by (intro keeps_New) (use assms in \<open>auto simp: list_all_iff\<close>)

end

end
