(* ===== verification/Schema.thy ===== *)
theory Schema
  imports Tenant Api_Mgmt Rbac Statistics Audit_Trail
begin

text \<open>
  The schema of \<open>internal/infrastructure/postgres/migrations\<close> as a predicate on the tables: the
  primary keys, the unique and the check constraints, the ranges of the numeric columns, and the
  foreign keys. Every statement of the repositories keeps it: what a statement requires is as strong
  as the constraints on the rows it writes, and what it deletes takes the rows with it that refer to
  what is gone. A NULL is equal to no other value, so a row without an app never violates the unique
  constraint on \<open>user_roles\<close>, and a membership that nobody invited refers to nobody.
\<close>

section \<open>Constraints on lists of rows\<close>

text \<open>
  The constraints as a database schema states them: \<open>unique f xs\<close>, no two rows have
  the same key \<open>f\<close>; \<open>refers f xs g ys\<close>, the column \<open>f\<close> of \<open>xs\<close> is a foreign key to the column \<open>g\<close> of
  \<open>ys\<close>. Three changes of a table occur: a row is appended, rows are deleted by a filter, or rows are
  changed by a map that keeps their keys. The lemmas say what each leaves of the constraints.
\<close>

definition unique :: "('a \<Rightarrow> 'k) \<Rightarrow> 'a list \<Rightarrow> bool" where
  "unique f xs \<longleftrightarrow> distinct (map f xs)"

definition refers :: "('a \<Rightarrow> 'k) \<Rightarrow> 'a list \<Rightarrow> ('b \<Rightarrow> 'k) \<Rightarrow> 'b list \<Rightarrow> bool" where
  "refers f xs g ys \<longleftrightarrow> f ` set xs \<subseteq> g ` set ys"

named_theorems table_intros \<open>what a change of a table leaves of its constraints\<close>

lemma unique_Nil [simp]: "unique f []"
  by (simp add: unique_def)

lemma refers_Nil [simp]: "refers f [] g ys"
  by (simp add: refers_def)

section \<open>Appending\<close>

lemma unique_append [table_intros]:
  "unique f xs \<Longrightarrow> \<forall>y \<in> set xs. f y \<noteq> f x \<Longrightarrow> unique f (xs @ [x])"
  by (auto simp: unique_def)

lemma refers_append [table_intros]:
  "refers f xs g ys \<Longrightarrow> \<exists>y \<in> set ys. g y = f x \<Longrightarrow> refers f (xs @ [x]) g ys"
  unfolding refers_def by simp (metis image_eqI)

lemma refers_to_append [table_intros]: "refers f xs g ys \<Longrightarrow> refers f xs g (ys @ [y])"
  by (auto simp: refers_def)

section \<open>Deleting\<close>

lemma unique_filter [table_intros]: "unique f xs \<Longrightarrow> unique f (filter P xs)"
  by (simp add: unique_def distinct_map_filter)

lemma refers_filter [table_intros]: "refers f xs g ys \<Longrightarrow> refers f (filter P xs) g ys"
  by (auto simp: refers_def)

text \<open>The same where the constraint is on some rows of the table only.\<close>

lemma filter_swap: "filter P (filter Q xs) = filter Q (filter P xs)"
  by (simp add: conj_commute)

lemma unique_filter_part [table_intros]: "unique f (filter P xs) \<Longrightarrow> unique f (filter P (filter Q xs))"
  unfolding filter_swap [of P Q] by (rule unique_filter)

lemma refers_filter_part [table_intros]:
  "refers f (filter P xs) g ys \<Longrightarrow> refers f (filter P (filter Q xs)) g ys"
  unfolding filter_swap [of P Q] by (rule refers_filter)

text \<open>The rows that referred to a deleted row are deleted with it.\<close>

lemma refers_cascade:
  assumes "refers f xs g ys" "\<And>x y. x \<in> set xs \<Longrightarrow> P x \<Longrightarrow> y \<in> set ys \<Longrightarrow> g y = f x \<Longrightarrow> Q y"
  shows "refers f (filter P xs) g (filter Q ys)"
  unfolding refers_def
proof
  fix k
  assume "k \<in> f ` set (filter P xs)"
  then obtain x where x: "x \<in> set xs" "P x" "k = f x" by auto
  then obtain y where "y \<in> set ys" "g y = f x" using assms(1) unfolding refers_def by (metis image_iff image_subset_iff)
  then show "k \<in> g ` set (filter Q ys)" using assms(2) x by force
qed

lemma refers_delete [table_intros]:
  "refers f xs g ys \<Longrightarrow> refers f (filter (\<lambda>x. f x \<noteq> k) xs) g (filter (\<lambda>y. g y \<noteq> k) ys)"
  by (erule refers_cascade) simp

lemma refers_delete_set [table_intros]:
  "refers f xs g ys \<Longrightarrow>
     refers f (filter (\<lambda>x. f x \<notin> g ` set (filter P ys)) xs) g (filter (\<lambda>y. \<not> P y) ys)"
  by (erule refers_cascade) (force simp: image_iff)

section \<open>Changing rows\<close>

lemma unique_map_same [table_intros]: "unique f xs \<Longrightarrow> (\<And>x. f (h x) = f x) \<Longrightarrow> unique f (map h xs)"
  by (simp add: unique_def comp_def)

lemma refers_map_same [table_intros]:
  "refers f xs g ys \<Longrightarrow> (\<And>x. f (h x) = f x) \<Longrightarrow> refers f (map h xs) g ys"
  by (auto simp: refers_def)

lemma refers_map_part [table_intros]:
  "refers f (filter P xs) g ys \<Longrightarrow> (\<And>x. f (h x) = f x) \<Longrightarrow> (\<And>x. P (h x) = P x) \<Longrightarrow>
     refers f (filter P (map h xs)) g ys"
  by (simp add: filter_map comp_def refers_map_same)

lemma refers_to_map_same [table_intros]:
  "refers f xs g ys \<Longrightarrow> (\<And>y. g (h y) = g y) \<Longrightarrow> refers f xs g (map h ys)"
  by (simp add: refers_def image_image)

text \<open>
  The change of a key: the row with the primary key \<open>k\<close>, if there is one, gets the key \<open>f\<close> of \<open>h\<close>,
  which no other row has.
\<close>

lemma unique_change:
  assumes "unique p xs" "unique f xs"
    and "\<And>a b. a \<in> set xs \<Longrightarrow> p a = k \<Longrightarrow> b \<in> set xs \<Longrightarrow> p b \<noteq> k \<Longrightarrow> f b \<noteq> f (h a)"
  shows "unique f (map (\<lambda>x. if p x = k then h x else x) xs)"
proof -
  have "inj_on (\<lambda>x. f (if p x = k then h x else x)) (set xs)"
  proof (rule inj_onI)
    fix x y
    assume x: "x \<in> set xs" and y: "y \<in> set xs" and e: "f (if p x = k then h x else x) = f (if p y = k then h y else y)"
    have "inj_on p (set xs)" "inj_on f (set xs)" using assms(1,2) by (simp_all add: unique_def distinct_map)
    then show "x = y"
      using x y e assms(3) [of x y] assms(3) [of y x] by (cases "p x = k"; cases "p y = k") (auto dest: inj_onD)
  qed
  moreover have "distinct xs" using assms(1) by (simp add: unique_def distinct_map)
  ultimately show ?thesis by (simp add: unique_def distinct_map comp_def)
qed

lemma list_all_change: "list_all P xs \<Longrightarrow> (\<And>x. x \<in> set xs \<Longrightarrow> P x \<Longrightarrow> P (h x)) \<Longrightarrow> list_all P (map h xs)"
  by (auto simp: list_all_iff)

lemma list_all_filter: "list_all P xs \<Longrightarrow> list_all P (filter Q xs)"
  by (simp add: list_all_iff)

lemma list_all_append1: "list_all P xs \<Longrightarrow> P x \<Longrightarrow> list_all P (xs @ [x])"
  by simp

section \<open>The constraints of each table\<close>

definition users_schema :: "User list \<Rightarrow> bool" where
  "users_schema us \<longleftrightarrow> unique u_ID us \<and> unique u_Email us"

definition organizations_schema :: "Organization list \<Rightarrow> bool" where
  "organizations_schema gs \<longleftrightarrow> unique o_ID gs \<and> unique o_Slug gs"

definition organization_users_schema ::
  "Organization list \<Rightarrow> User list \<Rightarrow> OrganizationUser list \<Rightarrow> bool" where
  "organization_users_schema gs us ms \<longleftrightarrow>
     unique (\<lambda>m. (ou_OrganizationID m, ou_UserID m)) ms \<and>
     refers ou_OrganizationID ms o_ID gs \<and> refers ou_UserID ms u_ID us \<and>
     refers ou_InvitedBy (filter (\<lambda>m. ou_InvitedBy m \<noteq> None) ms) (\<lambda>u. Some (u_ID u)) us"

definition roles_schema :: "Role list \<Rightarrow> bool" where
  "roles_schema rs \<longleftrightarrow>
     unique r_ID rs \<and> unique (\<lambda>r. (r_ScopeType r, r_ScopeID r, r_Name r)) rs \<and>
     list_all (\<lambda>r. r_ScopeType r \<in> {''organization'', ''app''}) rs"

definition role_permissions_schema :: "Role list \<Rightarrow> Permission list \<Rightarrow> bool" where
  "role_permissions_schema rs ps \<longleftrightarrow>
     unique (\<lambda>p. (p_RoleID p, p_Permission p)) ps \<and> refers p_RoleID ps r_ID rs"

definition user_roles_schema ::
  "User list \<Rightarrow> Role list \<Rightarrow> Organization list \<Rightarrow> UserRole list \<Rightarrow> bool" where
  "user_roles_schema us rs gs xs \<longleftrightarrow>
     unique ur_ID xs \<and>
     unique (\<lambda>x. (ur_UserID x, ur_RoleID x, ur_OrganizationID x, ur_AppID x)) (filter (\<lambda>x. ur_AppID x \<noteq> None) xs) \<and>
     refers ur_UserID xs u_ID us \<and> refers ur_RoleID xs r_ID rs \<and> refers ur_OrganizationID xs o_ID gs"

definition apps_schema :: "Organization list \<Rightarrow> App list \<Rightarrow> bool" where
  "apps_schema gs xs \<longleftrightarrow>
     unique a_ID xs \<and> unique (\<lambda>a. (a_OrganizationID a, a_Slug a)) xs \<and> refers a_OrganizationID xs o_ID gs"

definition app_api_keys_schema :: "App list \<Rightarrow> AppAPIKey list \<Rightarrow> bool" where
  "app_api_keys_schema xs ks \<longleftrightarrow> unique k_ID ks \<and> refers k_AppID ks a_ID xs"

definition app_endpoints_schema :: "App list \<Rightarrow> Endpoint list \<Rightarrow> bool" where
  "app_endpoints_schema xs es \<longleftrightarrow>
     unique e_ID es \<and> unique (\<lambda>e. (e_AppID e, e_Method e, e_Path e, e_Version e)) es \<and> refers e_AppID es a_ID xs"

definition app_endpoint_policies_schema :: "Endpoint list \<Rightarrow> EndpointPolicy list \<Rightarrow> bool" where
  "app_endpoint_policies_schema es ps \<longleftrightarrow>
     unique ep_ID ps \<and> refers ep_EndpointID ps e_ID es \<and> list_all (\<lambda>p. int32 (ep_RateLimit p)) ps"

definition audit_logs_schema :: "AuditLog list \<Rightarrow> bool" where
  "audit_logs_schema ls \<longleftrightarrow> unique l_ID ls"

definition workspaces_schema :: "Organization list \<Rightarrow> Workspace list \<Rightarrow> bool" where
  "workspaces_schema gs ws \<longleftrightarrow>
     unique w_ID ws \<and> unique (\<lambda>x. (w_OrganizationID x, w_Slug x)) ws \<and> refers w_OrganizationID ws o_ID gs \<and>
     list_all (\<lambda>x. w_Status x \<in> set workspace_statuses) ws"

definition refresh_tokens_schema :: "User list \<Rightarrow> RefreshToken list \<Rightarrow> bool" where
  "refresh_tokens_schema us ts \<longleftrightarrow> unique t_ID ts \<and> unique t_TokenHash ts \<and> refers t_UserID ts u_ID us"

definition stat_columns :: "UsageStat \<Rightarrow> bool" where
  "stat_columns s \<longleftrightarrow>
     int4 (s_TokenCount s) \<and> int4 (s_InferenceTimeMs s) \<and>
     (case s_FirstTokenTimeMs s of Some n \<Rightarrow> int4 n | None \<Rightarrow> True) \<and>
     (case s_TokensPerSecond s of Some x \<Rightarrow> \<bar>x\<bar> < 10 ^ 8 | None \<Rightarrow> True)"

definition model_usage_stats_schema :: "User list \<Rightarrow> UsageStat list \<Rightarrow> bool" where
  "model_usage_stats_schema us ss \<longleftrightarrow> unique s_ID ss \<and> refers s_UserID ss u_ID us \<and> list_all stat_columns ss"

section \<open>The schema\<close>

definition schema_ok :: "world \<Rightarrow> bool" where
  "schema_ok w \<longleftrightarrow>
     users_schema (users w) \<and> organizations_schema (organizations w) \<and>
     organization_users_schema (organizations w) (users w) (organization_users w) \<and>
     roles_schema (roles w) \<and> role_permissions_schema (roles w) (role_permissions w) \<and>
     user_roles_schema (users w) (roles w) (organizations w) (user_roles w) \<and>
     apps_schema (organizations w) (apps w) \<and> app_api_keys_schema (apps w) (app_api_keys w) \<and>
     app_endpoints_schema (apps w) (app_endpoints w) \<and>
     app_endpoint_policies_schema (app_endpoints w) (app_endpoint_policies w) \<and>
     audit_logs_schema (audit_logs w) \<and> workspaces_schema (organizations w) (workspaces w) \<and>
     refresh_tokens_schema (users w) (refresh_tokens w) \<and> model_usage_stats_schema (users w) (model_usage_stats w)"

lemmas table_schemas =
  users_schema_def organizations_schema_def organization_users_schema_def roles_schema_def
  role_permissions_schema_def user_roles_schema_def apps_schema_def app_api_keys_schema_def
  app_endpoints_schema_def app_endpoint_policies_schema_def audit_logs_schema_def workspaces_schema_def
  refresh_tokens_schema_def model_usage_stats_schema_def

lemma schema_empty: "schema_ok (empty_world v)"
  by (simp add: schema_ok_def table_schemas empty_world_def)

lemma schema_stable [simp]: "schema_ok (tick_world w) = schema_ok w" "tick_stable schema_ok"
  by (simp_all add: schema_ok_def tick_stable_def)

text \<open>To a table that no other table refers to, only its own constraints matter.\<close>

lemma schema_leaf:
  assumes "schema_ok w"
  shows "organization_users_schema (organizations w) (users w) ms \<Longrightarrow> schema_ok (w\<lparr>organization_users := ms\<rparr>)"
    "role_permissions_schema (roles w) ps \<Longrightarrow> schema_ok (w\<lparr>role_permissions := ps\<rparr>)"
    "user_roles_schema (users w) (roles w) (organizations w) xs \<Longrightarrow> schema_ok (w\<lparr>user_roles := xs\<rparr>)"
    "app_api_keys_schema (apps w) ks \<Longrightarrow> schema_ok (w\<lparr>app_api_keys := ks\<rparr>)"
    "app_endpoint_policies_schema (app_endpoints w) qs \<Longrightarrow> schema_ok (w\<lparr>app_endpoint_policies := qs\<rparr>)"
    "audit_logs_schema ls \<Longrightarrow> schema_ok (w\<lparr>audit_logs := ls\<rparr>)"
    "workspaces_schema (organizations w) ws \<Longrightarrow> schema_ok (w\<lparr>workspaces := ws\<rparr>)"
    "refresh_tokens_schema (users w) ts \<Longrightarrow> schema_ok (w\<lparr>refresh_tokens := ts\<rparr>)"
    "model_usage_stats_schema (users w) ss \<Longrightarrow> schema_ok (w\<lparr>model_usage_stats := ss\<rparr>)"
  using assms by (simp_all add: schema_ok_def)

lemma schema_parts:
  assumes "schema_ok w"
  shows "organization_users_schema (organizations w) (users w) (organization_users w)"
    "role_permissions_schema (roles w) (role_permissions w)"
    "user_roles_schema (users w) (roles w) (organizations w) (user_roles w)"
    "app_api_keys_schema (apps w) (app_api_keys w)"
    "app_endpoint_policies_schema (app_endpoints w) (app_endpoint_policies w)" "audit_logs_schema (audit_logs w)"
    "workspaces_schema (organizations w) (workspaces w)" "refresh_tokens_schema (users w) (refresh_tokens w)"
    "model_usage_stats_schema (users w) (model_usage_stats w)"
  using assms by (simp_all add: schema_ok_def)

text \<open>What a table's constraints become where another table, to which it refers, grows or changes.\<close>

lemma schema_more_users:
  "organization_users_schema gs us ms \<Longrightarrow> organization_users_schema gs (us @ [u]) ms"
  "user_roles_schema us rs gs xs \<Longrightarrow> user_roles_schema (us @ [u]) rs gs xs"
  "refresh_tokens_schema us ts \<Longrightarrow> refresh_tokens_schema (us @ [u]) ts"
  "model_usage_stats_schema us ss \<Longrightarrow> model_usage_stats_schema (us @ [u]) ss"
  by (simp_all add: table_schemas refers_to_append)

lemma schema_more_organizations:
  "organization_users_schema gs us ms \<Longrightarrow> organization_users_schema (gs @ [g]) us ms"
  "user_roles_schema us rs gs xs \<Longrightarrow> user_roles_schema us rs (gs @ [g]) xs"
  "apps_schema gs as \<Longrightarrow> apps_schema (gs @ [g]) as" "workspaces_schema gs ws \<Longrightarrow> workspaces_schema (gs @ [g]) ws"
  by (simp_all add: table_schemas refers_to_append)

lemma schema_more_roles:
  "role_permissions_schema rs ps \<Longrightarrow> role_permissions_schema (rs @ [r]) ps"
  "user_roles_schema us rs gs xs \<Longrightarrow> user_roles_schema us (rs @ [r]) gs xs"
  by (simp_all add: table_schemas refers_to_append)

lemma schema_more_apps:
  "app_api_keys_schema as ks \<Longrightarrow> app_api_keys_schema (as @ [a]) ks"
  "app_endpoints_schema as es \<Longrightarrow> app_endpoints_schema (as @ [a]) es"
  by (simp_all add: table_schemas refers_to_append)

lemma schema_more_endpoints:
  "app_endpoint_policies_schema es ps \<Longrightarrow> app_endpoint_policies_schema (es @ [e]) ps"
  by (simp add: table_schemas refers_to_append)

lemma schema_changed_users:
  assumes "\<And>u. u_ID (h u) = u_ID u"
  shows "organization_users_schema gs us ms \<Longrightarrow> organization_users_schema gs (map h us) ms"
    "user_roles_schema us rs gs xs \<Longrightarrow> user_roles_schema (map h us) rs gs xs"
    "refresh_tokens_schema us ts \<Longrightarrow> refresh_tokens_schema (map h us) ts"
    "model_usage_stats_schema us ss \<Longrightarrow> model_usage_stats_schema (map h us) ss"
  using assms by (simp_all add: table_schemas refers_to_map_same)

lemma schema_changed_organizations:
  assumes "\<And>g. o_ID (h g) = o_ID g"
  shows "organization_users_schema gs us ms \<Longrightarrow> organization_users_schema (map h gs) us ms"
    "user_roles_schema us rs gs xs \<Longrightarrow> user_roles_schema us rs (map h gs) xs"
    "apps_schema gs as \<Longrightarrow> apps_schema (map h gs) as" "workspaces_schema gs ws \<Longrightarrow> workspaces_schema (map h gs) ws"
  using assms by (simp_all add: table_schemas refers_to_map_same)

lemma schema_changed_roles:
  assumes "\<And>r. r_ID (h r) = r_ID r"
  shows "role_permissions_schema rs ps \<Longrightarrow> role_permissions_schema (map h rs) ps"
    "user_roles_schema us rs gs xs \<Longrightarrow> user_roles_schema us (map h rs) gs xs"
  using assms by (simp_all add: table_schemas refers_to_map_same)

lemma schema_changed_apps:
  assumes "\<And>a. a_ID (h a) = a_ID a"
  shows "app_api_keys_schema as ks \<Longrightarrow> app_api_keys_schema (map h as) ks"
    "app_endpoints_schema as es \<Longrightarrow> app_endpoints_schema (map h as) es"
  using assms by (simp_all add: table_schemas refers_to_map_same)

lemma schema_changed_endpoints:
  assumes "\<And>e. e_ID (h e) = e_ID e"
  shows "app_endpoint_policies_schema es ps \<Longrightarrow> app_endpoint_policies_schema (map h es) ps"
  using assms by (simp add: table_schemas refers_to_map_same)

text \<open>The rows that refer to a user, a role, an organization, an app or an endpoint go with it.\<close>

lemma schema_without_user:
  fixes k :: uuid
  defines "us' us \<equiv> filter (\<lambda>u. u_ID u \<noteq> k) us"
  shows "users_schema us \<Longrightarrow> users_schema (us' us)"
    "organization_users_schema gs us ms \<Longrightarrow> \<forall>m \<in> set ms. ou_InvitedBy m = Some k \<longrightarrow> ou_UserID m = k \<Longrightarrow>
       organization_users_schema gs (us' us) (filter (\<lambda>m. ou_UserID m \<noteq> k) ms)"
    "user_roles_schema us rs gs xs \<Longrightarrow> user_roles_schema (us' us) rs gs (filter (\<lambda>x. ur_UserID x \<noteq> k) xs)"
    "refresh_tokens_schema us ts \<Longrightarrow> refresh_tokens_schema (us' us) (filter (\<lambda>t. t_UserID t \<noteq> k) ts)"
    "model_usage_stats_schema us ss \<Longrightarrow> model_usage_stats_schema (us' us) (filter (\<lambda>s. s_UserID s \<noteq> k) ss)"
proof -
  assume m: "organization_users_schema gs us ms" "\<forall>m \<in> set ms. ou_InvitedBy m = Some k \<longrightarrow> ou_UserID m = k"
  have "refers ou_InvitedBy (filter (\<lambda>m. ou_UserID m \<noteq> k) (filter (\<lambda>m. ou_InvitedBy m \<noteq> None) ms))
      (\<lambda>u. Some (u_ID u)) (filter (\<lambda>u. u_ID u \<noteq> k) us)"
    using m by (intro refers_cascade) (auto simp: organization_users_schema_def)
  then show "organization_users_schema gs (us' us) (filter (\<lambda>m. ou_UserID m \<noteq> k) ms)"
    using m(1) unfolding organization_users_schema_def us'_def filter_swap [of "\<lambda>m. ou_InvitedBy m \<noteq> None"]
    by (intro conjI) (elim conjE, (assumption | rule table_intros)+)+
qed (unfold table_schemas us'_def, (intro conjI; elim conjE; (assumption | rule table_intros list_all_filter)+)+)

lemma schema_without_role:
  fixes k :: uuid
  defines "rs' rs \<equiv> filter (\<lambda>r. r_ID r \<noteq> k) rs"
  shows "roles_schema rs \<Longrightarrow> roles_schema (rs' rs)"
    "role_permissions_schema rs ps \<Longrightarrow> role_permissions_schema (rs' rs) (filter (\<lambda>p. p_RoleID p \<noteq> k) ps)"
    "user_roles_schema us rs gs xs \<Longrightarrow> user_roles_schema us (rs' rs) gs (filter (\<lambda>x. ur_RoleID x \<noteq> k) xs)"
  by (unfold table_schemas rs'_def, (intro conjI; elim conjE; (assumption | rule table_intros list_all_filter)+)+)

lemma schema_without_organization:
  fixes k :: uuid
  defines "gs' gs \<equiv> filter (\<lambda>g. o_ID g \<noteq> k) gs"
  shows "organizations_schema gs \<Longrightarrow> organizations_schema (gs' gs)"
    "organization_users_schema gs us ms \<Longrightarrow>
       organization_users_schema (gs' gs) us (filter (\<lambda>m. ou_OrganizationID m \<noteq> k) ms)"
    "user_roles_schema us rs gs xs \<Longrightarrow> user_roles_schema us rs (gs' gs) (filter (\<lambda>x. ur_OrganizationID x \<noteq> k) xs)"
    "apps_schema gs xs' \<Longrightarrow> apps_schema (gs' gs) (filter (\<lambda>a. a_OrganizationID a \<noteq> k) xs')"
    "workspaces_schema gs ws \<Longrightarrow> workspaces_schema (gs' gs) (filter (\<lambda>x. w_OrganizationID x \<noteq> k) ws)"
  by (unfold table_schemas gs'_def, (intro conjI; elim conjE; (assumption | rule table_intros list_all_filter)+)+)

lemma schema_without_apps:
  "apps_schema gs xs \<Longrightarrow> apps_schema gs (filter (\<lambda>a. \<not> P a) xs)"
  "app_api_keys_schema xs ks \<Longrightarrow>
     app_api_keys_schema (filter (\<lambda>a. \<not> P a) xs) (filter (\<lambda>k. k_AppID k \<notin> a_ID ` set (filter P xs)) ks)"
  "app_endpoints_schema xs es \<Longrightarrow>
     app_endpoints_schema (filter (\<lambda>a. \<not> P a) xs) (filter (\<lambda>e. e_AppID e \<notin> a_ID ` set (filter P xs)) es)"
  by (unfold table_schemas, (intro conjI; elim conjE; (assumption | rule table_intros)+)+)

lemma schema_without_endpoints:
  "app_endpoints_schema xs es \<Longrightarrow> app_endpoints_schema xs (filter (\<lambda>e. \<not> P e) es)"
  "app_endpoint_policies_schema es ps \<Longrightarrow>
     app_endpoint_policies_schema (filter (\<lambda>e. \<not> P e) es)
       (filter (\<lambda>p. ep_EndpointID p \<notin> e_ID ` set (filter P es)) ps)"
  by (unfold table_schemas, (intro conjI; elim conjE; (assumption | rule table_intros list_all_filter)+)+)

end
