(* ===== verification/Schema_Keeps.thy ===== *)
theory Schema_Keeps
  imports Schema
begin

text \<open>
  Every statement of the repositories that writes keeps the schema, table by table, whatever the
  environment does: a refused statement leaves the tables alone, and one whose reply is lost has been
  carried out.
\<close>

lemmas schema_rules = keeps_intros keeps_sql_exec keeps_effects schema_stable(2)

section \<open>Users, roles, memberships\<close>

lemma schema_UserRepo_Create: "keeps schema_ok (UserRepo_Create u)"
  unfolding UserRepo_Create_def Let_def
  by (intro schema_rules) (auto simp: schema_ok_def schema_more_users users_schema_def intro!: unique_append)

lemma schema_UserRepo_Update: "keeps schema_ok (UserRepo_Update u)"
  unfolding UserRepo_Update_def Let_def
proof (intro schema_rules)
  fix now and w :: world
  let ?u = "u\<lparr>u_UpdatedAt := now\<rparr>"
  let ?h = "\<lambda>x. x\<lparr>u_Email := u_Email ?u, u_FirstName := u_FirstName ?u, u_LastName := u_LastName ?u,
    u_Status := u_Status ?u, u_UpdatedAt := u_UpdatedAt ?u\<rparr>"
  assume s: "schema_ok w" and c: "(\<exists>x \<in> set (users w). u_ID x = u_ID ?u) \<longrightarrow>
    (\<forall>x \<in> set (users w). u_ID x \<noteq> u_ID ?u \<longrightarrow> u_Email x \<noteq> u_Email ?u)"
  have "unique u_Email (map (\<lambda>x. if u_ID x = u_ID ?u then ?h x else x) (users w))"
    using s c by (intro unique_change) (auto simp: schema_ok_def users_schema_def)
  then show "schema_ok (w\<lparr>users := map (\<lambda>x. if u_ID x = u_ID ?u then ?h x else x) (users w)\<rparr>)"
    using s by (simp add: schema_ok_def schema_changed_users users_schema_def unique_map_same)
qed

lemma schema_UserRepo_Delete: "keeps schema_ok (UserRepo_Delete uid)"
  unfolding UserRepo_Delete_def
  by (intro schema_rules) (auto simp: schema_ok_def intro!: schema_without_user)

lemma schema_RoleRepo_Create: "keeps schema_ok (RoleRepo_Create r)"
  unfolding RoleRepo_Create_def Let_def
  by (intro schema_rules) (auto simp: schema_ok_def schema_more_roles roles_schema_def intro!: unique_append)

lemma schema_RoleRepo_Update: "keeps schema_ok (RoleRepo_Update r)"
  unfolding RoleRepo_Update_def Let_def
proof (intro schema_rules)
  fix now and w :: world
  let ?r = "r\<lparr>r_UpdatedAt := now\<rparr>"
  let ?h = "\<lambda>x. x\<lparr>r_Name := r_Name ?r, r_Description := r_Description ?r, r_UpdatedAt := r_UpdatedAt ?r\<rparr>"
  let ?f = "\<lambda>x. (r_ScopeType x, r_ScopeID x, r_Name x)"
  assume s: "schema_ok w" and c: "\<forall>a \<in> set (roles w). r_ID a = r_ID ?r \<longrightarrow>
    (\<forall>b \<in> set (roles w). r_ID b \<noteq> r_ID ?r \<longrightarrow> ?f b \<noteq> (r_ScopeType a, r_ScopeID a, r_Name ?r))"
  have "unique ?f (map (\<lambda>x. if r_ID x = r_ID ?r then ?h x else x) (roles w))"
    using s c by (intro unique_change) (auto simp: schema_ok_def roles_schema_def)
  moreover have "list_all (\<lambda>x. r_ScopeType x \<in> {''organization'', ''app''}) (map (\<lambda>x. if r_ID x = r_ID ?r then ?h x else x) (roles w))"
    using s by (intro list_all_change) (auto simp: schema_ok_def roles_schema_def)
  ultimately show "schema_ok (w\<lparr>roles := map (\<lambda>x. if r_ID x = r_ID ?r then ?h x else x) (roles w)\<rparr>)"
    using s by (simp add: schema_ok_def schema_changed_roles roles_schema_def unique_map_same)
qed

lemma schema_RoleRepo_Delete: "keeps schema_ok (RoleRepo_Delete rid)"
  unfolding RoleRepo_Delete_def
  by (intro schema_rules) (auto simp: schema_ok_def intro!: schema_without_role)

lemma permission_row: "x = \<lparr>p_RoleID = r, p_Permission = p\<rparr> \<longleftrightarrow> (p_RoleID x, p_Permission x) = (r, p)"
  by (cases x) auto

lemma schema_RoleRepo_AddPermission: "keeps schema_ok (RoleRepo_AddPermission rid p)"
  unfolding RoleRepo_AddPermission_def Let_def
proof (intro schema_rules)
  fix w :: world
  assume s: "schema_ok w" and r: "\<exists>r \<in> set (roles w). r_ID r = rid"
  let ?row = "\<lparr>p_RoleID = rid, p_Permission = p\<rparr>"
  have "role_permissions_schema (roles w) (role_permissions w @ [?row])" if "?row \<notin> set (role_permissions w)"
  proof -
    have "\<forall>x \<in> set (role_permissions w). (p_RoleID x, p_Permission x) \<noteq> (rid, p)"
      using that permission_row by metis
    then show ?thesis
      using s r by (auto simp: schema_ok_def role_permissions_schema_def intro!: unique_append refers_append)
  qed
  then show "schema_ok (if ?row \<in> set (role_permissions w) then w
      else w\<lparr>role_permissions := role_permissions w @ [?row]\<rparr>)"
    using s by (simp add: schema_ok_def)
qed

lemma schema_RoleRepo_RemovePermission: "keeps schema_ok (RoleRepo_RemovePermission rid p)"
  unfolding RoleRepo_RemovePermission_def Let_def
  by (intro schema_rules) (frule schema_parts(2), erule schema_leaf, auto simp: role_permissions_schema_def simp del: de_Morgan_conj intro!: unique_filter refers_filter)

lemma schema_RoleRepo_AssignRoleToUser: "keeps schema_ok (RoleRepo_AssignRoleToUser x)"
  unfolding RoleRepo_AssignRoleToUser_def Let_def
  by (intro schema_rules)
    (frule schema_parts(3), auto simp: user_roles_schema_def user_role_conflict_def
      intro!: schema_leaf unique_append refers_append, blast+)

lemma schema_RoleRepo_RemoveRoleFromUser: "keeps schema_ok (RoleRepo_RemoveRoleFromUser uid rid)"
  unfolding RoleRepo_RemoveRoleFromUser_def Let_def
  by (intro schema_rules) (frule schema_parts(3), erule schema_leaf, auto simp: user_roles_schema_def simp del: filter_filter de_Morgan_conj intro!: unique_filter unique_filter_part refers_filter)

lemma schema_OrgUserRepo_Add: "keeps schema_ok (OrgUserRepo_Add m)"
  unfolding OrgUserRepo_Add_def Let_def
proof (intro schema_rules)
  fix now and w :: world
  let ?m = "m\<lparr>ou_CreatedAt := now, ou_UpdatedAt := now\<rparr>"
  let ?same = "\<lambda>x. ou_OrganizationID x = ou_OrganizationID ?m \<and> ou_UserID x = ou_UserID ?m"
  let ?h = "\<lambda>x. if ?same x then x\<lparr>ou_Status := ou_Status ?m, ou_UpdatedAt := ou_UpdatedAt ?m\<rparr> else x"
  assume s: "schema_ok w" and c: "(\<exists>x \<in> set (organization_users w). ?same x) \<or>
    (\<exists>g \<in> set (organizations w). o_ID g = ou_OrganizationID ?m) \<and> (\<exists>u \<in> set (users w). u_ID u = ou_UserID ?m) \<and>
    (case ou_InvitedBy ?m of None \<Rightarrow> True | Some b \<Rightarrow> \<exists>u \<in> set (users w). u_ID u = b)"
  show "schema_ok (if \<exists>x \<in> set (organization_users w). ?same x
      then w\<lparr>organization_users := map ?h (organization_users w)\<rparr>
      else w\<lparr>organization_users := organization_users w @ [?m]\<rparr>)"
  proof (cases "\<exists>x \<in> set (organization_users w). ?same x")
    case True
    have "refers ou_InvitedBy (filter (\<lambda>x. ou_InvitedBy x \<noteq> None) (map ?h (organization_users w)))
        (\<lambda>u. Some (u_ID u)) (users w)"
      using s by (intro refers_map_part) (auto simp: schema_ok_def organization_users_schema_def)
    then have "organization_users_schema (organizations w) (users w) (map ?h (organization_users w))"
      using s unfolding schema_ok_def organization_users_schema_def by (simp add: unique_map_same refers_map_same)
    then show ?thesis using True s by (simp add: schema_ok_def)
  next
    case False
    then show ?thesis
      using s c by (auto simp: schema_ok_def organization_users_schema_def intro!: unique_append refers_append
          split: option.splits)
  qed
qed

lemma schema_OrgUserRepo_Remove: "keeps schema_ok (OrgUserRepo_Remove gid uid)"
  unfolding OrgUserRepo_Remove_def Let_def
  by (intro schema_rules) (frule schema_parts(1), erule schema_leaf, auto simp: organization_users_schema_def simp del: filter_filter de_Morgan_conj intro!: unique_filter refers_filter refers_filter_part)

section \<open>Refresh tokens\<close>

lemma schema_RefreshTokenRepo_Create: "keeps schema_ok (RefreshTokenRepo_Create t)"
  unfolding RefreshTokenRepo_Create_def Let_def
  by (intro schema_rules) (frule schema_parts(8), erule schema_leaf, auto simp: refresh_tokens_schema_def intro!: unique_append refers_append)

lemma schema_revoke: "schema_ok w \<Longrightarrow> schema_ok (w\<lparr>refresh_tokens := revoke_where P now (refresh_tokens w)\<rparr>)"
  by (simp add: schema_ok_def refresh_tokens_schema_def revoke_where_def unique_map_same refers_map_same)

lemma schema_revocations:
  "keeps schema_ok (RefreshTokenRepo_Revoke tid)" "keeps schema_ok (RefreshTokenRepo_RevokeAllByUserID uid)"
  "keeps schema_ok (RefreshTokenRepo_RevokeFamily fid)"
  unfolding RefreshTokenRepo_Revoke_def RefreshTokenRepo_RevokeAllByUserID_def RefreshTokenRepo_RevokeFamily_def
  by (intro schema_rules; simp add: schema_revoke)+

lemma schema_RefreshTokenRepo_DeleteExpired: "keeps schema_ok RefreshTokenRepo_DeleteExpired"
  unfolding RefreshTokenRepo_DeleteExpired_def
  by (intro schema_rules) (simp add: schema_ok_def refresh_tokens_schema_def unique_filter refers_filter)

section \<open>Organizations and apps\<close>

lemma schema_OrgRepo_Create: "keeps schema_ok (OrgRepo_Create g)"
  unfolding OrgRepo_Create_def Let_def
  by (intro schema_rules) (auto simp: schema_ok_def schema_more_organizations organizations_schema_def intro!: unique_append)

lemma schema_OrgRepo_Update: "keeps schema_ok (OrgRepo_Update g)"
  unfolding OrgRepo_Update_def Let_def
  by (intro schema_rules)
    (simp add: schema_ok_def schema_changed_organizations organizations_schema_def unique_map_same)

lemma schema_drop_endpoints: "schema_ok w \<Longrightarrow> schema_ok (drop_endpoints P w)"
  unfolding drop_endpoints_def Let_def
  by (simp add: schema_ok_def schema_without_endpoints del: set_filter)

lemma schema_drop_apps:
  assumes "schema_ok w"
  shows "schema_ok (drop_apps P w)"
proof -
  let ?ids = "a_ID ` set (filter P (apps w))"
  have "app_endpoint_policies_schema (filter (\<lambda>e. e_AppID e \<notin> ?ids) (app_endpoints w))
      (filter (\<lambda>p. ep_EndpointID p \<notin> e_ID ` set (filter (\<lambda>e. e_AppID e \<in> ?ids) (app_endpoints w))) (app_endpoint_policies w))"
    using assms by (intro schema_without_endpoints) (simp add: schema_ok_def)
  then show ?thesis
    using assms unfolding drop_apps_def drop_endpoints_def Let_def
    by (simp add: schema_ok_def schema_without_apps del: set_filter)
qed

lemma schema_OrgRepo_Delete: "keeps schema_ok (OrgRepo_Delete gid)"
  unfolding OrgRepo_Delete_def
proof (intro schema_rules)
  fix w :: world
  assume s: "schema_ok w"
  let ?P = "\<lambda>a. a_OrganizationID a = gid" and ?ids = "a_ID ` set (filter (\<lambda>a. a_OrganizationID a = gid) (apps w))"
  have "app_endpoint_policies_schema (filter (\<lambda>e. e_AppID e \<notin> ?ids) (app_endpoints w))
      (filter (\<lambda>p. ep_EndpointID p \<notin> e_ID ` set (filter (\<lambda>e. e_AppID e \<in> ?ids) (app_endpoints w))) (app_endpoint_policies w))"
    using s by (intro schema_without_endpoints) (simp add: schema_ok_def)
  then show "schema_ok (if \<exists>x \<in> set (organizations w). o_ID x = gid
      then drop_apps ?P (w\<lparr>organizations := filter (\<lambda>x. o_ID x \<noteq> gid) (organizations w),
             organization_users := filter (\<lambda>m. ou_OrganizationID m \<noteq> gid) (organization_users w),
             user_roles := filter (\<lambda>r. ur_OrganizationID r \<noteq> gid) (user_roles w),
             workspaces := filter (\<lambda>x. w_OrganizationID x \<noteq> gid) (workspaces w)\<rparr>)
      else w)"
    using s unfolding drop_apps_def drop_endpoints_def Let_def
    by (simp add: schema_ok_def schema_without_apps schema_without_organization del: set_filter)
qed

lemma schema_AppRepo_Create: "keeps schema_ok (AppRepo_Create a)"
  unfolding AppRepo_Create_def Let_def
  by (intro schema_rules)
    (auto simp: schema_ok_def schema_more_apps apps_schema_def intro!: unique_append refers_append)

lemma schema_AppRepo_Update: "keeps schema_ok (AppRepo_Update a)"
  unfolding AppRepo_Update_def Let_def
  by (intro schema_rules) (simp add: schema_ok_def schema_changed_apps apps_schema_def unique_map_same refers_map_same)

lemma schema_AppRepo_Delete: "keeps schema_ok (AppRepo_Delete aid)"
  unfolding AppRepo_Delete_def by (intro schema_rules schema_drop_apps)

lemma schema_APIKeyRepo_Create: "keeps schema_ok (APIKeyRepo_Create k)"
  unfolding APIKeyRepo_Create_def Let_def
  by (intro schema_rules) (frule schema_parts(4), erule schema_leaf, auto simp: app_api_keys_schema_def intro!: unique_append refers_append)

lemma schema_APIKeyRepo_Revoke: "keeps schema_ok (APIKeyRepo_Revoke kid)"
  unfolding APIKeyRepo_Revoke_def
  by (intro schema_rules) (simp add: schema_ok_def app_api_keys_schema_def unique_map_same refers_map_same)

section \<open>Workspaces\<close>

lemma schema_WorkspaceRepository_Create: "keeps schema_ok (WorkspaceRepository_Create x)"
  unfolding WorkspaceRepository_Create_def Let_def
  by (intro schema_rules) (frule schema_parts(7), erule schema_leaf, auto simp: workspaces_schema_def intro!: unique_append refers_append)

lemma schema_WorkspaceRepository_Update: "keeps schema_ok (WorkspaceRepository_Update ws)"
  unfolding WorkspaceRepository_Update_def Let_def
proof (intro schema_rules)
  fix now and w :: world
  let ?ws = "ws\<lparr>w_UpdatedAt := now\<rparr>"
  let ?h = "\<lambda>x. x\<lparr>w_Name := w_Name ?ws, w_Slug := w_Slug ?ws, w_Description := w_Description ?ws,
    w_Status := w_Status ?ws, w_UpdatedAt := w_UpdatedAt ?ws\<rparr>"
  let ?f = "\<lambda>x. (w_OrganizationID x, w_Slug x)"
  let ?m = "map (\<lambda>x. if w_ID x = w_ID ?ws then ?h x else x) (workspaces w)"
  assume s: "schema_ok w" and c: "\<forall>a \<in> set (workspaces w). w_ID a = w_ID ?ws \<longrightarrow>
    w_Status ?ws \<in> set workspace_statuses \<and>
    (\<forall>b \<in> set (workspaces w). w_ID b \<noteq> w_ID ?ws \<longrightarrow> ?f b \<noteq> (w_OrganizationID a, w_Slug ?ws))"
  have "unique ?f ?m"
    using s c by (intro unique_change) (auto simp: schema_ok_def workspaces_schema_def)
  moreover have "list_all (\<lambda>x. w_Status x \<in> set workspace_statuses) ?m"
    using s c by (intro list_all_change) (auto simp: schema_ok_def workspaces_schema_def)
  ultimately show "schema_ok (w\<lparr>workspaces := ?m\<rparr>)"
    using s by (simp add: schema_ok_def workspaces_schema_def unique_map_same refers_map_same)
qed

lemma schema_WorkspaceRepository_Delete: "keeps schema_ok (WorkspaceRepository_Delete wid)"
  unfolding WorkspaceRepository_Delete_def
proof (intro schema_rules)
  fix now and w :: world
  let ?h = "\<lambda>x. if w_ID x = wid then x\<lparr>w_Status := WorkspaceStatusArchived, w_UpdatedAt := now\<rparr> else x"
  assume s: "schema_ok w"
  have "list_all (\<lambda>x. w_Status x \<in> set workspace_statuses) (map ?h (workspaces w))"
    using s by (intro list_all_change) (auto simp: schema_ok_def workspaces_schema_def workspace_statuses_def)
  then show "schema_ok (w\<lparr>workspaces := map ?h (workspaces w)\<rparr>)"
    using s by (simp add: schema_ok_def workspaces_schema_def unique_map_same refers_map_same)
qed

section \<open>Endpoints, policies, audit trail, statistics\<close>

lemma schema_EndpointRepo_Create: "keeps schema_ok (EndpointRepo_Create e)"
  unfolding EndpointRepo_Create_def Let_def
  by (intro schema_rules)
    (auto simp: schema_ok_def schema_more_endpoints app_endpoints_schema_def intro!: unique_append refers_append)

lemma schema_EndpointRepo_Update: "keeps schema_ok (EndpointRepo_Update ep)"
  unfolding EndpointRepo_Update_def Let_def
proof (intro schema_rules)
  fix now and w :: world
  let ?ep = "ep\<lparr>e_UpdatedAt := now\<rparr>"
  let ?h = "\<lambda>x. x\<lparr>e_Method := e_Method ?ep, e_Path := e_Path ?ep, e_Version := e_Version ?ep,
     e_BackendService := e_BackendService ?ep, e_BackendAction := e_BackendAction ?ep,
     e_Schema := e_Schema ?ep, e_AuditLevel := e_AuditLevel ?ep, e_PIIMasking := e_PIIMasking ?ep,
     e_EventAfter := e_EventAfter ?ep, e_Status := e_Status ?ep, e_UpdatedAt := e_UpdatedAt ?ep\<rparr>"
  let ?f = "\<lambda>x. (e_AppID x, e_Method x, e_Path x, e_Version x)"
  let ?m = "map (\<lambda>x. if e_ID x = e_ID ?ep then ?h x else x) (app_endpoints w)"
  assume s: "schema_ok w" and c: "\<forall>a \<in> set (app_endpoints w). e_ID a = e_ID ?ep \<longrightarrow>
    (\<forall>b \<in> set (app_endpoints w). e_ID b \<noteq> e_ID ?ep \<longrightarrow>
      ?f b \<noteq> (e_AppID a, e_Method ?ep, e_Path ?ep, e_Version ?ep))"
  have "unique ?f ?m"
    using s c by (intro unique_change) (auto simp: schema_ok_def app_endpoints_schema_def)
  then show "schema_ok (w\<lparr>app_endpoints := ?m\<rparr>)"
    using s by (simp add: schema_ok_def schema_changed_endpoints app_endpoints_schema_def unique_map_same refers_map_same)
qed

lemma schema_EndpointRepo_Delete: "keeps schema_ok (EndpointRepo_Delete eid)"
  unfolding EndpointRepo_Delete_def by (intro schema_rules schema_drop_endpoints)

lemma schema_PolicyRepo_Create: "keeps schema_ok (PolicyRepo_Create p)"
  unfolding PolicyRepo_Create_def Let_def
  by (intro schema_rules) (frule schema_parts(5), erule schema_leaf, auto simp: app_endpoint_policies_schema_def intro!: unique_append refers_append)

lemma schema_PolicyRepo_Update: "keeps schema_ok (PolicyRepo_Update p)"
  unfolding PolicyRepo_Update_def Let_def
proof (intro schema_rules)
  fix now and w :: world
  let ?p = "p\<lparr>ep_UpdatedAt := now\<rparr>"
  let ?h = "\<lambda>x. x\<lparr>ep_RequiredPermission := ep_RequiredPermission ?p, ep_RateLimit := ep_RateLimit ?p,
    ep_AuthPolicy := ep_AuthPolicy ?p, ep_ValidationPolicy := ep_ValidationPolicy ?p,
    ep_ExtraPolicies := ep_ExtraPolicies ?p, ep_UpdatedAt := ep_UpdatedAt ?p\<rparr>"
  let ?m = "map (\<lambda>x. if ep_ID x = ep_ID ?p then ?h x else x) (app_endpoint_policies w)"
  assume s: "schema_ok w" and c: "int32 (ep_RateLimit ?p)"
  have "list_all (\<lambda>x. int32 (ep_RateLimit x)) ?m"
    using s c by (intro list_all_change) (auto simp: schema_ok_def app_endpoint_policies_schema_def)
  then show "schema_ok (w\<lparr>app_endpoint_policies := ?m\<rparr>)"
    using s by (simp add: schema_ok_def app_endpoint_policies_schema_def unique_map_same refers_map_same)
qed

lemma schema_PolicyRepo_Delete: "keeps schema_ok (PolicyRepo_Delete pid)"
  unfolding PolicyRepo_Delete_def
  by (intro schema_rules)
    (simp add: schema_ok_def app_endpoint_policies_schema_def unique_filter refers_filter list_all_filter)

lemma schema_AuditRepo_Create: "keeps schema_ok (AuditRepo_Create l)"
  unfolding AuditRepo_Create_def Let_def
  by (intro schema_rules) (frule schema_parts(6), erule schema_leaf, auto simp: audit_logs_schema_def intro!: unique_append)

lemma stored_stat_columns: "stat_fits s \<Longrightarrow> stat_columns (stored_stat w s)"
  by (auto simp: stat_fits_def stat_columns_def stored_stat_def split: option.splits)

lemma stored_stat_keys: "s_ID (stored_stat w s) = s_ID s" "s_UserID (stored_stat w s) = s_UserID s"
  by (simp_all add: stored_stat_def)

lemma schema_UsageStatRepo_Create: "keeps schema_ok (UsageStatRepo_Create s)"
  unfolding UsageStatRepo_Create_def Let_def
  by (intro schema_rules) (frule schema_parts(9), erule schema_leaf, auto simp: model_usage_stats_schema_def stored_stat_columns stored_stat_keys intro!: unique_append refers_append)

end
