(* ===== verification/Server_Props.thy ===== *)
theory Server_Props
  imports Server_Inv Schema_Keeps
begin

text \<open>
  What no sequence of requests to the server can break: the constraints of the database schema, the
  tables themselves where the requests are GET requests, and the revocation of a refresh token.
\<close>

section \<open>Sequences of requests\<close>

text \<open>The requests as the server answers them one after the other, with the cache of workspaces it keeps.\<close>

fun serve_all ::
  "uuid_api \<Rightarrow> Dependencies \<Rightarrow> workspace_cache \<Rightarrow> request list \<Rightarrow> (answer list \<times> workspace_cache) eff" where
  "serve_all U D cache [] = ret ([], cache)"
| "serve_all U D cache (r # rs) = do {
     (requestID, a, cache) \<leftarrow> New U D cache r;
     (xs, cache) \<leftarrow> serve_all U D cache rs;
     ret (a # xs, cache)
   }"

lemma keeps_serve_all: "(\<And>r cache. r \<in> set rs \<Longrightarrow> keeps I (New U D cache r)) \<Longrightarrow> keeps I (serve_all U D cache rs)"
  by (induction rs arbitrary: cache) (auto intro!: keeps_bind keeps_return)

section \<open>The schema\<close>

interpretation schema: server_writes U schema_ok for U
proof unfold_locales
  show "schema_ok (tick_world w) = schema_ok w" for w by simp
qed (simp add: schema_ok_def, simp add: schema_ok_def, simp add: schema_ok_def, simp add: schema_ok_def,
  (rule schema_UserRepo_Create schema_RoleRepo_AssignRoleToUser schema_RefreshTokenRepo_Create schema_revocations
  schema_OrgRepo_Create schema_AppRepo_Create schema_APIKeyRepo_Create schema_APIKeyRepo_Revoke
  schema_WorkspaceRepository_Create schema_WorkspaceRepository_Update schema_EndpointRepo_Create
  schema_EndpointRepo_Update schema_PolicyRepo_Create schema_PolicyRepo_Update schema_UsageStatRepo_Create)+)


section \<open>Requests that only read\<close>

text \<open>The state without the clock, the tick, the cache and the queue of events.\<close>

definition tables :: "world \<Rightarrow> world" where
  "tables w = w\<lparr>tick := 0, clock := 0, redis := Map.empty, bus_ch := []\<rparr>"

interpretation frozen: table_invariant U "\<lambda>v. tables v = x" for U x
  by unfold_locales (simp_all add: tables_def tick_world_def)

text \<open>
  C5. A GET request that names no app changes no table, whichever route it takes and whether it is
  answered or turned away; what it may change is the cache.
\<close>

theorem get_changes_no_table:
  assumes "\<And>x. probes_keep (\<lambda>v. tables v = x) K" "rq_method r = ''GET''" "rq_header r ''X-App-ID'' = []"
  shows "tables (snd (run_state (New (pk_uuid K) (buildDependencies K cfg db rd) cache r) w)) = tables w"
  by (rule keepsD [OF frozen.keeps_get [OF refl assms] refl])

section \<open>Revoked refresh tokens\<close>

definition token_revoked :: "string \<Rightarrow> world \<Rightarrow> bool" where
  "token_revoked h w \<longleftrightarrow>
     (\<exists>t \<in> set (refresh_tokens w). t_TokenHash t = h) \<and>
     (\<forall>t \<in> set (refresh_tokens w). t_TokenHash t = h \<longrightarrow> IsRevoked t)"

lemma token_revoked_stable: "table_invariant U (token_revoked h)"
  by unfold_locales (simp_all add: token_revoked_def)

lemma token_revoked_tick: "tick_stable (token_revoked h)"
  by (simp add: tick_stable_def token_revoked_def)

lemma token_revoked_statements:
  "keeps (token_revoked h) (RefreshTokenRepo_Create t)" "keeps (token_revoked h) (RefreshTokenRepo_Revoke tid)"
  "keeps (token_revoked h) (RefreshTokenRepo_RevokeAllByUserID uid)" "keeps (token_revoked h) (RefreshTokenRepo_RevokeFamily fid)"
  unfolding RefreshTokenRepo_Create_def RefreshTokenRepo_Revoke_def RefreshTokenRepo_RevokeAllByUserID_def
    RefreshTokenRepo_RevokeFamily_def Let_def
  by (intro keeps_intros keeps_effects keeps_sql_exec token_revoked_tick; auto simp: token_revoked_def revoke_where_def IsRevoked_def)+

interpretation revoked: server_writes U "token_revoked h" for U h
  by (intro server_writes.intro server_writes_axioms.intro token_revoked_stable token_revoked_statements
      writes_untouched(1-13) token_revoked_tick)
    (simp_all add: token_revoked_def)

text \<open>Whatever becomes of its statements, a rotation of a revoked token ends with 401.\<close>

lemma revoked_rotate:
  assumes "token_revoked (hashToken raw) w"
  shows "\<exists>e w'. run_state (Rotate (server_refresh K cfg) raw r) w = (Inl e, w') \<and> HTTPStatusCode e = 401"
proof -
  obtain x w1 where g: "run_state (RefreshTokenRepo_GetByTokenHash (hashToken raw)) w = (x, w1)" by fastforce
  have "IsRevoked t" if "x = Inr t" for t
    using g that assms find_Some_in [of "\<lambda>t. t_TokenHash t = hashToken raw" "refresh_tokens w" t]
    by (auto simp: RefreshTokenRepo_GetByTokenHash_def token_revoked_def split: option.splits if_splits sum.splits)
  then have "\<exists>e w'. run_state (Rotate_load (server_refresh K cfg) raw) w = (Inl e, w') \<and> HTTPStatusCode e = 401"
    using g by (cases x) (auto simp: Rotate_load_def server_ops run_state_bind split: prod.split)
  then show ?thesis by (auto simp: Rotate_def)
qed

definition refresh_request :: "string \<Rightarrow> Config \<Rightarrow> request \<Rightarrow> bool" where
  "refresh_request raw cfg r \<longleftrightarrow>
     rq_method r = ''POST'' \<and> rq_path r = ''/api/v1/auth/refresh'' \<and>
     rq_cookie r (tc_CookieName (cf_RefreshToken cfg)) = Some raw"

lemma refresh_route:
  "api_segments ''/api/v1/auth/refresh'' = Some [''auth'', ''refresh'']"
  "\<exists>q. find_route (public_routes U (buildDependencies K cfg True rd)) ''POST'' [''auth'', ''refresh''] = Some (q, []) \<and>
     ro_handler q = iam_Refresh \<lparr>ih_userRepo = UserRepo, ih_auth = server_auth K cfg, ih_roleRepo = RoleRepo (pk_collate K),
      ih_rbac = server_rbac K rd, ih_refreshTokenUC = Some (server_refresh K cfg),
      ih_refreshTokenCfg = cf_RefreshToken cfg, ih_is_email = pk_email K\<rparr>"
proof -
  show "api_segments ''/api/v1/auth/refresh'' = Some [''auth'', ''refresh'']" by code_simp
qed (simp add: public_routes_def server_handlers on_post_def route_params_def)


section \<open>Witnesses\<close>

lemma demo_packages_keep: "probes_keep I (demo_packages J)" "backends_keep I (demo_packages J)"
  by (simp_all add: probes_keep_def backends_keep_def demo_packages_def demo_pool_def demo_client_def not_found_def
      keeps_return)

lemma demo_schema: "schema_ok (demo_world [demo_token])"
  by (simp add: schema_ok_def table_schemas demo_world_def empty_world_def unique_def refers_def demo_token_def demo_user_def)


theorem get_changes_no_table_witness:
  "tables (snd (run_state (New demo_uuid (buildDependencies (demo_packages demo_jwt) demo_config True True) []
     (org_request ''t'')) (demo_world [demo_token]))) = tables (demo_world [demo_token])"
proof -
  have "rq_method (org_request ''t'') = ''GET''" "rq_header (org_request ''t'') ''X-App-ID'' = []"
    by (simp_all add: org_request_def)
  then show ?thesis by (rule get_changes_no_table [OF demo_packages_keep(1), unfolded demo_packages_uuid])
qed

definition replay_request :: request where
  "replay_request = demo_request\<lparr>rq_method := ''POST'', rq_path := ''/api/v1/auth/refresh'',
     rq_cookie := (\<lambda>n. Some ''raw'')\<rparr>"


end
