(* ===== verification/Seed.thy ===== *)
theory Seed
  imports Iam_Repo
begin

text \<open>
  The seed script, \<open>scripts/seed.go\<close>, which is to put the first roles and their permissions into
  the database. Its statements are checked by PostgreSQL before anything is written: the target of an
  ON CONFLICT clause has to be a unique constraint of the table, and a column that is NOT NULL and has
  no default has to be given a value.
\<close>

record seed_role =
  se_name :: string
  se_description :: string
  se_permissions :: "string list"

definition seed_roles :: "seed_role list" where
  "seed_roles =
     [\<lparr>se_name = ''admin'', se_description = ''Full system administrator'', se_permissions = [''*'']\<rparr>,
      \<lparr>se_name = ''org_admin'', se_description = ''Organization administrator'',
       se_permissions = [''org:*'', ''app:*'', ''user:*'']\<rparr>,
      \<lparr>se_name = ''app_admin'', se_description = ''Application administrator'',
       se_permissions = [''app:*'', ''endpoint:*'']\<rparr>,
      \<lparr>se_name = ''developer'', se_description = ''Developer with read/write access'',
       se_permissions = [''endpoint:read'', ''endpoint:write'']\<rparr>,
      \<lparr>se_name = ''viewer'', se_description = ''Read-only access'', se_permissions = [''*:read'']\<rparr>]"

section \<open>The statements\<close>

text \<open>The unique constraints of a table, and its columns that need a value.\<close>

record table_def =
  td_keys :: "string list list"
  td_required :: "string list"

definition roles_table :: table_def where
  "roles_table =
     \<lparr>td_keys = [[''id''], [''scope_type'', ''scope_id'', ''name'']],
      td_required = [''scope_type'', ''scope_id'', ''name'']\<rparr>"

definition role_permissions_table :: table_def where
  "role_permissions_table =
     \<lparr>td_keys = [[''role_id'', ''permission'']], td_required = [''role_id'', ''permission'']\<rparr>"

definition insert_allowed :: "table_def \<Rightarrow> string list \<Rightarrow> string list \<Rightarrow> bool" where
  "insert_allowed T columns conflict \<longleftrightarrow> conflict \<in> set (td_keys T) \<and> set (td_required T) \<subseteq> set columns"

text \<open>
  \<open>INSERT INTO roles (id, name, description, created_at, updated_at) \<dots> ON CONFLICT (name) DO NOTHING\<close>.
  The columns the statement leaves out are empty in the row.
\<close>

definition insert_seed_role :: "uuid \<Rightarrow> seed_role \<Rightarrow> (pg_error + unit) eff" where
  "insert_seed_role rid s =
     sql_exec
       (\<lambda>w. insert_allowed roles_table [''id'', ''name'', ''description'', ''created_at'', ''updated_at''] [''name''])
       (\<lambda>w. if \<exists>r \<in> set (roles w). r_Name r = se_name s then w
            else w\<lparr>roles := roles w @
              [\<lparr>r_ID = rid, r_ScopeType = [], r_ScopeID = uuid_nil, r_Name = se_name s,
                r_Description = se_description s, r_CreatedAt = clock w, r_UpdatedAt = clock w\<rparr>]\<rparr>)"

text \<open>\<open>INSERT INTO role_permissions (role_id, permission, created_at) \<dots> ON CONFLICT (role_id, permission) DO NOTHING\<close>.\<close>

definition insert_seed_permission :: "uuid \<Rightarrow> string \<Rightarrow> (pg_error + unit) eff" where
  "insert_seed_permission rid perm =
     sql_exec
       (\<lambda>w. insert_allowed role_permissions_table [''role_id'', ''permission'', ''created_at''] [''role_id'', ''permission''] \<and>
            (\<exists>r \<in> set (roles w). r_ID r = rid))
       (\<lambda>w. let row = \<lparr>p_RoleID = rid, p_Permission = perm\<rparr>
            in if row \<in> set (role_permissions w) then w
               else w\<lparr>role_permissions := role_permissions w @ [row]\<rparr>)"

section \<open>The script\<close>

fun seed_permissions :: "uuid \<Rightarrow> string \<Rightarrow> string list \<Rightarrow> (goerr + unit) eff" where
  "seed_permissions rid name [] = ok ()"
| "seed_permissions rid name (p # ps) =
     try_or (\<lambda>e. Wrapped (''insert permission '' @ p @ '' for role '' @ name) (pg_goerr e))
       (insert_seed_permission rid p) (\<lambda>_. seed_permissions rid name ps)"

fun seed_each :: "seed_role list \<Rightarrow> (goerr + unit) eff" where
  "seed_each [] = ok ()"
| "seed_each (s # ss) = do {
     rid \<leftarrow> uuid_New;
     try_or (\<lambda>e. Wrapped (''insert role '' @ se_name s) (pg_goerr e)) (insert_seed_role rid s) (\<lambda>_.
     try_do (seed_permissions rid (se_name s) (se_permissions s)) (\<lambda>_. seed_each ss))
   }"

definition seedRoles :: "(goerr + unit) eff" where
  "seedRoles = seed_each seed_roles"

text \<open>
  \<open>main\<close>: the result of opening the pool, then the roles. \<open>log.Fatalf\<close> ends the process with its
  message, \<open>Inr\<close> is the last line it prints.
\<close>

definition seed_main :: "(goerr + unit) eff \<Rightarrow> (string + string) eff" where
  "seed_main connect = do {
     x \<leftarrow> connect;
     case x of
       Inl e \<Rightarrow> ret (Inl (''Failed to connect to database: '' @ Error_string e))
     | Inr _ \<Rightarrow> do {
         y \<leftarrow> seedRoles;
         ret (case y of
                Inl e \<Rightarrow> Inl (''Failed to seed roles: '' @ Error_string e)
              | Inr _ \<Rightarrow> Inr ''Database seeded successfully!'')
       }
   }"

section \<open>What the script does\<close>

text \<open>The statement for a role names a constraint the table does not have, and gives its scope no value.\<close>

lemma seed_role_refused:
  "\<not> insert_allowed roles_table [''id'', ''name'', ''description'', ''created_at'', ''updated_at''] [''name'']"
  by (simp add: insert_allowed_def roles_table_def)

lemma run_seedRoles:
  "\<exists>e. run_state seedRoles w = (Inl (Wrapped ''insert role admin'' e), tick_world (tick_world w))"
  by (simp add: seedRoles_def seed_roles_def insert_seed_role_def seed_role_refused)

end
