(* ===== verification/Fresh_Install.thy ===== *)
theory Fresh_Install
  imports Server_Props Seed
begin

text \<open>
  A fresh installation: the migrations have made the tables, and the seed script has been run. No
  operation of the API creates a role or gives one a permission, so what the script leaves out is
  never made up for.
\<close>

section \<open>The script\<close>

text \<open>
  C25. The seed script always fails at its first statement and changes no table: the statement names a
  unique constraint on the name of a role, which the table does not have, and leaves out its scope,
  which may not be NULL.
\<close>

theorem seed_always_fails:
  "\<exists>m. fst (run_state (seed_main (ok ())) w) = Inl (''Failed to seed roles: insert role admin'' @ m) \<and>
     tables (snd (run_state (seed_main (ok ())) w)) = tables w"
proof -
  obtain e where "run_state seedRoles w = (Inl (Wrapped ''insert role admin'' e), tick_world (tick_world w))"
    using run_seedRoles by blast
  then show ?thesis by (simp add: seed_main_def run_state_bind tables_def tick_world_def)
qed

section \<open>No role, no permission\<close>

definition no_grants :: "uuid_api \<Rightarrow> world \<Rightarrow> bool" where
  "no_grants U w \<longleftrightarrow>
     roles w = [] \<and> role_permissions w = [] \<and> (\<forall>u g. redis w (cacheKey U u g) = None)"

lemma no_grants_granted: "no_grants U w \<Longrightarrow> granted w u g = []"
  by (simp add: no_grants_def granted_def)

lemma no_grants_stable: "tick_stable (no_grants U)" "table_invariant U (no_grants U)"
proof -
  show "tick_stable (no_grants U)" by (simp add: tick_stable_def no_grants_def)
  show "table_invariant U (no_grants U)"
  proof unfold_locales
    show "no_grants U (w\<lparr>redis := (redis w)(rate_key U aid eid \<mapsto> v)\<rparr>)" if "no_grants U w" for w aid eid v
      using that by (simp add: no_grants_def rate_key_def cacheKey_def)
    show "no_grants U (w\<lparr>redis := (redis w)(cacheKey U uid gid \<mapsto> (PermsValue perms, e))\<rparr>)"
      if "no_grants U w" "perms \<noteq> []" "set perms \<subseteq> set (granted w uid gid)" for w perms uid gid e
      using that by (simp add: no_grants_granted)
  qed (simp_all add: no_grants_def)
qed

interpretation unroled: server_writes U "no_grants U" for U
  by (intro server_writes.intro server_writes_axioms.intro writes_untouched no_grants_stable)
    (simp_all add: no_grants_def)

lemma no_grants_denied:
  assumes "no_grants (pk_uuid K) w"
  shows "run_state (rb_HasPermission (server_rbac K rd) u g p) w \<noteq> (Inr True, w')"
proof
  assume "run_state (rb_HasPermission (server_rbac K rd) u g p) w = (Inr True, w')"
  from has_grants [OF this] obtain perms q where "grants K rd w u g perms" "q \<in> set perms" by blast
  then show False
    using assms no_grants_granted [OF assms, of u g] by (auto simp: grants_def no_grants_def redis_live_def)
qed

text \<open>The answers of the chain before a handler, and of a handler that turns every request away.\<close>

definition turned_away :: "answer \<Rightarrow> bool" where
  "turned_away a \<longleftrightarrow> (\<exists>x. a = Sent x \<and> rs_status x \<in> {400, 401, 403, 500})"

definition closed :: http_handler where
  "closed c r = reject 403 ''insufficient permissions''"

lemma chain_closed:
  assumes "rq_header r ''X-App-ID'' = []"
  shows "turned_away (fst (fst (run_state (protected_chain U (buildDependencies K cfg True rd) p closed cache c r) w)))"
proof -
  have perm: "turned_away (fst (run_state (maybeRequirePermission (Some (server_rbac K rd)) p closed c r) w))" for c w
    by (auto simp: maybeRequirePermission_def RequirePermission_def closed_def reject_def turned_away_def run_state_bind
        response_JSON_def split: option.splits sum.splits prod.splits)
  have auth: "rs_status x = 401" if "run_state (authenticate (server_auth K cfg) c r) w = (Inl x, w')" for x w'
    using that by (auto simp: authenticate_def Let_def run_state_bind response_JSON_def
        split: if_splits option.splits sum.splits prod.splits)
  have tenant: "turned_away (fst (fst (run_state (TenantResolverWithWorkspace U (Some OrgRepo) (Some WorkspaceRepo)
      (maybeRequirePermission (Some (server_rbac K rd)) p closed) cache c r) w)))" for c w
  proof -
    obtain g w1 where g: "run_state (resolve_org U (Some OrgRepo) c r) w = (g, w1)" by fastforce
    show ?thesis
    proof (cases g)
      case None
      then show ?thesis
        using g by (simp add: TenantResolverWithWorkspace_def run_state_bind reject_def turned_away_def response_JSON_def)
    next
      case (Some gid)
      obtain x w2 where x: "run_state (resolve_workspace U (Some WorkspaceRepo) gid r cache) w1 = (x, w2)" by fastforce
      show ?thesis
        using g x Some perm [of c w1] perm [of "tenant_context gid (fst x) c" w2]
        by (simp add: TenantResolverWithWorkspace_def run_state_bind case_prod_beta)
    qed
  qed
  obtain x w1 where x: "run_state (authenticate (server_auth K cfg) c r) w = (x, w1)" by fastforce
  have e: "Enforce U (server_pipeline K rd) h c' r = h c' r" for h c' by (rule plain_request(3) [OF assms])
  show ?thesis
  proof (cases x)
    case (Inl y)
    then show ?thesis
      using x auth by (auto simp: protected_chain_def server_deps Let_def run_state_bind turned_away_def)
  next
    case (Inr c')
    have "run_state (protected_chain U (buildDependencies K cfg True rd) p closed cache c r) w =
        run_state (TenantResolverWithWorkspace U (Some OrgRepo) (Some WorkspaceRepo)
          (Enforce U (server_pipeline K rd) (maybeRequirePermission (Some (server_rbac K rd)) p closed)) cache c' r) w1"
      using x Inr by (simp add: protected_chain_def server_deps Let_def run_state_bind)
    also have "TenantResolverWithWorkspace U (Some OrgRepo) (Some WorkspaceRepo)
          (Enforce U (server_pipeline K rd) (maybeRequirePermission (Some (server_rbac K rd)) p closed)) cache c' r =
        TenantResolverWithWorkspace U (Some OrgRepo) (Some WorkspaceRepo)
          (maybeRequirePermission (Some (server_rbac K rd)) p closed) cache c' r"
      unfolding TenantResolverWithWorkspace_def e ..
    finally show ?thesis using tenant by simp
  qed
qed

text \<open>Where nobody holds a permission, a route that needs one answers as if its handler turned the request away.\<close>

lemma no_grants_chain:
  assumes "no_grants (pk_uuid K) w"
  shows "run_state (protected_chain (pk_uuid K) (buildDependencies K cfg True rd) (Some p) h cache c r) w =
    run_state (protected_chain (pk_uuid K) (buildDependencies K cfg True rd) (Some p) h' cache c r) w"
proof (rule ccontr)
  assume d: "\<not> ?thesis"
  have k: "keeps (no_grants (pk_uuid K)) (rb_HasPermission (server_rbac K rd) uid g q)" for uid g q
    by (rule unroled.permission_check [OF refl])
  from chain_diff [OF d unroled.checks_stable assms k] obtain claims :: TokenClaims and v v' where "no_grants (pk_uuid K) v"
    "run_state (rb_HasPermission (server_rbac K rd) (c_UserID claims) (c_OrganizationID claims) p) v = (Inr True, v')"
    by auto
  then show False using no_grants_denied by metis
qed

lemma seeded_empty: "no_grants U (snd (run_state (seed_main (ok ())) (empty_world v)))"
proof -
  have tick: "no_grants U (tick_world w) = no_grants U w" for w by (simp add: no_grants_def)
  have e: "no_grants U (empty_world v)" by (simp add: no_grants_def empty_world_def)
  obtain e where "run_state seedRoles (empty_world v) = (Inl (Wrapped ''insert role admin'' e), tick_world (tick_world (empty_world v)))"
    using run_seedRoles by blast
  then show ?thesis using e by (simp add: seed_main_def run_state_bind tick)
qed


section \<open>Witness\<close>


end
