(* ===== verification/Delivery.thy ===== *)
theory Delivery
  imports Event_Bridge Pumps
begin

text \<open>
  From a queued event to the client's connection: the dispatch loop of
  \<open>internal/shared/events/inprocess.go\<close>, the event bridge, the hub and the write loop of
  \<open>internal/infrastructure/websocket/client.go\<close> together. The theorems here are of progress: what
  must happen, and after how many turns.
\<close>

section \<open>Progress of the write loop\<close>

lemma take_mono_prefix: "prefix xs ys \<Longrightarrow> prefix (take n xs) (take n ys)"
  by (auto simp: prefix_def)

text \<open>A run in which no write fails.\<close>

fun write_fails :: "conn_label \<Rightarrow> bool" where
  "write_fails (Turn good) = (\<not> good)"
| "write_fails (PingTurn good) = (\<not> good)"
| "write_fails _ = False"

text \<open>
  Since the connection \<open>s\<close> the loop has written \<open>sent\<close>: with what is in the channel now it covers all
  that was there, a message for each turn; the loop only ends on a closed channel that is empty.
\<close>

definition progressed :: "nat \<Rightarrow> connection \<Rightarrow> nat \<Rightarrow> connection \<Rightarrow> bool" where
  "progressed i s k t \<longleftrightarrow>
     i < length (h_chans (cn_hub t)) \<and>
     (\<exists>sent. texts (cn_wire t) = texts (cn_wire s) @ sent \<and> prefix (ch_buf (chan_of i s)) (sent @ ch_buf (chan_of i t)) \<and>
        (if cn_writer t then cn_open t \<and> length sent = k else ch_closed (chan_of i t) \<and> ch_buf (chan_of i t) = [] \<and> length sent \<le> k))"

lemma progressed_grow:
  assumes "progressed i s k t" "chans_grow (cn_hub t) h"
  shows "progressed i s k (with_hub i h t)"
proof -
  have i: "i < length (h_chans (cn_hub t))" using assms(1) by (simp add: progressed_def)
  then have g: "chan_grows (chan_of i t) (h_chans h ! i)" "i < length (h_chans h)"
    using assms(2) by (auto simp: chans_grow_def chan_of_def)
  then obtain zs where zs: "ch_buf (h_chans h ! i) = ch_buf (chan_of i t) @ zs"
    by (auto simp: chan_grows_def prefix_def)
  obtain sent where sent: "texts (cn_wire t) = texts (cn_wire s) @ sent"
      "prefix (ch_buf (chan_of i s)) (sent @ ch_buf (chan_of i t))"
      "if cn_writer t then cn_open t \<and> length sent = k else ch_closed (chan_of i t) \<and> ch_buf (chan_of i t) = [] \<and> length sent \<le> k"
    using assms(1) by (auto simp: progressed_def)
  moreover have "prefix (ch_buf (chan_of i s)) (sent @ ch_buf (h_chans h ! i))"
    using sent(2) by (simp add: zs prefix_prefix flip: append_assoc)
  ultimately show ?thesis
    using g by (auto simp: progressed_def with_hub_def chan_of_def chan_grows_def split: if_splits)
qed

lemma progressed_turn:
  assumes "progressed i s k t" "cn_writer t" "write_turn i True t = Some v"
  shows "progressed i s (Suc k) v"
proof -
  have i: "i < length (h_chans (cn_hub t))" using assms(1) by (simp add: progressed_def)
  show ?thesis
  proof (cases rule: receive_cases [OF i])
    case 1
    then have "v = stop_writer (wrote True CloseFrame t)" "ch_closed (chan_of i t)"
      using assms(3) by (simp_all add: write_turn_def split: if_splits)
    then show ?thesis using assms(1,2) 1
      by (auto simp: progressed_def wrote_def stop_writer_def chan_of_def)
  next
    case (2 p ps)
    then have "v = wrote True (Text p) (t\<lparr>cn_hub := snd (receive i (cn_hub t))\<rparr>)"
      using assms(3) by (simp add: write_turn_def split: prod.splits)
    then show ?thesis using assms(1,2) 2 i
      by (auto simp: progressed_def wrote_def chan_of_def)
  qed
qed

lemma progressed_cong:
  assumes "progressed i s k t" "chan_of i v = chan_of i t" "length (h_chans (cn_hub v)) = length (h_chans (cn_hub t))"
    and "cn_wire v = cn_wire t" "cn_writer v = cn_writer t" "cn_open v = cn_open t"
  shows "progressed i s k v"
  using assms unfolding progressed_def by metis

lemma progressed_step:
  "conn_step U i r unreg t l v \<Longrightarrow> \<not> write_fails l \<Longrightarrow> progressed i s k t \<Longrightarrow> progressed i s (k + turns [l]) v"
proof (induction rule: conn_step.induct)
  case (hub opn t h)
  then show ?case using progressed_grow chans_grow_op by (simp add: turns_def)
next
  case (other j t)
  have "progressed i s k (t\<lparr>cn_hub := snd (receive j (cn_hub t))\<rparr>)"
    by (rule progressed_cong [OF other(3)]) (use other(1) in \<open>simp_all add: chan_of_def receive_other\<close>)
  then show ?case by (simp add: turns_def)
next
  case (turn t good v)
  then show ?case using progressed_turn by (cases good) (simp_all add: turns_def)
next
  case (ping t good)
  then show ?case by (auto simp: progressed_def wrote_def chan_of_def turns_def)
next
  case (read t m)
  then show ?case using progressed_cong [OF read(4)] by (simp add: chan_of_def turns_def)
next
  case (read_fails t h)
  have "progressed i s k (t\<lparr>cn_reader := False\<rparr>)"
    by (rule progressed_cong [OF read_fails(4)]) (simp_all add: chan_of_def)
  then show ?case using progressed_grow chans_grow_session_end [OF read_fails(2)] by (simp add: turns_def)
qed

lemma progressed_run:
  assumes "conn_run U i r unreg s ls t" "\<forall>l \<in> set ls. \<not> write_fails l"
    and "cn_writer s" "cn_open s" "i < length (h_chans (cn_hub s))"
  shows "progressed i s (turns ls) t"
  using assms(1,2)
proof (induction rule: conn_run.induct)
  case start
  then show ?case using assms(3-5) by (simp add: progressed_def turns_def)
next
  case (step ls t l v)
  have "turns (ls @ [l]) = turns ls + turns [l]" by (simp add: turns_def)
  then show ?case using step progressed_step by fastforce
qed

lemma pump_progress:
  assumes "conn_run U i r unreg s ls t" "\<forall>l \<in> set ls. \<not> write_fails l"
    and "cn_writer s" "cn_open s" "i < length (h_chans (cn_hub s))"
  shows "prefix (texts (cn_wire s) @ take (turns ls) (ch_buf (chan_of i s))) (texts (cn_wire t))"
    and "turns ls < length (ch_buf (chan_of i s)) \<Longrightarrow> \<exists>v. conn_step U i r unreg t (Turn True) v"
proof -
  obtain sent where P: "texts (cn_wire t) = texts (cn_wire s) @ sent" "i < length (h_chans (cn_hub t))"
      "prefix (ch_buf (chan_of i s)) (sent @ ch_buf (chan_of i t))"
      "if cn_writer t then cn_open t \<and> length sent = turns ls else ch_closed (chan_of i t) \<and> ch_buf (chan_of i t) = [] \<and> length sent \<le> turns ls"
    using progressed_run [OF assms] by (auto simp: progressed_def)
  have "prefix (take (turns ls) (ch_buf (chan_of i s))) sent"
  proof (cases "cn_writer t")
    case True
    then have "take (turns ls) (sent @ ch_buf (chan_of i t)) = sent" using P(4) by simp
    then show ?thesis using take_mono_prefix [OF P(3), of "turns ls"] by simp
  next
    case False
    then show ?thesis using P(3,4) prefix_order.trans [OF take_is_prefix] by auto
  qed
  then show "prefix (texts (cn_wire s) @ take (turns ls) (ch_buf (chan_of i s))) (texts (cn_wire t))"
    by (simp add: P(1))
  assume few: "turns ls < length (ch_buf (chan_of i s))"
  show "\<exists>v. conn_step U i r unreg t (Turn True) v"
  proof (cases "cn_writer t")
    case True
    then have "ch_buf (chan_of i t) \<noteq> []" using few P(3,4) prefix_length_le by fastforce
    then have "\<exists>v. write_turn i True t = Some v"
      using receive_cases [OF P(2)] by (auto simp: write_turn_def chan_of_def receive_def split: list.splits)
    then show ?thesis using True by (meson conn_step.turn)
  next
    case False
    then show ?thesis using few P(3,4) prefix_length_le by fastforce
  qed
qed

section \<open>Progress of the dispatch loop\<close>

text \<open>The topics of the bridge, with the channel it names after each.\<close>

definition bridge_topics :: "(string \<times> string) list" where
  "bridge_topics = [(TopicIAM, ''iam''), (TopicTenant, ''tenant''), (TopicAPIManagement, ''api-management'')]"

lemma bridge_handlers:
  "bus_handlers (bridge_Register U repo (NewInProcessBus n)) topic =
     (case map_of bridge_topics topic of None \<Rightarrow> [] | Some chan \<Rightarrow> [handleEvent U repo topic chan])"
  by (simp add: bridge_Register_def bus_Subscribe_def NewInProcessBus_def bridge_topics_def)

lemma bridge_topic_channel: "map_of bridge_topics topic = Some chan \<Longrightarrow> chan \<in> set bridge_channels"
  by (auto simp: bridge_topics_def bridge_channels_def split: if_splits)

text \<open>A handler leaves the queue alone: it only looks up an app.\<close>

lemma queue_stable: "tick_stable (\<lambda>w. bus_ch w = q)"
  by (simp add: tick_stable_def tick_world_def)

lemma keeps_route_org: "keeps (\<lambda>w. bus_ch w = q) (route_org AppRepo rt)"
  unfolding route_org_def AppRepo_def AppRepo_GetByID_def using keeps_effects [OF queue_stable]
  by (auto intro!: keeps_intros)

lemma keeps_event_payload: "keeps (\<lambda>w. bus_ch w = q) (event_payload U topic ev rt g)"
  unfolding event_payload_def NewEventMessage_def using keeps_effects [OF queue_stable]
  by (auto intro!: keeps_intros)

lemma handleEvent_queue:
  assumes "handleEvent U AppRepo topic chan ev (w, h) = Some (w', h')"
  shows "bus_ch w' = bus_ch w"
proof (cases "extractRoutes ev = []")
  case True
  then show ?thesis using assms by (simp add: handleEvent_def)
next
  case False
  then obtain rt where "extractRoutes ev = [rt]" using extractRoutes_cases by blast
  then have run: "handle_route U AppRepo topic chan ev rt (w, h) = Some (w', h')"
    using assms by (simp only: handleEvent_def fold_opt_single)
  obtain g w1 where w1: "run_state (route_org AppRepo rt) w = (g, w1)" by fastforce
  have q1: "bus_ch w1 = bus_ch w" using keepsD2 [OF keeps_route_org refl w1] .
  have "bus_ch (snd (run_state (event_payload U topic ev rt x) w1)) = bus_ch w" for x
    using keepsD [OF keeps_event_payload q1] .
  then show ?thesis using run w1 q1
    by (auto simp: handle_route_def split: option.splits if_splits prod.splits) (metis snd_conv)
qed

text \<open>
  The loop's turns, one after the other. The program's bus has the handlers of the bridge, and for each topic one
  that only writes a line to the log, which is left out.
\<close>

fun dispatch_turns :: "(world \<times> Hub) InProcessBus \<Rightarrow> nat \<Rightarrow> world \<times> Hub \<Rightarrow> (world \<times> Hub) option" where
  "dispatch_turns b 0 s = Some s"
| "dispatch_turns b (Suc k) s = Option.bind (dispatch_next b s) (dispatch_turns b k)"

abbreviation program_bus :: "uuid_api \<Rightarrow> int \<Rightarrow> (world \<times> Hub) InProcessBus" where
  "program_bus U n \<equiv> bridge_Register U AppRepo (NewInProcessBus n)"

lemma dispatch_next_runs:
  assumes "uuid_api_ok U" "hub_inv U h"
  shows "\<exists>w' h'. dispatch_next (program_bus U n) (w, h) = Some (w', h') \<and> hub_inv U h' \<and>
    joined h' = joined h \<and> bus_ch w' = tl (bus_ch w)"
proof (cases "bus_ch w")
  case Nil
  then show ?thesis using assms(2) by (simp add: dispatch_next_def)
next
  case (Cons env envs)
  let ?w = "w\<lparr>bus_ch := envs\<rparr>"
  have run: "dispatch_next (program_bus U n) (w, h) = dispatch_one (program_bus U n) env (?w, h)"
    by (simp add: dispatch_next_def Cons)
  show ?thesis
  proof (cases "map_of bridge_topics (fst env)")
    case None
    then show ?thesis using assms(2) by (simp add: run dispatch_one_def bridge_handlers Cons)
  next
    case (Some chan)
    obtain w' h' where h': "handleEvent U AppRepo (fst env) chan (snd env) (?w, h) = Some (w', h')"
        "hub_inv U h'" "joined h' = joined h"
      using handleEvent_runs [OF assms bridge_topic_channel [OF Some]] by blast
    then have "dispatch_next (program_bus U n) (w, h) = Some (w', h')"
      by (simp only: run dispatch_one_def bridge_handlers Some option.case fold_opt_single)
    then show ?thesis using h' handleEvent_queue [OF h'(1)] Cons by auto
  qed
qed

lemma dispatch_turns_run:
  assumes "uuid_api_ok U"
  shows "hub_inv U h \<Longrightarrow> \<exists>w' h'. dispatch_turns (program_bus U n) k (w, h) = Some (w', h') \<and> hub_inv U h' \<and>
    joined h' = joined h \<and> bus_ch w' = drop k (bus_ch w)"
proof (induction k arbitrary: w h)
  case (Suc k)
  obtain w1 h1 where "dispatch_next (program_bus U n) (w, h) = Some (w1, h1)" "hub_inv U h1" "joined h1 = joined h"
      "bus_ch w1 = tl (bus_ch w)"
    using dispatch_next_runs [OF assms Suc.prems] by blast
  moreover from this(2) obtain w' h' where "dispatch_turns (program_bus U n) k (w1, h1) = Some (w', h')" "hub_inv U h'"
      "joined h' = joined h1" "bus_ch w' = drop k (bus_ch w1)"
    using Suc.IH by blast
  ultimately show ?case by (auto simp: drop_Suc)
qed simp

section \<open>From the queue to the connection\<close>

lemma push_room:
  "n > 0 \<Longrightarrow> length (ch_buf c) < ch_cap c \<Longrightarrow>
   \<exists>more. ch_buf ((push p ^^ n) c) = ch_buf c @ p # more \<and> ch_cap ((push p ^^ n) c) = ch_cap c"
proof (induction n)
  case (Suc n)
  show ?case
  proof (cases "n = 0")
    case True
    then show ?thesis using Suc.prems by (simp add: push_def)
  next
    case False
    then show ?thesis using Suc by (auto simp: push_def)
  qed
qed simp

lemma scope_queue [simp]: "event_scope AppRepo ev (w\<lparr>bus_ch := q\<rparr>) = event_scope AppRepo ev w"
proof -
  have "fst (run_state (route_org AppRepo rt) (w\<lparr>bus_ch := q\<rparr>)) = fst (run_state (route_org AppRepo rt) w)" for rt
    by (simp add: route_org_def AppRepo_def AppRepo_GetByID_def sql_query_row_def try_or_def next_fault_def
        next_error_def split: sum.splits)
  then show ?thesis by (simp add: event_scope_def split: list.splits)
qed

definition client_channel :: "Hub \<Rightarrow> string \<Rightarrow> nat option" where
  "client_channel h cid = map_option (\<lambda>r. c_send (h_objs h ! r)) (map_of (h_clients h) cid)"

lemma inbox_channel:
  assumes "hub_inv U h" "inbox h cid = Some c"
  shows "\<exists>i. client_channel h cid = Some i \<and> i < length (h_chans h) \<and> h_chans h ! i = c"
  using assms(2) heap_wfD(1,3) [OF hub_invD(1) [OF assms(1)]]
  by (auto simp: inbox_def client_channel_def)

lemma dispatch_head:
  assumes "uuid_api_ok U" "hub_inv U h" "bus_ch w = (topic, ev) # envs" "map_of bridge_topics topic = Some chan"
    and "sc = event_scope AppRepo ev w"
  shows "\<exists>w' h' p. dispatch_next (program_bus U n) (w, h) = Some (w', h') \<and> hub_inv U h' \<and> bus_ch w' = envs \<and>
    (\<forall>cid. inbox h' cid = map_option ((push p) ^^ bridge_copies U h sc chan cid) (inbox h cid)) \<and>
    (sc \<noteq> None \<longrightarrow> event_message U topic ev sc p)"
proof -
  obtain w' h' p where h': "handleEvent U AppRepo topic chan ev (w\<lparr>bus_ch := envs\<rparr>, h) = Some (w', h')" "hub_inv U h'"
      "\<And>cid. inbox h' cid = map_option ((push p) ^^ bridge_copies U h sc chan cid) (inbox h cid)"
      "sc \<noteq> None \<longrightarrow> event_message U topic ev sc p"
    using handleEvent_runs [OF assms(1,2) bridge_topic_channel [OF assms(4)], of AppRepo topic ev "w\<lparr>bus_ch := envs\<rparr>"]
    unfolding scope_queue assms(5) by blast
  have "dispatch_next (program_bus U n) (w, h) = Some (w', h')"
    by (simp only: dispatch_next_def fst_conv snd_conv assms(3) list.case dispatch_one_def bridge_handlers assms(4)
        option.case fold_opt_single h'(1))
  then show ?thesis using h' handleEvent_queue [OF h'(1)] by auto
qed

text \<open>
  The write loop of a client's session can always take a turn until it has written the message
  \<open>p\<close>, and it has after more than \<open>n\<close> turns, whatever the rest of the program does, provided no write fails.
\<close>

definition will_be_written :: "uuid_api \<Rightarrow> Hub \<Rightarrow> string \<Rightarrow> nat \<Rightarrow> string \<Rightarrow> bool" where
  "will_be_written U h cid n p \<longleftrightarrow>
     (\<exists>i. client_channel h cid = Some i \<and>
        (\<forall>s r unreg ls t. cn_hub s = h \<and> cn_writer s \<and> cn_open s \<and> conn_run U i r unreg s ls t \<and>
           (\<forall>l \<in> set ls. \<not> write_fails l) \<longrightarrow>
           (n < turns ls \<longrightarrow> p \<in> set (texts (cn_wire t))) \<and>
           (turns ls \<le> n \<longrightarrow> (\<exists>v. conn_step U i r unreg t (Turn True) v))))"

lemma room_reaches_wire:
  assumes "hub_inv U h'" "inbox h' cid = map_option ((push p) ^^ n) (inbox h cid)" "n > 0"
    and "inbox h cid = Some c" "length (ch_buf c) < ch_cap c"
  shows "will_be_written U h' cid (length (ch_buf c)) p"
proof -
  obtain more where m: "ch_buf ((push p ^^ n) c) = ch_buf c @ p # more" using push_room assms(3,5) by blast
  obtain i where i: "client_channel h' cid = Some i" "i < length (h_chans h')" "h_chans h' ! i = (push p ^^ n) c"
    using inbox_channel [OF assms(1)] assms(2,4) by auto
  have "(length (ch_buf c) < turns ls \<longrightarrow> p \<in> set (texts (cn_wire t))) \<and>
      (turns ls \<le> length (ch_buf c) \<longrightarrow> (\<exists>v. conn_step U i r unreg t (Turn True) v))"
    if s: "cn_hub s = h'" "cn_writer s" "cn_open s" "conn_run U i r unreg s ls t" "\<forall>l \<in> set ls. \<not> write_fails l"
    for s r unreg ls t
  proof -
    have b: "ch_buf (chan_of i s) = ch_buf c @ p # more" using s(1) i(3) m by (simp add: chan_of_def)
    have "i < length (h_chans (cn_hub s))" using s(1) i(2) by simp
    note P = pump_progress [OF s(4,5,2,3) this]
    have "p \<in> set (texts (cn_wire t))" if "length (ch_buf c) < turns ls"
    proof -
      have "p \<in> set (take (turns ls) (ch_buf (chan_of i s)))"
        using that by (cases "turns ls - length (ch_buf c)") (simp_all add: b)
      then show ?thesis using set_mono_prefix [OF P(1)] by auto
    qed
    then show ?thesis using P(2) b by auto
  qed
  then show ?thesis using i(1) unfolding will_be_written_def by blast
qed



end
