(* ===== verification/Logger.thy ===== *)
theory Logger
  imports Server
begin

text \<open>
  The structured logger (\<open>internal/shared/logger\<close>) and the middleware that logs each request
  (\<open>internal/shared/middleware/logging.go\<close>). What is modelled of \<open>log/slog\<close> are the levels with their order, the
  attributes a logger carries, and whether a record is written; the text of a line is not. At the end are the
  wrappers of a response, of the middleware and of the gateway.
\<close>

section \<open>Levels\<close>

datatype Level = LevelDebug | LevelInfo | LevelWarn | LevelError

fun level_value :: "Level \<Rightarrow> int" where
  "level_value LevelDebug = - 4"
| "level_value LevelInfo = 0"
| "level_value LevelWarn = 4"
| "level_value LevelError = 8"

lemma level_value_inject: "level_value a = level_value b \<longleftrightarrow> a = b"
  by (cases a; cases b) simp_all

instantiation Level :: linorder
begin

definition less_eq_Level :: "Level \<Rightarrow> Level \<Rightarrow> bool" where
  "less_eq_Level a b \<longleftrightarrow> level_value a \<le> level_value b"

definition less_Level :: "Level \<Rightarrow> Level \<Rightarrow> bool" where
  "less_Level a b \<longleftrightarrow> level_value a < level_value b"

instance
  by standard (auto simp: less_eq_Level_def less_Level_def level_value_inject)

end

section \<open>The logger\<close>

record Logger =
  lg_Level :: Level
  lg_AddSource :: bool
  lg_Text :: bool
  lg_attrs :: "(string \<times> string) list"

definition logger_New :: "string \<Rightarrow> string \<Rightarrow> Logger" where
  "logger_New level format =
     (let level = ToLower level;
          lvl = (if level = ''debug'' then LevelDebug else if level = ''warn'' then LevelWarn
                 else if level = ''error'' then LevelError else LevelInfo)
      in \<lparr>lg_Level = lvl, lg_AddSource = (lvl = LevelDebug), lg_Text = (ToLower format = ''text''), lg_attrs = []\<rparr>)"

definition Enabled :: "Logger \<Rightarrow> Level \<Rightarrow> bool" where
  "Enabled l level \<longleftrightarrow> lg_Level l \<le> level"

definition With :: "string \<Rightarrow> string \<Rightarrow> Logger \<Rightarrow> Logger" where
  "With k v l = l\<lparr>lg_attrs := lg_attrs l @ [(k, v)]\<rparr>"

text \<open>The values the package keeps in a context, under its own keys.\<close>

record log_context =
  lk_RequestID :: "string option"
  lk_OrganizationID :: "string option"
  lk_AppID :: "string option"
  lk_UserID :: "string option"

definition no_log_context :: log_context where
  "no_log_context = \<lparr>lk_RequestID = None, lk_OrganizationID = None, lk_AppID = None, lk_UserID = None\<rparr>"

definition ContextWithRequestID :: "string \<Rightarrow> log_context \<Rightarrow> log_context" where
  "ContextWithRequestID v x = x\<lparr>lk_RequestID := Some v\<rparr>"

definition ContextWithOrganizationID :: "string \<Rightarrow> log_context \<Rightarrow> log_context" where
  "ContextWithOrganizationID v x = x\<lparr>lk_OrganizationID := Some v\<rparr>"

definition ContextWithAppID :: "string \<Rightarrow> log_context \<Rightarrow> log_context" where
  "ContextWithAppID v x = x\<lparr>lk_AppID := Some v\<rparr>"

definition ContextWithUserID :: "string \<Rightarrow> log_context \<Rightarrow> log_context" where
  "ContextWithUserID v x = x\<lparr>lk_UserID := Some v\<rparr>"

definition with_value :: "string \<Rightarrow> string option \<Rightarrow> Logger \<Rightarrow> Logger" where
  "with_value k v l = (case v of None \<Rightarrow> l | Some v \<Rightarrow> if v = [] then l else With k v l)"

definition WithContext :: "log_context \<Rightarrow> Logger \<Rightarrow> Logger" where
  "WithContext x l =
     with_value ''user_id'' (lk_UserID x)
       (with_value ''app_id'' (lk_AppID x)
         (with_value ''organization_id'' (lk_OrganizationID x)
           (with_value ''request_id'' (lk_RequestID x) l)))"

text \<open>What the middleware stores beside its own values: \<open>RequestID\<close>, \<open>JWTAuth\<close> and the tenant resolver.\<close>

definition claims_log_context :: "uuid_api \<Rightarrow> TokenClaims \<Rightarrow> log_context \<Rightarrow> log_context" where
  "claims_log_context U claims x =
     (let x = ContextWithUserID (uuid_str U (c_UserID claims)) x
      in if c_OrganizationID claims \<noteq> uuid_nil
         then ContextWithOrganizationID (uuid_str U (c_OrganizationID claims)) x else x)"

definition tenant_log_context :: "uuid_api \<Rightarrow> uuid \<Rightarrow> log_context \<Rightarrow> log_context" where
  "tenant_log_context U gid x = ContextWithOrganizationID (uuid_str U gid) x"

section \<open>The middleware\<close>

record log_record =
  lr_method :: string
  lr_path :: string
  lr_status :: int
  lr_duration_ms :: int
  lr_remote_addr :: string
  lr_attrs :: "(string \<times> string) list"

text \<open>The status \<open>responseWriter\<close> has seen: that of the answer.\<close>

fun answer_status :: "answer \<Rightarrow> int" where
  "answer_status (Sent x) = rs_status x"
| "answer_status (SetCookie k x) = rs_status x"
| "answer_status (Copied x) = br_StatusCode x"

text \<open>
  The context is that of the request the middleware was given: what the handlers inside put into the
  contexts of their copies of it is not seen here.
\<close>

definition Logging ::
  "Logger \<Rightarrow> (log_context \<Rightarrow> request \<Rightarrow> (answer \<times> 'a) eff) \<Rightarrow> log_context \<Rightarrow> request \<Rightarrow> ((answer \<times> 'a) \<times> log_record option) eff"
where
  "Logging logger next x r = do {
     start \<leftarrow> time_Now;
     a \<leftarrow> next x r;
     now \<leftarrow> time_Now;
     let l = WithContext x logger;
     ret (a, if Enabled l LevelInfo
             then Some \<lparr>lr_method = rq_method r, lr_path = rq_path r, lr_status = answer_status (fst a),
                        lr_duration_ms = (now - start) div 1000000, lr_remote_addr = rq_RemoteAddr r, lr_attrs = lg_attrs l\<rparr>
             else None)
   }"

text \<open>The router with its log: \<open>New\<close> with the line that a request leaves.\<close>

definition New_logged ::
  "uuid_api \<Rightarrow> Logger \<Rightarrow> Dependencies \<Rightarrow> workspace_cache \<Rightarrow> request \<Rightarrow>
   (string \<times> (answer \<times> workspace_cache) \<times> log_record option) eff" where
  "New_logged U logger D cache r = do {
     requestID \<leftarrow> request_id U r;
     x \<leftarrow> Logging logger (\<lambda>_ r. serve U D cache (background\<lparr>cx_RequestID := requestID\<rparr>) (limit_body (dp_MaxBodyBytes D) r))
           (ContextWithRequestID requestID no_log_context) r;
     ret (requestID, x)
   }"

section \<open>What is logged\<close>

lemma with_value_level [simp]: "lg_Level (with_value k v l) = lg_Level l"
  by (simp add: with_value_def With_def split: option.splits)

lemma WithContext_level [simp]: "Enabled (WithContext x l) = Enabled l"
  by (simp add: Enabled_def WithContext_def fun_eq_iff)

lemma with_value_attrs:
  "lg_attrs (with_value k v l) = lg_attrs l @ (case v of None \<Rightarrow> [] | Some v \<Rightarrow> if v = [] then [] else [(k, v)])"
  by (simp add: with_value_def With_def split: option.splits)

lemma request_id_attrs:
  "lg_attrs (WithContext (ContextWithRequestID v no_log_context) l) =
     lg_attrs l @ (if v = [] then [] else [(''request_id'', v)])"
  by (simp add: WithContext_def ContextWithRequestID_def no_log_context_def with_value_attrs)

text \<open>The levels that are logged are those from the configured one upwards.\<close>

lemma enabled_mono: "Enabled l a \<Longrightarrow> a \<le> b \<Longrightarrow> Enabled l b"
  by (simp add: Enabled_def)

lemma default_level: "Enabled (logger_New [] format) a \<longleftrightarrow> a \<noteq> LevelDebug"
  by (cases a) (simp_all add: Enabled_def logger_New_def ToLower_def less_eq_Level_def)

text \<open>
  A request leaves one line, when information is logged at all. It has the status of the answer that was
  sent, and says who asked only by the address: neither the user nor the organization is in it,
  whoever is signed in.
\<close>

lemma request_logged:
  assumes "run_state (New_logged U logger D cache r) w = ((requestID, x, line), w')"
  shows "\<exists>w1 w2. run_state (request_id U r) w = (requestID, w1) \<and>
    run_state (serve U D cache (background\<lparr>cx_RequestID := requestID\<rparr>) (limit_body (dp_MaxBodyBytes D) r))
      (tick_world w1) = (x, w2) \<and> w' = tick_world w2 \<and>
    line = (if Enabled logger LevelInfo
            then Some \<lparr>lr_method = rq_method r, lr_path = rq_path r, lr_status = answer_status (fst x),
                       lr_duration_ms = (clock w2 - clock w1) div 1000000, lr_remote_addr = rq_RemoteAddr r,
                       lr_attrs = lg_attrs logger @ (if requestID = [] then [] else [(''request_id'', requestID)])\<rparr>
            else None)"
  using assms
  by (auto simp: New_logged_def Logging_def run_state_bind time_Now_def request_id_attrs Let_def split: prod.splits)

section \<open>The writers of a response\<close>

text \<open>
  The writers of a response: what the program uses of \<open>http.ResponseWriter\<close>, the wrapper of the logging
  middleware (\<open>internal/shared/middleware/logging.go\<close>), and that of the gateway
  (\<open>internal/gateway/pipeline.go\<close>), which nothing uses.
\<close>

type_synonym headers = "string \<Rightarrow> string list option"

text \<open>The header can be changed until the status is sent, and the first status is the one that counts.\<close>

record http_writer =
  hw_header :: headers
  hw_sent :: "(int \<times> headers) option"
  hw_body :: string

definition new_writer :: http_writer where
  "new_writer = \<lparr>hw_header = Map.empty, hw_sent = None, hw_body = []\<rparr>"

definition http_WriteHeader :: "int \<Rightarrow> http_writer \<Rightarrow> http_writer" where
  "http_WriteHeader code w = (if hw_sent w = None then w\<lparr>hw_sent := Some (code, hw_header w)\<rparr> else w)"

definition http_Write :: "string \<Rightarrow> http_writer \<Rightarrow> http_writer" where
  "http_Write b w = (let w = http_WriteHeader 200 w in w\<lparr>hw_body := hw_body w @ b\<rparr>)"

section \<open>The wrapper of the logging middleware\<close>

record log_writer =
  lw_inner :: http_writer
  lw_statusCode :: int

definition log_wrap :: "http_writer \<Rightarrow> log_writer" where
  "log_wrap w = \<lparr>lw_inner = w, lw_statusCode = 200\<rparr>"

definition log_WriteHeader :: "int \<Rightarrow> log_writer \<Rightarrow> log_writer" where
  "log_WriteHeader code x = x\<lparr>lw_statusCode := code, lw_inner := http_WriteHeader code (lw_inner x)\<rparr>"

text \<open>\<open>Write\<close> is that of the embedded writer.\<close>

definition log_Write :: "string \<Rightarrow> log_writer \<Rightarrow> log_writer" where
  "log_Write b x = x\<lparr>lw_inner := http_Write b (lw_inner x)\<rparr>"

datatype writer_call = CallWriteHeader int | CallWrite string

fun log_call :: "writer_call \<Rightarrow> log_writer \<Rightarrow> log_writer" where
  "log_call (CallWriteHeader code) = log_WriteHeader code"
| "log_call (CallWrite b) = log_Write b"

text \<open>
  What is logged is the status that was sent, for a handler that sets the status once and before the
  body, or not at all, as all answers of the program do.
\<close>

lemma log_writes: "hw_sent (lw_inner x) = Some s \<Longrightarrow>
    lw_statusCode (fold log_call (map CallWrite bs) x) = lw_statusCode x \<and>
    hw_sent (lw_inner (fold log_call (map CallWrite bs) x)) = Some s"
  by (induction bs arbitrary: x) (simp_all add: log_Write_def http_Write_def http_WriteHeader_def Let_def)

lemma logged_status_sent:
  assumes "calls = CallWriteHeader code # map CallWrite bs \<or> calls = map CallWrite (b # bs) \<and> code = 200"
  shows "lw_statusCode (fold log_call calls (log_wrap new_writer)) = code \<and>
    map_option fst (hw_sent (lw_inner (fold log_call calls (log_wrap new_writer)))) = Some code"
  using assms
proof
  assume c: "calls = CallWriteHeader code # map CallWrite bs"
  let ?x = "log_WriteHeader code (log_wrap new_writer)"
  have "hw_sent (lw_inner ?x) = Some (code, Map.empty)" "lw_statusCode ?x = code"
    by (simp_all add: log_WriteHeader_def log_wrap_def new_writer_def http_WriteHeader_def)
  then show ?thesis using log_writes [of ?x _ bs] by (simp add: c)
next
  assume c: "calls = map CallWrite (b # bs) \<and> code = 200"
  let ?x = "log_Write b (log_wrap new_writer)"
  have "hw_sent (lw_inner ?x) = Some (200, Map.empty)" "lw_statusCode ?x = 200"
    by (simp_all add: log_Write_def log_wrap_def new_writer_def http_Write_def http_WriteHeader_def)
  then show ?thesis using log_writes [of ?x _ bs] c by simp
qed

text \<open>A second status is ignored by the connection and logged all the same.\<close>

lemma logged_status_differs:
  "lw_statusCode (fold log_call [CallWriteHeader a, CallWriteHeader b] (log_wrap new_writer)) = b \<and>
   hw_sent (lw_inner (fold log_call [CallWriteHeader a, CallWriteHeader b] (log_wrap new_writer))) = Some (a, Map.empty)"
  by (simp add: log_WriteHeader_def log_wrap_def new_writer_def http_WriteHeader_def)

section \<open>The wrapper of the gateway\<close>

record gateway_writer =
  gw_inner :: http_writer
  gw_statusCode :: int
  gw_header :: headers
  gw_wroteHeader :: bool

definition gw_Header :: "gateway_writer \<Rightarrow> headers" where
  "gw_Header x = gw_header x"

definition gw_WriteHeader :: "int \<Rightarrow> gateway_writer \<Rightarrow> gateway_writer" where
  "gw_WriteHeader code x =
     (if gw_wroteHeader x then x
      else x\<lparr>gw_statusCode := code, gw_wroteHeader := True,
             gw_inner := http_WriteHeader code ((gw_inner x)\<lparr>hw_header := hw_header (gw_inner x) ++ gw_header x\<rparr>)\<rparr>)"

definition gw_Write :: "string \<Rightarrow> gateway_writer \<Rightarrow> gateway_writer" where
  "gw_Write b x =
     (let x = (if gw_wroteHeader x then x else gw_WriteHeader 200 x)
      in x\<lparr>gw_inner := http_Write b (gw_inner x)\<rparr>)"

fun gw_call :: "writer_call \<Rightarrow> gateway_writer \<Rightarrow> gateway_writer" where
  "gw_call (CallWriteHeader code) = gw_WriteHeader code"
| "gw_call (CallWrite b) = gw_Write b"

text \<open>This one keeps the status that was sent, in whatever order it is called.\<close>

definition writer_agrees :: "gateway_writer \<Rightarrow> bool" where
  "writer_agrees x \<longleftrightarrow>
     map_option fst (hw_sent (gw_inner x)) = (if gw_wroteHeader x then Some (gw_statusCode x) else None)"

lemma gw_call_agrees: "writer_agrees x \<Longrightarrow> writer_agrees (gw_call c x)"
  by (cases c) (auto simp: writer_agrees_def gw_WriteHeader_def gw_Write_def http_Write_def http_WriteHeader_def Let_def)

lemma gw_calls_agree: "writer_agrees x \<Longrightarrow> writer_agrees (fold gw_call cs x)"
  by (induction cs arbitrary: x) (simp_all add: gw_call_agrees)

end
