(* ===== verification/Process.thy ===== *)
theory Process
  imports Startup Server_Props Migrate Logger Dsn
begin

text \<open>
  The life of the program, \<open>main\<close> and \<open>run\<close> of \<open>cmd/server/main.go\<close>: telemetry, the database with its
  migrations, the cache, the bus, the router, the requests, and the end, with the clean-ups that were
  deferred. The libraries that open connections (\<open>internal/shared/database\<close>, \<open>cache\<close>,
  \<open>telemetry\<close>) are the fields of \<open>platform\<close>. The tables are in the world; what the migrations see of the
  database is the state of \<open>Migrate\<close>. Requests are answered one after the other.
\<close>

record pool_config =
  pl_ConnString :: string
  pl_MaxConns :: int
  pl_MinConns :: int
  pl_MaxConnLifetime :: time
  pl_MaxConnIdleTime :: time

record redis_Options =
  ro_Addr :: string
  ro_Password :: string
  ro_DB :: int
  ro_PoolSize :: int
  ro_MinIdleConns :: int
  ro_ConnMaxIdleTime :: time
  ro_DialTimeout :: time
  ro_ReadTimeout :: time
  ro_WriteTimeout :: time

text \<open>The functions report their error, \<open>None\<close> for none.\<close>

record 'd platform =
  pf_setup :: "string \<Rightarrow> string \<Rightarrow> goerr option eff"
  pf_parse_pool :: "string \<Rightarrow> goerr option"
  pf_open_pool :: "pool_config \<Rightarrow> goerr option eff"
  pf_ping_pool :: "goerr option eff"
  pf_ping_redis :: "redis_Options \<Rightarrow> goerr option eff"
  pf_sql :: "string \<Rightarrow> 'd \<Rightarrow> 'd option"
  pf_dir :: "(string \<times> string) list"
  pf_admin :: kafka_admin
  pf_write :: "kafka_message \<Rightarrow> goerr option eff"

definition Version :: string where "Version = ''0.0.1''"
definition ServiceName :: string where "ServiceName = ''masterfabric-go''"

definition or_wrapped :: "string \<Rightarrow> goerr option eff \<Rightarrow> (goerr + 'a) eff \<Rightarrow> (goerr + 'a) eff" where
  "or_wrapped msg m f = do { e \<leftarrow> m; case e of Some e \<Rightarrow> fail (Wrapped msg e) | None \<Rightarrow> f }"

definition NewPostgresPool :: "'d platform \<Rightarrow> DatabaseConfig \<Rightarrow> (goerr + pool_config) eff" where
  "NewPostgresPool F d =
     (case pf_parse_pool F (DSN d) of
        Some e \<Rightarrow> fail (Wrapped ''parse db config'' e)
      | None \<Rightarrow>
          (let p = \<lparr>pl_ConnString = DSN d, pl_MaxConns = dc_MaxConns d, pl_MinConns = dc_MinConns d,
                    pl_MaxConnLifetime = dc_ConnMaxLifetime d, pl_MaxConnIdleTime = dc_ConnMaxIdleTime d\<rparr>
           in or_wrapped ''create db pool'' (pf_open_pool F p) (or_wrapped ''ping db'' (pf_ping_pool F) (ok p))))"

definition NewRedisClient :: "'d platform \<Rightarrow> RedisConfig \<Rightarrow> (goerr + redis_Options) eff" where
  "NewRedisClient F r =
     (let x = \<lparr>ro_Addr = Addr r, ro_Password = rc_Password r, ro_DB = rc_DB r, ro_PoolSize = rc_PoolSize r,
               ro_MinIdleConns = rc_MinIdleConns r, ro_ConnMaxIdleTime = rc_ConnMaxIdleTime r,
               ro_DialTimeout = 5 * second, ro_ReadTimeout = 3 * second, ro_WriteTimeout = 3 * second\<rparr>
      in or_wrapped ''ping redis'' (pf_ping_redis F x) (ok x))"

section \<open>The run\<close>

datatype cleanup = ShutTelemetry | ClosePool | CloseRedis | CloseBus

text \<open>How the server ends: it cannot listen any more, it was closed, or a signal and what \<open>Shutdown\<close> reports.\<close>

datatype ending = ServeFails goerr | ServerClosed | Signalled "goerr option"

fun run_error :: "ending \<Rightarrow> goerr option" where
  "run_error (ServeFails e) = Some (Wrapped ''server error'' e)"
| "run_error ServerClosed = None"
| "run_error (Signalled e) = map_option (Wrapped ''graceful shutdown failed'') e"

text \<open>
  What a process leaves: its exit code, the clean-ups it ran, in their order, and where it listened and the answers
  it gave, if it came to that. \<open>os.Exit\<close> runs no clean-up.
\<close>

record process_end =
  pe_code :: int
  pe_cleanups :: "cleanup list"
  pe_served :: "(string \<times> answer list) option"

definition run_server ::
  "'d platform \<Rightarrow> packages \<Rightarrow> Config \<Rightarrow> bool \<Rightarrow> cleanup list \<Rightarrow> request list \<Rightarrow> ending \<Rightarrow> process_end eff" where
  "run_server F K cfg db deferred rs ending = do {
     x \<leftarrow> NewRedisClient F (cf_Redis cfg);
     let rd = (\<exists>c. x = Inr c);
     bus \<leftarrow> (initEventBus (pf_admin F) (pf_write F) cfg :: unit event_bus eff);
     let D = buildDependencies K cfg db rd;
     (answers, cache) \<leftarrow> serve_all (pk_uuid K) D [] rs;
     ret \<lparr>pe_code = (if run_error ending = None then 0 else 1),
          pe_cleanups = CloseBus # (if rd then [CloseRedis] else []) @ deferred,
          pe_served = Some (sc_Host (cf_Server cfg) @ '':'' @ Itoa (sc_Port (cf_Server cfg)), answers)\<rparr>
   }"

definition run ::
  "'d platform \<Rightarrow> packages \<Rightarrow> Config \<Rightarrow> env \<Rightarrow> request list \<Rightarrow> ending \<Rightarrow> 'd schema_db \<Rightarrow> (process_end \<times> 'd schema_db) eff"
where
  "run F K cfg E rs ending db = do {
     e \<leftarrow> pf_setup F ServiceName Version;
     let deferred = (if e = None then [ShutTelemetry] else []);
     pool \<leftarrow> NewPostgresPool F (cf_Database cfg);
     case pool of
       Inl _ \<Rightarrow> do { x \<leftarrow> run_server F K cfg False deferred rs ending; ret (x, db) }
     | Inr _ \<Rightarrow>
         (case RunMigrations (pf_sql F) (pf_dir F) (E ''FORCE_MIGRATE'' = ''true'') db of
            (Inl _, db) \<Rightarrow> ret (\<lparr>pe_code = 1, pe_cleanups = [], pe_served = None\<rparr>, db)
          | (Inr _, db) \<Rightarrow> do { x \<leftarrow> run_server F K cfg True (ClosePool # deferred) rs ending; ret (x, db) })
   }"

section \<open>What a run does\<close>

lemma run_server_end:
  assumes "run_state (run_server F K cfg db deferred rs ending) w = (x, w')"
  shows "\<exists>rd w1 answers cache.
    run_state (serve_all (pk_uuid K) (buildDependencies K cfg db rd) [] rs) w1 = ((answers, cache), w') \<and>
    x = \<lparr>pe_code = (if run_error ending = None then 0 else 1),
         pe_cleanups = CloseBus # (if rd then [CloseRedis] else []) @ deferred,
         pe_served = Some (sc_Host (cf_Server cfg) @ '':'' @ Itoa (sc_Port (cf_Server cfg)), answers)\<rparr>"
proof -
  obtain c w1 where c: "run_state (NewRedisClient F (cf_Redis cfg)) w = (c, w1)" by fastforce
  obtain bus w2 where bus: "run_state (initEventBus (pf_admin F) (pf_write F) cfg :: unit event_bus eff) w1 = (bus, w2)"
    by fastforce
  let ?rd = "\<exists>x. c = Inr x"
  obtain answers cache w3
    where served: "run_state (serve_all (pk_uuid K) (buildDependencies K cfg db ?rd) [] rs) w2 = ((answers, cache), w3)"
    by (metis surj_pair)
  have "w' = w3" "x = \<lparr>pe_code = (if run_error ending = None then 0 else 1),
      pe_cleanups = CloseBus # (if ?rd then [CloseRedis] else []) @ deferred,
      pe_served = Some (sc_Host (cf_Server cfg) @ '':'' @ Itoa (sc_Port (cf_Server cfg)), answers)\<rparr>"
    using assms by (simp_all add: run_server_def run_state_bind Let_def c bus served)
  then show ?thesis using served by blast
qed

lemma run_ends:
  assumes "run_state (run F K cfg E rs ending db) w = ((x, db1), w')"
  obtains (failed) e where "RunMigrations (pf_sql F) (pf_dir F) (E ''FORCE_MIGRATE'' = ''true'') db = (Inl e, db1)"
      "x = \<lparr>pe_code = 1, pe_cleanups = [], pe_served = None\<rparr>"
  | (served) up rd telemetry w1 answers cache where
      "if up then RunMigrations (pf_sql F) (pf_dir F) (E ''FORCE_MIGRATE'' = ''true'') db = (Inr (), db1) else db1 = db"
      "run_state (serve_all (pk_uuid K) (buildDependencies K cfg up rd) [] rs) w1 = ((answers, cache), w')"
      "pe_served x = Some (sc_Host (cf_Server cfg) @ '':'' @ Itoa (sc_Port (cf_Server cfg)), answers)"
      "pe_code x = (if run_error ending = None then 0 else 1)"
      "pe_cleanups x = [CloseBus] @ (if rd then [CloseRedis] else []) @ (if up then [ClosePool] else []) @
         (if telemetry then [ShutTelemetry] else [])"
proof -
  obtain e w1 where e: "run_state (pf_setup F ServiceName Version) w = (e, w1)" by fastforce
  obtain pool w2 where pool: "run_state (NewPostgresPool F (cf_Database cfg)) w1 = (pool, w2)" by fastforce
  let ?deferred = "if e = None then [ShutTelemetry] else []"
  show thesis
  proof (cases pool)
    case (Inl a)
    then have "run_state (run_server F K cfg False ?deferred rs ending) w2 = (x, w')" "db1 = db"
      using assms e pool by (auto simp: run_def run_state_bind Let_def split: prod.splits)
    then show thesis using run_server_end [of F K cfg False ?deferred rs ending w2 x w'] served [of False _ _ _ _ "e = None"]
      by auto
  next
    case (Inr a)
    obtain m db2 where m: "RunMigrations (pf_sql F) (pf_dir F) (E ''FORCE_MIGRATE'' = ''true'') db = (m, db2)" by fastforce
    show thesis
    proof (cases m)
      case (Inl b)
      then show thesis using assms e pool Inr m failed by (auto simp: run_def run_state_bind Let_def)
    next
      case r: (Inr b)
      then have "run_state (run_server F K cfg True (ClosePool # ?deferred) rs ending) w2 = (x, w')" "db1 = db2"
        using assms e pool Inr m by (auto simp: run_def run_state_bind Let_def split: prod.splits)
      then show thesis using run_server_end [of F K cfg True "ClosePool # ?deferred" rs ending w2 x w'] m r
          served [of True _ _ _ _ "e = None"] by auto
    qed
  qed
qed

text \<open>
  A process that reached its database serves on a schema that is complete: no migration is pending, and what
  the database holds is what the pending ones made of it.
\<close>

lemma served_migrated:
  assumes "run_state (run F K cfg E rs ending db) w = ((x, db1), w')"
    and "pe_served x \<noteq> None" "ClosePool \<in> set (pe_cleanups x)"
    and "\<forall>n k. sd_faults db n \<noteq> Cut k" "E ''FORCE_MIGRATE'' \<noteq> ''true''"
  shows "pending (migration_files (pf_dir F)) (recorded db1) = [] \<and>
    apply_all (pf_sql F) (pending (migration_files (pf_dir F)) (recorded db)) (sd_data db) = Some (sd_data db1)"
  using assms(1)
proof (cases rule: run_ends)
  case (failed e)
  then show ?thesis using assms(2) by simp
next
  case (served up rd telemetry w1 answers cache)
  then have "RunMigrations (pf_sql F) (pf_dir F) False db = (Inr (), db1)"
    using assms(3,5) by (auto split: if_splits)
  then have "progress (pf_sql F) (pending (migration_files (pf_dir F)) (recorded db)) db (Inr (), db1)"
    using run_migrations [OF assms(4), of "pf_sql F" "pf_dir F"] by simp
  then show ?thesis using pending_done by (auto simp: progress_def)
qed

text \<open>Without a database the API is not there: no token is asked for, and nothing but packages and 404 answers.\<close>

lemma no_database_no_api:
  assumes "api_segments (rq_path r) = Some xs" "D = buildDependencies K cfg False rd"
  shows "serve U D cache c r =
    (if take 1 xs = [''auth''] then do { a \<leftarrow> pk_unmatched K c r; ret (a, cache) }
     else do { a \<leftarrow> endpoint_not_found c r; ret (a, cache) })"
proof -
  have "public_routes U D = []" "protected_routes U D = []"
    by (simp_all add: assms(2) buildDependencies_def no_dependencies_def public_routes_def protected_routes_def
        iam_routes_def tenant_routes_def other_routes_def)
  then show ?thesis
    by (simp add: assms serve_def dispatch_protected_def protected_chain_def maybeRequirePermission_def
        buildDependencies_def no_dependencies_def)
qed

end
