(* ===== verification/Realtime_Server.thy ===== *)
theory Realtime_Server
  imports Realtime_Props Router_Props
begin

text \<open>
  The route \<open>GET /api/v1/ws\<close> of the server: the token, the tenant and the gateway of \<open>router.go\<close>
  before the handler of connections, which works on the tables and the hub.
\<close>

text \<open>
  The handler as \<open>buildDependencies\<close> makes it; the argument is what the WebSocket package checks of
  a request besides the origin.
\<close>

definition server_realtime :: "packages \<Rightarrow> Config \<Rightarrow> bool \<Rightarrow> (request \<Rightarrow> bool) \<Rightarrow> realtime_Handler" where
  "server_realtime K cfg rd handshake =
     \<lparr>rh_appRepo = AppRepo, rh_rbac = server_rbac K rd, rh_auth = server_auth K cfg,
      rh_upgrade = (\<lambda>r. handshake r \<and>
        up_CheckOrigin (NewUpgrader \<lparr>uc_ReadBufferSize = wc_ReadBufferSize (cf_WebSocket cfg),
          uc_WriteBufferSize = wc_WriteBufferSize (cf_WebSocket cfg),
          uc_AllowedOrigins = sc_CORSAllowedOrigins (cf_Server cfg)\<rparr>) r),
      rh_enabled = wc_Enabled (cf_WebSocket cfg)\<rparr>"

text \<open>What the group's middleware makes of the request: an answer, or the context the handler gets.\<close>

definition ws_context ::
  "packages \<Rightarrow> Config \<Rightarrow> workspace_cache \<Rightarrow> rctx \<Rightarrow> request \<Rightarrow> (response \<times> workspace_cache + rctx \<times> workspace_cache) eff"
where
  "ws_context K cfg cache c r = do {
     x \<leftarrow> authenticate (server_auth K cfg) c r;
     case x of
       Inl answered \<Rightarrow> ret (Inl (answered, cache))
     | Inr c \<Rightarrow> do {
         org \<leftarrow> resolve_org (pk_uuid K) (Some OrgRepo) c r;
         case org of
           None \<Rightarrow> ret (Inl (response_JSON 400 (error_body ''invalid X-Organization-ID''), cache))
         | Some gid \<Rightarrow>
             if gid = uuid_nil then ret (Inr (c, cache))
             else do {
               (wid, cache) \<leftarrow> resolve_workspace (pk_uuid K) (Some WorkspaceRepo) gid r cache;
               ret (Inr (tenant_context gid wid c, cache))
             }
       }
   }"

definition serve_ws ::
  "packages \<Rightarrow> Config \<Rightarrow> bool \<Rightarrow> (request \<Rightarrow> bool) \<Rightarrow> workspace_cache \<Rightarrow> request \<Rightarrow> world \<times> Hub \<Rightarrow>
   ((Realtime.connection \<times> workspace_cache) \<times> world \<times> Hub) option" where
  "serve_ws K cfg rd handshake cache r s =
     (case run_state (ws_context K cfg cache background r) (fst s) of
        (Inl (answered, cache), w) \<Rightarrow> Some ((Answered answered, cache), w, snd s)
      | (Inr (c, cache), w) \<Rightarrow>
          map_option (\<lambda>(x, s). ((x, cache), s)) (Connect (pk_uuid K) (server_realtime K cfg rd handshake) c r (w, snd s)))"

text \<open>
  The router takes such a request through exactly these steps, whatever its handler of connections
  is: the gateway lets the path through, and the route needs no permission of its own.
\<close>

lemma serve_reaches_ws:
  assumes "rq_method r = ''GET''" "rq_path r = ''/api/v1/ws''"
  shows "serve (pk_uuid K) (buildDependencies K cfg True rd) cache c r = do {
     x \<leftarrow> ws_context K cfg cache c (set_params [] r);
     case x of
       Inl (answered, cache) \<Rightarrow> ret (Sent answered, cache)
     | Inr (c, cache) \<Rightarrow> do { a \<leftarrow> pk_realtime K c (set_params [] r); ret (a, cache) }
   }"
proof -
  let ?D = "buildDependencies K cfg True rd" and ?r = "set_params [] r"
  have seg: "api_segments (rq_path r) = Some [''ws'']" unfolding assms(2) by code_simp
  have pub: "find_route (public_routes (pk_uuid K) ?D) ''GET'' [''ws''] = None"
    by (simp add: buildDependencies_def public_routes_def on_post_def route_params_def)
  have prot: "\<exists>t. find_route (protected_routes (pk_uuid K) ?D) ''GET'' [''ws''] = Some (t, []) \<and>
      ro_permission t = None \<and> ro_handler t = pk_realtime K"
    by (simp add: buildDependencies_def protected_routes_def iam_routes_def tenant_routes_def endpoint_routes_def
        other_routes_def Let_def on_get_def on_post_def on_put_def on_delete_def route_params_def)
  have skip: "Enforce U P n c ?r = n c ?r" for U P n c
    by (simp add: Enforce_def admit_def set_params_def assms(2) shouldSkipPipeline_def skipPrefixes_def HasPrefix_def)
  obtain t where t: "find_route (protected_routes (pk_uuid K) ?D) ''GET'' [''ws''] = Some (t, [])"
    "ro_permission t = None" "ro_handler t = pk_realtime K" using prot by blast
  have "serve (pk_uuid K) ?D cache c r =
      protected_chain (pk_uuid K) ?D None (pk_realtime K) cache c ?r"
    by (simp add: serve_def seg assms(1) pub dispatch_protected_def t)
  also have "\<dots> = do {
     x \<leftarrow> ws_context K cfg cache c ?r;
     case x of
       Inl (answered, cache) \<Rightarrow> ret (Sent answered, cache)
     | Inr (c, cache) \<Rightarrow> do { a \<leftarrow> pk_realtime K c ?r; ret (a, cache) }
   }"
  proof (rule state.expand, rule ext)
    fix w
    obtain x w1 where x: "run_state (authenticate (server_auth K cfg) c ?r) w = (x, w1)" by fastforce
    show "run_state (protected_chain (pk_uuid K) ?D None (pk_realtime K) cache c ?r) w =
        run_state (do {
          x \<leftarrow> ws_context K cfg cache c ?r;
          case x of
            Inl (answered, cache) \<Rightarrow> ret (Sent answered, cache)
          | Inr (c, cache) \<Rightarrow> do { a \<leftarrow> pk_realtime K c ?r; ret (a, cache) }
        }) w"
    proof (cases x)
      case (Inl a)
      then show ?thesis using x by (simp add: protected_chain_def server_deps ws_context_def run_state_bind Let_def)
    next
      case (Inr c1)
      obtain g w2 where g: "run_state (resolve_org (pk_uuid K) (Some OrgRepo) c1 ?r) w1 = (g, w2)" by fastforce
      show ?thesis using x Inr g
        by (simp add: protected_chain_def server_deps ws_context_def run_state_bind Let_def skip maybeRequirePermission_def
            TenantResolverWithWorkspace_def reject_def split: option.split prod.split)
    qed
  qed
  finally show ?thesis .
qed

lemma keeps_ws_tenant:
  "keeps (same_tables w) (resolve_org U (Some OrgRepo) c r)"
  "keeps (same_tables w) (resolve_workspace U (Some WorkspaceRepo) gid r cache)"
proof -
  have t: "tick_stable (same_tables w)" by (simp add: tick_stable_def)
  show "keeps (same_tables w) (resolve_org U (Some OrgRepo) c r)"
    unfolding resolve_org_def subdomain_org_def OrgRepo_def OrgRepo_GetBySlug_def Let_def option.case using keeps_effects [OF t]
    by (auto intro!: keeps_intros)
  show "keeps (same_tables w) (resolve_workspace U (Some WorkspaceRepo) gid r cache)"
    unfolding resolve_workspace_def WorkspaceRepo_def WorkspaceRepository_GetBySlug_def Let_def option.case using keeps_effects [OF t]
    by (auto intro!: keeps_intros)
qed

lemma ws_context_ok:
  assumes "run_state (ws_context K cfg cache background r) w = (Inr (c, cache'), w1)"
  shows "\<exists>bearer. accepted K cfg r w bearer \<and> same_tables w w1"
proof -
  obtain x v where x: "run_state (authenticate (server_auth K cfg) background r) w = (x, v)" by fastforce
  then obtain c1 where c1: "x = Inr c1" using assms by (auto simp: ws_context_def run_state_bind split: sum.splits)
  obtain bearer where b: "v = tick_world w" "accepted K cfg r w bearer" using run_authenticate x c1 by blast
  obtain g v1 where g: "run_state (resolve_org (pk_uuid K) (Some OrgRepo) c1 r) v = (g, v1)" by fastforce
  have s: "same_tables w v1" using keepsD2 [OF keeps_ws_tenant(1) _ g, of w] b(1) by simp
  moreover have "same_tables w (snd (run_state (resolve_workspace (pk_uuid K) (Some WorkspaceRepo) gid r cache) v1))" for gid
    using keepsD [OF keeps_ws_tenant(2) s] .
  ultimately have "same_tables w w1" using assms x c1 g
    by (auto simp: ws_context_def run_state_bind split: option.splits if_splits prod.splits) (metis snd_conv)
  then show ?thesis using b(2) by blast
qed

text \<open>
  C9. Through the server a WebSocket connection is only opened for a request with a valid token in its
  Authorization header, so never for one that only has the query parameter that browsers are told
  to use; the token the handler then reads must be valid as well, the app stored, active and of the organization
  the request resolves to, the user granted \<open>app:read\<close> there, by the tables or a live cache entry, and the
  origin allowed. Unless the hub is shut down, the client is registered with exactly that user, organization and app.
\<close>

theorem websocket_sound:
  assumes "serve_ws K cfg rd handshake cache r (w, h) = Some ((Connected cid obj unreg, cache'), w', h')"
  shows "\<exists>bearer c w1 claims gid app perms q.
    accepted K cfg r w bearer \<and> run_state (ws_context K cfg cache background r) w = (Inr (c, cache'), w1) \<and>
    fst (run_state (auth_ValidateToken (server_auth K cfg) (ExtractBearerToken r)) w1) = Inr claims \<and>
    gid = resolveOrgID (pk_uuid K) r c (c_OrganizationID claims) \<and> gid \<noteq> uuid_nil \<and> c_UserID claims \<noteq> uuid_nil \<and>
    uuid_parse (pk_uuid K) (rq_header r ''X-App-ID'') = Some (a_ID app) \<and> app \<in> set (apps w) \<and>
    a_OrganizationID app = gid \<and> App_IsActive app \<and>
    same_tables w w1 \<and> grants K rd (tick_world (tick_world w1)) (c_UserID claims) gid perms \<and>
    q \<in> set perms \<and> matchesPermission q ''app:read'' \<and> originChecker (sc_CORSAllowedOrigins (cf_Server cfg)) r \<and>
    (\<not> h_closed h \<longrightarrow> GetClientInfo cid h' =
       Some \<lparr>ci_ID = cid, ci_UserID = c_UserID claims, ci_OrganizationID = gid, ci_AppID = a_ID app\<rparr>)"
proof -
  let ?H = "server_realtime K cfg rd handshake"
  have H: "rh_auth ?H = server_auth K cfg" "rh_rbac ?H = server_rbac K rd" "rh_appRepo ?H = AppRepo"
    "rh_upgrade ?H r \<Longrightarrow> originChecker (sc_CORSAllowedOrigins (cf_Server cfg)) r"
    by (simp_all add: server_realtime_def NewUpgrader_def)
  obtain x w1 where x: "run_state (ws_context K cfg cache background r) w = (x, w1)" by fastforce
  then obtain c where c: "x = Inr (c, cache')"
    and con: "Connect (pk_uuid K) ?H c r (w1, h) = Some (Connected cid obj unreg, w', h')"
    using assms by (auto simp: serve_ws_def split: sum.splits)
  from ws_context_ok [OF x [unfolded c]] obtain bearer where ctx: "accepted K cfg r w bearer" "same_tables w w1" by blast
  from connect_sound [OF con H(3)] obtain claims w2 gid w3 and app :: App where k:
    "run_state (auth_ValidateToken (server_auth K cfg) (ExtractBearerToken r)) w1 = (Inr claims, w2)"
    "gid = resolveOrgID (pk_uuid K) r c (c_OrganizationID claims)" "gid \<noteq> uuid_nil" "c_UserID claims \<noteq> uuid_nil"
    "uuid_parse (pk_uuid K) (rq_header r ''X-App-ID'') = Some (a_ID app)" "app \<in> set (apps w2)"
    "a_OrganizationID app = gid" "App_IsActive app"
    "run_state (rb_HasPermission (server_rbac K rd) (c_UserID claims) gid ''app:read'') (tick_world w2) = (Inr True, w3)"
    "rh_upgrade ?H r" "\<not> h_closed h \<longrightarrow> GetClientInfo cid h' =
       Some \<lparr>ci_ID = cid, ci_UserID = c_UserID claims, ci_OrganizationID = gid, ci_AppID = a_ID app\<rparr>"
    unfolding H(1,2) by blast
  have w2: "w2 = tick_world w1" using run_server_validate [OF k(1)] .
  obtain perms q where g: "grants K rd (tick_world w2) (c_UserID claims) gid perms" "q \<in> set perms"
      "matchesPermission q ''app:read''"
    using has_grants [OF k(9)] by blast
  have "app \<in> set (apps w)" using k(6) same_tables_field [OF ctx(2), of apps] by (simp add: w2)
  then show ?thesis
    using ctx x k(1-5,7,8,11) g H(4) [OF k(10)] unfolding w2 c
    by (intro exI [of _ bearer] exI [of _ c] exI [of _ w1] exI [of _ claims] exI [of _ gid] exI [of _ app]
        exI [of _ perms] exI [of _ q]) simp
qed

section \<open>An example\<close>

definition visit_request :: request where
  "visit_request =
     demo_request\<lparr>rq_method := ''GET'', rq_path := ''/api/v1/ws'',
       rq_header := (\<lambda>k. if k = ''Authorization'' then ''Bearer '' @ ''abc''
         else if k = ''X-App-ID'' then uuid_str demo_uuid 5 else [])\<rparr>"

definition visit_world :: world where
  "visit_world = rbac_world\<lparr>role_permissions := [\<lparr>p_RoleID = 3, p_Permission = ''app:*''\<rparr>],
     apps := [\<lparr>a_ID = 5, a_OrganizationID = 5, a_Name = ''shop'', a_Slug = ''shop'', a_Status = AppStatusActive,
       a_SLATier = [], a_RateLimitPolicy = None, a_CreatedAt = 0, a_UpdatedAt = 0\<rparr>]\<rparr>"

abbreviation visit_handler :: realtime_Handler where
  "visit_handler \<equiv> server_realtime (demo_packages visitor_jwt) demo_config True (\<lambda>_. True)"

abbreviation visit_context :: rctx where
  "visit_context \<equiv> tenant_context 5 uuid_nil (claims_context (demo_login\<lparr>c_OrganizationID := 5\<rparr>) background)"

lemma visit_headers:
  "rq_header visit_request ''Authorization'' = ''Bearer '' @ ''abc''" "rq_header visit_request ''X-Organization-ID'' = []"
  "rq_header visit_request ''X-Workspace-ID'' = []" "rq_header visit_request ''X-Workspace-Slug'' = []"
  "rq_header visit_request ''X-App-ID'' = uuid_str demo_uuid 5" "rq_query visit_request = (\<lambda>_. [])"
  by (simp_all add: visit_request_def demo_request_def)

lemma visit_ws_context:
  "run_state (ws_context (demo_packages visitor_jwt) demo_config [] background visit_request) w =
     (Inr (visit_context, []), tick_world w)"
proof -
  have c: "OrgIDFromContext (claims_context (demo_login\<lparr>c_OrganizationID := 5\<rparr>) background) = Some 5" "(5 :: uuid) \<noteq> uuid_nil"
    by (simp_all add: claims_context_def OrgIDFromContext_def)
  show ?thesis
    using c(2) by (simp add: ws_context_def run_state_bind visitor_authenticate [OF visit_headers(1)] demo_packages_uuid
      plain_request(1) [OF visit_headers(2) c] plain_request(2) [OF visit_headers(3,4)])
qed

lemma visit_token: "ExtractBearerToken visit_request = ''abc''"
proof -
  have "TrimSpace [] = []" "TrimSpace ''abc'' = ''abc''"
    by (rule TrimSpace_id, simp add: space_bytes_def go_spaces_def)+
  moreover have "bearer (''Bearer '' @ ''abc'') = Some ''abc''" by code_simp
  ultimately show ?thesis by (simp add: ExtractBearerToken_def visit_headers(1,6))
qed

lemma visit_validates:
  "\<exists>w. run_state (ValidateConnect AppRepo (server_rbac (demo_packages visitor_jwt) True) 7 5 5) (tick_world (tick_world visit_world)) =
     (Inr \<lparr>in_UserID = 7, in_OrganizationID = 5, in_AppID = 5\<rparr>, w)"
proof -
  have w: "environ visit_world = still" "clock visit_world = 0" "tick visit_world = 40" "redis visit_world = Map.empty"
    "granted visit_world 7 5 = [''app:*'']"
    by (simp_all add: visit_world_def granted_def rbac_world_def demo_role_def) (simp add: demo_world_def empty_world_def)
  have "matchesPermission ''app:*'' ''app:read''"
    using matches_wild(2) [of "''app''" "''read''"] by simp
  then obtain v where v: "run_state (rb_HasPermission (server_rbac (demo_packages visitor_jwt) True) 7 5 ''app:read'')
      (tick_world (tick_world (tick_world visit_world))) = (Inr True, v)"
    by (simp add: server_rbac_def NewRBACService_def demo_packages_def run_state_bind HasPermission_def
        GetUserPermissions_def RoleRepo_def RoleRepo_GetUserPermissions_def redis_live_def next_fault_def w)
  have "apps visit_world = [\<lparr>a_ID = 5, a_OrganizationID = 5, a_Name = ''shop'', a_Slug = ''shop'',
      a_Status = AppStatusActive, a_SLATier = [], a_RateLimitPolicy = None, a_CreatedAt = 0, a_UpdatedAt = 0\<rparr>]"
    by (simp add: visit_world_def)
  then show ?thesis
    by (simp add: ValidateConnect_def AppRepo_def AppRepo_GetByID_def next_fault_def App_IsActive_def w v)
qed

theorem websocket_sound_witness:
  "\<exists>cid obj unreg w' h' app. serve_ws (demo_packages visitor_jwt) demo_config True (\<lambda>_. True) [] visit_request
       (visit_world, NewHub 1) = Some ((Connected cid obj unreg, []), w', h') \<and>
     app \<in> set (apps visit_world) \<and> uuid_parse demo_uuid (rq_header visit_request ''X-App-ID'') = Some (a_ID app) \<and>
     GetClientInfo cid h' = Some \<lparr>ci_ID = cid, ci_UserID = 7, ci_OrganizationID = 5, ci_AppID = a_ID app\<rparr>"
proof -
  let ?inp = "\<lparr>in_UserID = 7, in_OrganizationID = 5, in_AppID = 5\<rparr>"
  have app: "ParseAppHeader demo_uuid (rq_header visit_request ''X-App-ID'') = Inr 5"
    using uuid_parse_str [OF demo_uuid_ok, of 5] uuid_str_nonempty [OF demo_uuid_ok, of 5]
    by (simp add: ParseAppHeader_def visit_headers(5))
  have org: "resolveOrgID demo_uuid visit_request visit_context 5 = 5"
    by (simp add: resolveOrgID_def visit_headers(2))
  obtain w1 where val: "run_state (ValidateConnect AppRepo (server_rbac (demo_packages visitor_jwt) True) 7 5 5)
      (tick_world (tick_world visit_world)) = (Inr ?inp, w1)" using visit_validates by blast
  have H: "rh_enabled visit_handler" "rh_upgrade visit_handler visit_request"
    "rh_auth visit_handler = server_auth (demo_packages visitor_jwt) demo_config" "rh_appRepo visit_handler = AppRepo"
    "rh_rbac visit_handler = server_rbac (demo_packages visitor_jwt) True"
    by (simp_all add: server_realtime_def demo_config_def Load_def envOrDefault_def envOrDefaultSlice_def
        NewUpgrader_def originChecker_def)
  have claims: "c_UserID (demo_login\<lparr>c_OrganizationID := 5\<rparr>) = 7" "c_OrganizationID (demo_login\<lparr>c_OrganizationID := 5\<rparr>) = 5"
    by (simp_all add: demo_login_def)
  have "Connect demo_uuid visit_handler visit_context visit_request (tick_world visit_world, NewHub 1) =
      Connect_open demo_uuid ?inp (w1, NewHub 1)"
    by (simp add: Connect_def H visit_token visitor_token app claims org val)
  moreover have "\<exists>cid obj unreg w' h'. Connect_open demo_uuid ?inp (w1, NewHub 1) = Some (Connected cid obj unreg, w', h')"
    by (simp add: Connect_open_def make_chan_def Hub_Register_def NewHub_def Session_Start_def try_send_def Let_def
        NewControlMessage_def run_state_bind split: sum.splits)
  ultimately obtain cid obj unreg w' h'
    where "Connect demo_uuid visit_handler visit_context visit_request (tick_world visit_world, NewHub 1) =
      Some (Connected cid obj unreg, w', h')" by auto
  then have s: "serve_ws (demo_packages visitor_jwt) demo_config True (\<lambda>_. True) [] visit_request
      (visit_world, NewHub 1) = Some ((Connected cid obj unreg, []), w', h')"
    by (simp add: serve_ws_def visit_ws_context demo_packages_uuid)
  from websocket_sound [OF s] obtain c claims and app :: App where k:
    "run_state (ws_context (demo_packages visitor_jwt) demo_config [] background visit_request) visit_world =
       (Inr (c, []), tick_world visit_world)"
    "fst (run_state (auth_ValidateToken (server_auth (demo_packages visitor_jwt) demo_config) ''abc'')
       (tick_world visit_world)) = Inr claims"
    "app \<in> set (apps visit_world)" "uuid_parse demo_uuid (rq_header visit_request ''X-App-ID'') = Some (a_ID app)"
    "GetClientInfo cid h' = Some \<lparr>ci_ID = cid, ci_UserID = c_UserID claims,
       ci_OrganizationID = resolveOrgID demo_uuid visit_request c (c_OrganizationID claims), ci_AppID = a_ID app\<rparr>"
    unfolding visit_ws_context visit_token demo_packages_uuid by (auto simp: NewHub_def)
  have "c = visit_context" "claims = demo_login\<lparr>c_OrganizationID := 5\<rparr>"
    using k(1,2) by (simp_all add: visit_ws_context visitor_token)
  then show ?thesis using s k(3,4,5) by (simp only: claims org) blast
qed

end
