(* ===== verification/Spec2Isabelle.thy ===== *)
theory Spec2Isabelle
  imports Session_Props Rotate_Race Iam_Props Rbac_Props Tenant Api_Mgmt Room Pagination
    Hub_Claims Event_Bridge Realtime_Props Gateway_Props Interceptor_Props Dynamic_Props
    Router_Props Tenant_Props Stats_Props
    Kafka_Props Migrate Route_Table Startup Example Dsn Pumps
    Server_Props Fresh_Install Delivery Process Realtime_Server
begin

text \<open>
  A model of the MasterFabric Go backend (paths below are relative to \<open>src/\<close>) and the theorems that
  make it correct.

  \<^bold>\<open>The program.\<close> A multi-tenant HTTP server. A request passes the router's middleware: a token is
  validated, the organization and the workspace are resolved, the gateway looks whether the path
  is a managed endpoint and, if so, checks the permission and the rate of its policy, applies its
  interceptors and answers with the backend; what is left goes through a permission check to a
  handler, which decodes and validates the body, calls a use case, and encodes the answer. Use
  cases work on PostgreSQL repositories, a Redis cache and an event bus; a bridge broadcasts events
  to the WebSocket clients of the organization or the app they belong to. A process starts with the
  migrations of its database; a script is meant to fill a fresh one with roles.

  \<^bold>\<open>State and effects.\<close> \<open>World\<close> is the state outside the process: the tables, the cache, the clock, the
  channel of the bus. A function that touches it is an \<open>eff\<close>, a state monad; one that returns an
  error has a sum as its result, \<open>Inl\<close> the error. Each effect may fail: \<open>environ\<close> says for the n-th
  effect whether it is refused, lost after it was done, or cut off while rows are read, how much
  time passes, and which identifiers and random bytes are drawn. Every theorem without a hypothesis
  on \<open>environ\<close> holds whatever fails. State inside the process (the hub, the cache of workspaces,
  the consumer of Kafka) is passed explicitly. A panic is \<open>None\<close>.

  \<^bold>\<open>Theories.\<close>
  \<^item> \<open>Prelude\<close>, \<open>Go_Strings\<close>, \<open>Go_Time\<close>, \<open>Go_Url\<close>, \<open>Crypto\<close>, \<open>Json\<close>, \<open>Json_Props\<close>, \<open>Decode\<close>, \<open>Sort_By\<close>, \<open>Http\<close>: the
    types, the state monad, and what the program uses of Go's standard library (\<open>strings\<close>, \<open>strconv\<close>,
    \<open>time\<close>, \<open>net/url\<close>, \<open>crypto/sha256\<close>, \<open>encoding/json\<close>, \<open>net/http\<close>).
  \<^item> \<open>Errors\<close>, \<open>Pagination\<close>, \<open>Domain\<close>, \<open>World\<close>: \<open>internal/shared/errors\<close>, \<open>response\<close> and \<open>pagination\<close>, the
    entities and events of \<open>internal/domain\<close>, the state.
  \<^item> \<open>Auth_Service\<close>, \<open>Iam_Repo\<close>, \<open>Iam\<close>, \<open>Sessions\<close>, \<open>Token_Hashes\<close>, \<open>Session_Props\<close>, \<open>Rotate_Race\<close>,
    \<open>Iam_Props\<close>: identity, of \<open>internal/application/iam\<close>, \<open>internal/infrastructure/auth\<close> and
    \<open>internal/infrastructure/postgres/iam\<close>. \<open>Sessions\<close> has the abstract store of refresh tokens and the
    locale that is the contract of their repository.
  \<^item> \<open>Rbac\<close>, \<open>Rbac_Props\<close>: permissions and their cache (\<open>rbac_service.go\<close>).
  \<^item> \<open>Tenant_Repo\<close>, \<open>Tenant\<close>, \<open>Api_Repo\<close>, \<open>Api_Mgmt\<close>: organizations, apps, keys, workspaces,
    managed endpoints and their policies.
  \<^item> \<open>Room\<close>, \<open>Hub\<close>, \<open>Hub_Inv\<close>, \<open>Hub_Step\<close>, \<open>Hub_Ops\<close>, \<open>Hub_Props\<close>, \<open>Hub_Claims\<close>, \<open>Pumps\<close>, \<open>Events\<close>,
    \<open>Event_Bridge\<close>, \<open>Realtime\<close>, \<open>Realtime_Props\<close>, \<open>Realtime_Server\<close>: \<open>internal/infrastructure/websocket\<close> with its hub of
    clients, rooms and channels, the bus, the bridge, and connections. The locale \<open>room_hub\<close> is what the bridge
    relies on.
  \<^item> \<open>Interceptors\<close>, \<open>Interceptor_Props\<close>, \<open>Gateway\<close>, \<open>Gateway_Props\<close>, \<open>Proxy\<close>, \<open>Dynamic\<close>, \<open>Dynamic_Props\<close>,
    \<open>Example\<close>: \<open>internal/gateway\<close> and \<open>internal/infrastructure/gateway\<close>.
  \<^item> \<open>Middleware\<close>, \<open>Tenant_Props\<close>, \<open>Answers\<close>, \<open>Iam_Http\<close>, \<open>Tenant_Http\<close>, \<open>Api_Http\<close>, \<open>Audit_Trail\<close>, \<open>Statistics\<close>,
    \<open>Stats_Props\<close>, \<open>Health\<close>: \<open>internal/shared/middleware\<close> and \<open>internal/infrastructure/http/handler\<close>.
  \<^item> \<open>Router\<close>, \<open>Config\<close>, \<open>Dsn\<close>, \<open>Server\<close>, \<open>Startup\<close>, \<open>Process\<close>, \<open>Router_Props\<close>, \<open>Route_Table\<close>: \<open>router.go\<close>,
    \<open>config.go\<close> and \<open>cmd/server/main.go\<close>, and what holds of a request to the whole server.
  \<^item> \<open>Logger\<close>: \<open>internal/shared/logger\<close>, the log of requests, and the wrappers of a response.
  \<^item> \<open>Schema\<close>, \<open>Schema_Keeps\<close>: the constraints of the tables in
    \<open>internal/infrastructure/postgres/migrations\<close>, and that every statement of the repositories keeps them.
  \<^item> \<open>Table_Inv\<close>, \<open>Server_Inv\<close>, \<open>Server_Props\<close>: invariants of the tables through the whole server. The locales
    \<open>table_invariant\<close> and \<open>server_writes\<close> carry a predicate through every route, once for all; their
    interpretations are the schema, the unchanged tables, the revocation of a token and, in
    \<open>Fresh_Install\<close>, the absence of roles.
  \<^item> \<open>Seed\<close>, \<open>Fresh_Install\<close>: \<open>scripts/seed.go\<close>, and what can be done with a database it was run on.
  \<^item> \<open>Delivery\<close>: the bus, the bridge, the hub and the write loop together.
  \<^item> \<open>Kafka\<close>, \<open>Kafka_Props\<close>, \<open>Migrate\<close>: \<open>internal/infrastructure/kafka\<close> and the migration runner.

  \<^bold>\<open>What is shown.\<close> Sessions: every request refines a step of the abstract store, at most one token
  of a family is active, and a token is redeemed once, unless requests race. Login and
  registration: who gets in, and what an answer gives away. Authorization: how stale a cached
  permission can be; that a handler of a route with a permission is reached only with a valid
  token and that permission; which organization and workspace a request works in. Gateway: who reaches
  a backend, how many requests a window admits, what masking hides, that the statements of the
  dynamic handler are confined to the organization and the app. Hub: it refines a map from clients
  to subscriptions, no operation panics, and a broadcast reaches exactly the members of its room.
  Sessions of WebSockets: messages are written in order and once, the loops end, and an event that
  is queued gets to the clients it concerns. The whole server: no sequence of requests takes the tables out of
  their schema, brings a revoked token back, or, with GET requests, changes a table; and where no role
  was ever created, none gets through a route that needs a permission.
  Kafka and migrations: what is delivered, acknowledged and applied, and in which order. The
  remaining theorems are round trips and bounds of the encodings in between, and proofs of the
  ways in which the code departs from what it means to do.

  \<^bold>\<open>Bounds and fuel.\<close> A JSON value is parsed with fuel \<open>2 * length + 2\<close>: every second call consumes a
  byte. A loop of the Kafka consumer has no end by itself; \<open>consumeLoop\<close> runs any number of its
  iterations. The other recursions are structural or have a measure. An \<open>int\<close> of Go is an \<open>int\<close> with
  \<open>wrap64\<close> written where the value could leave its range.

  \<^bold>\<open>Parameters.\<close> The packages the program is linked with: bcrypt, the JWT library, the parser of
  UUIDs, the schema validator, the collation of the database, the HTTP client and the client of Kafka
  (record \<open>packages\<close> of \<open>Server\<close>, and \<open>reader\<close> of \<open>Kafka\<close>). What is assumed of them are the
  predicates \<open>uuid_api_ok\<close>, \<open>bcrypt_ok\<close>, \<open>jwt_ok\<close> and \<open>reader_ok\<close>; each has an instance. \<open>probes_keep\<close> and
  \<open>backends_keep\<close> say that the pings of the probes, and the statements that the dynamic handler sends for an
  administrator's endpoint, keep an invariant; what opens connections at the start is the record \<open>platform\<close>.

  \<^bold>\<open>Not modelled.\<close> The text of a log line, and tracing; the CORS package, chi where it answers by
  itself, and the metrics; the WebSocket protocol (the steps of \<open>Pumps\<close> say what the connection
  does). The handler of connections works on the hub and is a parameter of the router (\<open>pk_realtime\<close>),
  which works on the tables; \<open>Realtime_Server\<close> has its route with the hub, and that the router takes it. A process
  answers its requests one after the other, where \<open>net/http\<close> answers them at the same time; the race of
  two refresh requests is in \<open>Rotate_Race\<close>. Numbers in JSON keep their value where Go rounds them to 53
  bits. Handlers of one topic run after one another where the bus runs them at the same time.
\<close>

end
